(* ===== verification/PyBase.thy ===== *)
theory PyBase
  imports Complex_Main "HOL-Library.State_Monad" "HOL-Library.Char_ord"
    "HOL-Library.List_Lexorder" "HOL-Library.Product_Lexorder" "HOL-Library.Multiset"
begin

text \<open>
  The prelude: the Python built-ins the scripts use, and the automation shared by every
  component theory.

  A Python \<open>str\<close> is the list of the bytes of its UTF-8 encoding. Concatenation, equality,
  substring search, splitting at a separator and the ordering of strings commute with the
  encoding, so they are the list operations. What depends on code points is written out:
  \<open>py_len\<close> and \<open>py_take\<close> count code points, by counting the bytes that do not continue a
  character. The character classes (\<open>is_word\<close> for the pattern \<open>w\<close>, \<open>is_space\<close>, the case
  mappings) are those of ASCII text; a byte of a non-ASCII character is neither a word
  character nor a space, and has no case.

  A Python \<open>dict\<close> is an association list in insertion order with distinct keys. An \<open>int\<close> is
  \<open>int\<close> or \<open>nat\<close>, a \<open>float\<close> is an exact \<open>real\<close> (rounding is not modelled).
\<close>

named_theorems py_defs "definitions of the Python built-ins, for evaluation"
named_theorems bound_intros "bounds on lengths and sizes"

subsection \<open>Characters\<close>

definition code :: "char \<Rightarrow> nat" where
  "code c = of_char c"

definition is_space :: "char \<Rightarrow> bool" where
  "is_space c \<longleftrightarrow> (9 \<le> code c \<and> code c \<le> 13) \<or> (28 \<le> code c \<and> code c \<le> 32)"

definition is_digit :: "char \<Rightarrow> bool" where
  "is_digit c \<longleftrightarrow> 48 \<le> code c \<and> code c \<le> 57"

definition is_upper :: "char \<Rightarrow> bool" where
  "is_upper c \<longleftrightarrow> 65 \<le> code c \<and> code c \<le> 90"

definition is_lower :: "char \<Rightarrow> bool" where
  "is_lower c \<longleftrightarrow> 97 \<le> code c \<and> code c \<le> 122"

definition is_alnum :: "char \<Rightarrow> bool" where
  "is_alnum c \<longleftrightarrow> is_digit c \<or> is_upper c \<or> is_lower c"

definition is_word :: "char \<Rightarrow> bool" where
  "is_word c \<longleftrightarrow> is_alnum c \<or> c = CHR ''_''"

definition lower_char :: "char \<Rightarrow> char" where
  "lower_char c = (if is_upper c then char_of (code c + 32) else c)"

definition upper_char :: "char \<Rightarrow> char" where
  "upper_char c = (if is_lower c then char_of (code c - 32) else c)"

lemmas char_defs [py_defs] = code_def is_space_def is_digit_def is_upper_def is_lower_def
  is_alnum_def is_word_def lower_char_def upper_char_def

lemma code_char_of [simp]: "n < 256 \<Longrightarrow> code (char_of n) = n"
  by (simp add: code_def)

lemma code_bound: "code c < 256"
  using of_char_mod_256 [of c, where 'a = nat] by (metis code_def mod_less_divisor zero_less_numeral)

lemma code_inject: "code c = code d \<longleftrightarrow> c = d"
  by (simp add: code_def)

lemma lower_char_not_upper: "\<not> is_upper (lower_char c)"
  by (auto simp: lower_char_def is_upper_def)

lemma lower_char_idem [simp]: "lower_char (lower_char c) = lower_char c"
  by (simp add: lower_char_not_upper lower_char_def [of "lower_char c"])

lemma space_not_word: "is_space c \<Longrightarrow> \<not> is_word c"
  by (auto simp: is_space_def is_word_def is_alnum_def is_digit_def is_upper_def is_lower_def code_def)

lemma is_word_lower_char [simp]: "is_word (lower_char c) = is_word c"
  by (auto simp: lower_char_def is_word_def is_alnum_def is_upper_def is_lower_def is_digit_def
      code_def)

lemma is_space_lower_char [simp]: "is_space (lower_char c) = is_space c"
  by (auto simp: lower_char_def is_space_def is_upper_def)

subsection \<open>Strings\<close>

type_synonym str = string

abbreviation newline :: char where
  "newline \<equiv> CHR 0x0A"

definition lower :: "str \<Rightarrow> str" where
  "lower s = map lower_char s"

definition upper :: "str \<Rightarrow> str" where
  "upper s = map upper_char s"

definition strip_by :: "(char \<Rightarrow> bool) \<Rightarrow> str \<Rightarrow> str" where
  "strip_by P s = rev (dropWhile P (rev (dropWhile P s)))"

abbreviation strip :: "str \<Rightarrow> str" where
  "strip \<equiv> strip_by is_space"

text \<open>\<open>split_on P\<close> cuts at every character in \<open>P\<close> and keeps the empty pieces, as
  \<open>s.split(c)\<close> does; the maximal runs outside \<open>P\<close> are its nonempty pieces.\<close>

fun split_on :: "(char \<Rightarrow> bool) \<Rightarrow> str \<Rightarrow> str list" where
  "split_on P [] = [[]]"
| "split_on P (c # cs) =
     (if P c then [] # split_on P cs
      else (case split_on P cs of [] \<Rightarrow> [[c]] | x # xs \<Rightarrow> (c # x) # xs))"

definition runs :: "(char \<Rightarrow> bool) \<Rightarrow> str \<Rightarrow> str list" where
  "runs P s = filter (\<lambda>w. w \<noteq> []) (split_on (\<lambda>c. \<not> P c) s)"

definition split_ws :: "str \<Rightarrow> str list" where
  "split_ws s = runs (\<lambda>c. \<not> is_space c) s"

fun join :: "str \<Rightarrow> str list \<Rightarrow> str" where
  "join sep [] = []"
| "join sep [x] = x"
| "join sep (x # y # ys) = x @ sep @ join sep (y # ys)"

fun starts_with :: "str \<Rightarrow> str \<Rightarrow> bool" where
  "starts_with [] s = True"
| "starts_with (p # ps) [] = False"
| "starts_with (p # ps) (c # cs) = (p = c \<and> starts_with ps cs)"

definition ends_with :: "str \<Rightarrow> str \<Rightarrow> bool" where
  "ends_with suffix s = starts_with (rev suffix) (rev s)"

text \<open>\<open>contains p s\<close> is Python's \<open>p in s\<close>.\<close>

fun contains :: "str \<Rightarrow> str \<Rightarrow> bool" where
  "contains p [] = (p = [])"
| "contains p (c # cs) = (starts_with p (c # cs) \<or> contains p cs)"

text \<open>\<open>s.replace(old, new)\<close> for a nonempty \<open>old\<close>.\<close>

function replace_all :: "str \<Rightarrow> str \<Rightarrow> str \<Rightarrow> str" where
  "replace_all old new [] = []"
| "replace_all old new (c # cs) =
     (if old \<noteq> [] \<and> starts_with old (c # cs)
      then new @ replace_all old new (drop (length old) (c # cs))
      else c # replace_all old new cs)"
  by pat_completeness auto
termination
  by (relation "measure (\<lambda>(old, new, s). length s)") (auto simp: neq_Nil_conv)

text \<open>\<open>s.split(sep)\<close> for a nonempty \<open>sep\<close>; the third argument collects the current piece in
  reverse.\<close>

function split_sep :: "str \<Rightarrow> str \<Rightarrow> str \<Rightarrow> str list" where
  "split_sep sep [] acc = [rev acc]"
| "split_sep sep (c # cs) acc =
     (if sep \<noteq> [] \<and> starts_with sep (c # cs)
      then rev acc # split_sep sep (drop (length sep) (c # cs)) []
      else split_sep sep cs (c # acc))"
  by pat_completeness auto
termination
  by (relation "measure (\<lambda>(sep, s, acc). length s)") (auto simp: neq_Nil_conv)

text \<open>\<open>s.split(c, 1)\<close>: \<open>None\<close> for the second part where \<open>c\<close> does not occur.\<close>

fun split_once :: "char \<Rightarrow> str \<Rightarrow> str \<times> str option" where
  "split_once c [] = ([], None)"
| "split_once c (x # xs) =
     (if x = c then ([], Some xs)
      else (case split_once c xs of (a, b) \<Rightarrow> (x # a, b)))"

definition is_cont_byte :: "char \<Rightarrow> bool" where
  "is_cont_byte c \<longleftrightarrow> 128 \<le> code c \<and> code c < 192"

definition py_len :: "str \<Rightarrow> nat" where
  "py_len s = length (filter (\<lambda>c. \<not> is_cont_byte c) s)"

text \<open>\<open>s[:n]\<close> on code points.\<close>

fun py_take :: "nat \<Rightarrow> str \<Rightarrow> str" where
  "py_take n [] = []"
| "py_take n (c # cs) =
     (if is_cont_byte c then c # py_take n cs
      else (case n of 0 \<Rightarrow> [] | Suc m \<Rightarrow> c # py_take m cs))"

definition ljust :: "nat \<Rightarrow> str \<Rightarrow> str" where
  "ljust w s = s @ replicate (w - py_len s) CHR '' ''"

definition digit_char :: "nat \<Rightarrow> char" where
  "digit_char n = char_of (48 + n mod 10)"

fun str_of_nat :: "nat \<Rightarrow> str" where
  "str_of_nat n = (if n < 10 then [digit_char n] else str_of_nat (n div 10) @ [digit_char n])"

declare str_of_nat.simps [simp del]

definition str_of_int :: "int \<Rightarrow> str" where
  "str_of_int i = (if i < 0 then CHR ''-'' # str_of_nat (nat (- i)) else str_of_nat (nat i))"

text \<open>\<open>int(s)\<close> for a string of digits.\<close>

definition nat_of_digits :: "str \<Rightarrow> nat" where
  "nat_of_digits s = foldl (\<lambda>n c. 10 * n + (code c - 48)) 0 s"

lemmas string_defs [py_defs] = lower_def upper_def strip_by_def runs_def split_ws_def is_cont_byte_def
  py_len_def ljust_def digit_char_def str_of_int_def
  nat_of_digits_def

lemma split_on_nonempty [simp]: "split_on P s \<noteq> []"
  by (induction s) (auto split: list.splits)

lemma split_on_parts: "w \<in> set (split_on P s) \<Longrightarrow> \<forall>c \<in> set w. \<not> P c \<and> c \<in> set s"
proof (induction s arbitrary: w)
  case (Cons a s)
  obtain x xs where s: "split_on P s = x # xs"
    by (meson list.exhaust split_on_nonempty)
  from Cons.IH [of x] Cons.IH [of w] Cons.prems show ?case
    by (auto simp: s split: if_splits)
qed simp

lemma split_on_id: "\<forall>c \<in> set s. \<not> P c \<Longrightarrow> split_on P s = [s]"
  by (induction s) auto

lemma split_on_append_sep:
  "P c \<Longrightarrow> split_on P (u @ c # v) = split_on P u @ split_on P v"
  by (induction u) (auto split: list.splits)

text \<open>Cutting at a character and joining with it gives the string back.\<close>

lemma join_Cons: "xs \<noteq> [] \<Longrightarrow> join sep (x # xs) = x @ sep @ join sep xs"
  by (cases xs) auto

lemma join_split_on: "join [c] (split_on (\<lambda>x. x = c) s) = s"
  by (induction s) (auto simp: join_Cons split: list.splits, (case_tac x22; simp)+)

lemma split_on_join:
  "xs \<noteq> [] \<Longrightarrow> \<forall>x \<in> set xs. c \<notin> set x \<Longrightarrow> split_on (\<lambda>y. y = c) (join [c] xs) = xs"
proof (induction xs)
  case (Cons x xs)
  have x: "split_on (\<lambda>y. y = c) x = [x]"
    using Cons.prems by (intro split_on_id) auto
  show ?case
  proof (cases xs)
    case Nil
    with x show ?thesis by simp
  next
    case (Cons y ys)
    with Cons.IH Cons.prems x show ?thesis
      by (simp add: split_on_append_sep)
  qed
qed simp

lemma runs_parts: "w \<in> set (runs P s) \<Longrightarrow> w \<noteq> [] \<and> (\<forall>c \<in> set w. P c \<and> c \<in> set s)"
  by (auto simp: runs_def dest: split_on_parts)

lemma starts_with_iff: "starts_with p s \<longleftrightarrow> (\<exists>t. s = p @ t)"
  by (induction p s rule: starts_with.induct) auto

lemma starts_with_take: "starts_with p s \<longleftrightarrow> take (length p) s = p"
  by (induction p s rule: starts_with.induct) auto

lemma contains_iff: "contains p s \<longleftrightarrow> (\<exists>u v. s = u @ p @ v)"
proof (induction s)
  case (Cons c cs)
  have "(\<exists>u v. c # cs = u @ p @ v) \<longleftrightarrow> starts_with p (c # cs) \<or> (\<exists>u v. cs = u @ p @ v)"
    by (auto simp: starts_with_iff Cons_eq_append_conv; metis append_Cons append_Nil)
  with Cons show ?case by simp
qed auto

lemma split_once_None: "snd (split_once c s) = None \<longleftrightarrow> c \<notin> set s"
  by (induction s) (auto split: prod.splits)

lemma split_once_Some: "split_once c s = (a, Some b) \<Longrightarrow> s = a @ c # b \<and> c \<notin> set a"
  by (induction s arbitrary: a b) (auto split: prod.splits if_splits)

lemma length_strip_by [bound_intros]: "length (strip_by P s) \<le> length s"
  unfolding strip_by_def by (metis le_trans length_dropWhile_le length_rev)

lemma py_len_le_length [bound_intros]: "py_len s \<le> length s"
  by (simp add: py_len_def)

lemma py_len_append [simp]: "py_len (s @ t) = py_len s + py_len t"
  by (simp add: py_len_def)

lemma py_len_replicate_space [simp]: "py_len (replicate n CHR '' '') = n"
  by (simp add: py_len_def is_cont_byte_def code_def)

lemma py_len_ljust: "py_len (ljust w s) = max w (py_len s)"
  by (simp add: ljust_def)

lemma py_len_py_take: "py_len (py_take n s) = min n (py_len s)"
  by (induction n s rule: py_take.induct) (auto simp: py_len_def split: nat.splits)

lemma py_take_prefix: "\<exists>t. s = py_take n s @ t"
  by (induction n s rule: py_take.induct) (auto split: nat.splits)

lemma py_take_all: "py_len s \<le> n \<Longrightarrow> py_take n s = s"
  by (induction n s rule: py_take.induct) (auto simp: py_len_def split: nat.splits if_splits)

subsection \<open>Non-ASCII characters\<close>

text \<open>The characters outside ASCII that the scripts write, as UTF-8.\<close>

abbreviation u_check :: str where
  "u_check \<equiv> [CHR 0xE2, CHR 0x9C, CHR 0x93]"

abbreviation u_ballot :: str where
  "u_ballot \<equiv> [CHR 0xE2, CHR 0x9C, CHR 0x97]"

abbreviation u_emdash :: str where
  "u_emdash \<equiv> [CHR 0xE2, CHR 0x80, CHR 0x94]"

abbreviation u_hline :: str where
  "u_hline \<equiv> [CHR 0xE2, CHR 0x94, CHR 0x80]"

abbreviation u_vline :: str where
  "u_vline \<equiv> [CHR 0xE2, CHR 0x94, CHR 0x82]"

abbreviation u_vright :: str where
  "u_vright \<equiv> [CHR 0xE2, CHR 0x94, CHR 0x9C]"

abbreviation u_vleft :: str where
  "u_vleft \<equiv> [CHR 0xE2, CHR 0x94, CHR 0xA4]"

abbreviation u_dr :: str where
  "u_dr \<equiv> [CHR 0xE2, CHR 0x94, CHR 0x8C]"

abbreviation u_dl :: str where
  "u_dl \<equiv> [CHR 0xE2, CHR 0x94, CHR 0x90]"

abbreviation u_ur :: str where
  "u_ur \<equiv> [CHR 0xE2, CHR 0x94, CHR 0x94]"

abbreviation u_ul :: str where
  "u_ul \<equiv> [CHR 0xE2, CHR 0x94, CHR 0x98]"

abbreviation u_hdouble :: str where
  "u_hdouble \<equiv> [CHR 0xE2, CHR 0x95, CHR 0x90]"

abbreviation u_vdouble :: str where
  "u_vdouble \<equiv> [CHR 0xE2, CHR 0x95, CHR 0x91]"

abbreviation u_ddr :: str where
  "u_ddr \<equiv> [CHR 0xE2, CHR 0x95, CHR 0x94]"

abbreviation u_ddl :: str where
  "u_ddl \<equiv> [CHR 0xE2, CHR 0x95, CHR 0x97]"

abbreviation u_dur :: str where
  "u_dur \<equiv> [CHR 0xE2, CHR 0x95, CHR 0x9A]"

abbreviation u_dul :: str where
  "u_dul \<equiv> [CHR 0xE2, CHR 0x95, CHR 0x9D]"

abbreviation u_block :: str where
  "u_block \<equiv> [CHR 0xE2, CHR 0x96, CHR 0x88]"

abbreviation u_tick :: str where
  "u_tick \<equiv> [CHR 0xE2, CHR 0x9C, CHR 0x85]"

abbreviation u_cross :: str where
  "u_cross \<equiv> [CHR 0xE2, CHR 0x9D, CHR 0x8C]"

abbreviation u_bolt :: str where
  "u_bolt \<equiv> [CHR 0xE2, CHR 0x9A, CHR 0xA1]"

abbreviation u_warn :: str where
  "u_warn \<equiv> [CHR 0xE2, CHR 0x9A, CHR 0xA0, CHR 0xEF, CHR 0xB8, CHR 0x8F]"

abbreviation u_warn1 :: str where
  "u_warn1 \<equiv> [CHR 0xE2, CHR 0x9A, CHR 0xA0]"

abbreviation u_palette :: str where
  "u_palette \<equiv> [CHR 0xF0, CHR 0x9F, CHR 0x8E, CHR 0xA8]"

abbreviation u_ruler :: str where
  "u_ruler \<equiv> [CHR 0xF0, CHR 0x9F, CHR 0x93, CHR 0x90]"

abbreviation u_memo :: str where
  "u_memo \<equiv> [CHR 0xF0, CHR 0x9F, CHR 0x93, CHR 0x9D]"

abbreviation u_frame :: str where
  "u_frame \<equiv> [CHR 0xF0, CHR 0x9F, CHR 0x96, CHR 0xBC, CHR 0xEF, CHR 0xB8, CHR 0x8F]"

abbreviation u_camera :: str where
  "u_camera \<equiv> [CHR 0xF0, CHR 0x9F, CHR 0x93, CHR 0xB8]"

abbreviation u_sparkles :: str where
  "u_sparkles \<equiv> [CHR 0xE2, CHR 0x9C, CHR 0xA8]"

subsection \<open>Dictionaries\<close>

type_synonym 'v dict = "(str \<times> 'v) list"

text \<open>A row of a CSV file, as \<open>csv.DictReader\<close> returns it.\<close>

type_synonym row = "str dict"

type_synonym table = "row list"

abbreviation get :: "('k \<times> 'v) list \<Rightarrow> 'k \<Rightarrow> 'v option" where
  "get d k \<equiv> map_of d k"

definition get_or :: "('k \<times> 'v) list \<Rightarrow> 'k \<Rightarrow> 'v \<Rightarrow> 'v" where
  "get_or d k v = (case map_of d k of None \<Rightarrow> v | Some x \<Rightarrow> x)"

text \<open>\<open>row.get(k, "")\<close>\<close>

abbreviation field :: "row \<Rightarrow> str \<Rightarrow> str" where
  "field r k \<equiv> get_or r k []"

definition has_key :: "('k \<times> 'v) list \<Rightarrow> 'k \<Rightarrow> bool" where
  "has_key d k \<longleftrightarrow> map_of d k \<noteq> None"

fun put :: "'k \<Rightarrow> 'v \<Rightarrow> ('k \<times> 'v) list \<Rightarrow> ('k \<times> 'v) list" where
  "put k v [] = [(k, v)]"
| "put k v ((k', v') # d) = (if k = k' then (k, v) # d else (k', v') # put k v d)"

definition put_all :: "('k \<times> 'v) list \<Rightarrow> ('k \<times> 'v) list \<Rightarrow> ('k \<times> 'v) list" where
  "put_all new d = foldl (\<lambda>d (k, v). put k v d) d new"

definition keys :: "('k \<times> 'v) list \<Rightarrow> 'k list" where
  "keys d = map fst d"

lemmas dict_defs [py_defs] = get_or_def has_key_def put_all_def keys_def

lemma map_of_put [simp]: "map_of (put k v d) = (map_of d)(k \<mapsto> v)"
  by (induction k v d rule: put.induct) (auto simp: fun_eq_iff)

lemma fst_set_put [simp]: "fst ` set (put k v d) = insert k (fst ` set d)"
  by (induction k v d rule: put.induct) auto

lemma distinct_put [simp]: "distinct (map fst d) \<Longrightarrow> distinct (map fst (put k v d))"
  by (induction k v d rule: put.induct) auto

lemma set_put_subset: "set (put k v d) \<subseteq> insert (k, v) (set d)"
  by (induction k v d rule: put.induct) auto

lemma has_key_iff: "has_key d k \<longleftrightarrow> k \<in> fst ` set d"
  by (simp add: has_key_def map_of_eq_None_iff)

lemma in_keys_iff: "k \<in> set (keys d) \<longleftrightarrow> map_of d k \<noteq> None"
  by (simp add: keys_def map_of_eq_None_iff)

lemma get_or_put [simp]: "get_or (put k v d) k' w = (if k = k' then v else get_or d k' w)"
  by (simp add: get_or_def)

lemma put_all_Nil [simp]: "put_all [] d = d"
  by (simp add: put_all_def)

lemma put_all_Cons [simp]: "put_all ((k, v) # new) d = put_all new (put k v d)"
  by (simp add: put_all_def)

lemma distinct_put_all [simp]: "distinct (map fst d) \<Longrightarrow> distinct (map fst (put_all new d))"
  by (induction new arbitrary: d) auto

subsection \<open>Stable sorting and lists\<close>

text \<open>\<open>sorted(xs, key=k, reverse=True)\<close>: descending, equal keys in their original order.\<close>

definition sort_desc :: "('a \<Rightarrow> 'k::linordered_ab_group_add) \<Rightarrow> 'a list \<Rightarrow> 'a list" where
  "sort_desc k xs = sort_key (\<lambda>x. - k x) xs"

lemma set_sort_desc [simp]: "set (sort_desc k xs) = set xs"
  by (simp add: sort_desc_def)

lemma mset_sort_desc [simp]: "mset (sort_desc k xs) = mset xs"
  by (simp add: sort_desc_def)

lemma length_sort_desc [simp]: "length (sort_desc k xs) = length xs"
  by (simp add: sort_desc_def)

lemma sort_desc_eq_Nil [simp]: "sort_desc k xs = [] \<longleftrightarrow> xs = []"
  by (simp add: sort_desc_def flip: length_0_conv)

lemma sort_desc_sorted: "sorted_wrt (\<lambda>x y. k y \<le> k x) (sort_desc k xs)"
proof -
  have "sorted (map (\<lambda>x. - k x) (sort_desc k xs))"
    by (simp add: sort_desc_def)
  then show ?thesis by (simp add: sorted_map)
qed

lemma sort_desc_stable:
  "filter (\<lambda>x. k x = v) (sort_desc k xs) = filter (\<lambda>x. k x = v) xs"
  using sort_key_stable [of "\<lambda>x. - k x" "- v" xs] by (simp add: sort_desc_def)

lemma sorted_wrt_classes:
  "(\<And>v. sorted_wrt Q (filter (\<lambda>x. k x = v) xs)) \<Longrightarrow> sorted_wrt (\<lambda>x y. k x = k y \<longrightarrow> Q x y) xs"
proof (induction xs)
  case (Cons x xs)
  have "sorted_wrt Q (filter (\<lambda>x. k x = v) xs)" for v
    using Cons.prems [of v] by (auto split: if_splits)
  with Cons.IH Cons.prems [of "k x"] show ?case by auto
qed simp

lemma sorted_wrt_both: "sorted_wrt P xs \<Longrightarrow> sorted_wrt Q xs \<Longrightarrow> sorted_wrt (\<lambda>x y. P x y \<and> Q x y) xs"
  by (induction xs) auto

lemma sort_desc_sorted_stable:
  assumes "sorted_wrt Q xs"
  shows "sorted_wrt (\<lambda>x y. k y < k x \<or> k y = k x \<and> Q x y) (sort_desc k xs)"
proof -
  have "sorted_wrt (\<lambda>x y. k x = k y \<longrightarrow> Q x y) (sort_desc k xs)"
    using assms by (intro sorted_wrt_classes) (simp add: sort_desc_stable sorted_wrt_filter)
  from sorted_wrt_both [OF sort_desc_sorted this] show ?thesis
    by (rule sorted_wrt_mono_rel [rotated]) auto
qed

lemma sort_desc_hd_max: "x \<in> set xs \<Longrightarrow> k x \<le> k (hd (sort_desc k xs))"
proof -
  assume x: "x \<in> set xs"
  then obtain y ys where s: "sort_desc k xs = y # ys"
    by (metis list.exhaust list.set(1) empty_iff set_sort_desc)
  from x have "x \<in> set (y # ys)" by (metis s set_sort_desc)
  with sort_desc_sorted [of k xs] s show ?thesis by auto
qed

text \<open>\<open>sorted(set(xs))\<close>\<close>

abbreviation sorted_set :: "'a::linorder list \<Rightarrow> 'a list" where
  "sorted_set xs \<equiv> sort (remdups xs)"

lemma in_fst_image: "i \<in> fst ` S \<Longrightarrow> \<exists>s. (i, s) \<in> S"
  by force

text \<open>\<open>next((x for x in xs if P(x)), None)\<close> is \<open>find\<close>.\<close>

lemma find_SomeD: "find P xs = Some x \<Longrightarrow> P x \<and> x \<in> set xs"
  by (metis find_Some_iff nth_mem)

lemma filter_single_unique:
  "filter P xs = [x] \<Longrightarrow> y \<in> set xs \<Longrightarrow> P y \<Longrightarrow> y = x"
proof -
  assume "filter P xs = [x]" and "y \<in> set xs" and "P y"
  then have "y \<in> set [x]" by (metis (mono_tags, lifting) filter_set mem_Collect_eq set_filter)
  then show "y = x" by simp
qed

subsection \<open>Values fixed by an invariant\<close>

text \<open>
  \<open>yields I m v\<close>: run from any state that satisfies \<open>I\<close>, the computation \<open>m\<close> returns \<open>v\<close>
  and leaves a state that satisfies \<open>I\<close>. The collection \<open>yields_rules\<close> holds one rule per
  construct and per component operation.
\<close>

named_theorems yields_rules "what a computation returns from every state of the invariant"

definition yields :: "('s \<Rightarrow> bool) \<Rightarrow> ('s, 'a) state \<Rightarrow> 'a \<Rightarrow> bool" where
  "yields I m v \<longleftrightarrow> (\<forall>s. I s \<longrightarrow> fst (run_state m s) = v \<and> I (snd (run_state m s)))"

lemma yields_return [yields_rules]: "yields I (State_Monad.return v) v"
  by (simp add: yields_def State_Monad.return_def)

lemma yields_bind: "yields I m v \<Longrightarrow> yields I (f v) w \<Longrightarrow> yields I (State_Monad.bind m f) w"
  by (auto simp: yields_def State_Monad.bind_def split: prod.splits)

lemma yields_if:
  "(b \<Longrightarrow> yields I m v) \<Longrightarrow> (\<not> b \<Longrightarrow> yields I m' w) \<Longrightarrow>
   yields I (if b then m else m') (if b then v else w)"
  by simp

lemma yieldsD: "yields I m v \<Longrightarrow> I s \<Longrightarrow> run_state m s = (r, s') \<Longrightarrow> r = v \<and> I s'"
  by (force simp: yields_def)

end
