(* ===== verification/Config.thy ===== *)
theory Config
  imports PyBase
begin

text \<open>
  The configuration tables of \<open>core.py\<close> (lines 14 to 265): which CSV file serves which search
  domain and stack, which columns are searched and returned, the score thresholds, the query
  rewrites, the stop words and the spelling variants. Each table is an association list in the
  order of the source.
\<close>

record domain_config =
  cfg_file :: str
  search_cols :: "str list"
  output_cols :: "str list"

definition MAX_RESULTS :: int where
  "MAX_RESULTS = 3"

definition CSV_CONFIG :: "domain_config dict" where
  "CSV_CONFIG = [
    (''style'', \<lparr>cfg_file = ''styles.csv'',
      search_cols =
        [''Style ID'', ''Style Category'', ''Aliases'', ''Keywords'', ''Best For'', ''Type'',
         ''AI Prompt Keywords''],
      output_cols =
        [''Style ID'', ''Style Category'', ''Aliases'', ''Status'', ''Parent Style ID'', ''Preferred Mode'',
         ''Type'', ''Keywords'', ''Primary Colors'', ''Effects & Animation'', ''Best For'',
         (''Light Mode '' @ u_check), (''Dark Mode '' @ u_check), ''Performance'', ''Accessibility'',
         ''Framework Compatibility'', ''Complexity'', ''AI Prompt Keywords'',
         ''CSS/Technical Keywords'', ''Implementation Checklist'', ''Design System Variables'']\<rparr>),
    (''color'', \<lparr>cfg_file = ''colors.csv'',
      search_cols =
        [''Product Type'', ''Notes''],
      output_cols =
        [''Product Type'', ''Primary'', ''On Primary'', ''Secondary'', ''On Secondary'', ''Accent'',
         ''On Accent'', ''Background'', ''Foreground'', ''Card'', ''Card Foreground'', ''Muted'',
         ''Muted Foreground'', ''Border'', ''Destructive'', ''On Destructive'', ''Ring'', ''Notes'']\<rparr>),
    (''chart'', \<lparr>cfg_file = ''charts.csv'',
      search_cols =
        [''Data Type'', ''Keywords'', ''Best Chart Type'', ''When to Use'', ''When NOT to Use'',
         ''Accessibility Notes''],
      output_cols =
        [''Data Type'', ''Keywords'', ''Best Chart Type'', ''Secondary Options'', ''When to Use'',
         ''When NOT to Use'', ''Data Volume Threshold'', ''Color Guidance'', ''Accessibility Grade'',
         ''Accessibility Risk'', ''Accessibility Notes'', ''A11y Fallback'', ''Library Recommendation'',
         ''Interactive Level'']\<rparr>),
    (''landing'', \<lparr>cfg_file = ''landing.csv'',
      search_cols =
        [''Pattern ID'', ''Pattern Name'', ''Aliases'', ''Keywords'', ''Conversion Optimization'',
         ''Section Order''],
      output_cols =
        [''Pattern ID'', ''Pattern Name'', ''Aliases'', ''Keywords'', ''Section Order'',
         ''Primary CTA Placement'', ''Color Strategy'', ''Conversion Optimization'']\<rparr>),
    (''product'', \<lparr>cfg_file = ''products.csv'',
      search_cols =
        [''Product Type'', ''Keywords'', ''Primary Style Recommendation'', ''Key Considerations''],
      output_cols =
        [''Product Type'', ''Keywords'', ''Primary Style Recommendation'', ''Secondary Styles'',
         ''Landing Page Pattern'', ''Dashboard Style (if applicable)'', ''Color Palette Focus'']\<rparr>),
    (''ux'', \<lparr>cfg_file = ''ux-guidelines.csv'',
      search_cols =
        [''Category'', ''Issue'', ''Description'', ''Platform''],
      output_cols =
        [''Category'', ''Issue'', ''Platform'', ''Description'', ''Do'', ''Don't'', ''Code Example Good'',
         ''Code Example Bad'', ''Severity'']\<rparr>),
    (''typography'', \<lparr>cfg_file = ''typography.csv'',
      search_cols =
        [''Font Pairing Name'', ''Category'', ''Mood/Style Keywords'', ''Best For'', ''Heading Font'',
         ''Body Font''],
      output_cols =
        [''Font Pairing Name'', ''Category'', ''Heading Font'', ''Body Font'', ''Mood/Style Keywords'',
         ''Best For'', ''Google Fonts URL'', ''CSS Import'', ''Tailwind Config'', ''Notes'']\<rparr>),
    (''icons'', \<lparr>cfg_file = ''icons.csv'',
      search_cols =
        [''Category'', ''Icon Name'', ''Keywords'', ''Best For'', ''Library''],
      output_cols =
        [''Category'', ''Icon Name'', ''Keywords'', ''Library'', ''Import Code'', ''Usage'', ''Best For'',
         ''Style'', ''Semantic Role'', ''Allowed Contexts'']\<rparr>),
    (''gsap'', \<lparr>cfg_file = ''motion.csv'',
      search_cols =
        [''Category'', ''Intensity Tier'', ''Keywords'', ''Trigger''],
      output_cols =
        [''Category'', ''Intensity Tier'', ''Trigger'', ''Duration'', ''Easing'', ''GSAP Snippet'',
         ''Framework Notes'', ''Do'', ''Don't'', ''Performance Notes'']\<rparr>),
    (''react'', \<lparr>cfg_file = ''react-performance.csv'',
      search_cols =
        [''Category'', ''Issue'', ''Keywords'', ''Description''],
      output_cols =
        [''Category'', ''Issue'', ''Platform'', ''Description'', ''Do'', ''Don't'', ''Code Example Good'',
         ''Code Example Bad'', ''Severity'']\<rparr>),
    (''web'', \<lparr>cfg_file = ''app-interface.csv'',
      search_cols =
        [''Category'', ''Issue'', ''Keywords'', ''Description''],
      output_cols =
        [''Category'', ''Issue'', ''Platform'', ''Description'', ''Do'', ''Don't'', ''Code Example Good'',
         ''Code Example Bad'', ''Severity'']\<rparr>),
    (''google-fonts'', \<lparr>cfg_file = ''google-fonts.csv'',
      search_cols =
        [''Family'', ''Category'', ''Stroke'', ''Classifications'', ''Keywords'', ''Subsets'', ''Designers''],
      output_cols =
        [''Family'', ''Category'', ''Stroke'', ''Classifications'', ''Styles'', ''Variable Axes'',
         ''Subsets'', ''Designers'', ''Popularity Rank'', ''Google Fonts URL'']\<rparr>)]"

definition UNTRUNCATED_COLS :: "str list" where
  "UNTRUNCATED_COLS =
    [''Code Example Good'', ''Code Example Bad'', ''Code Good'', ''Code Bad'',
     ''Implementation Checklist'', ''Design System Variables'', ''CSS Import'', ''Tailwind Config'',
     ''GSAP Snippet'']"

definition STACK_CONFIG :: "str dict" where
  "STACK_CONFIG = [
    (''react'', ''stacks/react.csv''), (''nextjs'', ''stacks/nextjs.csv''), (''vue'', ''stacks/vue.csv''),
     (''svelte'', ''stacks/svelte.csv''), (''astro'', ''stacks/astro.csv''),
     (''swiftui'', ''stacks/swiftui.csv''), (''react-native'', ''stacks/react-native.csv''),
     (''flutter'', ''stacks/flutter.csv''), (''nuxtjs'', ''stacks/nuxtjs.csv''),
     (''nuxt-ui'', ''stacks/nuxt-ui.csv''), (''html-tailwind'', ''stacks/html-tailwind.csv''),
     (''shadcn'', ''stacks/shadcn.csv''), (''jetpack-compose'', ''stacks/jetpack-compose.csv''),
     (''threejs'', ''stacks/threejs.csv''), (''angular'', ''stacks/angular.csv''),
     (''laravel'', ''stacks/laravel.csv''), (''javafx'', ''stacks/javafx.csv''),
     (''wpf'', ''stacks/wpf.csv''), (''winui'', ''stacks/winui.csv''),
     (''avalonia'', ''stacks/avalonia.csv''), (''uno'', ''stacks/uno.csv''), (''uwp'', ''stacks/uwp.csv'')]"

definition STACK_SEARCH_COLS :: "str list" where
  "STACK_SEARCH_COLS =
    [''Category'', ''Guideline'', ''Description'', ''Do'', ''Don't'', ''Code Good'', ''Code Bad'']"

definition STACK_OUTPUT_COLS :: "str list" where
  "STACK_OUTPUT_COLS =
    [''Category'', ''Guideline'', ''Description'', ''Do'', ''Don't'', ''Code Good'', ''Code Bad'', ''Severity'',
     ''Docs URL'', ''Applies To'', ''Status'', ''Verified At'']"

definition WEB_STACK_CURRENT_MAJORS :: "nat dict" where
  "WEB_STACK_CURRENT_MAJORS =
    [(''react'', 19), (''nextjs'', 16), (''vue'', 3), (''svelte'', 5), (''astro'', 7), (''angular'', 22),
     (''html-tailwind'', 4), (''nuxtjs'', 4), (''nuxt-ui'', 4)]"

definition WEB_STACKS :: "str list" where
  "WEB_STACKS = keys WEB_STACK_CURRENT_MAJORS @ [''shadcn'']"

text \<open>A version is the list of its numbers, compared lexicographically.\<close>

definition STACK_CURRENT_VERSIONS :: "nat list dict" where
  "STACK_CURRENT_VERSIONS =
    map (\<lambda>(stack, major). (stack, [major])) WEB_STACK_CURRENT_MAJORS @
    [(''react-native'', [0, 86]), (''flutter'', [3, 44]), (''swiftui'', [16]),
     (''jetpack-compose'', [1, 11]), (''avalonia'', [12]), (''winui'', [3]), (''javafx'', [26]),
     (''threejs'', [0, 185]), (''laravel'', [13])]"

definition LEGACY_ONLY_STACKS :: "str list" where
  "LEGACY_ONLY_STACKS = [''uwp'']"

definition STACK_CURRENT_APPLICABILITY :: "str dict" where
  "STACK_CURRENT_APPLICABILITY =
    [(''react'', ''react 19.2.x''), (''nextjs'', ''nextjs 16.2''), (''vue'', ''vue 3.5.x''),
     (''svelte'', ''svelte 5''), (''astro'', ''astro 7.1.6''), (''angular'', ''angular 22.x''),
     (''html-tailwind'', ''html-tailwind 4.3''), (''shadcn'', ''shadcn cli 4''),
     (''nuxtjs'', ''nuxtjs 4.5''), (''nuxt-ui'', ''nuxt-ui 4.11.1''),
     (''react-native'', ''react-native 0.86.x''), (''flutter'', ''flutter 3.44.x''),
     (''swiftui'', ''swiftui current''), (''jetpack-compose'', ''jetpack-compose 1.11.4''),
     (''avalonia'', ''avalonia 12''), (''uwp'', ''uwp legacy''), (''winui'', ''winui current''),
     (''wpf'', ''wpf current''), (''uno'', ''uno current''), (''javafx'', ''javafx 26''),
     (''threejs'', ''threejs 0.185.1''), (''laravel'', ''laravel 13.x'')]"

definition AVAILABLE_STACKS :: "str list" where
  "AVAILABLE_STACKS = keys STACK_CONFIG"

definition INDEX_VERSION :: nat where
  "INDEX_VERSION = 2"

definition SEARCH_CALIBRATION_VERSION :: str where
  "SEARCH_CALIBRATION_VERSION = ''2026-08-12-v1''"

subsection \<open>Thresholds\<close>

record threshold =
  min_score :: real
  min_margin :: real
  min_coverage :: real

definition DOMAIN_SCORE_FLOORS :: "real dict" where
  "DOMAIN_SCORE_FLOORS =
    [(''style'', 43 / 10), (''landing'', 4), (''product'', 6), (''icons'', 58 / 10), (''react'', 33 / 10)]"

definition SEARCH_THRESHOLDS :: "threshold dict" where
  "SEARCH_THRESHOLDS =
    map (\<lambda>domain. (domain,
      \<lparr>min_score = get_or DOMAIN_SCORE_FLOORS domain 0, min_margin = 0,
       min_coverage = (if domain = ''landing'' then 1 / 2 else 0)\<rparr>)) (keys CSV_CONFIG)"

definition STACK_THRESHOLD :: threshold where
  "STACK_THRESHOLD = \<lparr>min_score = 36 / 10, min_margin = 0, min_coverage = 1 / 3\<rparr>"

definition NO_THRESHOLD :: threshold where
  "NO_THRESHOLD = \<lparr>min_score = 0, min_margin = 0, min_coverage = 0\<rparr>"

definition STYLE_IDENTITY_FIELDS :: "str list" where
  "STYLE_IDENTITY_FIELDS = [''Style ID'', ''Style Category'', ''Aliases'']"

definition LANDING_IDENTITY_FIELDS :: "str list" where
  "LANDING_IDENTITY_FIELDS = [''Pattern ID'', ''Pattern Name'', ''Aliases'']"

subsection \<open>Query vocabulary\<close>

text \<open>A keyword is rewritten to another term, or to nothing (\<open>None\<close>).\<close>

definition DOMAIN_QUERY_REWRITES :: "str option dict dict" where
  "DOMAIN_QUERY_REWRITES = [
    (''color'',
      [(''color'', None), (''palette'', None), (''hex'', None), (''rgb'', None), (''token'', None),
       (''semantic'', None), (''destructive'', None), (''muted'', None), (''foreground'', None)]),
    (''landing'',
      [(''testimonial'', Some ''testimonials'')]),
    (''style'',
      [(''css'', None), (''implementation'', None), (''variable'', None), (''checklist'', None),
       (''tailwind'', None)]),
    (''ux'',
      [(''ux'', Some ''accessibility''), (''usability'', Some ''accessibility''),
       (''wcag'', Some ''accessibility'')]),
    (''google-fonts'',
      [(''typography'', Some ''font'')]),
    (''icons'',
      [(''lucide'', None), (''symbol'', None), (''glyph'', None), (''pictogram'', None)]),
    (''gsap'',
      [(''gsap'', Some ''animation''), (''quickto'', None), (''scrolltrigger'', Some ''scroll''),
       (''flip plugin'', None), (''splittext'', None)]),
    (''react'',
      [(''nextjs'', Some ''react''), (''usecallback'', Some ''memoization''),
       (''useeffect'', Some ''effects'')]),
    (''web'',
      [(''aria'', Some ''accessibility''), (''outline'', Some ''focus''), (''semantic'', None),
       (''autocomplete'', Some ''input''), (''preconnect'', None)])]"

definition STOPWORDS :: "str list" where
  "STOPWORDS =
    [''to'', ''in'', ''on'', ''at'', ''is'', ''of'', ''by'', ''or'', ''an'', ''if'', ''no'', ''so'', ''do'', ''be'', ''we'',
     ''it'', ''as'', ''the'', ''and'', ''for'', ''are'', ''was'']"

definition SYNONYMS :: "str dict" where
  "SYNONYMS =
    [(''q&a'', ''question answer''), (''e-commerce'', ''ecommerce''), (''dark-mode'', ''dark''),
     (''darkmode'', ''dark''), (''light-mode'', ''light''), (''lightmode'', ''light''),
     (''a11y'', ''accessibility''), (''nav'', ''navigation''), (''sign-up'', ''signup''),
     (''log-in'', ''login''), (''colour'', ''color''), (''colours'', ''colors''),
     (''customisation'', ''customization''), (''organisation'', ''organization''),
     (''behaviour'', ''behavior''), (''ux/ui'', ''ux ui'')]"

text \<open>The keyword table of \<open>_domain_keywords\<close>; the product labels come from the data.\<close>

definition domain_keyword_table :: "str list \<Rightarrow> str list dict" where
  "domain_keyword_table product_keywords = [
    (''color'',
      [''color'', ''palette'', ''hex'', ''rgb'', ''token'', ''semantic'', ''accent'', ''destructive'', ''muted'',
       ''foreground'']),
    (''chart'',
      [''time series'', ''chart'', ''graph'', ''visualization'', ''trend'', ''bar chart'', ''pie'', ''scatter'',
       ''heatmap'', ''funnel'', ''forecast'']),
    (''landing'',
      [''landing'', ''page'', ''cta'', ''conversion'', ''hero'', ''testimonial'', ''pricing'', ''section'']),
    (''product'',
      product_keywords),
    (''style'',
      [''style'', ''design'', ''ui'', ''minimalism'', ''glassmorphism'', ''neumorphism'', ''brutalism'',
       ''dark mode'', ''flat'', ''aurora'', ''css'', ''implementation'', ''variable'', ''checklist'',
       ''tailwind'']),
    (''ux'',
      [''ux'', ''usability'', ''accessibility'', ''wcag'', ''touch'', ''scroll'', ''animation'', ''keyboard'',
       ''navigation'', ''mobile'']),
    (''typography'',
      [''font pairing'', ''typography pairing'', ''heading font'', ''body font'']),
    (''google-fonts'',
      [''google font'', ''font family'', ''font weight'', ''font style'', ''variable font'', ''noto'',
       ''font for'', ''find font'', ''font subset'', ''font language'', ''monospace font'', ''serif font'',
       ''sans serif font'', ''display font'', ''handwriting font'', ''font'', ''typography'', ''serif'',
       ''sans'']),
    (''icons'',
      [''icon'', ''icons'', ''lucide'', ''phosphor'', ''heroicons'', ''symbol'', ''glyph'', ''pictogram'',
       ''svg icon'']),
    (''gsap'',
      [''gsap'', ''quickto'', ''scrolltrigger'', ''stagger'', ''magnetic cursor'', ''parallax'',
       ''page transition'', ''scroll reveal'', ''scroll-triggered'', ''scrollytelling'', ''flip plugin'',
       ''splittext'', ''shimmer'', ''skeleton loader'']),
    (''react'',
      [''react'', ''next.js'', ''nextjs'', ''suspense'', ''memo'', ''usecallback'', ''useeffect'', ''rerender'',
       ''bundle'', ''waterfall'', ''barrel'', ''dynamic import'', ''rsc'', ''server component'']),
    (''web'',
      [''aria'', ''focus'', ''outline'', ''semantic'', ''virtualize'', ''autocomplete'', ''form'',
       ''input type'', ''preconnect'', ''drag reorder'', ''single pointer'', ''touch target'',
       ''native accessibility''])]"

definition product_seed :: "str list" where
  "product_seed =
    [''saas'', ''ecommerce'', ''fintech'', ''healthcare'', ''gaming'', ''portfolio'', ''crypto'', ''fitness'',
     ''marketplace'', ''banking'', ''cybersecurity'', ''education'', ''travel'', ''restaurant'',
     ''real estate'', ''social media'', ''beauty'', ''spa'', ''salon'', ''wellness'', ''booking'']"

definition DOMAIN_TIEBREAK_ORDER :: "str list" where
  "DOMAIN_TIEBREAK_ORDER =
    [''ux'', ''product'', ''style'', ''color'', ''typography'', ''google-fonts'', ''chart'', ''landing'',
     ''icons'', ''gsap'', ''react'', ''web'']"

lemmas config_defs = CSV_CONFIG_def STACK_CONFIG_def SEARCH_THRESHOLDS_def DOMAIN_SCORE_FLOORS_def
  STACK_THRESHOLD_def NO_THRESHOLD_def STYLE_IDENTITY_FIELDS_def LANDING_IDENTITY_FIELDS_def

text \<open>The tables agree: every domain has a threshold, a place in the tie-break order, and keywords.\<close>

lemma keys_CSV_CONFIG [simp]: "keys CSV_CONFIG =
  [''style'', ''color'', ''chart'', ''landing'', ''product'', ''ux'', ''typography'', ''icons'', ''gsap'',
   ''react'', ''web'', ''google-fonts'']"
  by (simp add: CSV_CONFIG_def keys_def)

lemma keys_thresholds [simp]: "keys SEARCH_THRESHOLDS = keys CSV_CONFIG"
  by (simp add: SEARCH_THRESHOLDS_def keys_def o_def)

lemma keys_keyword_table [simp]: "set (keys (domain_keyword_table ps)) = set (keys CSV_CONFIG)"
  by (simp add: domain_keyword_table_def keys_def CSV_CONFIG_def insert_commute)

lemma set_tiebreak [simp]: "set DOMAIN_TIEBREAK_ORDER = set (keys CSV_CONFIG)"
  by (simp add: DOMAIN_TIEBREAK_ORDER_def insert_commute)

end
