(* ===== verification/Regex.thy ===== *)
theory Regex
  imports PyBase
begin

text \<open>
  Python's \<open>re\<close> module, as far as the scripts use it: a backtracking matcher with greedy
  quantifiers, capture groups, one-character lookaround, word boundaries and anchors. The
  patterns of the scripts are terms of type \<open>rx\<close>, written down where the scripts compile
  them.

  The matcher returns every way to match, in the order the backtracking engine tries them, so
  the match Python reports is the first of the list. A position is the text before it in
  reverse, the text after it, and the groups captured so far. An iteration of a star that
  consumes nothing is not repeated.
\<close>

datatype rx =
    Eps
  | Cls "char \<Rightarrow> bool"
  | Seq rx rx
  | Alt rx rx
  | Star rx
  | Grp nat rx
  | NotBehind "char \<Rightarrow> bool"
  | NotAhead "char \<Rightarrow> bool"
  | WordB
  | AtEnd

type_synonym pos = "str \<times> str \<times> (nat \<times> str) list"

abbreviation before :: "pos \<Rightarrow> str" where
  "before p \<equiv> fst p"

abbreviation after :: "pos \<Rightarrow> str" where
  "after p \<equiv> fst (snd p)"

abbreviation groups :: "pos \<Rightarrow> (nat \<times> str) list" where
  "groups p \<equiv> snd (snd p)"

text \<open>The text between two positions of the same subject.\<close>

definition between :: "pos \<Rightarrow> pos \<Rightarrow> str" where
  "between p q = rev (take (length (before q) - length (before p)) (before q))"

definition at_word_boundary :: "pos \<Rightarrow> bool" where
  "at_word_boundary p \<longleftrightarrow>
     (case before p of [] \<Rightarrow> False | c # _ \<Rightarrow> is_word c) \<noteq>
     (case after p of [] \<Rightarrow> False | c # _ \<Rightarrow> is_word c)"

fun star_iter :: "(pos \<Rightarrow> pos list) \<Rightarrow> nat \<Rightarrow> pos \<Rightarrow> pos list" where
  "star_iter f 0 p = [p]"
| "star_iter f (Suc n) p =
     concat (map (star_iter f n) (filter (\<lambda>q. length (after q) < length (after p)) (f p))) @ [p]"

primrec mt :: "rx \<Rightarrow> pos \<Rightarrow> pos list" where
  "mt Eps p = [p]"
| "mt (Cls P) p =
     (case after p of [] \<Rightarrow> []
      | c # cs \<Rightarrow> if P c then [(c # before p, cs, groups p)] else [])"
| "mt (Seq r s) p = concat (map (mt s) (mt r p))"
| "mt (Alt r s) p = mt r p @ mt s p"
| "mt (Star r) p = star_iter (mt r) (length (after p)) p"
| "mt (Grp n r) p =
     map (\<lambda>q. (before q, after q, (n, between p q) # groups q)) (mt r p)"
| "mt (NotBehind P) p = (case before p of [] \<Rightarrow> [p] | c # _ \<Rightarrow> if P c then [] else [p])"
| "mt (NotAhead P) p = (case after p of [] \<Rightarrow> [p] | c # _ \<Rightarrow> if P c then [] else [p])"
| "mt WordB p = (if at_word_boundary p then [p] else [])"
| "mt AtEnd p = (if after p = [] \<or> after p = [newline] then [p] else [])"

subsection \<open>Abbreviations for patterns\<close>

primrec lit :: "str \<Rightarrow> rx" where
  "lit [] = Eps"
| "lit (c # cs) = Seq (Cls (\<lambda>x. x = c)) (lit cs)"

primrec alts :: "rx list \<Rightarrow> rx" where
  "alts [] = Cls (\<lambda>_. False)"
| "alts (r # rs) = (if rs = [] then r else Alt r (alts rs))"

primrec seqs :: "rx list \<Rightarrow> rx" where
  "seqs [] = Eps"
| "seqs (r # rs) = (if rs = [] then r else Seq r (seqs rs))"

definition opt :: "rx \<Rightarrow> rx" where
  "opt r = Alt r Eps"

definition plus1 :: "rx \<Rightarrow> rx" where
  "plus1 r = Seq r (Star r)"

primrec upto_times :: "nat \<Rightarrow> rx \<Rightarrow> rx" where
  "upto_times 0 r = Eps"
| "upto_times (Suc n) r = Alt (Seq r (upto_times n r)) Eps"

primrec times :: "nat \<Rightarrow> rx \<Rightarrow> rx" where
  "times 0 r = Eps"
| "times (Suc n) r = Seq r (times n r)"

text \<open>\<open>r{m,n}\<close>\<close>

definition rep :: "nat \<Rightarrow> nat \<Rightarrow> rx \<Rightarrow> rx" where
  "rep m n r = Seq (times m r) (upto_times (n - m) r)"

text \<open>The flag \<open>re.IGNORECASE\<close>.\<close>

primrec ci :: "rx \<Rightarrow> rx" where
  "ci Eps = Eps"
| "ci (Cls P) = Cls (\<lambda>c. P (lower_char c) \<or> P (upper_char c))"
| "ci (Seq r s) = Seq (ci r) (ci s)"
| "ci (Alt r s) = Alt (ci r) (ci s)"
| "ci (Star r) = Star (ci r)"
| "ci (Grp n r) = Grp n (ci r)"
| "ci (NotBehind P) = NotBehind (\<lambda>c. P (lower_char c) \<or> P (upper_char c))"
| "ci (NotAhead P) = NotAhead (\<lambda>c. P (lower_char c) \<or> P (upper_char c))"
| "ci WordB = WordB"
| "ci AtEnd = AtEnd"

lemmas rx_defs [py_defs] = opt_def plus1_def rep_def between_def at_word_boundary_def

subsection \<open>The functions of the module\<close>

record match =
  m_pre :: str
  m_text :: str
  m_post :: str
  m_groups :: "(nat \<times> str) list"

definition mk_match :: "str \<Rightarrow> str \<Rightarrow> pos \<Rightarrow> match" where
  "mk_match b a q =
     \<lparr>m_pre = rev b, m_text = between (b, a, []) q, m_post = after q, m_groups = groups q\<rparr>"

text \<open>\<open>re.match\<close> and \<open>fullmatch\<close>\<close>

definition rx_match :: "rx \<Rightarrow> str \<Rightarrow> match option" where
  "rx_match r s = (case mt r ([], s, []) of [] \<Rightarrow> None | q # _ \<Rightarrow> Some (mk_match [] s q))"

definition rx_fullmatch :: "rx \<Rightarrow> str \<Rightarrow> match option" where
  "rx_fullmatch r s =
     (case filter (\<lambda>q. after q = []) (mt r ([], s, [])) of
        [] \<Rightarrow> None | q # _ \<Rightarrow> Some (mk_match [] s q))"

text \<open>\<open>re.search\<close>: the leftmost position where the pattern matches.\<close>

fun search_from :: "rx \<Rightarrow> str \<Rightarrow> str \<Rightarrow> match option" where
  "search_from r b a =
     (case mt r (b, a, []) of
        q # _ \<Rightarrow> Some (mk_match b a q)
      | [] \<Rightarrow> (case a of [] \<Rightarrow> None | c # cs \<Rightarrow> search_from r (c # b) cs))"

declare search_from.simps [simp del]

definition rx_search :: "rx \<Rightarrow> str \<Rightarrow> match option" where
  "rx_search r s = search_from r [] s"

definition rx_found :: "rx \<Rightarrow> str \<Rightarrow> bool" where
  "rx_found r s \<longleftrightarrow> rx_search r s \<noteq> None"

text \<open>
  \<open>re.finditer\<close>: after a match the scan goes on where the match ended, one character further
  when the match was empty.
\<close>

function finditer_from :: "rx \<Rightarrow> str \<Rightarrow> str \<Rightarrow> match list" where
  "finditer_from r b a =
     (case search_from r b a of
        None \<Rightarrow> []
      | Some m \<Rightarrow> m #
          (if length (m_post m) < length a
           then finditer_from r (rev (m_pre m @ m_text m)) (m_post m)
           else (case a of [] \<Rightarrow> [] | c # cs \<Rightarrow> finditer_from r (c # b) cs)))"
  by pat_completeness auto
termination
  by (relation "measure (\<lambda>(r, b, a). length a)") auto

declare finditer_from.simps [simp del]

definition rx_finditer :: "rx \<Rightarrow> str \<Rightarrow> match list" where
  "rx_finditer r s = finditer_from r [] s"

text \<open>\<open>re.findall\<close> for a pattern without groups.\<close>

definition rx_findall :: "rx \<Rightarrow> str \<Rightarrow> str list" where
  "rx_findall r s = map m_text (rx_finditer r s)"

text \<open>\<open>re.sub\<close> with a constant replacement.\<close>

function sub_from :: "rx \<Rightarrow> str \<Rightarrow> str \<Rightarrow> str \<Rightarrow> str" where
  "sub_from r new b a =
     (case search_from r b a of
        None \<Rightarrow> a
      | Some m \<Rightarrow> drop (length b) (m_pre m) @ new @
          (if length (m_post m) < length a
           then sub_from r new (rev (m_pre m @ m_text m)) (m_post m)
           else (case a of [] \<Rightarrow> [] | c # cs \<Rightarrow> c # sub_from r new (c # b) cs)))"
  by pat_completeness auto
termination
  by (relation "measure (\<lambda>(r, new, b, a). length a)") auto

declare sub_from.simps [simp del]

definition rx_sub :: "rx \<Rightarrow> str \<Rightarrow> str \<Rightarrow> str" where
  "rx_sub r new s = sub_from r new [] s"

lemmas rx_fun_defs [py_defs] = mk_match_def rx_match_def rx_fullmatch_def rx_search_def
  rx_found_def rx_finditer_def rx_findall_def rx_sub_def

subsection \<open>What every match consumes\<close>

text \<open>A match moves a prefix of the text after the position to the text before it.\<close>

definition moves :: "pos \<Rightarrow> pos \<Rightarrow> bool" where
  "moves p q \<longleftrightarrow> (\<exists>u. after p = u @ after q \<and> before q = rev u @ before p)"

lemma moves_refl [simp, intro]: "moves p p"
  by (simp add: moves_def)

lemma moves_trans: "moves p q \<Longrightarrow> moves q s \<Longrightarrow> moves p s"
  by (force simp: moves_def)

lemma moves_between: "moves p q \<Longrightarrow> after p = between p q @ after q"
  by (auto simp: moves_def between_def)

lemma star_iter_moves:
  assumes "\<And>p q. q \<in> set (f p) \<Longrightarrow> moves p q"
  shows "q \<in> set (star_iter f n p) \<Longrightarrow> moves p q"
  by (induction n arbitrary: p) (auto intro: moves_trans assms)

lemma mt_moves: "q \<in> set (mt r p) \<Longrightarrow> moves p q"
proof (induction r arbitrary: p q)
  case (Seq r s)
  from Seq.prems obtain x where "x \<in> set (mt r p)" and "q \<in> set (mt s x)" by auto
  then show ?case by (metis Seq.IH moves_trans)
next
  case (Star r)
  then show ?case using star_iter_moves [of "mt r"] by auto
next
  case (Grp n r)
  from Grp.prems obtain x where "x \<in> set (mt r p)" and "before q = before x" "after q = after x"
    by auto
  then show ?case using Grp.IH [of x p] by (auto simp: moves_def)
qed (auto simp: moves_def split: list.splits if_splits)

lemma search_from_text:
  "search_from r b a = Some m \<Longrightarrow>
   rev b @ a = m_pre m @ m_text m @ m_post m \<and> (\<exists>u. m_pre m = rev b @ u)"
proof (induction r b a rule: search_from.induct)
  case (1 r b a)
  show ?case
  proof (cases "mt r (b, a, [])")
    case (Cons q qs)
    then have "moves (b, a, []) q" by (intro mt_moves [of _ r]) auto
    from moves_between [OF this] Cons 1(2) show ?thesis
      by (auto simp: search_from.simps [of r b a] mk_match_def)
  next
    case Nil
    with 1(2) obtain c cs where a: "a = c # cs"
      by (auto simp: search_from.simps [of r b a] split: list.splits)
    with Nil 1(2) have "search_from r (c # b) cs = Some m"
      by (simp add: search_from.simps [of r b "c # cs"])
    from 1(1) [OF Nil a this] a show ?thesis by auto
  qed
qed

lemma rx_search_text: "rx_search r s = Some m \<Longrightarrow> s = m_pre m @ m_text m @ m_post m"
  using search_from_text [of r "[]" s m] by (simp add: rx_search_def)

text \<open>The reported match is the leftmost one.\<close>

lemma search_from_None: "search_from r b a = None \<longleftrightarrow> (\<forall>u v. a = u @ v \<longrightarrow> mt r (rev u @ b, v, []) = [])"
proof (induction r b a rule: search_from.induct)
  case (1 r b a)
  show ?case
  proof (cases "mt r (b, a, [])")
    case (Cons q qs)
    then show ?thesis
      by (auto simp: search_from.simps [of r b a] intro: exI [of _ "[]"])
  next
    case Nil
    show ?thesis
    proof (cases a)
      case Nil
      with \<open>mt r (b, a, []) = []\<close> show ?thesis by (simp add: search_from.simps [of r b "[]"])
    next
      case (Cons c cs)
      have "(\<forall>u v. a = u @ v \<longrightarrow> mt r (rev u @ b, v, []) = []) \<longleftrightarrow>
          (\<forall>u v. cs = u @ v \<longrightarrow> mt r (rev u @ c # b, v, []) = [])" (is "?A \<longleftrightarrow> ?B")
      proof
        assume A: ?A
        show ?B
        proof (intro allI impI)
          fix u v assume "cs = u @ v"
          with A [rule_format, of "c # u" v] Cons show "mt r (rev u @ c # b, v, []) = []" by simp
        qed
      next
        assume ?B
        with Nil Cons show ?A by (auto simp: Cons_eq_append_conv)
      qed
      with 1 [OF Nil Cons] Nil Cons show ?thesis
        by (simp add: search_from.simps [of r b "c # cs"])
    qed
  qed
qed

lemma rx_found_iff: "rx_found r s \<longleftrightarrow> (\<exists>u v. s = u @ v \<and> mt r (rev u, v, []) \<noteq> [])"
  using search_from_None [of r "[]" s] by (auto simp: rx_found_def rx_search_def)

text \<open>Where the leftmost match starts, and that nothing matches before it.\<close>

lemma search_from_Some:
  "search_from r b a = Some m \<Longrightarrow>
   \<exists>u v q qs. a = u @ v \<and> mt r (rev u @ b, v, []) = q # qs \<and> m = mk_match (rev u @ b) v q \<and>
     (\<forall>u' v'. a = u' @ v' \<and> length u' < length u \<longrightarrow> mt r (rev u' @ b, v', []) = [])"
proof (induction r b a rule: search_from.induct)
  case (1 r b a)
  show ?case
  proof (cases "mt r (b, a, [])")
    case (Cons q qs)
    with 1(2) show ?thesis
      by (intro exI [of _ "[]"] exI [of _ a]) (auto simp: search_from.simps [of r b a])
  next
    case Nil
    with 1(2) obtain c cs where a: "a = c # cs" and s: "search_from r (c # b) cs = Some m"
      by (cases a) (auto simp: search_from.simps)
    from 1(1) [OF Nil a s] obtain u v q qs where u: "cs = u @ v" "mt r (rev u @ c # b, v, []) = q # qs"
        "m = mk_match (rev u @ c # b) v q"
        "\<forall>u' v'. cs = u' @ v' \<and> length u' < length u \<longrightarrow> mt r (rev u' @ c # b, v', []) = []"
      by blast
    have "mt r (rev u' @ b, v', []) = []" if "a = u' @ v'" "length u' < length (c # u)" for u' v'
      using that u(4) Nil a by (cases u') auto
    with u(1-3) a show ?thesis
      by (intro exI [of _ "c # u"] exI [of _ v] exI [of _ q] exI [of _ qs]) auto
  qed
qed

subsection \<open>Literals and whole phrases\<close>

lemma mt_lit: "mt (lit p) (b, a, g) =
    (if starts_with p a then [(rev p @ b, drop (length p) a, g)] else [])"
  by (induction p arbitrary: a b) (auto split: list.splits)

text \<open>
  \<open>(?<!w)phrase(?!w)\<close>, with which the scripts look for a phrase at token boundaries.
\<close>

definition phrase_rx :: "str \<Rightarrow> rx" where
  "phrase_rx p = Seq (NotBehind is_word) (Seq (lit p) (NotAhead is_word))"

definition occurs_as_phrase :: "str \<Rightarrow> str \<Rightarrow> bool" where
  "occurs_as_phrase p s \<longleftrightarrow>
     (\<exists>u v. s = u @ p @ v \<and> (u = [] \<or> \<not> is_word (last u)) \<and> (v = [] \<or> \<not> is_word (hd v)))"

lemma mt_phrase: "mt (phrase_rx p) (rev u, a, []) \<noteq> [] \<longleftrightarrow>
    (u = [] \<or> \<not> is_word (last u)) \<and> (\<exists>v. a = p @ v \<and> (v = [] \<or> \<not> is_word (hd v)))"
proof (cases u rule: rev_cases)
  case Nil
  then show ?thesis
    by (auto simp: phrase_rx_def mt_lit starts_with_iff split: list.splits)
next
  case (snoc w c)
  then show ?thesis
    by (auto simp: phrase_rx_def mt_lit starts_with_iff split: list.splits; metis list.collapse)
qed

lemma phrase_found: "rx_found (phrase_rx p) s \<longleftrightarrow> occurs_as_phrase p s"
  unfolding rx_found_iff mt_phrase occurs_as_phrase_def by blast

lemma occurs_as_phrase_contains: "occurs_as_phrase p s \<Longrightarrow> contains p s"
  by (auto simp: occurs_as_phrase_def contains_iff)

text \<open>A lower-case phrase, whatever the case of the text.\<close>

lemma case_fold_char: "\<not> is_upper p \<Longrightarrow> lower_char c = p \<or> upper_char c = p \<longleftrightarrow> lower_char c = p"
  by (auto simp: lower_char_def upper_char_def is_upper_def is_lower_def split: if_splits)

lemma mt_ci_lit: "\<forall>x \<in> set p. \<not> is_upper x \<Longrightarrow> mt (ci (lit p)) (b, a, g) =
    (if starts_with p (lower a) then [(rev (take (length p) a) @ b, drop (length p) a, g)] else [])"
proof (induction p arbitrary: a b)
  case (Cons c p)
  then show ?case
    by (cases a) (auto simp: lower_def case_fold_char)
qed simp

lemma mt_ci_phrase: "\<forall>x \<in> set p. \<not> is_upper x \<Longrightarrow> mt (ci (phrase_rx p)) (b, a, g) \<noteq> [] \<Longrightarrow>
    starts_with p (lower a)"
  by (auto simp: phrase_rx_def mt_ci_lit split: list.splits if_splits)

lemma sub_from_None: "search_from r b a = None \<Longrightarrow> sub_from r new b a = a"
  by (simp add: sub_from.simps)

lemma contains_starts: "starts_with p v \<Longrightarrow> contains p (u @ v)"
  by (auto simp: contains_iff starts_with_iff)

lemma rx_sub_ci_phrase_absent:
  assumes "\<forall>x \<in> set p. \<not> is_upper x" and "\<not> contains p (lower s)"
  shows "rx_sub (ci (phrase_rx p)) new s = s"
proof -
  have "mt (ci (phrase_rx p)) (rev u @ [], v, []) = []" if "s = u @ v" for u v
    using mt_ci_phrase [OF assms(1), of "rev u @ []" v "[]"] assms(2) contains_starts [of p "lower v" "lower u"] that
    by (auto simp: lower_def)
  then show ?thesis by (simp add: rx_sub_def sub_from_None search_from_None)
qed

subsection \<open>Which characters a match can hold\<close>

primrec cls_in :: "(char \<Rightarrow> bool) \<Rightarrow> rx \<Rightarrow> bool" where
  "cls_in Q Eps = True"
| "cls_in Q (Cls P) = (\<forall>c. P c \<longrightarrow> Q c)"
| "cls_in Q (Seq r s) = (cls_in Q r \<and> cls_in Q s)"
| "cls_in Q (Alt r s) = (cls_in Q r \<and> cls_in Q s)"
| "cls_in Q (Star r) = cls_in Q r"
| "cls_in Q (Grp n r) = cls_in Q r"
| "cls_in Q (NotBehind P) = True"
| "cls_in Q (NotAhead P) = True"
| "cls_in Q WordB = True"
| "cls_in Q AtEnd = True"

definition moves_in :: "(char \<Rightarrow> bool) \<Rightarrow> pos \<Rightarrow> pos \<Rightarrow> bool" where
  "moves_in Q p q \<longleftrightarrow>
     (\<exists>u. after p = u @ after q \<and> before q = rev u @ before p \<and> (\<forall>c \<in> set u. Q c))"

lemma moves_in_refl [simp, intro]: "moves_in Q p p"
  by (simp add: moves_in_def)

lemma moves_in_trans: "moves_in Q p q \<Longrightarrow> moves_in Q q s \<Longrightarrow> moves_in Q p s"
  unfolding moves_in_def by (elim exE conjE, rule_tac x = "u @ ua" in exI) auto

lemma star_iter_moves_in:
  assumes "\<And>p q. q \<in> set (f p) \<Longrightarrow> moves_in Q p q"
  shows "q \<in> set (star_iter f n p) \<Longrightarrow> moves_in Q p q"
  by (induction n arbitrary: p) (auto intro: moves_in_trans assms)

lemma mt_moves_in: "cls_in Q r \<Longrightarrow> q \<in> set (mt r p) \<Longrightarrow> moves_in Q p q"
proof (induction r arbitrary: p q)
  case (Seq r s)
  from Seq.prems obtain x where "x \<in> set (mt r p)" and "q \<in> set (mt s x)" by auto
  with Seq.prems show ?case by (metis Seq.IH cls_in.simps(3) moves_in_trans)
next
  case (Star r)
  then show ?case using star_iter_moves_in [of "mt r" Q] by auto
next
  case (Grp n r)
  from Grp.prems obtain x where "x \<in> set (mt r p)" and "before q = before x" "after q = after x"
    by auto
  then show ?case using Grp.IH [of x p] Grp.prems by (auto simp: moves_in_def)
qed (auto simp: moves_in_def split: list.splits if_splits)

subsection \<open>What a substitution keeps\<close>

text \<open>
  For a pattern that never matches the empty text, every character of the result comes from
  the replacement or stands where the pattern does not match.
\<close>

definition never_empty :: "rx \<Rightarrow> bool" where
  "never_empty r \<longleftrightarrow> (\<forall>p. \<forall>q \<in> set (mt r p). length (after q) < length (after p))"

lemma never_empty_plus1: "never_empty (plus1 (Cls P))"
  unfolding never_empty_def plus1_def
proof (intro allI ballI)
  fix p q assume "q \<in> set (mt (Seq (Cls P) (Star (Cls P))) p)"
  then obtain x where x: "x \<in> set (mt (Cls P) p)" and q: "q \<in> set (mt (Star (Cls P)) x)"
    by (subst (asm) mt.simps(3)) (auto simp del: mt.simps)
  from mt_moves [OF q] have "length (after q) \<le> length (after x)"
    by (auto simp: moves_def)
  moreover from x have "length (after x) < length (after p)"
    by (cases "after p") (auto split: if_splits)
  ultimately show "length (after q) < length (after p)" by simp
qed

lemma sub_from_chars:
  "never_empty r \<Longrightarrow> x \<in> set (sub_from r new b a) \<Longrightarrow>
    x \<in> set new \<or> (\<exists>b' v. x \<in> set a \<and> mt r (b', x # v, []) = [])"
proof (induction r new b a rule: sub_from.induct)
  case (1 r new b a)
  show ?case
  proof (cases "search_from r b a")
    case None
    with 1(3,4) have "x \<in> set a" by (simp add: sub_from.simps [of r new b a])
    then obtain u v where "a = u @ x # v" by (meson split_list)
    with None have "mt r (rev u @ b, x # v, []) = []" by (auto simp: search_from_None)
    with \<open>x \<in> set a\<close> show ?thesis by blast
  next
    case (Some m)
    note ne = 1(3)
    from search_from_Some [OF Some] obtain u v q qs where
      m: "a = u @ v" "mt r (rev u @ b, v, []) = q # qs" "m = mk_match (rev u @ b) v q" and
      least: "\<forall>u' v'. a = u' @ v' \<and> length u' < length u \<longrightarrow> mt r (rev u' @ b, v', []) = []"
      by blast
    have pre: "drop (length b) (m_pre m) = u"
      by (simp add: m(3) mk_match_def)
    have q: "q \<in> set (mt r (rev u @ b, v, []))" by (simp add: m(2))
    have "length (after q) < length v"
      using 1(3) [unfolded never_empty_def, THEN spec, THEN bspec, OF q] by simp
    then have short: "length (m_post m) < length a"
      by (simp add: m(1,3) mk_match_def)
    have sub: "set (m_post m) \<subseteq> set a"
      using mt_moves [OF q] by (auto simp: m(1,3) mk_match_def moves_def)
    from 1(4) Some short pre consider "x \<in> set u" | "x \<in> set new"
      | "x \<in> set (sub_from r new (rev (m_pre m @ m_text m)) (m_post m))"
      by (auto simp: sub_from.simps [of r new b a])
    then show ?thesis
    proof cases
      case 1
      then obtain u1 u2 where u: "u = u1 @ x # u2" by (meson split_list)
      with least [rule_format, of u1 "x # u2 @ v"] m(1) show ?thesis by auto
    next
      case 3
      from "1.IH"(1) [OF Some short ne this] sub show ?thesis by blast
    qed blast
  qed
qed
end
