(* ===== verification/Bm25.thy ===== *)
theory Bm25
  imports Config Regex
begin

text \<open>
  The tokenizer and the BM25 ranking of \<open>core.py\<close> (\<open>_normalize\<close> and the class \<open>BM25\<close>,
  lines 267 to 347), and what a ranking promises to the searches that use it (locale
  \<open>ranker\<close>): every document is ranked once, best first, and a document has a positive score
  exactly when it shares a token with the query.
\<close>

subsection \<open>Tokens\<close>

definition SYNONYM_PATTERNS :: "(rx \<times> str) list" where
  "SYNONYM_PATTERNS =
     map (\<lambda>(variant, canonical). (ci (phrase_rx variant), canonical))
       (sort_desc (\<lambda>item. int (length (fst item))) SYNONYMS)"

definition normalize :: "str \<Rightarrow> str" where
  "normalize text = foldl (\<lambda>s (pattern, canonical). rx_sub pattern canonical s) text SYNONYM_PATTERNS"

definition blank_punctuation :: "str \<Rightarrow> str" where
  "blank_punctuation s = map (\<lambda>c. if is_word c \<or> is_space c then c else CHR '' '') s"

definition tokenize :: "str \<Rightarrow> str list" where
  "tokenize text =
     filter (\<lambda>w. 2 \<le> py_len w \<and> w \<notin> set STOPWORDS)
       (split_ws (blank_punctuation (normalize (lower text))))"

lemma tokenize_word_chars:
  assumes "w \<in> set (tokenize s)" and "c \<in> set w"
  shows "is_word c"
proof -
  from assms have "\<not> is_space c" and "c \<in> set (blank_punctuation (normalize (lower s)))"
    by (auto simp: tokenize_def split_ws_def dest!: runs_parts)
  then show ?thesis
    by (auto simp: blank_punctuation_def is_space_def code_def split: if_splits)
qed

lemma tokenize_not_stopword:
  "w \<in> set (tokenize s) \<Longrightarrow> w \<notin> set STOPWORDS \<and> 2 \<le> py_len w"
  by (simp add: tokenize_def)

lemma lower_lower [simp]: "lower (lower s) = lower s"
  by (simp add: lower_def)

lemma tokenize_lower [simp]: "tokenize (lower s) = tokenize s"
  by (simp add: tokenize_def)

text \<open>Text without any of the spelling variants, such as most queries, is not changed by \<open>normalize\<close>.\<close>

lemma synonyms_lower: "\<forall>v \<in> fst ` set SYNONYMS. \<forall>x \<in> set v. \<not> is_upper x"
  by (simp add: SYNONYMS_def py_defs)

lemma foldl_fixed: "(\<And>x. x \<in> set xs \<Longrightarrow> f s x = s) \<Longrightarrow> foldl f s xs = s"
  by (induction xs) auto

lemma normalize_id:
  assumes "\<forall>v \<in> set (keys SYNONYMS). \<not> contains v (lower s)"
  shows "normalize s = s"
  unfolding normalize_def
proof (rule foldl_fixed)
  fix x assume "x \<in> set SYNONYM_PATTERNS"
  then obtain v c where x: "x = (ci (phrase_rx v), c)" "v \<in> fst ` set SYNONYMS"
    by (force simp: SYNONYM_PATTERNS_def)
  with assms synonyms_lower have "rx_sub (ci (phrase_rx v)) c s = s"
    by (intro rx_sub_ci_phrase_absent) (auto simp: keys_def)
  with x show "(case x of (pattern, canonical) \<Rightarrow> rx_sub pattern canonical s) = s" by simp
qed

lemma normalize_plain: "list_all (\<lambda>v. \<not> contains v (lower s)) (keys SYNONYMS) \<Longrightarrow> normalize s = s"
  by (simp add: list_all_iff normalize_id)

lemma tokenize_plain: "list_all (\<lambda>v. \<not> contains v (lower s)) (keys SYNONYMS) \<Longrightarrow> tokenize s =
    filter (\<lambda>w. 2 \<le> py_len w \<and> w \<notin> set STOPWORDS) (split_ws (blank_punctuation (lower s)))"
  by (simp add: tokenize_def normalize_plain)

subsection \<open>The index\<close>

record bm25 =
  k1 :: real
  b :: real
  corpus :: "str list list"
  doc_lengths :: "nat list"
  avgdl :: real
  idf :: "real dict"
  doc_freqs :: "nat dict"
  N :: nat
  term_freqs :: "nat dict list"

definition bm25_new :: bm25 where
  "bm25_new =
     \<lparr>k1 = 3 / 2, b = 3 / 4, corpus = [], doc_lengths = [], avgdl = 0, idf = [], doc_freqs = [],
      N = 0, term_freqs = []\<rparr>"

text \<open>\<open>d[w] += 1\<close> on a \<open>defaultdict(int)\<close>\<close>

definition bump :: "str \<Rightarrow> nat dict \<Rightarrow> nat dict" where
  "bump w d = put w (get_or d w 0 + 1) d"

definition term_freq :: "str list \<Rightarrow> nat dict" where
  "term_freq doc = foldl (\<lambda>tf word. bump word tf) [] doc"

definition idf_weight :: "nat \<Rightarrow> nat \<Rightarrow> real" where
  "idf_weight n freq = ln ((real n - real freq + 1 / 2) / (real freq + 1 / 2) + 1)"

definition fit :: "bm25 \<Rightarrow> str list \<Rightarrow> bm25" where
  "fit idx documents =
     (let docs = map tokenize documents; n = length docs in
      if n = 0 then idx\<lparr>corpus := docs, N := n\<rparr>
      else
        let lens = map length docs;
            mean = real (sum_list lens) / real n;
            tfs = map term_freq docs;
            dfs = foldl (\<lambda>df tf. foldl (\<lambda>df word. bump word df) df (keys tf)) (doc_freqs idx) tfs
        in idx\<lparr>corpus := docs, N := n, doc_lengths := lens,
              avgdl := (if mean = 0 then 1 else mean), term_freqs := tfs, doc_freqs := dfs,
              idf := foldl (\<lambda>d (word, freq). put word (idf_weight n freq) d) (idf idx) dfs\<rparr>)"

text \<open>The summand of one query token for document \<open>i\<close>, and the score of the document.\<close>

definition token_score :: "bm25 \<Rightarrow> nat \<Rightarrow> str \<Rightarrow> real" where
  "token_score idx i token =
     (case get (idf idx) token of
        None \<Rightarrow> 0
      | Some w \<Rightarrow>
          (let tf = real (get_or (term_freqs idx ! i) token 0);
               numerator = tf * (k1 idx + 1);
               denominator =
                 tf + k1 idx * (1 - b idx + b idx * real (doc_lengths idx ! i) / avgdl idx)
           in w * numerator / denominator))"

definition doc_score :: "bm25 \<Rightarrow> str list \<Rightarrow> nat \<Rightarrow> real" where
  "doc_score idx query_tokens i = foldl (\<lambda>score token. score + token_score idx i token) 0 query_tokens"

definition score :: "bm25 \<Rightarrow> str \<Rightarrow> (nat \<times> real) list" where
  "score idx query =
     (let query_tokens = tokenize query
      in sort_desc snd (map (\<lambda>i. (i, doc_score idx query_tokens i)) [0..<N idx]))"

definition vocabulary :: "bm25 \<Rightarrow> str list" where
  "vocabulary idx = keys (idf idx)"

subsection \<open>Frequencies\<close>

lemma get_or_bump: "get_or (bump w d) v 0 = get_or d v 0 + (if v = w then 1 else 0)"
  by (auto simp: bump_def)

lemma get_or_foldl_bump: "get_or (foldl (\<lambda>d w. bump w d) d ws) v 0 = get_or d v 0 + count_list ws v"
  by (induction ws arbitrary: d) (auto simp: get_or_bump)

lemma keys_bump: "set (keys (bump w d)) = insert w (set (keys d))"
  by (simp add: bump_def keys_def)

lemma distinct_bump [simp]: "distinct (keys d) \<Longrightarrow> distinct (keys (bump w d))"
  by (simp add: bump_def keys_def)

lemma keys_foldl_bump: "set (keys (foldl (\<lambda>d w. bump w d) d ws)) = set (keys d) \<union> set ws"
  by (induction ws arbitrary: d) (auto simp: keys_bump)

lemma distinct_foldl_bump: "distinct (keys d) \<Longrightarrow> distinct (keys (foldl (\<lambda>d w. bump w d) d ws))"
  by (induction ws arbitrary: d) auto

lemma term_freq_count: "get_or (term_freq doc) w 0 = count_list doc w"
  by (simp add: term_freq_def get_or_foldl_bump) (simp add: get_or_def)

lemma keys_term_freq: "set (keys (term_freq doc)) = set doc"
  by (simp add: term_freq_def keys_foldl_bump) (simp add: keys_def)

lemma distinct_term_freq: "distinct (keys (term_freq doc))"
  unfolding term_freq_def by (rule distinct_foldl_bump) (simp add: keys_def)

definition doc_count :: "str list list \<Rightarrow> str \<Rightarrow> nat" where
  "doc_count docs w = length (filter (\<lambda>doc. w \<in> set doc) docs)"

definition count_docs :: "nat dict \<Rightarrow> str list list \<Rightarrow> nat dict" where
  "count_docs d docs =
     foldl (\<lambda>df tf. foldl (\<lambda>df word. bump word df) df (keys tf)) d (map term_freq docs)"

lemma count_docs_Cons:
  "count_docs d (doc # docs) = count_docs (foldl (\<lambda>df word. bump word df) d (keys (term_freq doc))) docs"
  by (simp add: count_docs_def)

lemma count_list_distinct: "distinct xs \<Longrightarrow> count_list xs x = (if x \<in> set xs then 1 else 0)"
  by (induction xs) auto

lemma count_docs_freq: "get_or (count_docs d docs) w 0 = get_or d w 0 + doc_count docs w"
proof (induction docs arbitrary: d)
  case (Cons doc docs)
  then show ?case
    by (simp add: count_docs_Cons get_or_foldl_bump count_list_distinct distinct_term_freq
        keys_term_freq doc_count_def)
qed (simp add: count_docs_def doc_count_def)

lemma keys_count_docs: "set (keys (count_docs d docs)) = set (keys d) \<union> \<Union> (set ` set docs)"
proof (induction docs arbitrary: d)
  case (Cons doc docs)
  then show ?case by (auto simp: count_docs_Cons keys_foldl_bump keys_term_freq)
qed (simp add: count_docs_def)

lemma distinct_count_docs: "distinct (keys d) \<Longrightarrow> distinct (keys (count_docs d docs))"
  by (induction docs arbitrary: d) (simp_all add: count_docs_Cons distinct_foldl_bump, simp add: count_docs_def)

lemma doc_count_le: "doc_count docs w \<le> length docs"
  by (simp add: doc_count_def)

subsection \<open>The index after fitting\<close>

lemma idf_weight_pos: "freq \<le> n \<Longrightarrow> 0 < idf_weight n freq"
proof -
  assume "freq \<le> n"
  then have "0 < (real n - real freq + 1 / 2) / (real freq + 1 / 2)"
    by (intro divide_pos_pos) auto
  then show ?thesis by (simp add: idf_weight_def)
qed

text \<open>A rarer word weighs more.\<close>

lemma idf_weight_antimono: "freq \<le> freq' \<Longrightarrow> freq' \<le> n \<Longrightarrow> idf_weight n freq' \<le> idf_weight n freq"
proof -
  assume le: "freq \<le> freq'" "freq' \<le> n"
  then have "(real n - real freq' + 1 / 2) / (real freq' + 1 / 2)
      \<le> (real n - real freq + 1 / 2) / (real freq + 1 / 2)"
    by (intro frac_le) auto
  moreover have "0 < (real n - real freq' + 1 / 2) / (real freq' + 1 / 2)"
    using le by (intro divide_pos_pos) auto
  ultimately show ?thesis by (simp add: idf_weight_def)
qed

lemma map_of_foldl_put:
  "distinct (map fst dfs) \<Longrightarrow>
   get (foldl (\<lambda>d (word, freq). put word (f freq) d) d0 dfs) w =
     (case get dfs w of None \<Rightarrow> get d0 w | Some freq \<Rightarrow> Some (f freq))"
proof (induction dfs arbitrary: d0)
  case (Cons x dfs)
  obtain w' freq where x: "x = (w', freq)" by fastforce
  with Cons.prems have "get dfs w' = None" by (simp add: map_of_eq_None_iff)
  with Cons x show ?case by (auto split: option.splits)
qed simp

abbreviation bm25_fit :: "str list \<Rightarrow> bm25" where
  "bm25_fit docs \<equiv> fit bm25_new docs"

lemma fit_simps [simp]:
  "corpus (bm25_fit docs) = map tokenize docs"
  "N (bm25_fit docs) = length docs"
  "doc_lengths (bm25_fit docs) = map length (map tokenize docs)"
  "term_freqs (bm25_fit docs) = map term_freq (map tokenize docs)"
  "doc_freqs (bm25_fit docs) = count_docs [] (map tokenize docs)"
  "k1 (bm25_fit docs) = 3 / 2"
  "b (bm25_fit docs) = 3 / 4"
  by (simp_all add: fit_def bm25_new_def Let_def count_docs_def)

lemma avgdl_fit_pos: "docs \<noteq> [] \<Longrightarrow> 0 < avgdl (bm25_fit docs)"
  by (auto simp: fit_def bm25_new_def Let_def intro!: divide_nonneg_nonneg less_le_trans
      simp: order_less_le sum_list_nonneg)

lemma idf_fit:
  "get (idf (bm25_fit docs)) w =
     (if \<exists>doc \<in> set docs. w \<in> set (tokenize doc)
      then Some (idf_weight (length docs) (doc_count (map tokenize docs) w)) else None)"
proof -
  let ?c = "count_docs [] (map tokenize docs)"
  have d: "distinct (map fst ?c)"
    using distinct_count_docs [of "[]"] by (simp add: keys_def)
  have i: "idf (bm25_fit docs) =
      foldl (\<lambda>d (word, freq). put word (idf_weight (length docs) freq) d) [] ?c"
    by (simp add: fit_def bm25_new_def Let_def count_docs_def)
  have k: "get ?c w = None \<longleftrightarrow> \<not> (\<exists>doc \<in> set docs. w \<in> set (tokenize doc))"
    using keys_count_docs [of "[]" "map tokenize docs"] by (auto simp: map_of_eq_None_iff keys_def)
  have v: "get ?c w = Some f \<Longrightarrow> f = doc_count (map tokenize docs) w" for f
    using count_docs_freq [of "[]" "map tokenize docs" w] by (simp add: get_or_def)
  show ?thesis
    unfolding i map_of_foldl_put [OF d] using k v by (auto split: option.splits)
qed

lemma in_vocabulary_iff:
  "w \<in> set (vocabulary (bm25_fit docs)) \<longleftrightarrow> (\<exists>doc \<in> set docs. w \<in> set (tokenize doc))"
  by (simp add: vocabulary_def in_keys_iff idf_fit)

lemma token_score_fit:
  assumes "i < length docs"
  shows "0 \<le> token_score (bm25_fit docs) i t"
    and "0 < token_score (bm25_fit docs) i t \<longleftrightarrow> t \<in> set (tokenize (docs ! i))"
proof -
  define tf where "tf = real (count_list (tokenize (docs ! i)) t)"
  define den where "den = tf + 3 / 2 * (1 - 3 / 4 +
      3 / 4 * real (length (tokenize (docs ! i))) / avgdl (bm25_fit docs))"
  have avg: "0 < avgdl (bm25_fit docs)"
    using assms by (intro avgdl_fit_pos) auto
  have "0 < 1 - 3 / 4 + 3 / 4 * real (length (tokenize (docs ! i))) / avgdl (bm25_fit docs)"
    using avg by (intro add_pos_nonneg divide_nonneg_pos) auto
  then have den: "0 < den"
    by (simp add: den_def tf_def add_nonneg_pos)
  have tf: "0 < tf \<longleftrightarrow> t \<in> set (tokenize (docs ! i))" "0 \<le> tf"
    by (simp_all add: tf_def count_list_0_iff flip: neq0_conv)
  have val: "token_score (bm25_fit docs) i t =
      (case get (idf (bm25_fit docs)) t of None \<Rightarrow> 0 | Some w \<Rightarrow> w * (tf * (3 / 2 + 1)) / den)"
    using assms
    by (auto simp: token_score_def term_freq_count Let_def tf_def den_def split: option.split)
  have "0 \<le> token_score (bm25_fit docs) i t \<and>
      (0 < token_score (bm25_fit docs) i t \<longleftrightarrow> t \<in> set (tokenize (docs ! i)))"
  proof (cases "get (idf (bm25_fit docs)) t")
    case None
    then have "t \<notin> set (tokenize (docs ! i))"
      using assms by (auto simp: idf_fit split: if_splits)
    with None val show ?thesis by simp
  next
    case (Some w)
    then have "0 < w"
      using doc_count_le [of "map tokenize docs" t]
      by (auto simp: idf_fit intro!: idf_weight_pos split: if_splits)
    with Some val den tf show ?thesis
      by (simp add: zero_less_divide_iff zero_less_mult_iff)
  qed
  then show "0 \<le> token_score (bm25_fit docs) i t"
    and "0 < token_score (bm25_fit docs) i t \<longleftrightarrow> t \<in> set (tokenize (docs ! i))" by auto
qed

lemma doc_score_sum: "doc_score idx ts i = sum_list (map (token_score idx i) ts)"
proof -
  have "foldl (\<lambda>s t. s + f t) a ts = a + sum_list (map f ts)" for f :: "str \<Rightarrow> real" and a
    by (induction ts arbitrary: a) auto
  then show ?thesis by (simp add: doc_score_def)
qed

text \<open>Two texts share a token.\<close>

definition shares_token :: "str \<Rightarrow> str \<Rightarrow> bool" where
  "shares_token query doc \<longleftrightarrow> set (tokenize query) \<inter> set (tokenize doc) \<noteq> {}"

lemma doc_score_fit:
  assumes "i < length docs"
  shows "0 \<le> doc_score (bm25_fit docs) ts i"
    and "0 < doc_score (bm25_fit docs) ts i \<longleftrightarrow> (\<exists>t \<in> set ts. t \<in> set (tokenize (docs ! i)))"
proof -
  note ts = token_score_fit [OF assms]
  show "0 \<le> doc_score (bm25_fit docs) ts i"
    by (auto simp: doc_score_sum intro!: sum_list_nonneg ts)
  show "0 < doc_score (bm25_fit docs) ts i \<longleftrightarrow> (\<exists>t \<in> set ts. t \<in> set (tokenize (docs ! i)))"
  proof (induction ts)
    case (Cons t ts)
    have "0 \<le> sum_list (map (token_score (bm25_fit docs) i) ts)"
      by (auto intro!: sum_list_nonneg ts)
    with Cons ts [of t] show ?case by (auto simp: doc_score_sum add_pos_nonneg add_nonneg_pos)
  qed (simp add: doc_score_sum)
qed

subsection \<open>What a ranking promises\<close>

text \<open>
  The scripts read a ranking in one way: of the first \<open>n\<close> entries, those with a positive score
  become rows of the answer.
\<close>

definition pick :: "nat \<Rightarrow> 'a list \<Rightarrow> (nat \<times> real) list \<Rightarrow> 'a list" where
  "pick n data ranked = map (\<lambda>(idx, s). data ! idx) (filter (\<lambda>(idx, s). 0 < s) (take n ranked))"

lemma filter_take_upward:
  "sorted_wrt (\<lambda>x y. P y \<longrightarrow> P x) xs \<Longrightarrow> filter P (take n xs) = take n (filter P xs)"
proof (induction xs arbitrary: n)
  case (Cons x xs)
  then show ?case
    by (cases n) (auto simp: filter_empty_conv)
qed simp

locale ranker =
  fixes rank :: "str list \<Rightarrow> str \<Rightarrow> (nat \<times> real) list"
    and hits :: "str \<Rightarrow> str \<Rightarrow> bool"
  assumes rank_perm: "mset (map fst (rank docs q)) = mset [0..<length docs]"
    and rank_sorted: "sorted_wrt (\<lambda>x y. snd y \<le> snd x) (rank docs q)"
    and rank_hit: "(i, s) \<in> set (rank docs q) \<Longrightarrow> 0 \<le> s \<and> (0 < s \<longleftrightarrow> hits q (docs ! i))"
begin

lemma rank_indices: "fst ` set (rank docs q) = {0..<length docs}"
  using arg_cong [OF rank_perm, of set_mset docs q] by simp

lemma pick_eq: "pick n data (rank docs q) =
    map (\<lambda>(idx, s). data ! idx) (take n (filter (\<lambda>(idx, s). 0 < s) (rank docs q)))"
proof -
  have "sorted_wrt (\<lambda>x y. (case y of (idx, s) \<Rightarrow> 0 < s) \<longrightarrow> (case x of (idx, s) \<Rightarrow> 0 < s))
      (rank docs q)"
    by (rule sorted_wrt_mono_rel [OF _ rank_sorted]) auto
  then show ?thesis by (simp add: pick_def filter_take_upward)
qed

lemma pick_length: "length (pick n data (rank docs q)) \<le> n"
  by (simp add: pick_eq)

lemma pick_hits:
  assumes "x \<in> set (pick n data (rank (map f data) q))"
  shows "x \<in> set data \<and> hits q (f x)"
proof -
  from assms obtain i s where i: "(i, s) \<in> set (rank (map f data) q)" "0 < s" "x = data ! i"
    by (auto simp: pick_def dest: in_set_takeD)
  then have "i < length data" using rank_indices [of "map f data" q] by force
  with i rank_hit [OF i(1)] show ?thesis by simp
qed

lemma pick_complete:
  assumes "length (pick n data (rank (map f data) q)) < n" and "x \<in> set data" and "hits q (f x)"
  shows "x \<in> set (pick n data (rank (map f data) q))"
proof -
  from assms(2) obtain i where i: "i < length data" "x = data ! i" by (metis in_set_conv_nth)
  then obtain s where s: "(i, s) \<in> set (rank (map f data) q)"
    using rank_indices [of "map f data" q] by force
  with rank_hit [OF s] i assms(3) have "0 < s" by simp
  moreover have "take n (filter (\<lambda>(idx, s). 0 < s) (rank (map f data) q)) =
      filter (\<lambda>(idx, s). 0 < s) (rank (map f data) q)"
    using assms(1) by (simp add: pick_eq)
  ultimately show ?thesis using s i by (force simp: pick_eq)
qed

lemma pick_empty_iff:
  "0 < n \<Longrightarrow> pick n data (rank (map f data) q) = [] \<longleftrightarrow> (\<forall>x \<in> set data. \<not> hits q (f x))"
  using pick_complete [of n data f q] pick_hits [of _ n data f q]
  by (metis length_0_conv list.set_intros(1) list.exhaust empty_iff list.set(1))

lemma top_score: "rank docs q = (i, s) # r \<Longrightarrow> 0 < s \<longleftrightarrow> (\<exists>d \<in> set docs. hits q d)"
proof -
  assume r: "rank docs q = (i, s) # r"
  have "i < length docs" using rank_indices [of docs q] by (auto simp: r)
  show ?thesis
  proof
    assume "0 < s"
    with rank_hit [of i s docs q] r \<open>i < length docs\<close> show "\<exists>d \<in> set docs. hits q d" by auto
  next
    assume "\<exists>d \<in> set docs. hits q d"
    then obtain j where j: "j < length docs" "hits q (docs ! j)" by (metis in_set_conv_nth)
    then obtain t where t: "(j, t) \<in> set (rank docs q)" using rank_indices [of docs q] by force
    with rank_hit [OF t] j have "0 < t" by simp
    moreover have "t \<le> s" using rank_sorted [of docs q] t r by auto
    ultimately show "0 < s" by simp
  qed
qed

end

lemma score_perm: "mset (map fst (score (bm25_fit docs) q)) = mset [0..<length docs]"
proof -
  have "mset (map fst (score (bm25_fit docs) q)) =
      image_mset fst (mset (map (\<lambda>i. (i, doc_score (bm25_fit docs) (tokenize q) i)) [0..<length docs]))"
    by (simp add: score_def Let_def)
  also have "\<dots> = mset (map (fst \<circ> (\<lambda>i. (i, doc_score (bm25_fit docs) (tokenize q) i))) [0..<length docs])"
    by (simp only: mset_map map_map multiset.map_comp)
  finally show ?thesis by (simp add: o_def)
qed

interpretation core_rank: ranker "\<lambda>docs. score (bm25_fit docs)" shares_token
proof (unfold_locales, goal_cases)
  case (1 docs q)
  show ?case by (rule score_perm)
next
  case (2 docs q)
  show ?case by (simp add: score_def Let_def sort_desc_sorted)
next
  case (3 i s docs q)
  then have "i < length docs" and "s = doc_score (bm25_fit docs) (tokenize q) i"
    by (auto simp: score_def Let_def)
  with doc_score_fit [of i docs "tokenize q"] show ?case
    by (auto simp: shares_token_def)
qed

text \<open>Documents with equal scores keep the order of the data.\<close>

lemma score_stable:
  "filter (\<lambda>x. snd x = v) (score (bm25_fit docs) q) =
   filter (\<lambda>x. snd x = v) (map (\<lambda>i. (i, doc_score (bm25_fit docs) (tokenize q) i)) [0..<length docs])"
  by (simp add: score_def Let_def sort_desc_stable)

lemma score_sorted:
  "sorted_wrt (\<lambda>x y. snd y < snd x \<or> snd y = snd x \<and> fst x < fst y) (score (bm25_fit docs) q)"
proof -
  have "sorted_wrt (\<lambda>x y. fst x < fst y) (map (\<lambda>i. (i, doc_score (bm25_fit docs) (tokenize q) i)) [0..<length docs])"
    by (simp add: sorted_wrt_map)
  from sort_desc_sorted_stable [OF this, of snd] show ?thesis
    by (simp add: score_def Let_def)
qed

end
