(* ===== verification/Store.thy ===== *)
theory Store
  imports Bm25
begin

text \<open>
  The data files and the two caches of \<open>core.py\<close> (lines 350 to 402). The world gives, at every
  moment, the signature of a file (its modification time and size, \<open>None\<close> where there is no
  such file) and what reading and parsing it as CSV yields; it may change between any two
  observations, and every observation takes one tick of the clock. The module state holds the
  caches.

  The contract the scripts rely on is the locale \<open>versioned_files\<close>: two equal signatures
  around a read mean that the read saw the version the signature names. Under it a returned
  snapshot is never torn, and the caches never serve anything but what the files hold.
\<close>

datatype signature = Signature (st_mtime_ns: nat) (st_size: nat)

datatype load_error = OSError | CsvError | UnicodeDecodeError

record world =
  stat_at :: "nat \<Rightarrow> str \<Rightarrow> signature option"
  read_at :: "nat \<Rightarrow> str \<Rightarrow> load_error + table"

type_synonym index_key = "str \<times> str list \<times> nat \<times> str"

record store =
  clock :: nat
  csv_cache :: "str \<rightharpoonup> signature \<times> table"
  bm25_cache :: "index_key \<rightharpoonup> signature \<times> bm25"
  keyword_cache :: "(signature option \<times> str list dict) option"

definition store_new :: store where
  "store_new = \<lparr>clock = 0, csv_cache = Map.empty, bm25_cache = Map.empty, keyword_cache = None\<rparr>"

type_synonym 'a io = "(store, 'a) state"

definition observe :: "(nat \<Rightarrow> 'a) \<Rightarrow> 'a io" where
  "observe f = State (\<lambda>s. (f (clock s), s\<lparr>clock := Suc (clock s)\<rparr>))"

definition modify :: "(store \<Rightarrow> store) \<Rightarrow> unit io" where
  "modify f = State (\<lambda>s. ((), f s))"

lemma run_observe [simp]: "run_state (observe f) s = (f (clock s), s\<lparr>clock := Suc (clock s)\<rparr>)"
  by (simp add: observe_def)

lemma run_modify [simp]: "run_state (modify f) s = ((), f s)"
  by (simp add: modify_def)

text \<open>An exception ends the function that does not catch it.\<close>

definition try_bind :: "('e + 'a) io \<Rightarrow> ('a \<Rightarrow> ('e + 'b) io) \<Rightarrow> ('e + 'b) io" where
  "try_bind m f = do { r \<leftarrow> m; case r of Inl e \<Rightarrow> State_Monad.return (Inl e) | Inr x \<Rightarrow> f x }"

lemma yields_try_bind [yields_rules]:
  "yields I m (Inr x) \<Longrightarrow> yields I (f x) w \<Longrightarrow> yields I (try_bind m f) w"
  unfolding try_bind_def by (rule yields_bind) auto

lemma yields_get: "(\<And>s. I s \<Longrightarrow> yields I (f s) v) \<Longrightarrow> yields I (State_Monad.bind State_Monad.get f) v"
  by (auto simp: yields_def)

lemma yields_modify: "(\<And>s. I s \<Longrightarrow> I (f s)) \<Longrightarrow> yields I (modify f) ()"
  by (simp add: yields_def)

lemma yields_observe: "(\<And>t. f t = v) \<Longrightarrow> (\<And>s t. I s \<Longrightarrow> I (s\<lparr>clock := t\<rparr>)) \<Longrightarrow> yields I (observe f) v"
  by (simp add: yields_def)

definition path_exists :: "world \<Rightarrow> str \<Rightarrow> bool io" where
  "path_exists W path = observe (\<lambda>t. stat_at W t path \<noteq> None)"

definition file_signature :: "world \<Rightarrow> str \<Rightarrow> (load_error + signature) io" where
  "file_signature W path =
     observe (\<lambda>t. case stat_at W t path of None \<Rightarrow> Inl OSError | Some g \<Rightarrow> Inr g)"

fun read_attempts :: "world \<Rightarrow> str \<Rightarrow> nat \<Rightarrow> (load_error + table \<times> signature) io" where
  "read_attempts W path 0 = State_Monad.return (Inl OSError)"
| "read_attempts W path (Suc n) =
     do { before \<leftarrow> file_signature W path;
          case before of Inl e \<Rightarrow> State_Monad.return (Inl e)
          | Inr g \<Rightarrow>
            do { content \<leftarrow> observe (\<lambda>t. read_at W t path);
                 case content of Inl e \<Rightarrow> State_Monad.return (Inl e)
                 | Inr rows \<Rightarrow>
                   do { after \<leftarrow> file_signature W path;
                        case after of Inl e \<Rightarrow> State_Monad.return (Inl e)
                        | Inr g' \<Rightarrow>
                          if g = g'
                          then do { _ \<leftarrow> modify (\<lambda>s. s\<lparr>csv_cache := (csv_cache s)(path \<mapsto> (g', rows))\<rparr>);
                                    State_Monad.return (Inr (rows, g')) }
                          else read_attempts W path n } } }"

definition load_csv_snapshot :: "world \<Rightarrow> str \<Rightarrow> nat \<Rightarrow> (load_error + table \<times> signature) io" where
  "load_csv_snapshot W path attempts =
     do { sg \<leftarrow> file_signature W path;
          case sg of Inl e \<Rightarrow> State_Monad.return (Inl e)
          | Inr g \<Rightarrow>
            do { s \<leftarrow> State_Monad.get;
                 case csv_cache s path of
                   Some (g', rows) \<Rightarrow>
                     if g' = g then State_Monad.return (Inr (rows, g)) else read_attempts W path attempts
                 | None \<Rightarrow> read_attempts W path attempts } }"

text \<open>The default of the parameter \<open>attempts\<close>.\<close>

abbreviation snapshot_attempts :: nat where
  "snapshot_attempts \<equiv> 3"

definition load_csv :: "world \<Rightarrow> str \<Rightarrow> (load_error + table) io" where
  "load_csv W path =
     do { r \<leftarrow> load_csv_snapshot W path snapshot_attempts;
          State_Monad.return (case r of Inl e \<Rightarrow> Inl e | Inr (rows, _) \<Rightarrow> Inr rows) }"

definition documents :: "str list \<Rightarrow> table \<Rightarrow> str list" where
  "documents cols data = map (\<lambda>row. join '' '' (map (field row) cols)) data"

text \<open>
  \<open>_get_bm25\<close> as the searches call it, with the signature of the snapshot they read.
\<close>

definition get_bm25 :: "str \<Rightarrow> str list \<Rightarrow> table \<Rightarrow> signature \<Rightarrow> str \<Rightarrow> bm25 io" where
  "get_bm25 path cols data g variant =
     (let key = (path, cols, INDEX_VERSION, variant);
          index = bm25_fit (documents cols data);
          rebuild = do { _ \<leftarrow> modify (\<lambda>s. s\<lparr>bm25_cache := (bm25_cache s)(key \<mapsto> (g, index))\<rparr>);
                         State_Monad.return index }
      in do { s \<leftarrow> State_Monad.get;
              case bm25_cache s key of
                Some (g', idx) \<Rightarrow> if g' = g then State_Monad.return idx else rebuild
              | None \<Rightarrow> rebuild })"

subsection \<open>The contract of the data files\<close>

locale versioned_files =
  fixes W :: world
    and ver :: "str \<Rightarrow> signature \<Rightarrow> load_error + table"
    and variant_row :: "str \<Rightarrow> row \<Rightarrow> bool"
    and keywords_ok :: "(signature option \<times> str list dict) option \<Rightarrow> bool"
  assumes stable_read:
    "stat_at W t1 p = Some g \<Longrightarrow> t1 < t2 \<Longrightarrow> t2 < t3 \<Longrightarrow> stat_at W t3 p = Some g \<Longrightarrow>
     read_at W t2 p = ver p g"
begin

definition coherent :: "store \<Rightarrow> bool" where
  "coherent s \<longleftrightarrow>
     (\<forall>p g rows. csv_cache s p = Some (g, rows) \<longrightarrow> ver p g = Inr rows) \<and>
     (\<forall>p cols n v g idx. bm25_cache s (p, cols, n, v) = Some (g, idx) \<longrightarrow>
        (\<exists>rows. ver p g = Inr rows \<and> idx = bm25_fit (documents cols (filter (variant_row v) rows)))) \<and>
     keywords_ok (keyword_cache s)"

lemma coherent_new: "keywords_ok None \<Longrightarrow> coherent store_new"
  by (simp add: coherent_def store_new_def)

lemma coherent_tick [simp]: "coherent (s\<lparr>clock := t\<rparr>) = coherent s"
  by (simp add: coherent_def)

lemma coherent_keywords: "coherent s \<Longrightarrow> keywords_ok k \<Longrightarrow> coherent (s\<lparr>keyword_cache := k\<rparr>)"
  by (simp add: coherent_def)

lemma coherent_keyword_cache: "coherent s \<Longrightarrow> keywords_ok (keyword_cache s)"
  by (simp add: coherent_def)

lemma coherent_csv: "coherent s \<Longrightarrow> ver p g = Inr rows \<Longrightarrow> coherent (s\<lparr>csv_cache := (csv_cache s)(p \<mapsto> (g, rows))\<rparr>)"
  by (simp add: coherent_def)

text \<open>
  A returned snapshot is the version its signature names, and the file had that signature at
  some moment of the call.
\<close>

definition snapshot_ok :: "str \<Rightarrow> nat \<Rightarrow> (load_error + table \<times> signature) \<Rightarrow> store \<Rightarrow> bool" where
  "snapshot_ok p t0 r s' \<longleftrightarrow> coherent s' \<and> t0 \<le> clock s' \<and>
     (\<forall>rows g. r = Inr (rows, g) \<longrightarrow>
        ver p g = Inr rows \<and> (\<exists>t. t0 \<le> t \<and> t < clock s' \<and> stat_at W t p = Some g))"

lemma snapshot_ok_earlier: "snapshot_ok p t1 r s' \<Longrightarrow> t0 \<le> t1 \<Longrightarrow> snapshot_ok p t0 r s'"
  unfolding snapshot_ok_def by (blast intro: le_trans)

lemma snapshot_ok_error [simp]: "snapshot_ok p t0 (Inl e) s' \<longleftrightarrow> coherent s' \<and> t0 \<le> clock s'"
  by (simp add: snapshot_ok_def)

lemma snapshot_okI:
  "coherent s' \<Longrightarrow> ver p g = Inr rows \<Longrightarrow> t0 \<le> t \<Longrightarrow> t < clock s' \<Longrightarrow> stat_at W t p = Some g \<Longrightarrow>
   snapshot_ok p t0 (Inr (rows, g)) s'"
  unfolding snapshot_ok_def by force

lemma read_attempts_sound:
  "run_state (read_attempts W p n) s = (r, s') \<Longrightarrow> coherent s \<Longrightarrow> snapshot_ok p (clock s) r s'"
proof (induction n arbitrary: s)
  case 0
  then show ?case by auto
next
  case (Suc n)
  let ?t = "clock s"
  show ?case
  proof (cases "stat_at W ?t p")
    case None
    with Suc.prems show ?thesis by (auto simp: file_signature_def)
  next
    case (Some g)
    show ?thesis
    proof (cases "read_at W (Suc ?t) p")
      case (Inl e)
      with Some Suc.prems show ?thesis by (auto simp: file_signature_def)
    next
      case (Inr rows)
      show ?thesis
      proof (cases "stat_at W (Suc (Suc ?t)) p")
        case None
        with Some Inr Suc.prems show ?thesis by (auto simp: file_signature_def)
      next
        case (Some g')
        note reads = \<open>stat_at W ?t p = Some g\<close> Inr Some
        show ?thesis
        proof (cases "g = g'")
          case True
          have v: "ver p g' = Inr rows"
            using stable_read [of ?t p g "Suc ?t" "Suc (Suc ?t)"] reads True by simp
          from Suc.prems(1) reads True have
            "s' = s\<lparr>clock := Suc (Suc (Suc ?t)), csv_cache := (csv_cache s)(p \<mapsto> (g', rows))\<rparr>"
            and "r = Inr (rows, g')"
            by (simp_all add: file_signature_def)
          moreover have "coherent (s\<lparr>clock := Suc (Suc (Suc ?t)), csv_cache := (csv_cache s)(p \<mapsto> (g', rows))\<rparr>)"
            using coherent_csv [of "s\<lparr>clock := Suc (Suc (Suc ?t))\<rparr>" p g' rows] v Suc.prems(2) by simp
          ultimately show ?thesis
            using v reads True by (auto intro: snapshot_okI [of _ _ _ _ _ ?t])
        next
          case False
          with Suc.prems(1) reads
          have "run_state (read_attempts W p n) (s\<lparr>clock := Suc (Suc (Suc ?t))\<rparr>) = (r, s')"
            by (simp add: file_signature_def)
          from Suc.IH [OF this] Suc.prems(2) show ?thesis
            by (auto intro: snapshot_ok_earlier)
        qed
      qed
    qed
  qed
qed

lemma snapshot_sound:
  assumes "run_state (load_csv_snapshot W p n) s = (r, s')" and "coherent s"
  shows "snapshot_ok p (clock s) r s'"
proof (cases "stat_at W (clock s) p")
  case None
  with assms show ?thesis by (auto simp: load_csv_snapshot_def file_signature_def)
next
  case (Some g)
  let ?s = "s\<lparr>clock := Suc (clock s)\<rparr>"
  show ?thesis
  proof (cases "\<exists>rows. csv_cache s p = Some (g, rows)")
    case True
    then obtain rows where c: "csv_cache s p = Some (g, rows)" by blast
    with assms Some have "r = Inr (rows, g)" and "s' = ?s"
      by (simp_all add: load_csv_snapshot_def file_signature_def)
    moreover have "ver p g = Inr rows" using c assms(2) unfolding coherent_def by blast
    ultimately show ?thesis
      using Some assms(2) by (auto intro: snapshot_okI [of _ _ _ _ _ "clock s"])
  next
    case False
    with assms(1) Some have "run_state (read_attempts W p n) ?s = (r, s')"
      by (auto simp: load_csv_snapshot_def file_signature_def split: option.splits)
    from read_attempts_sound [OF this] assms(2) show ?thesis
      by (auto intro: snapshot_ok_earlier)
  qed
qed

lemma get_bm25_sound:
  assumes "ver p g = Inr rows" and "data = filter (variant_row v) rows" and "coherent s"
  shows "fst (run_state (get_bm25 p cols data g v) s) = bm25_fit (documents cols data) \<and>
    coherent (snd (run_state (get_bm25 p cols data g v) s))"
proof (cases "bm25_cache s (p, cols, INDEX_VERSION, v)")
  case None
  with assms show ?thesis by (auto simp: get_bm25_def Let_def coherent_def)
next
  case (Some e)
  obtain g' idx where e: "e = (g', idx)" by fastforce
  show ?thesis
  proof (cases "g' = g")
    case True
    with Some e assms(3) obtain rows' where "ver p g = Inr rows'"
        "idx = bm25_fit (documents cols (filter (variant_row v) rows'))"
      unfolding coherent_def by blast
    with assms Some e True show ?thesis by (simp add: get_bm25_def Let_def)
  next
    case False
    with Some e assms show ?thesis by (auto simp: get_bm25_def Let_def coherent_def)
  qed
qed

end

subsection \<open>A directory that does not change\<close>

type_synonym data_dir = "str \<Rightarrow> (signature \<times> (load_error + table)) option"

definition static_world :: "data_dir \<Rightarrow> world" where
  "static_world db =
     \<lparr>stat_at = (\<lambda>t p. map_option fst (db p)),
      read_at = (\<lambda>t p. case db p of None \<Rightarrow> Inl OSError | Some (_, r) \<Rightarrow> r)\<rparr>"

definition contents :: "data_dir \<Rightarrow> str \<Rightarrow> load_error + table" where
  "contents db p = (case db p of None \<Rightarrow> Inl OSError | Some (_, r) \<Rightarrow> r)"

definition version_of :: "data_dir \<Rightarrow> str \<Rightarrow> signature \<Rightarrow> load_error + table" where
  "version_of db p g = contents db p"

interpretation static: versioned_files "static_world db" "version_of db" variant_row keywords_ok
  for db variant_row keywords_ok
  by unfold_locales (auto simp: static_world_def version_of_def contents_def split: option.splits)

lemma yields_path_exists [yields_rules]:
  "yields (static.coherent db vr kok) (path_exists (static_world db) p) (db p \<noteq> None)"
  by (simp add: yields_def path_exists_def static_world_def)

lemma yields_file_signature [yields_rules]:
  "yields (static.coherent db vr kok) (file_signature (static_world db) p)
     (case db p of None \<Rightarrow> Inl OSError | Some (g, _) \<Rightarrow> Inr g)"
  by (auto simp: yields_def file_signature_def static_world_def split: option.splits)

lemma yields_snapshot [yields_rules]:
  "yields (static.coherent db vr kok) (load_csv_snapshot (static_world db) p snapshot_attempts)
     (case db p of None \<Rightarrow> Inl OSError
      | Some (g, r) \<Rightarrow> (case r of Inl e \<Rightarrow> Inl e | Inr rows \<Rightarrow> Inr (rows, g)))"
  unfolding yields_def
proof (intro allI impI)
  fix s assume c: "static.coherent db vr kok s"
  let ?m = "load_csv_snapshot (static_world db) p snapshot_attempts"
  let ?v = "case db p of None \<Rightarrow> Inl OSError
      | Some (g, r) \<Rightarrow> (case r of Inl e \<Rightarrow> Inl e | Inr rows \<Rightarrow> Inr (rows, g))"
  have "fst (run_state ?m s) = ?v"
  proof (cases "db p")
    case None
    then show ?thesis by (simp add: load_csv_snapshot_def file_signature_def static_world_def)
  next
    case (Some e)
    obtain g r where e: "e = (g, r)" by fastforce
    have "version_of db p g = r" using Some e by (simp add: version_of_def contents_def)
    then have hit: "\<And>rows. csv_cache s p = Some (g, rows) \<Longrightarrow> r = Inr rows"
      using c by (auto simp: static.coherent_def)
    show ?thesis
      using Some e hit
      by (cases r; cases "csv_cache s p")
         (auto simp: load_csv_snapshot_def file_signature_def static_world_def numeral_3_eq_3)
  qed
  moreover have "static.coherent db vr kok (snd (run_state ?m s))"
    using static.snapshot_sound [OF _ c, of p snapshot_attempts "fst (run_state ?m s)"
        "snd (run_state ?m s)"] by (simp add: static.snapshot_ok_def)
  ultimately show "fst (run_state ?m s) = ?v \<and> static.coherent db vr kok (snd (run_state ?m s))" by simp
qed

lemma yields_load_csv [yields_rules]:
  "yields (static.coherent db vr kok) (load_csv (static_world db) p) (contents db p)"
proof -
  have "contents db p = (case (case db p of None \<Rightarrow> Inl OSError
      | Some (g, r) \<Rightarrow> (case r of Inl e \<Rightarrow> Inl e | Inr rows \<Rightarrow> Inr (rows, g))) of
        Inl e \<Rightarrow> Inl e | Inr (rows, _) \<Rightarrow> Inr rows)"
    by (auto simp: contents_def split: option.splits sum.splits)
  then show ?thesis
    unfolding load_csv_def by (auto intro!: yields_bind yields_snapshot yields_return)
qed

lemma yields_get_bm25:
  "db p = Some (g, Inr rows) \<Longrightarrow> data = filter (vr v) rows \<Longrightarrow>
   yields (static.coherent db vr kok) (get_bm25 p cols data g v) (bm25_fit (documents cols data))"
  using static.get_bm25_sound [of db p g rows data vr v kok _ cols]
  by (auto simp: yields_def version_of_def contents_def)

end
