(* ===== verification/Difflib.thy ===== *)
theory Difflib
  imports PyBase
begin

text \<open>
  \<open>difflib.SequenceMatcher(None, a, b).ratio()\<close>: twice the number of matched characters over
  the total length, where the matched characters are those of the longest common block, of the
  longest common block to its left, to its right, and so on. Of several longest blocks the one
  that starts first in \<open>a\<close>, then first in \<open>b\<close>, is taken. The \<open>autojunk\<close> heuristic of the
  library starts at 200 characters and is not modelled: the scripts compare single words.
\<close>

fun common_prefix :: "str \<Rightarrow> str \<Rightarrow> nat" where
  "common_prefix (x # xs) (y # ys) = (if x = y then Suc (common_prefix xs ys) else 0)"
| "common_prefix _ _ = 0"

definition better :: "nat \<times> nat \<times> nat \<Rightarrow> nat \<times> nat \<times> nat \<Rightarrow> nat \<times> nat \<times> nat" where
  "better best c = (if snd (snd best) < snd (snd c) then c else best)"

definition blocks :: "str \<Rightarrow> str \<Rightarrow> (nat \<times> nat \<times> nat) list" where
  "blocks a b = concat (map (\<lambda>i. map (\<lambda>j. (i, j, common_prefix (drop i a) (drop j b)))
     [0..<length b]) [0..<length a])"

definition find_longest_match :: "str \<Rightarrow> str \<Rightarrow> nat \<times> nat \<times> nat" where
  "find_longest_match a b = foldl better (0, 0, 0) (blocks a b)"

lemma common_prefix_le: "common_prefix a b \<le> length a \<and> common_prefix a b \<le> length b"
  by (induction a b rule: common_prefix.induct) auto

lemma foldl_better_in: "foldl better s cs = s \<or> foldl better s cs \<in> set cs"
  by (induction cs arbitrary: s) (auto simp: better_def)

lemma foldl_better_ge: "snd (snd s) \<le> snd (snd (foldl better s cs))"
proof (induction cs arbitrary: s)
  case (Cons d cs)
  have "snd (snd s) \<le> snd (snd (better s d))" by (simp add: better_def)
  also have "\<dots> \<le> snd (snd (foldl better (better s d) cs))" by (rule Cons.IH)
  finally show ?case by simp
qed simp

lemma foldl_better_max: "c \<in> set cs \<Longrightarrow> snd (snd c) \<le> snd (snd (foldl better s cs))"
proof (induction cs arbitrary: s)
  case (Cons d cs)
  have "snd (snd d) \<le> snd (snd (better s d))" by (simp add: better_def)
  also have "\<dots> \<le> snd (snd (foldl better (better s d) cs))" by (rule foldl_better_ge)
  finally show ?case using Cons.IH [of "better s d"] Cons.prems by auto
qed simp

lemma find_longest_match_bounds:
  assumes "find_longest_match a b = (i, j, k)"
  shows "i + k \<le> length a" and "j + k \<le> length b"
proof -
  have "(i, j, k) = (0, 0, 0) \<or> (i, j, k) \<in> set (blocks a b)"
    using foldl_better_in [of "(0, 0, 0)" "blocks a b"] assms by (simp add: find_longest_match_def)
  then have "i + k \<le> length a \<and> j + k \<le> length b"
  proof
    assume "(i, j, k) \<in> set (blocks a b)"
    then have "i < length a" "j < length b" "k = common_prefix (drop i a) (drop j b)"
      by (auto simp: blocks_def)
    with common_prefix_le [of "drop i a" "drop j b"] show ?thesis by auto
  qed auto
  then show "i + k \<le> length a" and "j + k \<le> length b" by simp_all
qed

text \<open>No common block is longer than the one found.\<close>

lemma find_longest_match_longest:
  assumes "find_longest_match a b = (i, j, k)" and "i' < length a" and "j' < length b"
  shows "common_prefix (drop i' a) (drop j' b) \<le> k"
proof -
  have "(i', j', common_prefix (drop i' a) (drop j' b)) \<in> set (blocks a b)"
    using assms(2,3) by (auto simp: blocks_def image_iff)
  from foldl_better_max [OF this, of "(0, 0, 0)"] assms(1) show ?thesis by (simp add: find_longest_match_def)
qed

function matched :: "str \<Rightarrow> str \<Rightarrow> nat" where
  "matched a b =
     (case find_longest_match a b of (i, j, k) \<Rightarrow>
        if k = 0 then 0
        else k + matched (take i a) (take j b) + matched (drop (i + k) a) (drop (j + k) b))"
  by pat_completeness auto
termination
  by (relation "measure (\<lambda>(a, b). length a)")
    (auto dest!: find_longest_match_bounds(1) [OF sym])

declare matched.simps [simp del]

definition ratio :: "str \<Rightarrow> str \<Rightarrow> real" where
  "ratio a b =
     (if length a + length b = 0 then 1
      else 2 * real (matched a b) / real (length a + length b))"

lemma matched_le: "matched a b \<le> length a \<and> matched a b \<le> length b"
proof (induction a b rule: matched.induct)
  case (1 a b)
  obtain i j k where m: "find_longest_match a b = (i, j, k)" by (metis prod.exhaust)
  note bd = find_longest_match_bounds [OF m]
  show ?case
  proof (cases "k = 0")
    case False
    with 1(1) [OF m [symmetric] refl] 1(2) [OF m [symmetric] refl] bd m show ?thesis
      by (simp add: matched.simps [of a b]) arith
  qed (simp add: matched.simps [of a b] m)
qed

lemma ratio_bounds: "0 \<le> ratio a b \<and> ratio a b \<le> 1"
proof (cases "length a + length b = 0")
  case False
  moreover have "2 * real (matched a b) \<le> real (length a + length b)"
    using matched_le [of a b] by linarith
  ultimately show ?thesis
    unfolding ratio_def by (auto simp only: if_False divide_le_eq_1 intro!: divide_nonneg_nonneg)
qed (simp add: ratio_def)

text \<open>Words without a common character have ratio 0.\<close>

lemma common_prefix_disjoint: "set a \<inter> set b = {} \<Longrightarrow> common_prefix a b = 0"
  by (induction a b rule: common_prefix.induct) auto

lemma ratio_disjoint:
  assumes "set a \<inter> set b = {}" and "a \<noteq> []"
  shows "ratio a b = 0"
proof -
  have "common_prefix (drop i a) (drop j b) = 0" for i j
    using assms(1) by (intro common_prefix_disjoint) (auto dest: in_set_dropD)
  then have "\<forall>c \<in> set (blocks a b). snd (snd c) = 0" by (auto simp: blocks_def)
  with foldl_better_in [of "(0, 0, 0)" "blocks a b"]
  have "snd (snd (find_longest_match a b)) = 0" by (auto simp: find_longest_match_def)
  with assms(2) show ?thesis
    by (auto simp: ratio_def matched.simps [of a b] split: prod.splits)
qed

end
