(* ===== verification/Search.thy ===== *)
theory Search
  imports Store Difflib
begin

text \<open>
  The domain searches of \<open>core.py\<close> (lines 405 to 845). The functions that read files run in the
  state of the caches (\<open>Store\<close>); the others are functions of the rows they are given. At the end
  of the theory \<open>search_spec\<close> states, without caches, what \<open>search\<close> answers, and the refinement
  lemma shows that in a directory that does not change the cached search answers just that.
\<close>

text \<open>The directory of the data files, relative to the skill the script is installed in.\<close>

definition DATA_DIR :: str where
  "DATA_DIR = ''data''"

definition data_path :: "str \<Rightarrow> str" where
  "data_path file = DATA_DIR @ ''/'' @ file"

text \<open>\<open>Path.name\<close>\<close>

definition path_name :: "str \<Rightarrow> str" where
  "path_name p = last (split_on (\<lambda>c. c = CHR ''/'') p)"

subsection \<open>Confidence\<close>

definition query_coverage :: "bm25 \<Rightarrow> str \<Rightarrow> real" where
  "query_coverage index query =
     (let tokens = remdups (tokenize query); vocab = vocabulary index in
      if tokens = [] then 0
      else real (length (filter (\<lambda>token. token \<in> set vocab) tokens)) / real (length tokens))"

definition top_of :: "(nat \<times> real) list \<Rightarrow> real" where
  "top_of ranked = (case ranked of [] \<Rightarrow> 0 | x # _ \<Rightarrow> snd x)"

definition runner_up_of :: "(nat \<times> real) list \<Rightarrow> real" where
  "runner_up_of ranked = (case ranked of _ # y # _ \<Rightarrow> snd y | _ \<Rightarrow> 0)"

definition passes_threshold :: "bm25 \<Rightarrow> str \<Rightarrow> threshold \<Rightarrow> bool" where
  "passes_threshold index query th =
     (let ranked = score index query in
      min_score th < top_of ranked \<and> min_coverage th \<le> query_coverage index query \<and>
      (min_margin th \<le> 0 \<or> min_margin th \<le> top_of ranked - runner_up_of ranked))"

subsection \<open>Phrases and query rewriting\<close>

definition contains_phrase :: "str \<Rightarrow> str \<Rightarrow> bool" where
  "contains_phrase text phrase =
     (if \<exists>c \<in> set phrase. is_word c then rx_found (phrase_rx phrase) text else contains phrase text)"

text \<open>The pattern for a parenthesised remark.\<close>

definition paren_rx :: rx where
  "paren_rx = Seq (lit ''('') (Seq (Star (Cls (\<lambda>c. c \<noteq> CHR '')''))) (lit '')''))"

definition product_label :: "row \<Rightarrow> str" where
  "product_label r = lower (strip (rx_sub paren_rx [] (field r ''Product Type'')))"

text \<open>
  The source sorts a \<open>set\<close> by length, so keywords of one length come in no fixed order; here they
  come sorted. Nothing below depends on it (\<open>keyword_total_perm\<close>).
\<close>

definition product_keywords_of :: "table \<Rightarrow> str list" where
  "product_keywords_of rows =
     sort_desc (\<lambda>w. int (py_len w))
       (sorted_set (product_seed @ filter (\<lambda>label. 4 \<le> py_len label) (map product_label rows)))"

definition product_path :: str where
  "product_path = data_path ''products.csv''"

definition load_product_keywords :: "world \<Rightarrow> str list io" where
  "load_product_keywords W =
     do { there \<leftarrow> path_exists W product_path;
          if \<not> there then State_Monad.return product_seed
          else do { r \<leftarrow> load_csv W product_path;
                    State_Monad.return
                      (case r of Inl e \<Rightarrow> product_seed | Inr rows \<Rightarrow> product_keywords_of rows) } }"

definition domain_keywords :: "world \<Rightarrow> (load_error + str list dict) io" where
  "domain_keywords W =
     do { there \<leftarrow> path_exists W product_path;
          try_bind (if there
                    then do { g \<leftarrow> file_signature W product_path; State_Monad.return (map_sum id Some g) }
                    else State_Monad.return (Inr None))
            (\<lambda>sg. do { s \<leftarrow> State_Monad.get;
                       case keyword_cache s of
                         Some (sg', kws) \<Rightarrow>
                           if sg' = sg then State_Monad.return (Inr kws)
                           else do { ps \<leftarrow> load_product_keywords W;
                                     let kws = domain_keyword_table ps;
                                     _ \<leftarrow> modify (\<lambda>s. s\<lparr>keyword_cache := Some (sg, kws)\<rparr>);
                                     State_Monad.return (Inr kws) }
                       | None \<Rightarrow>
                           do { ps \<leftarrow> load_product_keywords W;
                                let kws = domain_keyword_table ps;
                                _ \<leftarrow> modify (\<lambda>s. s\<lparr>keyword_cache := Some (sg, kws)\<rparr>);
                                State_Monad.return (Inr kws) } }) }"

text \<open>The replacement of a routing keyword that the index does not know.\<close>

definition keyword_rewrite :: "str \<Rightarrow> bm25 \<Rightarrow> str \<Rightarrow> str \<Rightarrow> str option" where
  "keyword_rewrite domain index normalized keyword =
     (if \<not> contains_phrase normalized keyword then None
      else if \<exists>t \<in> set (tokenize keyword). t \<in> set (vocabulary index) then None
      else (case get (get_or DOMAIN_QUERY_REWRITES domain []) keyword of
              Some (Some replacement) \<Rightarrow> Some replacement
            | _ \<Rightarrow> None))"

definition rewrite_with :: "str list dict \<Rightarrow> str \<Rightarrow> str \<Rightarrow> bm25 \<Rightarrow> str \<times> str list" where
  "rewrite_with kws query domain index =
     (let normalized = normalize (lower query);
          found = concat (map (\<lambda>keyword.
                    case keyword_rewrite domain index normalized keyword of
                      None \<Rightarrow> [] | Some replacement \<Rightarrow> [(keyword, replacement)])
                  (get_or kws domain []))
      in if found = [] then (query, [])
         else (query @ '' '' @ join '' '' (sorted_set (map snd found)),
               sorted_set (map (\<lambda>(keyword, replacement). keyword @ ''->'' @ replacement) found)))"

definition rewrite_query_for_domain ::
  "world \<Rightarrow> str \<Rightarrow> str option \<Rightarrow> bm25 \<Rightarrow> (load_error + str \<times> str list) io" where
  "rewrite_query_for_domain W query domain index =
     (case domain of
        None \<Rightarrow> State_Monad.return (Inr (query, []))
      | Some d \<Rightarrow>
          if d = [] then State_Monad.return (Inr (query, []))
          else try_bind (domain_keywords W) (\<lambda>kws.
            if \<not> has_key kws d then State_Monad.return (Inr (query, []))
            else try_bind (domain_keywords W) (\<lambda>kws.
              State_Monad.return (Inr (rewrite_with kws query d index)))))"

subsection \<open>The calibrated search\<close>

record diagnostic =
  normalized_query :: "str option"
  search_query :: "str option"
  query_rewrites :: "str list option"
  top_score :: "real option"
  runner_up_score :: "real option"
  margin :: "real option"
  token_coverage :: "real option"
  abstained :: "bool option"
  calibration_version :: "str option"
  reason :: str
  d_error :: "str option"

text \<open>A diagnostic that gives nothing but its reason.\<close>

definition just_reason :: "str \<Rightarrow> diagnostic" where
  "just_reason r =
     \<lparr>normalized_query = None, search_query = None, query_rewrites = None, top_score = None,
      runner_up_score = None, margin = None, token_coverage = None, abstained = None,
      calibration_version = None, reason = r, d_error = None\<rparr>"

definition project_row :: "row \<Rightarrow> str list \<Rightarrow> row" where
  "project_row r cols = map (\<lambda>col. (col, field r col)) (filter (has_key r) cols)"

definition abstains :: "threshold \<Rightarrow> real \<Rightarrow> real \<Rightarrow> real \<Rightarrow> bool" where
  "abstains th best runner_up coverage \<longleftrightarrow>
     best \<le> min_score th \<or> coverage < min_coverage th \<or>
     (0 < min_margin th \<and> best - runner_up < min_margin th)"

text \<open>What \<open>_search_csv_detailed\<close> makes of an index, the rows it was built from and a query.\<close>

definition ranked_answer ::
  "bm25 \<Rightarrow> table \<Rightarrow> str list \<Rightarrow> str \<Rightarrow> str \<times> str list \<Rightarrow> nat \<Rightarrow> threshold \<Rightarrow> table \<times> diagnostic" where
  "ranked_answer index data cols query rewritten n th =
     (let (squery, rewrites) = rewritten;
          ranked = score index squery;
          best = top_of ranked;
          runner_up = runner_up_of ranked;
          coverage = query_coverage index squery;
          abstain = abstains th best runner_up coverage
      in (if abstain then [] else map (\<lambda>r. project_row r cols) (pick n data ranked),
          \<lparr>normalized_query = Some (normalize query), search_query = Some squery,
           query_rewrites = Some rewrites, top_score = Some best, runner_up_score = Some runner_up,
           margin = Some (best - runner_up), token_coverage = Some coverage,
           abstained = Some abstain, calibration_version = Some SEARCH_CALIBRATION_VERSION,
           reason = (if abstain then ''low-confidence'' else ''matched''), d_error = None\<rparr>))"

text \<open>The rows a filter lets through, where there is a filter.\<close>

definition kept_rows :: "(row \<Rightarrow> bool) option \<Rightarrow> table \<Rightarrow> table" where
  "kept_rows row_filter rows = (case row_filter of None \<Rightarrow> rows | Some f \<Rightarrow> filter f rows)"

type_synonym answer = "table \<times> bm25 option \<times> diagnostic"

definition search_csv_detailed ::
  "world \<Rightarrow> str \<Rightarrow> str list \<Rightarrow> str list \<Rightarrow> str \<Rightarrow> nat \<Rightarrow> threshold option \<Rightarrow> str option \<Rightarrow>
   (row \<Rightarrow> bool) option \<Rightarrow> str \<Rightarrow> (load_error + answer) io" where
  "search_csv_detailed W path cols out_cols query n th routing row_filter variant =
     do { there \<leftarrow> path_exists W path;
          if \<not> there then State_Monad.return (Inr ([], None, just_reason ''missing-file''))
          else do { r \<leftarrow> load_csv_snapshot W path snapshot_attempts;
            case r of
              Inl _ \<Rightarrow> State_Monad.return (Inr ([], None,
                (just_reason ''read-error'')
                  \<lparr>d_error := Some (''Unable to read search data: '' @ path_name path)\<rparr>))
            | Inr (rows, g) \<Rightarrow>
                if rows = [] then State_Monad.return (Inr ([], None, just_reason ''empty-data''))
                else (let data = kept_rows row_filter rows in
                  if data = [] then State_Monad.return (Inr ([], None, just_reason ''empty-data''))
                  else do { index \<leftarrow> get_bm25 path cols data g variant;
                    try_bind (rewrite_query_for_domain W query routing index) (\<lambda>rewritten.
                      let (results, diag) =
                        ranked_answer index data out_cols query rewritten n
                          (case th of None \<Rightarrow> NO_THRESHOLD | Some t \<Rightarrow> t)
                      in State_Monad.return (Inr (results, Some index, diag))) }) } }"

text \<open>The two-value form kept for older callers.\<close>

definition search_csv ::
  "world \<Rightarrow> str \<Rightarrow> str list \<Rightarrow> str list \<Rightarrow> str \<Rightarrow> nat \<Rightarrow> (load_error + table \<times> bm25 option) io" where
  "search_csv W path cols out_cols query n =
     try_bind (search_csv_detailed W path cols out_cols query n None None None [])
       (\<lambda>(results, index, _). State_Monad.return (Inr (results, index)))"

subsection \<open>Suggestions\<close>

definition max_of :: "real list \<Rightarrow> real" where
  "max_of xs = (case xs of [] \<Rightarrow> 0 | x # xs \<Rightarrow> foldl max x xs)"

text \<open>The literal \<open>0.72\<close>, the similarity at which a term is suggested.\<close>

definition similar_enough :: "real \<Rightarrow> bool" where
  "similar_enough x \<longleftrightarrow> 72 / 100 \<le> x"

definition suggest_terms :: "bm25 option \<Rightarrow> str \<Rightarrow> nat \<Rightarrow> threshold option \<Rightarrow> str list" where
  "suggest_terms index query limit th =
     (case index of
        None \<Rightarrow> []
      | Some idx \<Rightarrow>
          (let query_tokens = remdups (tokenize query);
               similarity = (\<lambda>term. max_of (map (\<lambda>token. ratio token term) query_tokens));
               wanted = (\<lambda>term. term \<notin> set query_tokens \<and> similar_enough (similarity term) \<and>
                                (case th of None \<Rightarrow> True | Some t \<Rightarrow> passes_threshold idx term t))
           in if query_tokens = [] then []
              else map (\<lambda>(_, _, term). term) (take limit (sort
                (map (\<lambda>term. (- similarity term, - int (get_or (doc_freqs idx) term 0), term))
                  (filter wanted (vocabulary idx)))))))"

definition row_identities :: "row \<Rightarrow> str list \<Rightarrow> str list" where
  "row_identities r flds =
     concat (map (\<lambda>f.
       let values = (if f = ''Aliases'' then split_on (\<lambda>c. c = CHR ''|'') (field r f) else [field r f])
       in filter (\<lambda>v. v \<noteq> []) (map strip values)) flds)"

definition suggest_identities :: "table \<Rightarrow> str \<Rightarrow> str list \<Rightarrow> nat \<Rightarrow> str list" where
  "suggest_identities rows query flds limit =
     (let query_tokens = remdups (tokenize query);
          similarity = (\<lambda>tokens. max_of (concat (map (\<lambda>s. map (ratio s) tokens) query_tokens)));
          candidates =
            concat (map (\<lambda>r. concat (map (\<lambda>identity.
              let tokens = remdups (tokenize identity) in
              if tokens \<noteq> [] \<and> similar_enough (similarity tokens) \<and>
                 lower identity \<noteq> lower (strip query)
              then [(- similarity tokens, length tokens, identity)] else [])
              (row_identities r flds))) rows)
      in if query_tokens = [] then []
         else map (\<lambda>(_, _, identity). identity) (take limit (sorted_set candidates)))"

subsection \<open>Routing a query to a domain\<close>

definition domain_rank :: "str \<Rightarrow> int" where
  "domain_rank d =
     (if d \<in> set DOMAIN_TIEBREAK_ORDER
      then int (length (takeWhile (\<lambda>x. x \<noteq> d) DOMAIN_TIEBREAK_ORDER)) else 999)"

definition keyword_weight :: "str \<Rightarrow> str \<Rightarrow> real" where
  "keyword_weight domain kw =
     (let specificity = real (max 1 (length (split_ws kw)))
      in if domain \<noteq> ''product'' then 2 * specificity else specificity)"

definition keyword_total :: "str \<Rightarrow> str \<Rightarrow> str list \<Rightarrow> real" where
  "keyword_total query_lower domain kws =
     foldl (\<lambda>total kw. if contains_phrase query_lower kw then total + keyword_weight domain kw else total)
       0 kws"

definition hex_color_rx :: rx where
  "hex_color_rx =
     Seq (NotBehind is_word) (Seq (lit ''#'')
       (Seq (rep 3 8 (Cls (\<lambda>c. is_digit c \<or> lower_char c \<in> set ''abcdef''))) (NotAhead is_word)))"

definition domain_scores :: "str list dict \<Rightarrow> str \<Rightarrow> real dict" where
  "domain_scores kws query_lower =
     (let scores = map (\<lambda>(domain, ks). (domain, keyword_total query_lower domain ks)) kws
      in if rx_found hex_color_rx query_lower
         then put ''color'' (get_or scores ''color'' 0 + 2) scores else scores)"

definition rank_domains :: "real dict \<Rightarrow> real dict" where
  "rank_domains scores = sort_key (\<lambda>(d, s). (- s, domain_rank d)) scores"

definition detect_with :: "str list dict \<Rightarrow> str \<Rightarrow> str \<times> str option" where
  "detect_with kws query =
     (case rank_domains (domain_scores kws (normalize (lower query))) of
        [] \<Rightarrow> (''style'', None)
      | (best, s) # rest \<Rightarrow>
          (if 0 < s then best else ''style'',
           case rest of [] \<Rightarrow> None | (d, t) # _ \<Rightarrow> if 0 < t then Some d else None))"

definition detect_domain :: "world \<Rightarrow> str \<Rightarrow> (load_error + str \<times> str option) io" where
  "detect_domain W query =
     try_bind (domain_keywords W) (\<lambda>kws. State_Monad.return (Inr (detect_with kws query)))"

subsection \<open>Identities\<close>

definition generic_tokens :: "str list" where
  "generic_tokens = [''app'', ''design'', ''interface'', ''style'', ''system'', ''ui'']"

text \<open>The set of \<open>re.findall(w+, _normalize(text))\<close>\<close>

definition word_tokens :: "str \<Rightarrow> str list" where
  "word_tokens text = remdups (runs is_word (normalize text))"

definition identity_candidate :: "str list \<Rightarrow> row \<Rightarrow> str \<Rightarrow> ((nat \<times> nat \<times> nat) \<times> row) list" where
  "identity_candidate query_tokens r identity =
     (let tokens = word_tokens (lower identity) in
      if tokens \<noteq> [] \<and> (\<forall>t \<in> set tokens. t \<in> set query_tokens) \<and> (\<exists>t \<in> set tokens. 4 \<le> py_len t)
      then [((length (filter (\<lambda>t. t \<notin> set generic_tokens) tokens), length tokens, py_len identity), r)]
      else [])"

definition has_identity :: "str list \<Rightarrow> str \<Rightarrow> row \<Rightarrow> bool" where
  "has_identity flds folded r \<longleftrightarrow> folded \<in> set (map lower (row_identities r flds))"

text \<open>The rows of the candidates as good as the first, by their id; unique, or nothing.\<close>

definition rows_scored :: "nat \<times> nat \<times> nat \<Rightarrow> ((nat \<times> nat \<times> nat) \<times> row) list \<Rightarrow> row dict" where
  "rows_scored best cs = foldl (\<lambda>m (c, r). if c = best then put (field r ''Style ID'') r m else m) [] cs"

definition unique_best :: "((nat \<times> nat \<times> nat) \<times> row) list \<Rightarrow> row option" where
  "unique_best ranked =
     (case ranked of
        [] \<Rightarrow> None
      | (best, _) # _ \<Rightarrow> (case rows_scored best ranked of [(_, r)] \<Rightarrow> Some r | _ \<Rightarrow> None))"

definition style_identity :: "table \<Rightarrow> str \<Rightarrow> bool \<Rightarrow> row option" where
  "style_identity rows query allow_contained =
     (let folded = lower (strip query); query_tokens = word_tokens folded in
      case find (has_identity STYLE_IDENTITY_FIELDS folded) rows of
        Some r \<Rightarrow> Some r
      | None \<Rightarrow>
          if \<not> allow_contained then None
          else (let candidates = concat (map (\<lambda>r.
                      concat (map (identity_candidate query_tokens r)
                        (row_identities r STYLE_IDENTITY_FIELDS))) rows)
                in unique_best (sort_key (\<lambda>((d, n, _), _). (- int d, - int n)) candidates)))"

definition exact_row_identity :: "table \<Rightarrow> str \<Rightarrow> str list \<Rightarrow> row option" where
  "exact_row_identity rows query flds =
     (case filter (has_identity flds (lower (strip query))) rows of [r] \<Rightarrow> Some r | _ \<Rightarrow> None)"

definition load_rows_or_empty :: "world \<Rightarrow> str \<Rightarrow> table io" where
  "load_rows_or_empty W path =
     do { r \<leftarrow> load_csv W path;
          State_Monad.return (case r of Inl e \<Rightarrow> [] | Inr rows \<Rightarrow> rows) }"

text \<open>The argument \<open>max_results\<close> is any Python value; a \<open>bool\<close> is an \<open>int\<close> there, and is refused.\<close>

datatype pyval = PyBool bool | PyInt int | PyOther

fun valid_max_results :: "pyval \<Rightarrow> bool" where
  "valid_max_results (PyInt i) = (1 \<le> i \<and> i \<le> 20)"
| "valid_max_results (PyBool _) = False"
| "valid_max_results PyOther = False"

fun int_of :: "pyval \<Rightarrow> int" where
  "int_of (PyInt i) = i"
| "int_of (PyBool v) = (if v then 1 else 0)"
| "int_of PyOther = 0"

definition exact_match_diagnostic :: "str \<Rightarrow> str \<Rightarrow> diagnostic" where
  "exact_match_diagnostic query why =
     \<lparr>normalized_query = Some (normalize query), search_query = Some query, query_rewrites = Some [],
      top_score = Some 0, runner_up_score = Some 0, margin = Some 0, token_coverage = Some 1,
      abstained = Some False, calibration_version = Some SEARCH_CALIBRATION_VERSION,
      reason = why, d_error = None\<rparr>"

record redirection =
  to_domain :: str
  to_id :: str

definition style_search_destination ::
  "table \<Rightarrow> row option \<Rightarrow> row option \<times> redirection option" where
  "style_search_destination rows hit =
     (case hit of
        None \<Rightarrow> (None, None)
      | Some m \<Rightarrow>
          if get_or m ''Status'' ''active'' \<noteq> ''deprecated'' then (Some m, None)
          else (let parent_id = strip (field m ''Parent Style ID'');
                    domain = strip (field m ''Replacement Domain'');
                    replacement_id = strip (field m ''Replacement ID'');
                    by_id = (\<lambda>i. find (\<lambda>r. get r ''Style ID'' = Some i) rows)
                in if parent_id \<noteq> [] then (by_id parent_id, None)
                   else if domain = ''style'' \<and> replacement_id \<noteq> [] then (by_id replacement_id, None)
                   else if domain \<noteq> [] \<and> replacement_id \<noteq> []
                   then (None, Some \<lparr>to_domain = domain, to_id = replacement_id\<rparr>)
                   else (None, None)))"

subsection \<open>The search\<close>

record search_output =
  out_domain :: str
  out_stack :: "str option"
  out_query :: str
  out_file :: str
  out_count :: nat
  results :: table
  auto_detected :: bool
  runner_up_domain :: "str option"
  redirect :: "redirection option"
  out_error :: "str option"
  suggestions :: "str list option"
  diagnostics :: "diagnostic option"

text \<open>A dictionary with only an \<open>error\<close> (and the domain or stack asked for), or a full answer.\<close>

datatype outcome = Refused str "str option" | Answer search_output

definition redirect_diagnostic :: "str \<Rightarrow> diagnostic" where
  "redirect_diagnostic query =
     (just_reason ''cross-domain-redirect'')
       \<lparr>normalized_query := Some (normalize query), search_query := Some query,
        query_rewrites := Some [], abstained := Some True,
        calibration_version := Some SEARCH_CALIBRATION_VERSION\<rparr>"

definition active_row :: "row \<Rightarrow> bool" where
  "active_row r \<longleftrightarrow> get_or r ''Status'' ''active'' = ''active''"

definition domain_config_of :: "str \<Rightarrow> domain_config" where
  "domain_config_of d = the (get CSV_CONFIG d)"

definition threshold_of :: "str \<Rightarrow> threshold" where
  "threshold_of d = the (get SEARCH_THRESHOLDS d)"

definition searched_domain :: "str \<Rightarrow> str" where
  "searched_domain d = (if has_key CSV_CONFIG d then d else ''style'')"

text \<open>
  What the routing decides: the domain, the runner-up, the exactly matching row, the redirection
  and the rows of the styles when they have been read.
\<close>

definition route_by_style :: "table \<Rightarrow> str \<Rightarrow> (row option \<times> redirection option) option" where
  "route_by_style style_rows query =
     (case style_identity style_rows query False of
        None \<Rightarrow> None
      | Some m \<Rightarrow> Some (style_search_destination style_rows (Some m)))"

definition icons_unsupported :: "str \<Rightarrow> str \<Rightarrow> bool" where
  "icons_unsupported sd query \<longleftrightarrow> sd = ''icons'' \<and> contains_phrase (normalize (lower query)) ''lucide''"

text \<open>The end of \<open>search\<close>, from the rows found to the dictionary returned.\<close>

definition assemble ::
  "str \<Rightarrow> str \<Rightarrow> bool \<Rightarrow> str option \<Rightarrow> redirection option \<Rightarrow> table \<Rightarrow> answer \<Rightarrow> bool \<Rightarrow> search_output" where
  "assemble d query auto runner red landing_rows ans diags =
     (let sd = searched_domain d;
          (found, index, diag0) = ans;
          lucide = icons_unsupported sd query;
          rs = (if lucide then [] else found);
          diag = (if lucide then diag0\<lparr>abstained := Some True, reason := ''unsupported-library''\<rparr> else diag0)
      in \<lparr>out_domain = d, out_stack = None, out_query = query, out_file = cfg_file (domain_config_of sd),
          out_count = length rs, results = rs, auto_detected = auto,
          runner_up_domain = (if auto then runner else None), redirect = red,
          out_error = d_error diag,
          suggestions =
            (if rs \<noteq> [] then None
             else Some (if sd = ''landing''
                        then suggest_identities landing_rows query LANDING_IDENTITY_FIELDS 6
                        else suggest_terms index query 6 (Some (threshold_of sd)))),
          diagnostics = (if diags then Some diag else None)\<rparr>)"

definition search_in ::
  "world \<Rightarrow> str \<Rightarrow> str option \<Rightarrow> bool \<Rightarrow> table option \<Rightarrow> row option \<Rightarrow> redirection option \<Rightarrow>
   str \<Rightarrow> nat \<Rightarrow> bool \<Rightarrow> (load_error + outcome) io" where
  "search_in W d runner auto style_rows exact red query n diags =
     (let sd = searched_domain d;
          config = domain_config_of sd;
          path = data_path (cfg_file config)
      in do { there \<leftarrow> path_exists W path;
              if \<not> there then State_Monad.return (Inr (Refused (''File not found: '' @ path) (Some d)))
              else do {
                (exact', red', landing_rows) \<leftarrow>
                  (if sd = ''style'' \<and> exact = None \<and> red = None
                   then do { rows \<leftarrow> (case style_rows of
                                         None \<Rightarrow> load_rows_or_empty W path
                                       | Some rows \<Rightarrow> State_Monad.return rows);
                             let (e, r) = style_search_destination rows (style_identity rows query True);
                             State_Monad.return (e, r, []) }
                   else if sd = ''landing''
                   then do { rows \<leftarrow> load_rows_or_empty W path;
                             State_Monad.return
                               (exact_row_identity rows query LANDING_IDENTITY_FIELDS, red, rows) }
                   else State_Monad.return (exact, red, []));
                try_bind
                  (case exact' of
                     Some r \<Rightarrow> State_Monad.return (Inr ([project_row r (output_cols config)], None,
                                  exact_match_diagnostic query ''exact-identity''))
                   | None \<Rightarrow>
                       if red' \<noteq> None then State_Monad.return (Inr ([], None, redirect_diagnostic query))
                       else search_csv_detailed W path (search_cols config) (output_cols config) query n
                              (Some (threshold_of sd)) (Some sd)
                              (if sd = ''style'' then Some active_row else None)
                              (if sd = ''style'' then ''active-only'' else []))
                  (\<lambda>ans. State_Monad.return
                     (Inr (Answer (assemble d query auto runner red' landing_rows ans diags)))) } })"

definition search ::
  "world \<Rightarrow> str \<Rightarrow> str option \<Rightarrow> pyval \<Rightarrow> bool \<Rightarrow> (load_error + outcome) io" where
  "search W query domain max_results diags =
     (if \<not> valid_max_results max_results
      then State_Monad.return (Inr (Refused ''max_results must be an integer from 1 to 20'' domain))
      else (let n = nat (int_of max_results) in
        case domain of
          Some d \<Rightarrow> search_in W d None False None None None query n diags
        | None \<Rightarrow>
            do { rows \<leftarrow> load_rows_or_empty W (data_path (cfg_file (domain_config_of ''style'')));
                 case route_by_style rows query of
                   Some (exact, red) \<Rightarrow>
                     search_in W ''style'' None True (Some rows) exact red query n diags
                 | None \<Rightarrow>
                     try_bind (detect_domain W query) (\<lambda>(d, runner).
                       search_in W d runner True (Some rows) None None query n diags) }))"

subsection \<open>What the searches answer, without caches\<close>

definition rows_or_empty :: "data_dir \<Rightarrow> str \<Rightarrow> table" where
  "rows_or_empty db path = (case contents db path of Inl e \<Rightarrow> [] | Inr rows \<Rightarrow> rows)"

definition keywords_in :: "data_dir \<Rightarrow> str list dict" where
  "keywords_in db = domain_keyword_table
     (case contents db product_path of Inl e \<Rightarrow> product_seed | Inr rows \<Rightarrow> product_keywords_of rows)"

definition rewritten_in :: "data_dir \<Rightarrow> str \<Rightarrow> str option \<Rightarrow> bm25 \<Rightarrow> str \<times> str list" where
  "rewritten_in db query routing index =
     (case routing of
        None \<Rightarrow> (query, [])
      | Some d \<Rightarrow>
          if d = [] \<or> \<not> has_key (keywords_in db) d then (query, [])
          else rewrite_with (keywords_in db) query d index)"

definition csv_answer ::
  "data_dir \<Rightarrow> str \<Rightarrow> str list \<Rightarrow> str list \<Rightarrow> str \<Rightarrow> nat \<Rightarrow> threshold option \<Rightarrow> str option \<Rightarrow>
   (row \<Rightarrow> bool) option \<Rightarrow> answer" where
  "csv_answer db path cols out_cols query n th routing row_filter =
     (if db path = None then ([], None, just_reason ''missing-file'')
      else (case contents db path of
              Inl _ \<Rightarrow> ([], None, (just_reason ''read-error'')
                \<lparr>d_error := Some (''Unable to read search data: '' @ path_name path)\<rparr>)
            | Inr rows \<Rightarrow>
                (let data = kept_rows row_filter rows in
                 if data = [] then ([], None, just_reason ''empty-data'')
                 else (let index = bm25_fit (documents cols data);
                           (found, diag) = ranked_answer index data out_cols query
                             (rewritten_in db query routing index) n
                             (case th of None \<Rightarrow> NO_THRESHOLD | Some t \<Rightarrow> t)
                       in (found, Some index, diag)))))"

definition resolved ::
  "data_dir \<Rightarrow> str \<Rightarrow> row option \<Rightarrow> redirection option \<Rightarrow> str \<Rightarrow> row option \<times> redirection option \<times> table" where
  "resolved db d exact red query =
     (let path = data_path (cfg_file (domain_config_of (searched_domain d))); rows = rows_or_empty db path in
      if searched_domain d = ''style'' \<and> exact = None \<and> red = None
      then (case style_search_destination rows (style_identity rows query True) of (e, r) \<Rightarrow> (e, r, []))
      else if searched_domain d = ''landing''
      then (exact_row_identity rows query LANDING_IDENTITY_FIELDS, red, rows)
      else (exact, red, []))"

definition domain_answer ::
  "data_dir \<Rightarrow> str \<Rightarrow> row option \<Rightarrow> redirection option \<Rightarrow> str \<Rightarrow> nat \<Rightarrow> answer" where
  "domain_answer db d exact red query n =
     (let sd = searched_domain d; config = domain_config_of sd in
      case exact of
        Some r \<Rightarrow> ([project_row r (output_cols config)], None, exact_match_diagnostic query ''exact-identity'')
      | None \<Rightarrow>
          if red \<noteq> None then ([], None, redirect_diagnostic query)
          else csv_answer db (data_path (cfg_file config)) (search_cols config) (output_cols config) query n
                 (Some (threshold_of sd)) (Some sd) (if sd = ''style'' then Some active_row else None))"

definition search_in_spec ::
  "data_dir \<Rightarrow> str \<Rightarrow> str option \<Rightarrow> bool \<Rightarrow> row option \<Rightarrow> redirection option \<Rightarrow> str \<Rightarrow> nat \<Rightarrow> bool \<Rightarrow> outcome" where
  "search_in_spec db d runner auto exact red query n diags =
     (let path = data_path (cfg_file (domain_config_of (searched_domain d))) in
      if db path = None then Refused (''File not found: '' @ path) (Some d)
      else (case resolved db d exact red query of
              (exact', red', landing_rows) \<Rightarrow>
                Answer (assemble d query auto runner red' landing_rows
                  (domain_answer db d exact' red' query n) diags)))"

definition search_spec :: "data_dir \<Rightarrow> str \<Rightarrow> str option \<Rightarrow> pyval \<Rightarrow> bool \<Rightarrow> outcome" where
  "search_spec db query domain max_results diags =
     (if \<not> valid_max_results max_results
      then Refused ''max_results must be an integer from 1 to 20'' domain
      else (let n = nat (int_of max_results) in
        case domain of
          Some d \<Rightarrow> search_in_spec db d None False None None query n diags
        | None \<Rightarrow>
            (case route_by_style (rows_or_empty db (data_path (cfg_file (domain_config_of ''style'')))) query of
               Some (exact, red) \<Rightarrow> search_in_spec db ''style'' None True exact red query n diags
             | None \<Rightarrow>
                 (case detect_with (keywords_in db) query of
                    (d, runner) \<Rightarrow> search_in_spec db d runner True None None query n diags))))"

text \<open>
  The row filters of the searches, by the name under which the filtered index is cached. A
  stack search may narrow its filter to the rows of one component base.
\<close>

definition base_rx :: rx where
  "base_rx = Seq WordB (Seq (lit ''base='') (Grp 1 (plus1 (Cls (\<lambda>c. c \<noteq> CHR '';'')))))"

definition matches_base :: "str \<Rightarrow> row \<Rightarrow> bool" where
  "matches_base requested r =
     (let bases = (case rx_search base_rx (lower (field r ''Applies To'')) of
                     None \<Rightarrow> [] | Some m \<Rightarrow> split_on (\<lambda>c. c = CHR ''|'') (get_or (m_groups m) 1 []))
      in requested \<in> set bases)"

definition status_row :: "str \<Rightarrow> row \<Rightarrow> bool" where
  "status_row variant r =
     (if variant = ''active-only'' then active_row r
      else if variant = ''legacy-only'' then get r ''Status'' = Some ''deprecated''
      else if variant = ''legacy-unavailable'' then False
      else if variant = ''current-only'' then get r ''Status'' = Some ''active''
      else if variant = ''non-legacy'' then get_or r ''Status'' ''unverified'' \<noteq> ''deprecated''
      else True)"

definition variant_row :: "str \<Rightarrow> row \<Rightarrow> bool" where
  "variant_row variant r =
     (case split_once CHR '';'' variant of
        (v, None) \<Rightarrow> status_row v r
      | (v, Some base) \<Rightarrow> status_row v r \<and> matches_base (drop 5 base) r)"

definition keywords_ok :: "data_dir \<Rightarrow> (signature option \<times> str list dict) option \<Rightarrow> bool" where
  "keywords_ok db c \<longleftrightarrow> (\<forall>kws. c = Some (map_option fst (db product_path), kws) \<longrightarrow> kws = keywords_in db)"

abbreviation caches_ok :: "data_dir \<Rightarrow> store \<Rightarrow> bool" where
  "caches_ok db \<equiv> static.coherent db variant_row (keywords_ok db)"

lemma caches_ok_new: "caches_ok db store_new"
  by (rule static.coherent_new) (simp add: keywords_ok_def)

lemma yields_load_rows [yields_rules]:
  "yields (caches_ok db) (load_rows_or_empty (static_world db) p) (rows_or_empty db p)"
  unfolding load_rows_or_empty_def rows_or_empty_def by (auto intro!: yields_bind yields_load_csv yields_return)

lemma yields_product_keywords [yields_rules]:
  "yields (caches_ok db) (load_product_keywords (static_world db))
     (case contents db product_path of Inl e \<Rightarrow> product_seed | Inr rows \<Rightarrow> product_keywords_of rows)"
  unfolding load_product_keywords_def
  by (rule yields_bind [OF yields_path_exists])
    (auto simp: contents_def intro!: yields_return yields_bind [OF yields_load_csv] split: option.splits)

lemma yields_signature_if_there:
  "yields (caches_ok db)
     (if db p \<noteq> None
      then do { g \<leftarrow> file_signature (static_world db) p; State_Monad.return (map_sum id Some g) }
      else State_Monad.return (Inr None))
     (Inr (map_option fst (db p)))"
  by (cases "db p") (auto intro!: yields_return yields_bind [OF yields_file_signature])

lemma kept_rows_Nil [simp]: "kept_rows f [] = []"
  by (simp add: kept_rows_def split: option.split)

lemma yields_domain_keywords [yields_rules]:
  "yields (caches_ok db) (domain_keywords (static_world db)) (Inr (keywords_in db))"
proof -
  let ?sg = "map_option fst (db product_path)"
  let ?rebuild = "do { ps \<leftarrow> load_product_keywords (static_world db);
                       let kws = domain_keyword_table ps;
                       _ \<leftarrow> modify (\<lambda>s. s\<lparr>keyword_cache := Some (?sg, kws)\<rparr>);
                       State_Monad.return (Inr kws :: load_error + str list dict) }"
  have rebuild: "yields (caches_ok db) ?rebuild (Inr (keywords_in db))"
    unfolding Let_def keywords_in_def
    by (intro yields_bind [OF yields_product_keywords] yields_bind [OF yields_modify] yields_return
        static.coherent_keywords) (simp_all add: keywords_ok_def keywords_in_def)
  show ?thesis
    unfolding domain_keywords_def
  proof (rule yields_bind [OF yields_path_exists], rule yields_try_bind [OF yields_signature_if_there],
      rule yields_get)
    fix s assume "caches_ok db s"
    then have "keywords_ok db (keyword_cache s)" by (rule static.coherent_keyword_cache)
    then show "yields (caches_ok db)
        (case keyword_cache s of
           Some (sg', kws) \<Rightarrow> if sg' = ?sg then State_Monad.return (Inr kws) else ?rebuild
         | None \<Rightarrow> ?rebuild) (Inr (keywords_in db))"
      using rebuild by (auto simp: keywords_ok_def intro: yields_return split: option.split)
  qed
qed

lemma yields_rewrite [yields_rules]:
  "yields (caches_ok db) (rewrite_query_for_domain (static_world db) query routing index)
     (Inr (rewritten_in db query routing index))"
  unfolding rewrite_query_for_domain_def rewritten_in_def
  by (auto intro!: yields_return yields_try_bind [OF yields_domain_keywords] split: option.split)

lemma yields_detect [yields_rules]:
  "yields (caches_ok db) (detect_domain (static_world db) query) (Inr (detect_with (keywords_in db) query))"
  unfolding detect_domain_def by (intro yields_try_bind [OF yields_domain_keywords] yields_return)

lemma yields_csv_detailed [yields_rules]:
  assumes "\<And>rows. kept_rows row_filter rows = filter (variant_row variant) rows \<or> kept_rows row_filter rows = []"
  shows "yields (caches_ok db)
    (search_csv_detailed (static_world db) p cols out_cols query n th routing row_filter variant)
    (Inr (csv_answer db p cols out_cols query n th routing row_filter))"
proof (cases "db p")
  case None
  then show ?thesis
    unfolding search_csv_detailed_def csv_answer_def
    by (intro yields_bind [OF yields_path_exists]) (simp add: yields_return)
next
  case (Some e)
  obtain g r where e: "e = (g, r)" by fastforce
  show ?thesis
  proof (cases r)
    case (Inl err)
    with Some e show ?thesis
      unfolding search_csv_detailed_def csv_answer_def
      by (intro yields_bind [OF yields_path_exists])
        (simp add: contents_def yields_return yields_bind [OF yields_snapshot])
  next
    case (Inr rows)
    let ?data = "kept_rows row_filter rows"
    have db: "db p = Some (g, Inr rows)" by (simp add: Some e Inr)
    have fit: "yields (caches_ok db) (get_bm25 p cols ?data g variant) (bm25_fit (documents cols ?data))"
      if "?data \<noteq> []"
      using assms [of rows] that yields_get_bm25 [where db = db and p = p, OF db] by auto
    show ?thesis
    proof (cases "?data = []")
      case True
      with db show ?thesis
        unfolding search_csv_detailed_def csv_answer_def
        by (intro yields_bind [OF yields_path_exists])
          (auto simp: contents_def yields_return intro!: yields_bind [OF yields_snapshot])
    next
      case False
      then have "rows \<noteq> []" by auto
      with db False show ?thesis
        unfolding search_csv_detailed_def csv_answer_def
        by (intro yields_bind [OF yields_path_exists])
          (auto simp: contents_def yields_return case_prod_beta Let_def intro!: yields_bind [OF yields_snapshot]
            yields_bind [OF fit] yields_try_bind [OF yields_rewrite])
    qed
  qed
qed

lemma variant_row_all [simp]: "variant_row [] = (\<lambda>r. True)"
  by (simp add: fun_eq_iff variant_row_def status_row_def)

lemma variant_row_active [simp]: "variant_row ''active-only'' = active_row"
  by (simp add: fun_eq_iff variant_row_def status_row_def)

lemma search_in_refines:
  assumes "\<And>rows. style_rows = Some rows \<Longrightarrow> rows = rows_or_empty db (data_path (cfg_file (domain_config_of ''style'')))"
  shows "yields (caches_ok db) (search_in (static_world db) d runner auto style_rows exact red query n diags)
    (Inr (search_in_spec db d runner auto exact red query n diags))"
proof -
  let ?sd = "searched_domain d" and ?W = "static_world db"
  let ?path = "data_path (cfg_file (domain_config_of ?sd))"
  have rows: "yields (caches_ok db)
      (case style_rows of None \<Rightarrow> load_rows_or_empty ?W ?path | Some rows \<Rightarrow> State_Monad.return rows)
      (rows_or_empty db ?path)" if "?sd = ''style''"
    using assms that by (auto intro: yields_load_rows yields_return split: option.split)
  have resolved: "yields (caches_ok db)
      (if ?sd = ''style'' \<and> exact = None \<and> red = None
       then do { rows \<leftarrow> (case style_rows of None \<Rightarrow> load_rows_or_empty ?W ?path
                           | Some rows \<Rightarrow> State_Monad.return rows);
                 let (e, r) = style_search_destination rows (style_identity rows query True);
                 State_Monad.return (e, r, []) }
       else if ?sd = ''landing''
       then do { rows \<leftarrow> load_rows_or_empty ?W ?path;
                 State_Monad.return (exact_row_identity rows query LANDING_IDENTITY_FIELDS, red, rows) }
       else State_Monad.return (exact, red, []))
      (resolved db d exact red query)"
    unfolding resolved_def
    by (auto simp: case_prod_beta Let_def intro!: yields_bind [OF rows] yields_bind [OF yields_load_rows] yields_return)
  have answer: "yields (caches_ok db)
      (case exact' of
         Some r \<Rightarrow> State_Monad.return (Inr ([project_row r (output_cols (domain_config_of ?sd))], None,
                      exact_match_diagnostic query ''exact-identity''))
       | None \<Rightarrow>
           if red' \<noteq> None then State_Monad.return (Inr ([], None, redirect_diagnostic query))
           else search_csv_detailed ?W ?path (search_cols (domain_config_of ?sd))
                  (output_cols (domain_config_of ?sd)) query n (Some (threshold_of ?sd)) (Some ?sd)
                  (if ?sd = ''style'' then Some active_row else None)
                  (if ?sd = ''style'' then ''active-only'' else []))
      (Inr (domain_answer db d exact' red' query n))" for exact' red'
    unfolding domain_answer_def
    by (auto simp: Let_def kept_rows_def intro!: yields_return yields_csv_detailed split: option.split)
  show ?thesis
  proof (cases "db ?path = None")
    case True
    then show ?thesis
      unfolding search_in_def search_in_spec_def Let_def
      by (intro yields_bind [OF yields_path_exists]) (simp add: yields_return)
  next
    case False
    obtain e r l where res: "resolved db d exact red query = (e, r, l)" by (metis prod.exhaust)
    show ?thesis
      unfolding search_in_def search_in_spec_def Let_def
      apply (rule yields_bind [OF yields_path_exists])
      apply (simp only: False simp_thms if_False if_True res prod.case)
      apply (rule yields_bind [OF resolved [unfolded Let_def res]])
      apply (simp only: prod.case)
      apply (rule yields_try_bind [OF answer])
      apply (rule yields_return)
      done
  qed
qed

text \<open>The caches never change an answer.\<close>

lemma search_refines:
  "yields (caches_ok db) (search (static_world db) query domain max_results diags)
     (Inr (search_spec db query domain max_results diags))"
proof (cases "valid_max_results max_results")
  case False
  then show ?thesis by (simp add: search_def search_spec_def yields_return)
next
  case True
  show ?thesis
  proof (cases domain)
    case None
    with True show ?thesis
      unfolding search_def search_spec_def
      by (auto simp: Let_def case_prod_beta intro!: yields_bind [OF yields_load_rows] search_in_refines
          yields_try_bind [OF yields_detect] split: option.split)
  next
    case (Some d)
    with True show ?thesis
      by (auto simp: search_def search_spec_def Let_def intro!: search_in_refines)
  qed
qed

subsection \<open>When a search abstains, and what it suggests then\<close>

lemma abstains_iff: "abstains th (top_of (score index q)) (runner_up_of (score index q)) (query_coverage index q)
    \<longleftrightarrow> \<not> passes_threshold index q th"
  by (auto simp: abstains_def passes_threshold_def Let_def)

lemma query_coverage_bounds: "0 \<le> query_coverage index q \<and> query_coverage index q \<le> 1"
  by (auto simp: query_coverage_def Let_def divide_le_eq_1 intro!: length_filter_le)

lemma length_filter_all: "length (filter P xs) = length xs \<longleftrightarrow> (\<forall>x \<in> set xs. P x)"
    "length xs = length (filter P xs) \<longleftrightarrow> (\<forall>x \<in> set xs. P x)"
  by (metis filter_True length_filter_less less_irrefl)+

lemma query_coverage_one:
  "query_coverage (bm25_fit docs) q = 1 \<longleftrightarrow>
     tokenize q \<noteq> [] \<and> (\<forall>t \<in> set (tokenize q). \<exists>d \<in> set docs. t \<in> set (tokenize d))"
  by (auto simp: query_coverage_def Let_def length_filter_all in_vocabulary_iff)

lemma ranked_answer_abstained:
  "snd (ranked_answer index data cols q (sq, rw) n th) = d \<Longrightarrow>
   abstained d = Some (\<not> passes_threshold index sq th) \<and>
   (\<not> passes_threshold index sq th \<longrightarrow> fst (ranked_answer index data cols q (sq, rw) n th) = [])"
  by (auto simp: ranked_answer_def Let_def abstains_iff)

lemma ranked_answer_rows:
  "fst (ranked_answer index data cols q (sq, rw) n th) =
     (if passes_threshold index sq th
      then map (\<lambda>r. project_row r cols) (pick n data (score index sq)) else [])"
  by (simp add: ranked_answer_def Let_def abstains_iff)

lemma documents_map: "documents cols data = map (\<lambda>r. join '' '' (map (field r) cols)) data"
  by (simp add: documents_def)

definition row_text :: "str list \<Rightarrow> row \<Rightarrow> str" where
  "row_text cols r = join '' '' (map (field r) cols)"

lemma documents_row_text: "documents cols data = map (row_text cols) data"
  by (simp add: documents_def row_text_def)

lemma pick_nonempty:
  assumes "passes_threshold (bm25_fit (documents cols data)) q th" and "0 \<le> min_score th" and "0 < n"
  shows "pick n data (score (bm25_fit (documents cols data)) q) \<noteq> []"
proof -
  let ?r = "score (bm25_fit (documents cols data)) q"
  from assms(1,2) have "0 < top_of ?r" by (auto simp: passes_threshold_def Let_def)
  then obtain i s xs where r: "?r = (i, s) # xs" and "0 < s"
    by (auto simp: top_of_def split: list.splits)
  then have "\<exists>d \<in> set (documents cols data). shares_token q d"
    using core_rank.top_score [OF r] by simp
  then show ?thesis
    using core_rank.pick_empty_iff [OF assms(3), of data "row_text cols" q] by (auto simp: documents_row_text)
qed

lemma suggest_terms_sound:
  assumes "t \<in> set (suggest_terms (Some idx) query limit th)"
  shows "t \<in> set (vocabulary idx) \<and> t \<notin> set (tokenize query) \<and>
    (\<forall>k. th = Some k \<longrightarrow> passes_threshold idx t k)"
  using assms by (auto simp: suggest_terms_def Let_def split: if_splits option.splits dest!: in_set_takeD)

lemma suggest_terms_length [bound_intros]: "length (suggest_terms index query limit th) \<le> limit"
  by (simp add: suggest_terms_def Let_def split: option.split)

lemma thresholds_nonneg:
  "d \<in> set (keys CSV_CONFIG) \<Longrightarrow>
   0 \<le> min_score (threshold_of d) \<and> min_margin (threshold_of d) = 0 \<and> 0 \<le> min_coverage (threshold_of d)"
  unfolding keys_CSV_CONFIG
  by (auto simp: threshold_of_def SEARCH_THRESHOLDS_def get_or_def DOMAIN_SCORE_FLOORS_def)

lemma searched_domain_known: "searched_domain d \<in> set (keys CSV_CONFIG)"
  by (auto simp: searched_domain_def has_key_def in_keys_iff simp del: keys_CSV_CONFIG)
     (simp add: CSV_CONFIG_def)

subsection \<open>Routing\<close>

lemma keyword_total_sum:
  "keyword_total q d kws = (\<Sum>kw \<leftarrow> filter (contains_phrase q) kws. keyword_weight d kw)"
proof -
  have "foldl (\<lambda>total kw. if contains_phrase q kw then total + keyword_weight d kw else total) a kws =
      a + (\<Sum>kw \<leftarrow> filter (contains_phrase q) kws. keyword_weight d kw)" for a
    by (induction kws arbitrary: a) auto
  then show ?thesis by (simp add: keyword_total_def)
qed

lemma keyword_weight_ge_1: "1 \<le> keyword_weight d kw"
proof -
  have w: "1 \<le> x \<Longrightarrow> 1 \<le> (if P then 2 * x else x)" for x :: real and P by simp
  have "1 \<le> real (max 1 (length (split_ws kw)))" by simp
  from w [OF this] show ?thesis by (simp only: keyword_weight_def Let_def)
qed

text \<open>The order of the keywords does not matter.\<close>

lemma keyword_total_perm: "mset kws = mset kws' \<Longrightarrow> keyword_total q d kws = keyword_total q d kws'"
proof -
  assume "mset kws = mset kws'"
  then have "mset (map (keyword_weight d) (filter (contains_phrase q) kws)) =
      mset (map (keyword_weight d) (filter (contains_phrase q) kws'))"
    by simp
  then show ?thesis unfolding keyword_total_sum by (metis sum_mset_sum_list)
qed

lemma keyword_total_nonneg: "0 \<le> keyword_total q d kws"
  unfolding keyword_total_sum
  by (intro sum_list_nonneg) (auto intro: order_trans [OF _ keyword_weight_ge_1])

lemma keyword_total_pos: "0 < keyword_total q d kws \<longleftrightarrow> (\<exists>kw \<in> set kws. contains_phrase q kw)"
proof (induction kws)
  case (Cons kw kws)
  have "0 \<le> (\<Sum>kw \<leftarrow> filter (contains_phrase q) kws. keyword_weight d kw)"
    using keyword_total_nonneg [of q d kws] by (simp add: keyword_total_sum)
  with Cons keyword_weight_ge_1 [of d kw] show ?case
    by (auto simp: keyword_total_sum)
qed (simp add: keyword_total_def)

lemma rank_domains_perm [simp]: "mset (rank_domains scores) = mset scores"
  by (simp add: rank_domains_def)

lemma set_rank_domains [simp]: "set (rank_domains scores) = set scores"
  by (simp add: rank_domains_def)

lemma rank_domains_head:
  assumes "rank_domains scores = (d, s) # rest" and "(d', s') \<in> set scores"
  shows "s' < s \<or> s' = s \<and> domain_rank d \<le> domain_rank d'"
proof -
  have "sorted (map (\<lambda>(d, s). (- s, domain_rank d)) (rank_domains scores))"
    by (simp add: rank_domains_def)
  moreover have "(d', s') \<in> set ((d, s) # rest)"
    using assms by (metis set_rank_domains)
  ultimately show ?thesis using assms(1) by (auto simp: less_eq_prod_def)
qed

lemma nth_length_takeWhile: "d \<in> set xs \<Longrightarrow> xs ! length (takeWhile (\<lambda>x. x \<noteq> d) xs) = d"
  by (induction xs) auto

lemma domain_rank_inject:
  "d \<in> set DOMAIN_TIEBREAK_ORDER \<Longrightarrow> d' \<in> set DOMAIN_TIEBREAK_ORDER \<Longrightarrow> domain_rank d = domain_rank d' \<Longrightarrow> d = d'"
  by (simp add: domain_rank_def del: set_tiebreak) (metis nth_length_takeWhile)

subsection \<open>Identities\<close>

lemma has_identity_iff:
  "has_identity flds folded r \<longleftrightarrow> (\<exists>i \<in> set (row_identities r flds). lower i = folded)"
  by (auto simp: has_identity_def)

lemma style_identity_exact:
  "find (has_identity STYLE_IDENTITY_FIELDS (lower (strip q))) rows = Some r \<Longrightarrow>
   style_identity rows q allow = Some r"
  by (simp add: style_identity_def Let_def)

lemma exact_row_identity_sound:
  "exact_row_identity rows q flds = Some r \<Longrightarrow>
   r \<in> set rows \<and> has_identity flds (lower (strip q)) r \<and>
   (\<forall>r' \<in> set rows. has_identity flds (lower (strip q)) r' \<longrightarrow> r' = r)"
proof -
  assume "exact_row_identity rows q flds = Some r"
  then have f: "filter (has_identity flds (lower (strip q))) rows = [r]"
    by (auto simp: exact_row_identity_def split: list.splits)
  then have "r \<in> set (filter (has_identity flds (lower (strip q))) rows)" by simp
  then have "r \<in> set rows \<and> has_identity flds (lower (strip q)) r" by (simp only: set_filter mem_Collect_eq)
  with f show ?thesis by (auto dest: filter_single_unique)
qed

lemma project_row_keys: "keys (project_row r cols) = filter (has_key r) cols"
  by (simp add: project_row_def keys_def o_def)

lemma map_of_map_filter: "map_of (map (\<lambda>c. (c, f c)) (filter P cols)) c =
    (if c \<in> set cols \<and> P c then Some (f c) else None)"
  by (induction cols) auto

lemma get_project_row: "get (project_row r cols) col = (if col \<in> set cols then get r col else None)"
  by (auto simp: project_row_def map_of_map_filter has_key_def get_or_def split: option.split)

subsection \<open>Where the rows of an answer come from\<close>

lemma identity_candidate_row: "(k, r') \<in> set (identity_candidate ts r i) \<Longrightarrow> r' = r"
  by (auto simp: identity_candidate_def Let_def split: if_splits)

lemma foldl_put_values:
  "(i, r) \<in> set (foldl (\<lambda>m (c, r). if c = best then put (f r) r m else m) m cs) \<Longrightarrow>
   (i, r) \<in> set m \<or> r \<in> snd ` set cs"
proof (induction cs arbitrary: m)
  case (Cons c cs)
  then show ?case
    by (cases c) (auto split: if_splits dest: set_mp [OF set_put_subset] simp: image_iff)
qed simp

lemma unique_best_in: "unique_best cs = Some r \<Longrightarrow> r \<in> snd ` set cs"
proof -
  assume "unique_best cs = Some r"
  then obtain best i where "rows_scored best cs = [(i, r)]"
    by (auto simp: unique_best_def split: list.splits)
  then show ?thesis
    using foldl_put_values [of i r best "\<lambda>r. field r ''Style ID''" "[]" cs] by (simp add: rows_scored_def)
qed

lemma style_identity_in: "style_identity rows q allow = Some r \<Longrightarrow> r \<in> set rows"
  by (auto simp: style_identity_def Let_def split: option.splits if_splits
      dest!: unique_best_in find_SomeD identity_candidate_row)

lemma style_search_destination_in:
  "style_search_destination rows (Some m) = (Some r, red) \<Longrightarrow> m \<in> set rows \<Longrightarrow> r \<in> set rows \<and> red = None"
  by (auto simp: style_search_destination_def Let_def split: if_splits dest: find_SomeD)

lemma style_search_destination_hit_in:
  "style_search_destination rows (style_identity rows q allow) = (Some r, red) \<Longrightarrow> r \<in> set rows \<and> red = None"
  by (cases "style_identity rows q allow")
    (auto dest: style_search_destination_in style_identity_in simp: style_search_destination_def [of rows None])

definition from_rows :: "table \<Rightarrow> str list \<Rightarrow> row \<Rightarrow> bool" where
  "from_rows rows cols r \<longleftrightarrow> (\<exists>row \<in> set rows. r = project_row row cols)"

lemma kept_rows_subset: "set (kept_rows f rows) \<subseteq> set rows"
  by (auto simp: kept_rows_def split: option.splits)

lemma csv_answer_from_rows:
  assumes "csv_answer db p cols out q n (Some th) routing f = (found, index, diag)"
  shows "length found \<le> n \<and> (\<forall>r \<in> set found. from_rows (kept_rows f (rows_or_empty db p)) out r)"
proof (cases "contents db p")
  case (Inl e)
  with assms show ?thesis by (auto simp: csv_answer_def split: if_splits)
next
  case (Inr rows)
  then have db: "db p \<noteq> None" by (auto simp: contents_def split: option.splits)
  show ?thesis
  proof (cases "kept_rows f rows = []")
    case True
    with assms Inr db show ?thesis by (auto simp: csv_answer_def)
  next
    case False
    let ?data = "kept_rows f rows"
    let ?idx = "bm25_fit (documents cols ?data)"
    obtain sq rw where rw: "rewritten_in db q routing ?idx = (sq, rw)" by fastforce
    from assms Inr db False have "found = fst (ranked_answer ?idx ?data out q (sq, rw) n th)"
      by (auto simp: csv_answer_def Let_def rw split: prod.splits)
    then consider "found = []"
      | "found = map (\<lambda>r. project_row r out) (pick n ?data (score ?idx sq))"
      by (auto simp: ranked_answer_rows split: if_splits)
    then show ?thesis
    proof cases
      case 2
      then show ?thesis
        using core_rank.pick_length [of n ?data "documents cols ?data" sq]
          core_rank.pick_hits [of _ n ?data "row_text cols" sq]
        by (auto simp: from_rows_def documents_row_text rows_or_empty_def Inr)
    qed auto
  qed
qed

lemma from_kept_rows: "from_rows (kept_rows f rows) cols r \<Longrightarrow> from_rows rows cols r"
  using kept_rows_subset [of f rows] by (auto simp: from_rows_def)

subsection \<open>Routing picks the best domain\<close>

lemma keys_put_old: "k \<in> set (keys d) \<Longrightarrow> keys (put k v d) = keys d"
  by (induction k v d rule: put.induct) (auto simp: keys_def)

lemma domain_scores_keys:
  "''color'' \<in> set (keys kws) \<Longrightarrow> keys (domain_scores kws q) = keys kws"
proof -
  have "keys (map (\<lambda>(domain, ks). (domain, keyword_total q domain ks)) kws) = keys kws"
    by (simp add: keys_def o_def case_prod_unfold)
  then show "''color'' \<in> set (keys kws) \<Longrightarrow> keys (domain_scores kws q) = keys kws"
    by (simp add: domain_scores_def Let_def keys_put_old)
qed

lemma distinct_keyword_table: "distinct (keys (domain_keyword_table labels))"
  by (simp add: domain_keyword_table_def keys_def)

lemma domain_scores_nonneg: "(d, s) \<in> set (domain_scores kws q) \<Longrightarrow> 0 \<le> s"
proof -
  let ?m = "map (\<lambda>(domain, ks). (domain, keyword_total q domain ks)) kws"
  assume "(d, s) \<in> set (domain_scores kws q)"
  then have "(d, s) \<in> set ?m \<or> s = get_or ?m ''color'' 0 + 2"
    using set_put_subset [of "''color''" "get_or ?m ''color'' 0 + 2" ?m]
    by (auto simp: domain_scores_def Let_def split: if_splits)
  moreover have "0 \<le> get_or ?m k 0" for k
    by (auto simp: get_or_def keyword_total_nonneg split: option.splits dest!: map_of_SomeD)
  ultimately show "0 \<le> s" by (auto simp: keyword_total_nonneg add_nonneg_nonneg)
qed

lemma keyword_table_known: "d \<in> set (keys (domain_keyword_table labels)) \<Longrightarrow> d \<in> set DOMAIN_TIEBREAK_ORDER"
  by simp

lemma domain_rank_differs:
  "set (keys scores) \<subseteq> set DOMAIN_TIEBREAK_ORDER \<Longrightarrow> (d, s) \<in> set scores \<Longrightarrow> (d', t) \<in> set scores \<Longrightarrow> d' \<noteq> d \<Longrightarrow>
   domain_rank d \<noteq> domain_rank d'"
  using domain_rank_inject [of d d'] by (force simp: keys_def simp del: set_tiebreak)

lemma rank_domains_unique:
  assumes "rank_domains scores = (d, s) # rest" and "distinct (keys scores)"
    and "set (keys scores) \<subseteq> set DOMAIN_TIEBREAK_ORDER"
  shows "get scores d = Some s \<and> (d, s) \<in> set scores \<and>
    (\<forall>(d', t) \<in> set scores. d' \<noteq> d \<longrightarrow> t < s \<or> t = s \<and> domain_rank d < domain_rank d') \<and>
    (\<forall>(d', t) \<in> set scores. d' \<noteq> d \<longrightarrow> (d', t) \<in> set rest) \<and> d \<notin> fst ` set rest"
proof -
  have m: "mset ((d, s) # rest) = mset scores"
    using rank_domains_perm [of scores] assms(1) by simp
  have dist: "distinct (map fst scores)" using assms(2) by (simp add: keys_def)
  have in_s: "(d, s) \<in> set scores" using m by (metis list.set_intros(1) set_mset_mset)
  have "mset (map fst ((d, s) # rest)) = mset (map fst scores)"
    using m by (metis mset_map)
  then have "distinct (map fst ((d, s) # rest))" using dist by (metis mset_eq_imp_distinct_iff)
  then have nd: "d \<notin> fst ` set rest" by simp
  have "set ((d, s) # rest) = set scores" using m by (metis set_mset_mset)
  then have "(d', t) \<in> set rest" if "(d', t) \<in> set scores" "d' \<noteq> d" for d' t
    using that by (metis Pair_inject set_ConsD)
  moreover have "t < s \<or> t = s \<and> domain_rank d < domain_rank d'" if "(d', t) \<in> set scores" "d' \<noteq> d" for d' t
    using rank_domains_head [OF assms(1) that(1)] domain_rank_differs [OF assms(3) in_s that] by auto
  ultimately show ?thesis using in_s nd dist by (auto simp del: set_tiebreak)
qed

lemma rank_domains_Nil [simp]: "rank_domains scores = [] \<longleftrightarrow> scores = []"
  by (metis mset_zero_iff rank_domains_perm)

lemma rank_domains_second:
  assumes "rank_domains scores = x # (d, s) # rest" and "(d', t) \<in> set ((d, s) # rest)"
  shows "t \<le> s"
proof -
  have "sorted (map (\<lambda>(d, s). (- s, domain_rank d)) (rank_domains scores))"
    by (simp add: rank_domains_def)
  then show ?thesis using assms by (auto simp: less_eq_prod_def)
qed

lemma detect_with_best:
  fixes labels query
  defines "scores \<equiv> domain_scores (domain_keyword_table labels) (normalize (lower query))"
  assumes "detect_with (domain_keyword_table labels) query = (d, runner)"
  shows "if \<forall>(d, t) \<in> set scores. t = 0 then d = ''style'' \<and> runner = None
    else \<exists>s. get scores d = Some s \<and> 0 < s \<and>
      (\<forall>(d', t) \<in> set scores. d' \<noteq> d \<longrightarrow> t < s \<or> t = s \<and> domain_rank d < domain_rank d') \<and>
      (runner = None \<longleftrightarrow> (\<forall>(d', t) \<in> set scores. d' \<noteq> d \<longrightarrow> t = 0))"
proof -
  let ?table = "domain_keyword_table labels"
  have k: "keys scores = keys ?table"
    unfolding scores_def by (rule domain_scores_keys) (simp add: domain_keyword_table_def keys_def)
  moreover have "keys ?table \<noteq> []" by (simp add: domain_keyword_table_def keys_def)
  ultimately have "rank_domains scores \<noteq> []" by (auto simp: keys_def)
  then obtain x s rest where r: "rank_domains scores = (x, s) # rest" by (metis list.exhaust prod.exhaust)
  have u: "get scores x = Some s \<and> (x, s) \<in> set scores \<and>
    (\<forall>(d', t) \<in> set scores. d' \<noteq> x \<longrightarrow> t < s \<or> t = s \<and> domain_rank x < domain_rank d') \<and>
    (\<forall>(d', t) \<in> set scores. d' \<noteq> x \<longrightarrow> (d', t) \<in> set rest) \<and> x \<notin> fst ` set rest"
    using rank_domains_unique [OF r] k distinct_keyword_table [of labels] by simp
  have nn: "(d', t) \<in> set scores \<Longrightarrow> 0 \<le> t" for d' t
    unfolding scores_def by (rule domain_scores_nonneg)
  have le: "(d', t) \<in> set scores \<Longrightarrow> t \<le> s" for d' t
    using rank_domains_head [OF r] by fastforce
  have sub: "set rest \<subseteq> set scores"
    using set_rank_domains [of scores] r by auto
  have det: "detect_with ?table query = (if 0 < s then x else ''style'',
      case rest of [] \<Rightarrow> None | (d, t) # _ \<Rightarrow> if 0 < t then Some d else None)"
    using r by (simp add: detect_with_def scores_def)
  have none: "(case rest of [] \<Rightarrow> None | (d, t) # _ \<Rightarrow> if 0 < t then Some d else None) = None \<longleftrightarrow>
      (\<forall>(d', t) \<in> set scores. d' \<noteq> x \<longrightarrow> t = 0)"
  proof (cases rest)
    case Nil
    with u show ?thesis by auto
  next
    case (Cons y ys)
    obtain d' t where y: "y = (d', t)" by fastforce
    have in_s: "(d', t) \<in> set scores" and "d' \<noteq> x" using sub u by (auto simp: Cons y)
    have "t' \<le> t" if "(d'', t') \<in> set rest" for d'' t'
      using rank_domains_second [of scores "(x, s)" d' t ys] r that by (auto simp: Cons y)
    with u nn in_s \<open>d' \<noteq> x\<close> show ?thesis by (force simp: Cons y)
  qed
  show ?thesis
  proof (cases "0 < s")
    case True
    then have "\<not> (\<forall>(d, t) \<in> set scores. t = 0)" using u by fastforce
    with True u none assms(2) det show ?thesis by auto
  next
    case False
    with le nn have "\<forall>(d, t) \<in> set scores. t = 0" by force
    with False none assms(2) det show ?thesis by auto
  qed
qed

text \<open>Only keywords that occur in the query can count.\<close>

lemma contains_phrase_contains: "contains_phrase text p \<Longrightarrow> contains p text"
  by (auto simp: contains_phrase_def phrase_found dest: occurs_as_phrase_contains split: if_splits)

lemma keyword_total_none: "list_all (\<lambda>kw. \<not> contains kw q) kws \<Longrightarrow> keyword_total q d kws = 0"
  by (induction kws) (auto simp: keyword_total_sum dest: contains_phrase_contains)

lemma keyword_total_filter: "keyword_total q d kws =
    (\<Sum>kw \<leftarrow> filter (contains_phrase q) (filter (\<lambda>kw. contains kw q) kws). keyword_weight d kw)"
  by (induction kws) (auto simp: keyword_total_sum dest: contains_phrase_contains)

lemma passes_no_threshold:
  "passes_threshold (bm25_fit docs) q NO_THRESHOLD \<longleftrightarrow> (\<exists>d \<in> set docs. shares_token q d)"
proof (cases "score (bm25_fit docs) q")
  case Nil
  then have "docs = []" using core_rank.rank_indices [of docs q] by (auto simp: atLeastLessThan_empty_iff)
  with Nil show ?thesis by (simp add: passes_threshold_def NO_THRESHOLD_def Let_def top_of_def)
next
  case (Cons x r)
  obtain i s where x: "x = (i, s)" by fastforce
  with Cons core_rank.top_score [of docs q i s r] query_coverage_bounds [of "bm25_fit docs" q] show ?thesis
    by (simp add: passes_threshold_def NO_THRESHOLD_def Let_def top_of_def)
qed

subsection \<open>The shape of an answer\<close>

lemma suggest_identities_length [bound_intros]: "length (suggest_identities rows q flds limit) \<le> limit"
  by (simp add: suggest_identities_def Let_def)

definition domain_rows :: "data_dir \<Rightarrow> str \<Rightarrow> table" where
  "domain_rows db d = rows_or_empty db (data_path (cfg_file (domain_config_of (searched_domain d))))"

lemma resolved_in:
  assumes "resolved db d exact red q = (e, red', l)"
    and "\<And>r. exact = Some r \<Longrightarrow> r \<in> set (domain_rows db d)" and "e = Some r"
  shows "r \<in> set (domain_rows db d)"
  using assms exact_row_identity_sound [of "domain_rows db d" q LANDING_IDENTITY_FIELDS r]
    style_search_destination_hit_in [of "domain_rows db d" q True r]
  by (auto simp: resolved_def Let_def domain_rows_def split: if_splits prod.splits)

lemma domain_answer_rows:
  assumes "domain_answer db d exact red q n = (found, index, diag)"
    and "\<And>r. exact = Some r \<Longrightarrow> r \<in> set (domain_rows db d)" and "0 < n"
  shows "length found \<le> n \<and>
    (\<forall>r \<in> set found. from_rows (domain_rows db d) (output_cols (domain_config_of (searched_domain d))) r)"
proof (cases exact)
  case (Some r)
  with assms show ?thesis by (auto simp: domain_answer_def Let_def from_rows_def)
next
  case None
  let ?sd = "searched_domain d" and ?c = "domain_config_of (searched_domain d)"
  let ?f = "if ?sd = ''style'' then Some active_row else None"
  show ?thesis
  proof (cases red)
    case None
    with \<open>exact = None\<close> assms(1) have "csv_answer db (data_path (cfg_file ?c)) (search_cols ?c) (output_cols ?c) q n
        (Some (threshold_of ?sd)) (Some ?sd) ?f = (found, index, diag)"
      by (simp add: domain_answer_def Let_def)
    from csv_answer_from_rows [OF this] show ?thesis
      unfolding domain_rows_def by (auto dest: from_kept_rows)
  next
    case (Some x)
    with \<open>exact = None\<close> assms(1) show ?thesis by (auto simp: domain_answer_def Let_def)
  qed
qed

definition answer_ok :: "data_dir \<Rightarrow> nat \<Rightarrow> search_output \<Rightarrow> bool" where
  "answer_ok db n out \<longleftrightarrow>
     out_count out = length (results out) \<and> out_count out \<le> n \<and>
     (suggestions out = None \<longleftrightarrow> results out \<noteq> []) \<and>
     (\<forall>l. suggestions out = Some l \<longrightarrow> length l \<le> 6) \<and>
     out_file out = cfg_file (domain_config_of (searched_domain (out_domain out))) \<and>
     (\<forall>r \<in> set (results out). from_rows (rows_or_empty db (data_path (out_file out)))
        (output_cols (domain_config_of (searched_domain (out_domain out)))) r)"

lemma assemble_ok:
  assumes "ans = (found, index, diag)" and "length found \<le> n"
    and "\<forall>r \<in> set found. from_rows (domain_rows db d) (output_cols (domain_config_of (searched_domain d))) r"
  shows "answer_ok db n (assemble d q auto runner red landing ans diags)"
  using assms suggest_identities_length [of landing q LANDING_IDENTITY_FIELDS 6]
    suggest_terms_length [of index q 6 "Some (threshold_of (searched_domain d))"]
  by (auto simp: answer_ok_def assemble_def Let_def domain_rows_def)

lemma search_in_ok:
  assumes "search_in_spec db d runner auto exact red q n diags = Answer out"
    and "\<And>r. exact = Some r \<Longrightarrow> r \<in> set (domain_rows db d)" and "0 < n"
  shows "answer_ok db n out"
proof -
  obtain e red' l where res: "resolved db d exact red q = (e, red', l)" by (metis prod.exhaust)
  obtain found index diag where ans: "domain_answer db d e red' q n = (found, index, diag)" by (metis prod.exhaust)
  have "out = assemble d q auto runner red' l (found, index, diag) diags"
    using assms(1) by (simp add: search_in_spec_def Let_def res ans split: if_splits)
  moreover have "r \<in> set (domain_rows db d)" if "e = Some r" for r
    using resolved_in [OF res assms(2) that] .
  ultimately show ?thesis
    using domain_answer_rows [OF ans] assms(3) assemble_ok [OF refl] by blast
qed

lemma searched_style [simp]: "searched_domain ''style'' = ''style''"
  by (simp add: searched_domain_def)

lemma route_by_style_in:
  "route_by_style rows q = Some (Some r, red) \<Longrightarrow> r \<in> set rows"
  by (auto simp: route_by_style_def split: option.splits dest: style_identity_in style_search_destination_in)

lemma search_spec_ok:
  assumes "search_spec db q domain m diags = Answer out"
  shows "1 \<le> int_of m \<and> int_of m \<le> 20 \<and> answer_ok db (nat (int_of m)) out"
proof -
  have v: "1 \<le> int_of m \<and> int_of m \<le> 20"
    using assms by (cases m) (auto simp: search_spec_def split: if_splits)
  then have n: "0 < nat (int_of m)" by simp
  have "answer_ok db (nat (int_of m)) out"
  proof (cases domain)
    case (Some d)
    with assms have "search_in_spec db d None False None None q (nat (int_of m)) diags = Answer out"
      by (simp add: search_spec_def split: if_splits)
    from search_in_ok [OF this _ n] show ?thesis by simp
  next
    case None
    let ?rows = "rows_or_empty db (data_path (cfg_file (domain_config_of ''style'')))"
    show ?thesis
    proof (cases "route_by_style ?rows q")
      case None
      obtain d r where dr: "detect_with (keywords_in db) q = (d, r)" by fastforce
      with None \<open>domain = None\<close> assms
      have "search_in_spec db d r True None None q (nat (int_of m)) diags = Answer out"
        by (simp add: search_spec_def Let_def split: if_splits)
      from search_in_ok [OF this _ n] show ?thesis by simp
    next
      case (Some er)
      obtain e red where er: "er = (e, red)" by fastforce
      with Some \<open>domain = None\<close> assms
      have "search_in_spec db ''style'' None True e red q (nat (int_of m)) diags = Answer out"
        by (simp add: search_spec_def Let_def split: if_splits)
      from search_in_ok [OF this _ n] Some er show ?thesis
        by (auto simp: domain_rows_def dest: route_by_style_in)
    qed
  qed
  with v show ?thesis by simp
qed

text \<open>A style asked for by one of its names.\<close>

lemma search_exact_style:
  assumes "contents db (data_path (cfg_file (domain_config_of ''style''))) = Inr rows"
    and "find (has_identity STYLE_IDENTITY_FIELDS (lower (strip q))) rows = Some r"
    and "get_or r ''Status'' ''active'' \<noteq> ''deprecated''" and "valid_max_results m"
    and "domain = None \<or> domain = Some ''style''"
  shows "\<exists>out. search_spec db q domain m diags = Answer out \<and> out_domain out = ''style'' \<and>
    results out = [project_row r (output_cols (domain_config_of ''style''))] \<and> suggestions out = None"
proof -
  let ?p = "data_path (cfg_file (domain_config_of ''style''))"
  have there: "db ?p \<noteq> None" using assms(1) by (auto simp: contents_def split: option.splits)
  have rows: "rows_or_empty db ?p = rows" using assms(1) by (simp add: rows_or_empty_def)
  have id: "style_identity rows q allow = Some r" for allow
    by (rule style_identity_exact [OF assms(2)])
  have dest: "style_search_destination rows (Some r) = (Some r, None)"
    using assms(3) by (simp add: style_search_destination_def)
  have not_icons: "\<not> icons_unsupported ''style'' q" by (simp add: icons_unsupported_def)
  have "\<exists>out. search_in_spec db ''style'' None auto e None q n diags = Answer out \<and> out_domain out = ''style'' \<and>
      results out = [project_row r (output_cols (domain_config_of ''style''))] \<and> suggestions out = None"
    if "e = None \<or> e = Some r" for e auto n
    using that there not_icons
    by (auto simp: search_in_spec_def resolved_def rows id dest domain_answer_def assemble_def Let_def)
  with assms(4,5) rows id [of False] dest show ?thesis
    by (auto simp: search_spec_def Let_def route_by_style_def)
qed
end
