(* ===== verification/StackSearch.thy ===== *)
theory StackSearch
  imports Search
begin

text \<open>
  The stack searches of \<open>core.py\<close> (lines 174 to 193 and 848 to 993): which generation of a
  framework a query asks for, the row filter that follows from it, the exact identifiers, and
  \<open>search_stack\<close>. The refinement lemma extends the one of \<open>Search\<close>: both searches share the caches.
\<close>

subsection \<open>Versions in a query\<close>

definition sp :: rx where
  "sp = Star (Cls is_space)"

definition js_suffix :: rx where
  "js_suffix = opt (alts [lit ''.js'', lit ''js''])"

definition STACK_QUERY_NAMES :: "rx dict" where
  "STACK_QUERY_NAMES =
    [(''react'', lit ''react''),
     (''nextjs'', Seq (lit ''next'') js_suffix),
     (''vue'', lit ''vue''),
     (''svelte'', lit ''svelte''),
     (''astro'', lit ''astro''),
     (''angular'', lit ''angular''),
     (''html-tailwind'', Seq (lit ''tailwind'') (opt (Seq sp (lit ''css'')))),
     (''nuxtjs'', Seq (lit ''nuxt'') js_suffix),
     (''nuxt-ui'', seqs [lit ''nuxt'', sp, lit ''ui'']),
     (''react-native'', seqs [lit ''react'', Star (Cls (\<lambda>c. is_space c \<or> c = CHR ''-'')), lit ''native'']),
     (''flutter'', lit ''flutter''),
     (''swiftui'', alts [lit ''ios'', seqs [lit ''swiftui'', plus1 (Cls is_space), lit ''ios'']]),
     (''jetpack-compose'', Seq (opt (Seq (lit ''jetpack'') sp)) (lit ''compose'')),
     (''avalonia'', lit ''avalonia''),
     (''winui'', lit ''winui''),
     (''javafx'', lit ''javafx''),
     (''threejs'', Seq (lit ''three'') js_suffix),
     (''laravel'', lit ''laravel'')]"

definition version_rx :: "rx \<Rightarrow> rx" where
  "version_rx name = seqs
     [WordB, name, sp, opt (alts [lit ''sdk'', lit ''ui'']), sp,
      opt (Seq (Cls (\<lambda>c. c = CHR ''@'' \<or> c = CHR ''('')) sp),
      opt (seqs [lit ''v'', opt (lit ''ersion''), sp]),
      Grp 1 (plus1 (Cls is_digit)), opt (Seq (lit ''.'') (Grp 2 (plus1 (Cls is_digit)))),
      sp, opt (lit '')'')]"

definition release_rx :: rx where
  "release_rx = seqs [WordB, lit ''r'', Grp 1 (plus1 (Cls is_digit)), WordB]"

definition migration_rx :: rx where
  "migration_rx = seqs
     [WordB, alts [Seq (lit ''migrat'') (Star (Cls is_word)), Seq (lit ''upgrad'') (Star (Cls is_word)),
        Seq (lit ''replac'') (Star (Cls is_word)), lit ''instead'', lit ''modern'', lit ''current''], WordB]"

definition legacy_rx :: rx where
  "legacy_rx = seqs [WordB, alts [lit ''legacy'', lit ''deprecated''], WordB]"

text \<open>The groups of a match that took part in it, as numbers.\<close>

definition version_of_match :: "match \<Rightarrow> nat list" where
  "version_of_match m =
     map nat_of_digits (List.map_filter (get (m_groups m)) [1, 2])"

definition requested_versions :: "str \<Rightarrow> rx \<Rightarrow> str \<Rightarrow> nat list list" where
  "requested_versions stack name normalized =
     map version_of_match (rx_finditer (version_rx name) normalized) @
     (if stack = ''threejs''
      then map (\<lambda>m. [0, nat_of_digits (get_or (m_groups m) 1 [])]) (rx_finditer release_rx normalized)
      else [])"

text \<open>Lexicographic comparison of a requested version with as many numbers of the current one.\<close>

definition older :: "nat list \<Rightarrow> nat list \<Rightarrow> bool" where
  "older requested current \<longleftrightarrow> requested < take (length requested) current"

definition stack_query_requests_legacy :: "str \<Rightarrow> str \<Rightarrow> bool" where
  "stack_query_requests_legacy query stack =
     (let normalized = normalize (lower query);
          migration = rx_found migration_rx normalized;
          by_words = (if migration then False else rx_found legacy_rx normalized)
      in if stack \<in> set LEGACY_ONLY_STACKS then True
         else (case (get STACK_CURRENT_VERSIONS stack, get STACK_QUERY_NAMES stack) of
                 (Some current, Some name) \<Rightarrow>
                   (let versions = requested_versions stack name normalized in
                    if versions = [] then by_words
                    else if migration \<and> (\<exists>v \<in> set versions. \<not> older v current) then False
                    else (\<forall>v \<in> set versions. older v current))
               | _ \<Rightarrow> by_words))"

subsection \<open>The row filter\<close>

text \<open>The base that a query about the shadcn stack names.\<close>

definition requested_base :: "str \<Rightarrow> str option" where
  "requested_base normalized =
     (if contains ''base ui'' normalized then Some ''base''
      else if contains ''react aria'' normalized then Some ''aria''
      else if contains ''radix'' normalized \<or> contains ''aschild'' normalized then Some ''radix''
      else None)"

definition stack_row_filter :: "table \<Rightarrow> str \<Rightarrow> str \<Rightarrow> (row \<Rightarrow> bool) \<times> str" where
  "stack_row_filter rows query stack =
     (let statuses = map (\<lambda>r. get_or r ''Status'' ''unverified'') rows;
          requests_legacy = stack_query_requests_legacy query stack
      in if requests_legacy \<and> ''deprecated'' \<notin> set statuses \<and> has_key STACK_CURRENT_VERSIONS stack
         then (\<lambda>r. False, ''legacy-unavailable'')
         else (let (status_filter, variant) =
                     (if ''deprecated'' \<in> set statuses \<and> requests_legacy
                      then (\<lambda>r. get r ''Status'' = Some ''deprecated'', ''legacy-only'')
                      else if ''active'' \<in> set statuses
                      then (\<lambda>r. get r ''Status'' = Some ''active'', ''current-only'')
                      else (\<lambda>r. get_or r ''Status'' ''unverified'' \<noteq> ''deprecated'', ''non-legacy''))
               in if stack \<noteq> ''shadcn'' then (status_filter, variant)
                  else (case requested_base (normalize (lower query)) of
                          None \<Rightarrow> (status_filter, variant)
                        | Some base \<Rightarrow> (\<lambda>r. status_filter r \<and> matches_base base r, variant @ '';base='' @ base))))"

subsection \<open>Exact answers\<close>

definition exact_stack_identifier :: "table \<Rightarrow> str \<Rightarrow> (row \<Rightarrow> bool) \<Rightarrow> row option" where
  "exact_stack_identifier rows query row_filter =
     (let identifier = strip query in
      if py_len identifier < 6 \<or> (\<exists>c \<in> set identifier. is_space c) then None
      else (case filter (\<lambda>r. row_filter r \<and>
                   (\<exists>f \<in> set [''Guideline'', ''Description'', ''Do'', ''Don't'', ''Code Good'', ''Code Bad''].
                      rx_found (ci (phrase_rx identifier)) (field r f))) rows of
              [r] \<Rightarrow> Some r | _ \<Rightarrow> None))"

definition new_app_rx :: rx where
  "new_app_rx = seqs
     [WordB, alts [lit ''brand new'', lit ''new''], plus1 (Cls is_space),
      alts [lit ''app'', lit ''application'', lit ''project''], WordB]"

definition successor_rx :: rx where
  "successor_rx = seqs
     [WordB, alts [lit ''prefer'', lit ''choose'', lit ''use''], WordB, Star (Cls (\<lambda>c. c \<noteq> newline)), WordB,
      lit ''new '', alts [Seq (lit ''app'') (opt (lit ''s'')), Seq (lit ''project'') (opt (lit ''s''))], WordB]"

definition legacy_successor_guidance :: "table \<Rightarrow> str \<Rightarrow> str \<Rightarrow> (row \<Rightarrow> bool) \<Rightarrow> row option" where
  "legacy_successor_guidance rows query stack row_filter =
     (if stack \<notin> set LEGACY_ONLY_STACKS \<or> \<not> rx_found new_app_rx (normalize (lower query)) then None
      else (case filter (\<lambda>r. row_filter r \<and>
                   rx_found successor_rx
                     (lower (join '' '' [field r ''Guideline'', field r ''Description'', field r ''Do'']))) rows of
              [r] \<Rightarrow> Some r | _ \<Rightarrow> None))"

definition exact_stack_row :: "table \<Rightarrow> str \<Rightarrow> str \<Rightarrow> (row \<Rightarrow> bool) \<Rightarrow> row option" where
  "exact_stack_row rows query stack row_filter =
     (case legacy_successor_guidance rows query stack row_filter of
        Some r \<Rightarrow> Some r | None \<Rightarrow> exact_stack_identifier rows query row_filter)"

subsection \<open>The search\<close>

definition stack_file :: "str \<Rightarrow> str" where
  "stack_file stack = get_or STACK_CONFIG stack []"

definition stack_threshold :: "str \<Rightarrow> threshold" where
  "stack_threshold variant = (if variant = ''legacy-only'' then NO_THRESHOLD else STACK_THRESHOLD)"

definition assemble_stack :: "str \<Rightarrow> str \<Rightarrow> threshold \<Rightarrow> answer \<Rightarrow> bool \<Rightarrow> search_output" where
  "assemble_stack query stack th ans diags =
     (let (found, index, diag) = ans in
      \<lparr>out_domain = ''stack'', out_stack = Some stack, out_query = query, out_file = stack_file stack,
       out_count = length found, results = found, auto_detected = False, runner_up_domain = None,
       redirect = None, out_error = d_error diag,
       suggestions = (if found \<noteq> [] then None else Some (suggest_terms index query 6 (Some th))),
       diagnostics = (if diags then Some diag else None)\<rparr>)"

definition unknown_stack :: "str \<Rightarrow> str" where
  "unknown_stack stack = (''Unknown stack: '' @ stack @ ''. Available: '' @ (join '', '' AVAILABLE_STACKS))"

definition search_stack :: "world \<Rightarrow> str \<Rightarrow> str \<Rightarrow> pyval \<Rightarrow> bool \<Rightarrow> (load_error + outcome) io" where
  "search_stack W query stack max_results diags =
     (if \<not> valid_max_results max_results
      then State_Monad.return (Inr (Refused ''max_results must be an integer from 1 to 20'' (Some stack)))
      else if \<not> has_key STACK_CONFIG stack
      then State_Monad.return (Inr (Refused (unknown_stack stack) None))
      else (let path = data_path (stack_file stack) in
        do { there \<leftarrow> path_exists W path;
             if \<not> there
             then State_Monad.return (Inr (Refused (''Stack file not found: '' @ path) (Some stack)))
             else do { rows \<leftarrow> load_rows_or_empty W path;
               let (row_filter, variant) = stack_row_filter rows query stack;
               let th = stack_threshold variant;
               try_bind
                 (case exact_stack_row rows query stack row_filter of
                    Some r \<Rightarrow> State_Monad.return (Inr ([project_row r STACK_OUTPUT_COLS], None,
                                 exact_match_diagnostic query ''exact-identifier''))
                  | None \<Rightarrow> search_csv_detailed W path STACK_SEARCH_COLS STACK_OUTPUT_COLS query
                              (nat (int_of max_results)) (Some th) None (Some row_filter) variant)
                 (\<lambda>ans. State_Monad.return (Inr (Answer (assemble_stack query stack th ans diags)))) } }))"

subsection \<open>The answer without caches\<close>

definition stack_answer :: "data_dir \<Rightarrow> str \<Rightarrow> str \<Rightarrow> nat \<Rightarrow> answer" where
  "stack_answer db query stack n =
     (let path = data_path (stack_file stack); rows = rows_or_empty db path;
          (row_filter, variant) = stack_row_filter rows query stack
      in case exact_stack_row rows query stack row_filter of
           Some r \<Rightarrow> ([project_row r STACK_OUTPUT_COLS], None, exact_match_diagnostic query ''exact-identifier'')
         | None \<Rightarrow> csv_answer db path STACK_SEARCH_COLS STACK_OUTPUT_COLS query n
                     (Some (stack_threshold variant)) None (Some row_filter))"

definition search_stack_spec :: "data_dir \<Rightarrow> str \<Rightarrow> str \<Rightarrow> pyval \<Rightarrow> bool \<Rightarrow> outcome" where
  "search_stack_spec db query stack max_results diags =
     (let path = data_path (stack_file stack) in
      if \<not> valid_max_results max_results
      then Refused ''max_results must be an integer from 1 to 20'' (Some stack)
      else if \<not> has_key STACK_CONFIG stack then Refused (unknown_stack stack) None
      else if db path = None then Refused (''Stack file not found: '' @ path) (Some stack)
      else Answer (assemble_stack query stack
             (stack_threshold (snd (stack_row_filter (rows_or_empty db path) query stack)))
             (stack_answer db query stack (nat (int_of max_results))) diags))"

lemma split_once_append: "c \<notin> set v \<Longrightarrow> split_once c (v @ c # w) = (v, Some w)"
  by (induction v) auto

lemma split_once_absent: "c \<notin> set v \<Longrightarrow> split_once c v = (v, None)"
  by (induction v) auto

lemma variant_row_plain: "CHR '';'' \<notin> set v \<Longrightarrow> variant_row v = status_row v"
  by (simp add: variant_row_def fun_eq_iff split_once_absent)

lemma variant_row_base:
  "CHR '';'' \<notin> set v \<Longrightarrow> variant_row (v @ '';base='' @ base) = (\<lambda>r. status_row v r \<and> matches_base base r)"
  using split_once_append [of "CHR '';''" v "''base='' @ base"] by (simp add: variant_row_def fun_eq_iff)

definition generation :: "bool \<Rightarrow> str list \<Rightarrow> str" where
  "generation requests_legacy statuses =
     (if ''deprecated'' \<in> set statuses \<and> requests_legacy then ''legacy-only''
      else if ''active'' \<in> set statuses then ''current-only'' else ''non-legacy'')"

lemma generation_filter:
  "(if ''deprecated'' \<in> set statuses \<and> requests_legacy
    then (\<lambda>r. get r ''Status'' = Some ''deprecated'', ''legacy-only'')
    else if ''active'' \<in> set statuses
    then (\<lambda>r. get r ''Status'' = Some ''active'', ''current-only'')
    else (\<lambda>r. get_or r ''Status'' ''unverified'' \<noteq> ''deprecated'', ''non-legacy'')) =
   (status_row (generation requests_legacy statuses), generation requests_legacy statuses)"
  by (simp add: generation_def status_row_def fun_eq_iff)

lemma generation_plain: "CHR '';'' \<notin> set (generation l ss)"
  by (simp add: generation_def)

lemma stack_row_filter_eq:
  "stack_row_filter rows query stack =
     (let statuses = map (\<lambda>r. get_or r ''Status'' ''unverified'') rows;
          legacy = stack_query_requests_legacy query stack;
          v = (if legacy \<and> ''deprecated'' \<notin> set statuses \<and> has_key STACK_CURRENT_VERSIONS stack
               then ''legacy-unavailable''
               else generation legacy statuses @
                 (if stack \<noteq> ''shadcn'' then []
                  else case requested_base (normalize (lower query)) of
                         None \<Rightarrow> [] | Some base \<Rightarrow> '';base='' @ base))
      in (variant_row v, v))"
proof -
  have none: "variant_row ''legacy-unavailable'' = (\<lambda>r. False)"
    by (simp add: variant_row_plain status_row_def fun_eq_iff)
  have pair: "(if P then (none, u) else (f, w)) = (variant_row (if P then u else w'), if P then u else w')"
    if "none = variant_row u" "f = variant_row w'" "w = w'" for P none u f w w'
    using that by simp
  show ?thesis
    unfolding stack_row_filter_def Let_def generation_filter prod.case
    by (cases "stack = ''shadcn''"; cases "requested_base (normalize (lower query))")
      (simp_all only: simp_thms if_True if_False option.case none append_Nil2
        pair [OF none [symmetric]] variant_row_base [OF generation_plain] variant_row_plain [OF generation_plain])
qed

lemma stack_row_filter_variant: "stack_row_filter rows query stack = (f, v) \<Longrightarrow> f = variant_row v"
  by (auto simp: stack_row_filter_eq Let_def simp del: set_map)

lemma exact_stack_row_sound:
  "exact_stack_row rows query stack f = Some r \<Longrightarrow> r \<in> set (filter f rows)"
proof -
  have one: "(case filter P xs of [r] \<Rightarrow> Some r | _ \<Rightarrow> None) = Some r \<Longrightarrow> r \<in> set xs \<and> P r" for P and xs :: table
    using filter_set [of P xs] by (auto split: list.splits) (metis list.set_intros(1) mem_Collect_eq set_filter)+
  show "exact_stack_row rows query stack f = Some r \<Longrightarrow> r \<in> set (filter f rows)"
    by (auto simp: exact_stack_row_def legacy_successor_guidance_def exact_stack_identifier_def Let_def
        split: option.splits if_splits dest!: one)
qed

lemma search_stack_refines:
  "yields (caches_ok db) (search_stack (static_world db) query stack max_results diags)
     (Inr (search_stack_spec db query stack max_results diags))"
proof (cases "valid_max_results max_results \<and> has_key STACK_CONFIG stack \<and> db (data_path (stack_file stack)) \<noteq> None")
  case False
  then show ?thesis
    by (auto simp: search_stack_def search_stack_spec_def Let_def yields_return
        intro!: yields_bind [OF yields_path_exists])
next
  case True
  let ?path = "data_path (stack_file stack)"
  obtain f v where fv: "stack_row_filter (rows_or_empty db ?path) query stack = (f, v)" by fastforce
  have "kept_rows (Some f) rows = filter (variant_row v) rows" for rows
    using stack_row_filter_variant [OF fv] by (simp add: kept_rows_def)
  then have ans: "yields (caches_ok db)
      (case exact_stack_row (rows_or_empty db ?path) query stack f of
         Some r \<Rightarrow> State_Monad.return (Inr ([project_row r STACK_OUTPUT_COLS], None,
                      exact_match_diagnostic query ''exact-identifier''))
       | None \<Rightarrow> search_csv_detailed (static_world db) ?path STACK_SEARCH_COLS STACK_OUTPUT_COLS query
                   (nat (int_of max_results)) (Some (stack_threshold v)) None (Some f) v)
      (Inr (stack_answer db query stack (nat (int_of max_results))))"
    by (auto simp: stack_answer_def Let_def fv intro!: yields_return yields_csv_detailed split: option.split)
  from True show ?thesis
    unfolding search_stack_def search_stack_spec_def Let_def
    apply (simp only: simp_thms if_True if_False)
    apply (rule yields_bind [OF yields_path_exists])
    apply (simp only: simp_thms if_True if_False)
    apply (rule yields_bind [OF yields_load_rows])
    apply (simp only: fv prod.case snd_conv)
    apply (rule yields_try_bind [OF ans])
    apply (rule yields_return)
    done
qed

lemma stack_answer_rows:
  assumes "stack_answer db query stack n = (found, index, diag)" and "0 < n"
  shows "length found \<le> n \<and>
    (\<forall>r \<in> set found. from_rows (filter (fst (stack_row_filter (rows_or_empty db (data_path (stack_file stack))) query stack))
       (rows_or_empty db (data_path (stack_file stack)))) STACK_OUTPUT_COLS r)"
proof -
  let ?rows = "rows_or_empty db (data_path (stack_file stack))"
  obtain f v where fv: "stack_row_filter ?rows query stack = (f, v)" by fastforce
  show ?thesis
  proof (cases "exact_stack_row ?rows query stack f")
    case None
    with assms fv have "csv_answer db (data_path (stack_file stack)) STACK_SEARCH_COLS STACK_OUTPUT_COLS query n
        (Some (stack_threshold v)) None (Some f) = (found, index, diag)"
      by (simp add: stack_answer_def Let_def)
    from csv_answer_from_rows [OF this] fv show ?thesis by (simp add: kept_rows_def)
  next
    case (Some r)
    with assms fv exact_stack_row_sound [OF Some] show ?thesis
      by (auto simp: stack_answer_def Let_def from_rows_def)
  qed
qed

subsection \<open>Sequences of requests\<close>

datatype request =
    DomainRequest str "str option" pyval bool
  | StackRequest str str pyval bool

fun perform :: "world \<Rightarrow> request \<Rightarrow> (load_error + outcome) io" where
  "perform W (DomainRequest query domain n diags) = search W query domain n diags"
| "perform W (StackRequest query stack n diags) = search_stack W query stack n diags"

fun answer_to :: "data_dir \<Rightarrow> request \<Rightarrow> outcome" where
  "answer_to db (DomainRequest query domain n diags) = search_spec db query domain n diags"
| "answer_to db (StackRequest query stack n diags) = search_stack_spec db query stack n diags"

fun perform_all :: "world \<Rightarrow> request list \<Rightarrow> (load_error + outcome) list io" where
  "perform_all W [] = State_Monad.return []"
| "perform_all W (r # rs) =
     do { x \<leftarrow> perform W r; xs \<leftarrow> perform_all W rs; State_Monad.return (x # xs) }"

lemma perform_refines: "yields (caches_ok db) (perform (static_world db) r) (Inr (answer_to db r))"
  by (cases r) (simp_all add: search_refines search_stack_refines)

lemma perform_all_refines:
  "yields (caches_ok db) (perform_all (static_world db) rs) (map (\<lambda>r. Inr (answer_to db r)) rs)"
  by (induction rs) (auto intro!: yields_return yields_bind [OF perform_refines] yields_bind)

subsection \<open>One generation per answer\<close>

abbreviation stack_rows :: "data_dir \<Rightarrow> str \<Rightarrow> table" where
  "stack_rows db stack \<equiv> rows_or_empty db (data_path (stack_file stack))"

definition deprecated_row :: "row \<Rightarrow> bool" where
  "deprecated_row r \<longleftrightarrow> get r ''Status'' = Some ''deprecated''"

lemma deprecated_in_statuses:
  "''deprecated'' \<in> set (map (\<lambda>r. get_or r ''Status'' ''unverified'') rows) \<longleftrightarrow> (\<exists>r \<in> set rows. deprecated_row r)"
  by (auto simp: deprecated_row_def get_or_def image_iff split: option.splits)

lemma generation_deprecated:
  "status_row (generation legacy (map (\<lambda>r. get_or r ''Status'' ''unverified'') rows)) r \<Longrightarrow>
   deprecated_row r \<longleftrightarrow> legacy \<and> (\<exists>r \<in> set rows. deprecated_row r)"
  unfolding generation_def deprecated_in_statuses
  by (auto simp: status_row_def deprecated_row_def get_or_def split: if_splits option.splits)

lemma stack_row_filter_generation:
  assumes "fst (stack_row_filter rows query stack) r"
  shows "(deprecated_row r \<longleftrightarrow> stack_query_requests_legacy query stack \<and> (\<exists>r \<in> set rows. deprecated_row r)) \<and>
    (stack = ''shadcn'' \<longrightarrow> (\<forall>base. requested_base (normalize (lower query)) = Some base \<longrightarrow> matches_base base r))"
proof -
  let ?g = "generation (stack_query_requests_legacy query stack) (map (\<lambda>r. get_or r ''Status'' ''unverified'') rows)"
  have none: "\<not> variant_row ''legacy-unavailable'' r"
    by (simp add: variant_row_plain status_row_def)
  from assms none consider
      "status_row ?g r" "stack = ''shadcn'' \<longrightarrow> requested_base (normalize (lower query)) = None"
    | base where "status_row ?g r" "matches_base base r" "requested_base (normalize (lower query)) = Some base"
    by (auto simp: stack_row_filter_eq Let_def variant_row_base [OF generation_plain] variant_row_plain [OF generation_plain]
        simp del: set_map append_Cons split: if_splits option.splits)
  then show ?thesis using generation_deprecated by cases auto
qed

lemma search_stack_generation:
  assumes "search_stack_spec db query stack m diags = Answer out"
  shows "out_count out = length (results out) \<and> out_count out \<le> nat (int_of m) \<and> int_of m \<le> 20 \<and>
    (\<forall>r \<in> set (results out). \<exists>row \<in> set (stack_rows db stack). r = project_row row STACK_OUTPUT_COLS \<and>
       (deprecated_row row \<longleftrightarrow>
          stack_query_requests_legacy query stack \<and> (\<exists>row \<in> set (stack_rows db stack). deprecated_row row)))"
proof -
  obtain found index diag where ans: "stack_answer db query stack (nat (int_of m)) = (found, index, diag)"
    by (metis prod.exhaust)
  from assms have m: "valid_max_results m" and out: "out = assemble_stack query stack
      (stack_threshold (snd (stack_row_filter (stack_rows db stack) query stack))) (found, index, diag) diags"
    by (auto simp: search_stack_spec_def Let_def ans split: if_splits)
  from m have n: "0 < nat (int_of m) \<and> int_of m \<le> 20" by (cases m) auto
  have "\<exists>row \<in> set (stack_rows db stack). r = project_row row STACK_OUTPUT_COLS \<and>
       (deprecated_row row \<longleftrightarrow>
          stack_query_requests_legacy query stack \<and> (\<exists>row \<in> set (stack_rows db stack). deprecated_row row))"
    if "r \<in> set found" for r
    using stack_answer_rows [OF ans] n that stack_row_filter_generation by (fastforce simp: from_rows_def)
  moreover have "length found \<le> nat (int_of m)" using stack_answer_rows [OF ans] n by simp
  ultimately show ?thesis using n by (simp add: out assemble_stack_def)
qed
end
