(* ===== verification/Runs.thy ===== *)
theory Runs
  imports Regex
begin

text \<open>
  Substitutions of runs: \<open>re.sub\<close> with a pattern \<open>[...]+\<close> is the structural recursion
  \<open>squeeze\<close>, which replaces every maximal run of the class by the replacement. The slugs of the
  scripts are such substitutions.
\<close>

function squeeze :: "(char \<Rightarrow> bool) \<Rightarrow> str \<Rightarrow> str \<Rightarrow> str" where
  "squeeze P new [] = []"
| "squeeze P new (c # s) = (if P c then new @ squeeze P new (dropWhile P s) else c # squeeze P new s)"
  by pat_completeness auto
termination
  by (relation "measure (\<lambda>(P, new, s). length s)") (auto simp: le_imp_less_Suc length_dropWhile_le)

lemma star_cls_first:
  "length a \<le> n \<Longrightarrow>
   \<exists>qs. star_iter (mt (Cls P)) n (b, a, g) = (rev (takeWhile P a) @ b, dropWhile P a, g) # qs"
proof (induction n arbitrary: b a)
  case (Suc n)
  show ?case
  proof (cases a)
    case (Cons c cs)
    show ?thesis
    proof (cases "P c")
      case True
      with Suc.IH [of cs "c # b"] Suc.prems Cons show ?thesis by auto
    qed (simp add: Cons)
  qed simp
qed simp

lemma mt_plus1_cls:
  "mt (plus1 (Cls P)) (b, [], g) = []"
  "\<not> P c \<Longrightarrow> mt (plus1 (Cls P)) (b, c # s, g) = []"
  "P c \<Longrightarrow> \<exists>qs. mt (plus1 (Cls P)) (b, c # s, g) = (rev (takeWhile P s) @ c # b, dropWhile P s, g) # qs"
  using star_cls_first [of s "length s" P "c # b" g] by (simp_all add: plus1_def)

lemma sub_from_plus1_miss:
  assumes "\<not> P c"
  shows "sub_from (plus1 (Cls P)) new b (c # s) = c # sub_from (plus1 (Cls P)) new (c # b) s"
proof -
  let ?r = "plus1 (Cls P)"
  have f: "search_from ?r b (c # s) = search_from ?r (c # b) s"
    using assms by (simp add: search_from.simps [of ?r b "c # s"] mt_plus1_cls(2))
  show ?thesis
  proof (cases "search_from ?r (c # b) s")
    case None
    with f show ?thesis by (simp add: sub_from_None)
  next
    case (Some m)
    from search_from_Some [OF Some] obtain u v q qs where
      m: "s = u @ v" "mt ?r (rev u @ c # b, v, []) = q # qs" "m = mk_match (rev u @ c # b) v q" by blast
    have "q \<in> set (mt ?r (rev u @ c # b, v, []))" by (simp add: m(2))
    with never_empty_plus1 [of P] have "length (after q) < length v" by (fastforce simp: never_empty_def)
    then have "length (m_post m) < length s" by (simp add: m(1,3) mk_match_def)
    moreover have "drop (length b) (m_pre m) = c # drop (Suc (length b)) (m_pre m)" by (simp add: m(3) mk_match_def)
    ultimately show ?thesis
      using f Some by (simp add: sub_from.simps [of ?r new b "c # s"] sub_from.simps [of ?r new "c # b" s])
  qed
qed

lemma sub_from_plus1: "sub_from (plus1 (Cls P)) new b s = squeeze P new s"
proof (induction "length s" arbitrary: b s rule: less_induct)
  case less
  let ?r = "plus1 (Cls P)"
  show ?case
  proof (cases s)
    case Nil
    have "search_from ?r b [] = None"
      using mt_plus1_cls(1) by (simp add: search_from.simps [of ?r b "[]"])
    with Nil show ?thesis by (simp add: sub_from_None)
  next
    case (Cons c t)
    show ?thesis
    proof (cases "P c")
      case False
      with less [of t "c # b"] Cons show ?thesis by (simp add: sub_from_plus1_miss)
    next
      case True
      from mt_plus1_cls(3) [of P c b t "[]", OF True] obtain qs where
        "mt ?r (b, c # t, []) = (rev (takeWhile P t) @ c # b, dropWhile P t, []) # qs" by blast
      then have "search_from ?r b (c # t) = Some (mk_match b (c # t) (rev (takeWhile P t) @ c # b, dropWhile P t, []))"
        by (simp add: search_from.simps [of ?r b "c # t"])
      moreover have "length (dropWhile P t) < Suc (length t)" by (simp add: le_imp_less_Suc length_dropWhile_le)
      ultimately show ?thesis
        using less [of "dropWhile P t"] Cons True by (simp add: sub_from.simps [of ?r new b "c # t"] mk_match_def)
    qed
  qed
qed

lemma rx_sub_plus1 [simp]: "rx_sub (plus1 (Cls P)) new s = squeeze P new s"
  by (simp add: rx_sub_def sub_from_plus1)

lemma squeeze_set: "x \<in> set (squeeze P new s) \<Longrightarrow> x \<in> set new \<or> x \<in> set s \<and> \<not> P x"
  by (induction P new s rule: squeeze.induct) (auto split: if_splits dest: set_dropWhileD)

lemma squeeze_id: "\<forall>x \<in> set s. \<not> P x \<Longrightarrow> squeeze P new s = s"
  by (induction s) auto

text \<open>\<open>str.title\<close>: the first letter of every run of letters in upper case, the others in lower case.\<close>

fun title_from :: "bool \<Rightarrow> str \<Rightarrow> str" where
  "title_from inword [] = []"
| "title_from inword (c # s) =
     (if is_upper c \<or> is_lower c
      then (if inword then lower_char c else upper_char c) # title_from True s
      else c # title_from False s)"

lemma strip_by_set: "x \<in> set (strip_by Q s) \<Longrightarrow> x \<in> set s"
  by (metis strip_by_def set_dropWhileD set_rev)

lemma strip_by_hd: "strip_by Q s \<noteq> [] \<Longrightarrow> \<not> Q (hd (strip_by Q s)) \<and> \<not> Q (last (strip_by Q s))"
proof -
  let ?d = "dropWhile Q s"
  assume n: "strip_by Q s \<noteq> []"
  then have "dropWhile Q (rev ?d) \<noteq> []" by (simp add: strip_by_def)
  then have l: "\<not> Q (hd (dropWhile Q (rev ?d)))" by (rule hd_dropWhile)
  have "rev ?d = takeWhile Q (rev ?d) @ rev (strip_by Q s)" by (simp add: strip_by_def)
  then have d: "?d = strip_by Q s @ rev (takeWhile Q (rev ?d))" by (metis rev_append rev_rev_ident)
  with n have "?d \<noteq> []" and "hd ?d = hd (strip_by Q s)" by (metis append_is_Nil_conv) (metis d hd_append n)
  with hd_dropWhile [of Q s] have "\<not> Q (hd (strip_by Q s))" by simp
  with l show ?thesis by (simp add: strip_by_def last_rev)
qed

lemma strip_by_id: "s = [] \<or> \<not> Q (hd s) \<and> \<not> Q (last s) \<Longrightarrow> strip_by Q s = s"
proof (cases s)
  case (Cons c t)
  assume a: "s = [] \<or> \<not> Q (hd s) \<and> \<not> Q (last s)"
  with Cons have "dropWhile Q s = s" by simp
  moreover have "dropWhile Q (rev s) = rev s"
  proof -
    have "\<not> Q (hd (rev s))" using a Cons by (metis hd_rev list.discI)
    then show ?thesis by (cases "rev s") auto
  qed
  ultimately show ?thesis by (simp add: strip_by_def)
qed (simp add: strip_by_def)

lemma strip_strip: "strip (strip s) = strip s"
  using strip_by_hd [of is_space s] by (cases "strip s = []") (auto intro: strip_by_id)

end
