(* ===== verification/Files.thy ===== *)
theory Files
  imports PyBase
begin

text \<open>
  Paths as lists of names, and a file system as the files and directories there are, for the scripts
  that read and write files. There are no symbolic links.
\<close>

subsection \<open>Paths and files\<close>

text \<open>A path: whether it is absolute, and its segments.\<close>

type_synonym path = "bool \<times> str list"

definition path_of :: "str \<Rightarrow> path" where
  "path_of s = (starts_with ''/'' s,
     filter (\<lambda>p. p \<noteq> [] \<and> p \<noteq> ''.'') (split_on (\<lambda>c. c = CHR ''/'') s))"

definition path_str :: "path \<Rightarrow> str" where
  "path_str p = (if p = (False, []) then ''.'' else (if fst p then ''/'' else []) @ join ''/'' (snd p))"

definition sub_path :: "path \<Rightarrow> str list \<Rightarrow> path" where
  "sub_path p parts = (fst p, snd p @ parts)"

record filesystem =
  fs_files :: "path \<Rightarrow> str option"
  fs_dirs :: "path \<Rightarrow> bool"

definition ancestors :: "path \<Rightarrow> path list" where
  "ancestors p = map (\<lambda>n. (fst p, take n (snd p))) [0..<Suc (length (snd p))]"

text \<open>\<open>mkdir(parents=True, exist_ok=True)\<close>: it fails where the path or a parent is a file.\<close>

definition make_dirs :: "path \<Rightarrow> filesystem \<Rightarrow> filesystem option" where
  "make_dirs p fs =
     (if \<exists>q \<in> set (ancestors p). fs_files fs q \<noteq> None then None
      else Some (fs\<lparr>fs_dirs := \<lambda>q. fs_dirs fs q \<or> q \<in> set (ancestors p)\<rparr>))"

definition parent_path :: "path \<Rightarrow> path" where
  "parent_path p = (fst p, butlast (snd p))"

text \<open>\<open>p / name\<close>\<close>

definition join_path :: "path \<Rightarrow> str \<Rightarrow> path" where
  "join_path p name = (if fst (path_of name) then path_of name else sub_path p (snd (path_of name)))"

definition on_disk :: "filesystem \<Rightarrow> path \<Rightarrow> bool" where
  "on_disk fs p \<longleftrightarrow> fs_files fs p \<noteq> None \<or> fs_dirs fs p"

text \<open>Writing the text of a file: it fails where the path is a directory or the directory of the file is missing.\<close>

definition write_text :: "path \<Rightarrow> str \<Rightarrow> filesystem \<Rightarrow> filesystem option" where
  "write_text p content fs =
     (if snd p = [] \<or> fs_dirs fs p \<or> (\<not> fs_dirs fs (parent_path p) \<and> snd (parent_path p) \<noteq> []) then None
      else Some (fs\<lparr>fs_files := (fs_files fs)(p \<mapsto> content)\<rparr>))"

end
