(* ===== verification/Json.thy ===== *)
theory Json
  imports Runs
begin

text \<open>
  JSON text, as the module \<open>json\<close> reads and writes it: \<open>json.loads\<close> as a recursive descent parser,
  with the exception for malformed text and the hook for objects as arguments, and \<open>json.dumps\<close> with
  an indentation of two. Numbers are kept as their text.
\<close>

subsection \<open>Reading JSON\<close>

datatype json =
    JNull
  | JBool bool
  | JNumber str
  | JString str
  | JArray "json list"
  | JObject "(str \<times> json) list"

definition is_json_space :: "char \<Rightarrow> bool" where
  "is_json_space c \<longleftrightarrow> code c = 32 \<or> code c = 9 \<or> code c = 10 \<or> code c = 13"

definition skip_space :: "str \<Rightarrow> str" where
  "skip_space s = dropWhile is_json_space s"

text \<open>The UTF-8 bytes of a code point.\<close>

definition utf8 :: "nat \<Rightarrow> str" where
  "utf8 n =
     map char_of
       (if n < 128 then [n]
        else if n < 2048 then [192 + n div 64, 128 + n mod 64]
        else if n < 65536 then [224 + n div 4096, 128 + n div 64 mod 64, 128 + n mod 64]
        else [240 + n div 262144, 128 + n div 4096 mod 64, 128 + n div 64 mod 64, 128 + n mod 64])"

definition hex_value :: "char \<Rightarrow> nat option" where
  "hex_value c =
     (if is_digit c then Some (code c - 48)
      else if 97 \<le> code c \<and> code c \<le> 102 then Some (code c - 87)
      else if 65 \<le> code c \<and> code c \<le> 70 then Some (code c - 55)
      else None)"

fun hex4 :: "str \<Rightarrow> (nat \<times> str) option" where
  "hex4 (a # b # c # d # s) =
     (case (hex_value a, hex_value b, hex_value c, hex_value d) of
        (Some w, Some x, Some y, Some z) \<Rightarrow> Some (((w * 16 + x) * 16 + y) * 16 + z, s)
      | _ \<Rightarrow> None)"
| "hex4 _ = None"

text \<open>A \<open>u\<close> escape, joined with the low surrogate that may follow it.\<close>

definition unicode_escape :: "str \<Rightarrow> (str \<times> str) option" where
  "unicode_escape s =
     (case hex4 s of
        None \<Rightarrow> None
      | Some (n, rest) \<Rightarrow>
          if 55296 \<le> n \<and> n < 56320
          then (case rest of
                  b # u # rest' \<Rightarrow>
                    if code b = 92 \<and> u = CHR ''u''
                    then (case hex4 rest' of
                            Some (m, rest'') \<Rightarrow>
                              if 56320 \<le> m \<and> m < 57344
                              then Some (utf8 (65536 + (n - 55296) * 1024 + (m - 56320)), rest'')
                              else Some (utf8 n, rest)
                          | None \<Rightarrow> None)
                    else Some (utf8 n, rest)
                | _ \<Rightarrow> Some (utf8 n, rest))
          else Some (utf8 n, rest))"

definition simple_escape :: "char \<Rightarrow> char option" where
  "simple_escape c =
     (if c = CHR 0x22 \<or> code c = 92 \<or> c = CHR ''/'' then Some c
      else if c = CHR ''b'' then Some (char_of (8 :: nat))
      else if c = CHR ''f'' then Some (char_of (12 :: nat))
      else if c = CHR ''n'' then Some newline
      else if c = CHR ''r'' then Some (char_of (13 :: nat))
      else if c = CHR ''t'' then Some (char_of (9 :: nat))
      else None)"

text \<open>The text of a string after its opening quote; the fuel bounds the number of characters.\<close>

fun json_string :: "nat \<Rightarrow> str \<Rightarrow> (str \<times> str) option" where
  "json_string 0 s = None"
| "json_string (Suc n) [] = None"
| "json_string (Suc n) (c # s) =
     (if c = CHR 0x22 then Some ([], s)
      else if code c = 92
      then (case s of
              [] \<Rightarrow> None
            | e # s' \<Rightarrow>
                (case (if e = CHR ''u'' then unicode_escape s'
                       else map_option (\<lambda>x. ([x], s')) (simple_escape e)) of
                   None \<Rightarrow> None
                 | Some (t, s'') \<Rightarrow> map_option (\<lambda>(u, r). (t @ u, r)) (json_string n s'')))
      else if code c < 32 then None
      else map_option (\<lambda>(u, r). (c # u, r)) (json_string n s))"

definition number_rx :: rx where
  "number_rx = seqs
     [opt (lit ''-''), Alt (lit ''0'') (Seq (Cls (\<lambda>c. is_digit c \<and> c \<noteq> CHR ''0'')) (Star (Cls is_digit))),
      opt (Seq (lit ''.'') (plus1 (Cls is_digit))),
      opt (seqs [Cls (\<lambda>c. c = CHR ''e'' \<or> c = CHR ''E''), opt (Cls (\<lambda>c. c = CHR ''-'' \<or> c = CHR ''+'')),
        plus1 (Cls is_digit)])]"

definition json_literals :: "(str \<times> json) list" where
  "json_literals =
     [(''null'', JNull), (''true'', JBool True), (''false'', JBool False), (''NaN'', JNumber ''NaN''),
      (''Infinity'', JNumber ''Infinity''), (''-Infinity'', JNumber ''-Infinity'')]"

definition json_scalar :: "str \<Rightarrow> (json \<times> str) option" where
  "json_scalar s =
     (case find (\<lambda>(w, j). starts_with w s) json_literals of
        Some (w, j) \<Rightarrow> Some (j, drop (length w) s)
      | None \<Rightarrow> (case rx_match number_rx s of
                   None \<Rightarrow> None | Some m \<Rightarrow> Some (JNumber (m_text m), m_post m)))"

definition expect :: "char \<Rightarrow> str \<Rightarrow> str option" where
  "expect c s = (case s of [] \<Rightarrow> None | x # r \<Rightarrow> if x = c then Some r else None)"

text \<open>A key with its colon, up to the value.\<close>

definition json_key :: "str \<Rightarrow> (str \<times> str) option" where
  "json_key s =
     (case expect CHR 0x22 s of
        None \<Rightarrow> None
      | Some r \<Rightarrow>
          (case json_string (Suc (length r)) r of
             None \<Rightarrow> None
           | Some (key, r') \<Rightarrow>
               map_option (\<lambda>t. (key, skip_space t)) (expect CHR '':'' (skip_space r'))))"

text \<open>
  Values, the elements of an array after its bracket, and the members of an object after its
  brace. Each nested call takes one unit of fuel; \<open>json_loads\<close> gives as much as the text is long.
\<close>

fun json_value :: "'e \<Rightarrow> ((str \<times> json) list \<Rightarrow> 'e + json) \<Rightarrow> nat \<Rightarrow> str \<Rightarrow> 'e + json \<times> str"
  and json_items :: "'e \<Rightarrow> ((str \<times> json) list \<Rightarrow> 'e + json) \<Rightarrow> nat \<Rightarrow> str \<Rightarrow> json list \<Rightarrow> 'e + json list \<times> str"
  and json_pairs :: "'e \<Rightarrow> ((str \<times> json) list \<Rightarrow> 'e + json) \<Rightarrow> nat \<Rightarrow> str \<Rightarrow> (str \<times> json) list \<Rightarrow> 'e + (str \<times> json) list \<times> str" where
  "json_value bad hook 0 s = Inl bad"
| "json_value bad hook (Suc n) s =
     (case s of
        [] \<Rightarrow> Inl bad
      | c # r \<Rightarrow>
          if c = CHR 0x22
          then (case json_string (Suc (length r)) r of
                  None \<Rightarrow> Inl bad | Some (t, r') \<Rightarrow> Inr (JString t, r'))
          else if c = CHR ''[''
          then (case expect CHR '']'' (skip_space r) of
                  Some r' \<Rightarrow> Inr (JArray [], r')
                | None \<Rightarrow> (case json_items bad hook n (skip_space r) [] of
                             Inl e \<Rightarrow> Inl e | Inr (js, t) \<Rightarrow> Inr (JArray js, t)))
          else if c = CHR ''{''
          then (case expect CHR ''}'' (skip_space r) of
                  Some r' \<Rightarrow> map_sum id (\<lambda>j. (j, r')) (hook [])
                | None \<Rightarrow> (case json_pairs bad hook n (skip_space r) [] of
                             Inl e \<Rightarrow> Inl e
                           | Inr (ps, t) \<Rightarrow> map_sum id (\<lambda>j. (j, t)) (hook ps)))
          else (case json_scalar s of None \<Rightarrow> Inl bad | Some jr \<Rightarrow> Inr jr))"
| "json_items bad hook 0 s acc = Inl bad"
| "json_items bad hook (Suc n) s acc =
     (case json_value bad hook n s of
        Inl e \<Rightarrow> Inl e
      | Inr (j, r) \<Rightarrow>
          (case expect CHR '']'' (skip_space r) of
             Some r' \<Rightarrow> Inr (acc @ [j], r')
           | None \<Rightarrow> (case expect CHR '','' (skip_space r) of
                        Some r' \<Rightarrow> json_items bad hook n (skip_space r') (acc @ [j])
                      | None \<Rightarrow> Inl bad)))"
| "json_pairs bad hook 0 s acc = Inl bad"
| "json_pairs bad hook (Suc n) s acc =
     (case json_key s of
        None \<Rightarrow> Inl bad
      | Some (key, r) \<Rightarrow>
          (case json_value bad hook n r of
             Inl e \<Rightarrow> Inl e
           | Inr (v, r) \<Rightarrow>
               (case expect CHR ''}'' (skip_space r) of
                  Some r' \<Rightarrow> Inr (acc @ [(key, v)], r')
                | None \<Rightarrow> (case expect CHR '','' (skip_space r) of
                             Some r' \<Rightarrow> json_pairs bad hook n (skip_space r') (acc @ [(key, v)])
                           | None \<Rightarrow> Inl bad))))"

definition json_loads :: "'e \<Rightarrow> ((str \<times> json) list \<Rightarrow> 'e + json) \<Rightarrow> str \<Rightarrow> 'e + json" where
  "json_loads bad hook s =
     (case json_value bad hook (Suc (2 * length s)) (skip_space s) of
        Inl e \<Rightarrow> Inl e
      | Inr (j, r) \<Rightarrow> if skip_space r = [] then Inr j else Inl bad)"

subsection \<open>The fuel of the parser is enough\<close>

lemma length_skip_space [simp]: "length (skip_space s) \<le> length s"
  by (simp add: skip_space_def length_dropWhile_le)

lemma expect_length: "expect c s = Some r \<Longrightarrow> length r < length s"
  by (auto simp: expect_def split: list.splits if_splits)

lemma hex4_length: "hex4 s = Some (n, r) \<Longrightarrow> length r \<le> length s"
  by (cases s rule: hex4.cases) (auto split: option.splits)

lemma unicode_escape_length: "unicode_escape s = Some (t, r) \<Longrightarrow> length r \<le> length s"
  by (auto simp: unicode_escape_def split: option.splits if_splits list.splits dest!: hex4_length)

lemma json_string_length: "json_string n s = Some (t, r) \<Longrightarrow> length r \<le> length s"
proof (induction n s arbitrary: t r rule: json_string.induct)
  case (3 n c s)
  show ?case
  proof (cases "c = CHR 0x22")
    case True
    with "3.prems" show ?thesis by simp
  next
    case quote: False
    show ?thesis
    proof (cases "code c = 92")
      case True
      with quote "3.prems" obtain e s' where s: "s = e # s'" by (auto split: list.splits)
      let ?esc = "if e = CHR ''u'' then unicode_escape s' else map_option (\<lambda>x. ([x], s')) (simple_escape e)"
      from "3.prems" quote True s obtain u s'' t' where e: "?esc = Some (u, s'')" "json_string n s'' = Some (t', r)"
        by (auto split: option.splits)
      have "length s'' \<le> length s'"
        using e(1) by (auto split: if_splits dest: unicode_escape_length)
      moreover from "3.IH"(1) [OF quote True s e(1) refl e(2)] have "length r \<le> length s''" .
      ultimately show ?thesis by (simp add: s)
    next
      case False
      with quote "3.prems" obtain t' where "\<not> code c < 32" "json_string n s = Some (t', r)"
        by (auto split: if_splits)
      with "3.IH"(2) [OF quote False] show ?thesis by fastforce
    qed
  qed
qed auto

lemma json_key_length: "json_key s = Some (k, r) \<Longrightarrow> length r < length s"
proof -
  assume "json_key s = Some (k, r)"
  then obtain a b c where k: "expect CHR 0x22 s = Some a" "json_string (Suc (length a)) a = Some (k, b)"
      "expect CHR '':'' (skip_space b) = Some c" "r = skip_space c"
    by (auto simp: json_key_def split: option.splits)
  show ?thesis
    using expect_length [OF k(1)] json_string_length [OF k(2)] expect_length [OF k(3)]
      length_skip_space [of b] length_skip_space [of c]
    unfolding k(4) by linarith
qed

lemma json_scalar_length: "json_scalar s = Some (j, r) \<Longrightarrow> length r \<le> length s"
proof (cases "find (\<lambda>(w, j). starts_with w s) json_literals")
  case None
  assume "json_scalar s = Some (j, r)"
  with None obtain m where "rx_match number_rx s = Some m" "r = m_post m"
    by (auto simp: json_scalar_def split: option.splits)
  then obtain q qs where q: "mt number_rx ([], s, []) = q # qs" "r = after q"
    by (auto simp: rx_match_def mk_match_def split: list.splits)
  then show ?thesis using mt_moves [of q number_rx "([], s, [])"] by (auto simp: moves_def)
qed (auto simp: json_scalar_def)

lemma json_lengths:
  "(\<forall>s j r. json_value bad hook n s = Inr (j, r) \<longrightarrow> length r \<le> length s) \<and>
   (\<forall>s acc js r. json_items bad hook n s acc = Inr (js, r) \<longrightarrow> length r \<le> length s) \<and>
   (\<forall>s acc ps r. json_pairs bad hook n s acc = Inr (ps, r) \<longrightarrow> length r \<le> length s)"
proof (induction n)
  case (Suc n)
  have vals: "length r \<le> length s" if v: "json_value bad hook (Suc n) s = Inr (j, r)" for s j r
  proof (cases s)
    case (Cons c t)
    consider "c = CHR 0x22" | "c = CHR ''[''" | "c = CHR ''{''"
      | "c \<noteq> CHR 0x22" "c \<noteq> CHR ''[''" "c \<noteq> CHR ''{''" by blast
    then show ?thesis
    proof cases
      case 1
      with v Cons show ?thesis by (auto split: option.splits dest!: json_string_length)
    next
      case 2
      with v Cons Suc.IH show ?thesis
        by (auto split: option.splits sum.splits dest!: expect_length)
          (meson le_SucI le_trans length_skip_space less_imp_le)+
    next
      case 3
      with v Cons Suc.IH show ?thesis
        by (auto split: option.splits sum.splits simp: map_sum_def dest!: expect_length)
          (meson le_SucI le_trans length_skip_space less_imp_le)+
    next
      case 4
      with v Cons show ?thesis by (auto split: option.splits dest!: json_scalar_length)
    qed
  qed (use v in simp)
  have items: "length r \<le> length s" if v: "json_items bad hook (Suc n) s acc = Inr (js, r)" for s acc js r
  proof -
    from v obtain j t where j: "json_value bad hook n s = Inr (j, t)" by (auto split: sum.splits)
    with Suc.IH have t: "length t \<le> length s" by blast
    from v j consider "expect CHR '']'' (skip_space t) = Some r"
      | t' acc' where "expect CHR '','' (skip_space t) = Some t'" "json_items bad hook n (skip_space t') acc' = Inr (js, r)"
      by (auto split: option.splits)
    then show ?thesis
    proof cases
      case 1
      with expect_length [OF 1] t length_skip_space [of t] show ?thesis by linarith
    next
      case 2
      with Suc.IH have "length r \<le> length (skip_space t')" by blast
      with expect_length [OF 2(1)] t length_skip_space [of t] length_skip_space [of t'] show ?thesis by linarith
    qed
  qed
  have pairs: "length r \<le> length s" if v: "json_pairs bad hook (Suc n) s acc = Inr (ps, r)" for s acc ps r
  proof -
    from v obtain k u j t where k: "json_key s = Some (k, u)" and j: "json_value bad hook n u = Inr (j, t)"
      by (auto split: sum.splits option.splits)
    with Suc.IH json_key_length [OF k] have t: "length t < length s" by fastforce
    from v k j consider "expect CHR ''}'' (skip_space t) = Some r"
      | t' acc' where "expect CHR '','' (skip_space t) = Some t'" "json_pairs bad hook n (skip_space t') acc' = Inr (ps, r)"
      by (auto split: option.splits)
    then show ?thesis
    proof cases
      case 1
      with expect_length [OF 1] t length_skip_space [of t] show ?thesis by linarith
    next
      case 2
      with Suc.IH have "length r \<le> length (skip_space t')" by blast
      with expect_length [OF 2(1)] t length_skip_space [of t] length_skip_space [of t'] show ?thesis by linarith
    qed
  qed
  from vals items pairs show ?case by blast
qed simp

text \<open>Any two amounts of fuel above twice the length give the same result.\<close>

lemma json_fuel:
  "(\<forall>m s. 2 * length s < n \<and> 2 * length s < m \<longrightarrow> json_value bad hook n s = json_value bad hook m s) \<and>
   (\<forall>m s acc. 2 * length s + 1 < n \<and> 2 * length s + 1 < m \<longrightarrow> json_items bad hook n s acc = json_items bad hook m s acc) \<and>
   (\<forall>m s acc. 2 * length s + 1 < n \<and> 2 * length s + 1 < m \<longrightarrow> json_pairs bad hook n s acc = json_pairs bad hook m s acc)"
proof (induction n)
  case (Suc n)
  note IHv = Suc.IH [THEN conjunct1, rule_format]
  note IHi = Suc.IH [THEN conjunct2, THEN conjunct1, rule_format]
  note IHp = Suc.IH [THEN conjunct2, THEN conjunct2, rule_format]
  have vals: "json_value bad hook (Suc n) s = json_value bad hook m s" if l: "2 * length s < Suc n" "2 * length s < m" for m s
  proof (cases m)
    case m: (Suc m')
    show ?thesis
    proof (cases s)
      case (Cons c r)
      have "2 * length (skip_space r) + 1 < n"
        using l length_skip_space [of r] unfolding m Cons length_Cons by arith
      moreover have "2 * length (skip_space r) + 1 < m'"
        using l length_skip_space [of r] unfolding m Cons length_Cons by arith
      ultimately have "json_items bad hook n (skip_space r) [] = json_items bad hook m' (skip_space r) []"
        "json_pairs bad hook n (skip_space r) [] = json_pairs bad hook m' (skip_space r) []"
        by (auto intro: IHi IHp)
      then show ?thesis by (simp add: m Cons split: option.split)
    qed (simp add: m)
  qed (use l in simp)
  have items: "json_items bad hook (Suc n) s acc = json_items bad hook m s acc"
    if l: "2 * length s + 1 < Suc n" "2 * length s + 1 < m" for m s acc
  proof (cases m)
    case m: (Suc m')
    have v: "json_value bad hook n s = json_value bad hook m' s" by (rule IHv) (use l m in auto)
    show ?thesis
    proof (cases "json_value bad hook m' s")
      case (Inr jr)
      obtain j r where jr: "jr = (j, r)" by fastforce
      show ?thesis
      proof (cases "expect CHR '','' (skip_space r)")
        case (Some r')
        have "length r \<le> length s" using json_lengths [of bad hook m'] Inr jr by blast
        then have "length (skip_space r') < length s"
          using expect_length [OF Some] length_skip_space [of r] length_skip_space [of r'] by arith
        then have "json_items bad hook n (skip_space r') (acc @ [j]) = json_items bad hook m' (skip_space r') (acc @ [j])"
          by (intro IHi) (use l m in auto)
        then show ?thesis using Inr Some v by (simp add: m jr split: option.split)
      qed (use Inr v in \<open>simp add: m jr split: option.split\<close>)
    qed (use v in \<open>simp add: m\<close>)
  qed (use l in simp)
  have pairs: "json_pairs bad hook (Suc n) s acc = json_pairs bad hook m s acc"
    if l: "2 * length s + 1 < Suc n" "2 * length s + 1 < m" for m s acc
  proof (cases m)
    case m: (Suc m')
    have v: "json_value bad hook n u = json_value bad hook m' u" if "json_key s = Some (k, u)" for k u
      by (rule IHv) (use json_key_length [OF that] l m in auto)
    show ?thesis
    proof (cases "json_key s")
      case k: (Some ku)
      obtain k u where ku: "ku = (k, u)" by fastforce
      show ?thesis
      proof (cases "json_value bad hook m' u")
        case (Inr jr)
        obtain j r where jr: "jr = (j, r)" by fastforce
        show ?thesis
        proof (cases "expect CHR '','' (skip_space r)")
          case (Some r')
          have "length r \<le> length u" using json_lengths [of bad hook m'] Inr jr by blast
          moreover have "length u < length s" using json_key_length k ku by simp
          ultimately have "length (skip_space r') < length s"
            using expect_length [OF Some] length_skip_space [of r] length_skip_space [of r'] by arith
          then have "json_pairs bad hook n (skip_space r') (acc @ [(k, j)]) = json_pairs bad hook m' (skip_space r') (acc @ [(k, j)])"
            by (intro IHp) (use l m in auto)
          then show ?thesis using k Inr Some v by (simp add: m jr ku split: option.split)
        qed (use k Inr v in \<open>simp add: m jr ku split: option.split\<close>)
      qed (use k v in \<open>simp add: m ku\<close>)
    qed (simp add: m)
  qed (use l in simp)
  have "\<forall>m s. 2 * length s < Suc n \<and> 2 * length s < m \<longrightarrow> json_value bad hook (Suc n) s = json_value bad hook m s"
    using vals by blast
  moreover have "\<forall>m s acc. 2 * length s + 1 < Suc n \<and> 2 * length s + 1 < m \<longrightarrow>
      json_items bad hook (Suc n) s acc = json_items bad hook m s acc" using items by blast
  moreover have "\<forall>m s acc. 2 * length s + 1 < Suc n \<and> 2 * length s + 1 < m \<longrightarrow>
      json_pairs bad hook (Suc n) s acc = json_pairs bad hook m s acc" using pairs by blast
  ultimately show ?case by (rule conjI [OF _ conjI])
qed simp

text \<open>The parser gives the same result with any fuel beyond that of \<open>json_loads\<close>.\<close>

lemma json_loads_fuel: "2 * length s < n \<Longrightarrow> json_value bad hook n s = json_value bad hook (Suc (2 * length s)) s"
  by (rule json_fuel [THEN conjunct1, rule_format]) simp

subsection \<open>Writing JSON\<close>

text \<open>The code points of a UTF-8 string.\<close>

fun code_points :: "str \<Rightarrow> nat list" where
  "code_points [] = []"
| "code_points (a # s) =
     (if code a < 128 then code a # code_points s
      else (case s of
              [] \<Rightarrow> [code a]
            | b2 # s2 \<Rightarrow>
                if code a < 224 then ((code a - 192) * 64 + (code b2 - 128)) # code_points s2
                else (case s2 of
                        [] \<Rightarrow> [code a]
                      | b3 # s3 \<Rightarrow>
                          if code a < 240
                          then (((code a - 224) * 64 + (code b2 - 128)) * 64 + (code b3 - 128)) # code_points s3
                          else (case s3 of
                                  [] \<Rightarrow> [code a]
                                | b4 # s4 \<Rightarrow>
                                    ((((code a - 240) * 64 + (code b2 - 128)) * 64 + (code b3 - 128)) * 64 +
                                      (code b4 - 128)) # code_points s4))))"

definition hex_char :: "nat \<Rightarrow> char" where
  "hex_char n = ''0123456789abcdef'' ! (n mod 16)"

definition u_escape :: "nat \<Rightarrow> str" where
  "u_escape n = [CHR 0x5C, CHR ''u'', hex_char (n div 4096), hex_char (n div 256), hex_char (n div 16), hex_char n]"

definition json_escape :: "nat \<Rightarrow> str" where
  "json_escape n =
     (if n = 34 \<or> n = 92 then [CHR 0x5C, char_of n]
      else if n = 10 then [CHR 0x5C, CHR ''n'']
      else if n = 13 then [CHR 0x5C, CHR ''r'']
      else if n = 9 then [CHR 0x5C, CHR ''t'']
      else if n = 8 then [CHR 0x5C, CHR ''b'']
      else if n = 12 then [CHR 0x5C, CHR ''f'']
      else if 32 \<le> n \<and> n < 127 then [char_of n]
      else if n < 65536 then u_escape n
      else u_escape (55296 + (n - 65536) div 1024) @ u_escape (56320 + (n - 65536) mod 1024))"

definition json_quote :: "str \<Rightarrow> str" where
  "json_quote s = [CHR 0x22] @ concat (map json_escape (code_points s)) @ [CHR 0x22]"

definition line_break :: "nat \<Rightarrow> str" where
  "line_break level = newline # replicate (2 * level) CHR '' ''"

definition json_block :: "nat \<Rightarrow> char \<Rightarrow> char \<Rightarrow> str list \<Rightarrow> str" where
  "json_block level open_char close_char items =
     (if items = [] then [open_char, close_char]
      else [open_char] @ line_break (Suc level) @ join ('','' @ line_break (Suc level)) items @
           line_break level @ [close_char])"

text \<open>
  With \<open>ensure_ascii=False\<close> only what JSON requires is escaped; texts are bytes here, and those of
  other characters pass unchanged.
\<close>

definition json_quote_utf8 :: "str \<Rightarrow> str" where
  "json_quote_utf8 s =
     [CHR 0x22] @ concat (map (\<lambda>c. if code c < 32 \<or> code c = 34 \<or> code c = 92 then json_escape (code c) else [c]) s) @
     [CHR 0x22]"

fun json_write :: "(str \<Rightarrow> str) \<Rightarrow> nat \<Rightarrow> json \<Rightarrow> str" where
  "json_write quote level JNull = ''null''"
| "json_write quote level (JBool v) = (if v then ''true'' else ''false'')"
| "json_write quote level (JNumber s) = s"
| "json_write quote level (JString s) = quote s"
| "json_write quote level (JArray js) =
     json_block level CHR ''['' CHR '']'' (map (json_write quote (Suc level)) js)"
| "json_write quote level (JObject ms) =
     json_block level CHR ''{'' CHR ''}'' (map (\<lambda>(k, j). quote k @ '': '' @ json_write quote (Suc level) j) ms)"

abbreviation json_dump :: "nat \<Rightarrow> json \<Rightarrow> str" where
  "json_dump \<equiv> json_write json_quote"

text \<open>The values that the scripts hand over.\<close>

definition json_nat :: "nat \<Rightarrow> json" where
  "json_nat n = JNumber (str_of_nat n)"

definition json_int :: "int \<Rightarrow> json" where
  "json_int i = JNumber (str_of_int i)"

definition json_or_null :: "('a \<Rightarrow> json) \<Rightarrow> 'a option \<Rightarrow> json" where
  "json_or_null f v = (case v of None \<Rightarrow> JNull | Some x \<Rightarrow> f x)"

definition optional_member :: "str \<Rightarrow> ('a \<Rightarrow> json) \<Rightarrow> 'a option \<Rightarrow> (str \<times> json) list" where
  "optional_member key f v = (case v of None \<Rightarrow> [] | Some x \<Rightarrow> [(key, f x)])"

definition json_texts :: "str list \<Rightarrow> json" where
  "json_texts ss = JArray (map JString ss)"

definition json_text_dict :: "str dict \<Rightarrow> json" where
  "json_text_dict d = JObject (map (\<lambda>(k, v). (k, JString v)) d)"

definition json_table :: "str dict list \<Rightarrow> json" where
  "json_table rs = JArray (map json_text_dict rs)"

subsection \<open>What is written reads back\<close>

text \<open>A hook that keeps objects without duplicate keys as they are.\<close>

locale object_hook =
  fixes bad :: 'e and hook :: "(str \<times> json) list \<Rightarrow> 'e + json"
  assumes keeps: "distinct (keys ps) \<Longrightarrow> hook ps = Inr (JObject ps)"

definition scalar :: "nat \<Rightarrow> bool" where
  "scalar n \<longleftrightarrow> n < 55296 \<or> 57344 \<le> n \<and> n < 1114112"

definition utf8_text :: "str \<Rightarrow> bool" where
  "utf8_text s \<longleftrightarrow> list_all scalar (code_points s) \<and> s = concat (map utf8 (code_points s))"

text \<open>The text of an integer, as \<open>str\<close> writes it.\<close>

definition integer_text :: "str \<Rightarrow> bool" where
  "integer_text s \<longleftrightarrow>
     (let d = (if starts_with ''-'' s then tl s else s)
      in d \<noteq> [] \<and> list_all is_digit d \<and> (hd d = CHR ''0'' \<longrightarrow> tl d = []))"

text \<open>What can be read back, by the texts that the quoting function keeps.\<close>

fun readable :: "(str \<Rightarrow> bool) \<Rightarrow> json \<Rightarrow> bool" where
  "readable kept JNull = True"
| "readable kept (JBool v) = True"
| "readable kept (JNumber s) = integer_text s"
| "readable kept (JString s) = kept s"
| "readable kept (JArray js) = list_all (readable kept) js"
| "readable kept (JObject ms) = (list_all (\<lambda>(k, j). kept k \<and> readable kept j) ms \<and> distinct (keys ms))"

abbreviation textual :: "json \<Rightarrow> bool" where
  "textual \<equiv> readable utf8_text"

lemma hex_value_char: "hex_value (hex_char n) = Some (n mod 16)"
proof -
  have "\<forall>m \<in> {0..<16}. hex_value (''0123456789abcdef'' ! m) = Some m" by code_simp
  then show ?thesis by (simp add: hex_char_def)
qed

lemma hex4_chars:
  assumes "n < 65536"
  shows "hex4 (hex_char (n div 4096) # hex_char (n div 256) # hex_char (n div 16) # hex_char n # s) = Some (n, s)"
proof -
  have "((n div 4096 mod 16 * 16 + n div 256 mod 16) * 16 + n div 16 mod 16) * 16 + n mod 16 = n"
  proof -
    have 1: "n div 4096 mod 16 = n div 256 div 16" using assms by (simp flip: div_mult2_eq)
    have 2: "n div 256 = n div 16 div 16" by (simp flip: div_mult2_eq)
    show ?thesis by (simp only: 1 2 div_mult_mod_eq)
  qed
  then show ?thesis by (simp only: hex4.simps hex_value_char option.case prod.case)
qed

lemma u_escape_reads:
  "c < 65536 \<Longrightarrow> scalar c \<Longrightarrow> unicode_escape (drop 2 (u_escape c) @ s) = Some (utf8 c, s)"
  by (auto simp: u_escape_def unicode_escape_def hex4_chars scalar_def simp del: hex4.simps)

lemma pair_reads:
  assumes "65536 \<le> c" "scalar c"
  shows "unicode_escape (drop 2 (u_escape (55296 + (c - 65536) div 1024)) @ u_escape (56320 + (c - 65536) mod 1024) @ s) =
    Some (utf8 c, s)"
proof -
  have "(c - 65536) div 1024 < 1024" "(c - 65536) mod 1024 < 1024" using assms by (auto simp: scalar_def)
  moreover have "65536 + (c - 65536) div 1024 * 1024 + (c - 65536) mod 1024 = c" using assms by simp
  ultimately show ?thesis
    by (auto simp: u_escape_def unicode_escape_def hex4_chars code_def simp del: hex4.simps)
qed

lemma code_backslash: "code CHR 0x5C = 92"
  by code_simp

lemma simple_reads:
  "simple_escape e = Some x \<Longrightarrow> json_string (Suc n) (CHR 0x5C # e # s) = map_option (\<lambda>(u, r). (x # u, r)) (json_string n s)"
  by (cases "e = CHR ''u''") (auto simp: code_backslash simple_escape_def code_def map_option.compositionality split: if_splits)

lemma unicode_reads:
  "unicode_escape t = Some (x, s) \<Longrightarrow>
   json_string (Suc n) (CHR 0x5C # CHR ''u'' # t) = map_option (\<lambda>(u, r). (x @ u, r)) (json_string n s)"
  by (simp add: code_backslash)

lemma u_escape_split: "u_escape n = CHR 0x5C # CHR ''u'' # drop 2 (u_escape n)"
  by (simp add: u_escape_def)

lemma simple_escapes:
  "simple_escape (char_of (34 :: nat)) = Some (char_of (34 :: nat))"
  "simple_escape (char_of (92 :: nat)) = Some (char_of (92 :: nat))"
  "simple_escape CHR ''n'' = Some (char_of (10 :: nat))"
  "simple_escape CHR ''r'' = Some (char_of (13 :: nat))" "simple_escape CHR ''t'' = Some (char_of (9 :: nat))"
  "simple_escape CHR ''b'' = Some (char_of (8 :: nat))" "simple_escape CHR ''f'' = Some (char_of (12 :: nat))"
  by code_simp+

lemma escape_reads:
  assumes "scalar c"
  shows "json_string (Suc n) (json_escape c @ s) = map_option (\<lambda>(u, r). (utf8 c @ u, r)) (json_string n s)"
proof -
  consider "c \<in> {34, 92, 10, 13, 9, 8, 12}" | "c \<notin> {34, 92, 10, 13, 9, 8, 12}" "32 \<le> c" "c < 127"
    | "c \<notin> {34, 92, 10, 13, 9, 8, 12}" "\<not> (32 \<le> c \<and> c < 127)" "c < 65536" | "65536 \<le> c" by linarith
  then show ?thesis
  proof cases
    case 1
    then show ?thesis
      by (elim insertE emptyE) (simp_all add: json_escape_def utf8_def simple_reads [OF simple_escapes(1)]
        simple_reads [OF simple_escapes(2)] simple_reads [OF simple_escapes(3)] simple_reads [OF simple_escapes(4)]
        simple_reads [OF simple_escapes(5)] simple_reads [OF simple_escapes(6)] simple_reads [OF simple_escapes(7)]
        del: json_string.simps)
  next
    case 2
    then have "code (char_of c) \<noteq> code CHR 0x22" "code (char_of c) \<noteq> 92" by (simp_all, simp add: code_def)
    then have "char_of c \<noteq> CHR 0x22" "code (char_of c) \<noteq> 92" by auto
    with 2 show ?thesis by (auto simp: json_escape_def utf8_def)
  next
    case 3
    then have "json_escape c = CHR 0x5C # CHR ''u'' # drop 2 (u_escape c)"
      using u_escape_split [of c] by (auto simp: json_escape_def)
    with unicode_reads [OF u_escape_reads [OF 3(3) assms, of s]] show ?thesis by simp
  next
    case 4
    then have "json_escape c = CHR 0x5C # CHR ''u'' # drop 2 (u_escape (55296 + (c - 65536) div 1024)) @
        u_escape (56320 + (c - 65536) mod 1024)"
      using u_escape_split [of "55296 + (c - 65536) div 1024"] by (simp add: json_escape_def)
    with unicode_reads [OF pair_reads [OF 4 assms, of s]] show ?thesis by simp
  qed
qed

lemma escapes_read:
  "list_all scalar cs \<Longrightarrow> length cs < n \<Longrightarrow>
   json_string n (concat (map json_escape cs) @ CHR 0x22 # r) = Some (concat (map utf8 cs), r)"
proof (induction cs arbitrary: n)
  case Nil
  then show ?case by (cases n) simp_all
next
  case (Cons c cs)
  then obtain n' where "n = Suc n'" by (cases n) auto
  with Cons escape_reads [of c n' "concat (map json_escape cs) @ CHR 0x22 # r"] show ?case by simp
qed

lemma length_json_escape: "length (json_escape c) \<ge> 1"
  by (simp add: json_escape_def u_escape_def)

lemma length_escapes: "length cs \<le> length (concat (map json_escape cs))"
proof (induction cs)
  case (Cons c cs)
  then show ?case using length_json_escape [of c] by simp
qed simp

lemma quote_reads:
  assumes "utf8_text s"
  shows "json_string (Suc (length (tl (json_quote s) @ r))) (tl (json_quote s) @ r) = Some (s, r)"
  using escapes_read [of "code_points s" _ r] length_escapes [of "code_points s"] assms
  by (simp add: json_quote_def utf8_text_def)

lemma json_quote_head: "json_quote s = CHR 0x22 # tl (json_quote s)"
  by (simp add: json_quote_def)

lemma raw_reads:
  "length s < n \<Longrightarrow>
   json_string n (concat (map (\<lambda>c. if code c < 32 \<or> code c = 34 \<or> code c = 92 then json_escape (code c) else [c]) s) @
     CHR 0x22 # r) = Some (s, r)"
proof (induction s arbitrary: n)
  case Nil
  then show ?case by (cases n) simp_all
next
  case (Cons c s)
  then obtain n' where n: "n = Suc n'" by (cases n) auto
  show ?case
  proof (cases "code c < 32 \<or> code c = 34 \<or> code c = 92")
    case True
    moreover from True have "utf8 (code c) = [c]" by (auto simp: utf8_def code_def)
    moreover from True have "scalar (code c)" by (auto simp: scalar_def)
    ultimately show ?thesis using Cons by (simp add: n escape_reads del: json_string.simps)
  next
    case False
    then have "c \<noteq> CHR 0x22" by (auto simp: code_def)
    with False Cons show ?thesis by (simp add: n)
  qed
qed

lemma quote_utf8_reads:
  "json_string (Suc (length (tl (json_quote_utf8 s) @ r))) (tl (json_quote_utf8 s) @ r) = Some (s, r)"
proof -
  have "length s \<le> length (concat (map (\<lambda>c. if code c < 32 \<or> code c = 34 \<or> code c = 92 then json_escape (code c) else [c]) s))"
    using length_json_escape by (induction s) (auto intro: le_trans add_mono)
  then show ?thesis using raw_reads [of s] by (simp add: json_quote_utf8_def)
qed

subsubsection \<open>Numbers\<close>

lemma str_of_nat_text: "str_of_nat n \<noteq> [] \<and> list_all is_digit (str_of_nat n) \<and>
    (hd (str_of_nat n) = CHR ''0'' \<longrightarrow> tl (str_of_nat n) = []) \<and> (n \<noteq> 0 \<longrightarrow> hd (str_of_nat n) \<noteq> CHR ''0'')"
proof (induction n rule: str_of_nat.induct)
  case (1 n)
  have code: "code (digit_char n) = 48 + n mod 10" by (simp add: digit_char_def code_def)
  then have digit: "is_digit (digit_char n)" "n mod 10 \<noteq> 0 \<Longrightarrow> digit_char n \<noteq> CHR ''0''"
    by (auto simp: is_digit_def) (simp add: code_def)
  show ?case
  proof (cases "n < 10")
    case True
    with digit show ?thesis by (simp add: str_of_nat.simps [of n])
  next
    case False
    then have "n div 10 \<noteq> 0" by simp
    with 1 [OF False] digit False show ?thesis
      by (cases "str_of_nat (n div 10)") (auto simp: str_of_nat.simps [of n])
  qed
qed

lemma digit_not_minus: "is_digit c \<Longrightarrow> c \<noteq> CHR ''-''"
  and digit_not_open: "is_digit c \<Longrightarrow> c \<notin> {CHR 0x22, CHR ''['', CHR ''{''}"
  by (auto simp: is_digit_def code_def)

lemma integer_text_str [simp]: "integer_text (str_of_nat n)" "integer_text (str_of_int i)"
proof -
  show nat: "integer_text (str_of_nat n)" for n
    using str_of_nat_text [of n] digit_not_minus by (cases "str_of_nat n") (auto simp: integer_text_def)
  have "integer_text (CHR ''-'' # str_of_nat n)" for n
    using str_of_nat_text [of n] by (simp add: integer_text_def)
  with nat show "integer_text (str_of_int i)" by (simp add: str_of_int_def)
qed

lemma integer_text_split:
  assumes "integer_text s"
  obtains sign d ds where "s = sign @ d # ds" "sign = [] \<or> sign = ''-''" "is_digit d" "list_all is_digit ds"
    "d = CHR ''0'' \<longrightarrow> ds = []"
proof (cases "starts_with ''-'' s")
  case True
  then obtain d where "s = CHR ''-'' # d" by (auto simp: starts_with_iff)
  with assms that [of "''-''"] show ?thesis by (cases d) (auto simp: integer_text_def)
next
  case False
  with assms that [of "[]"] show ?thesis by (cases s) (auto simp: integer_text_def)
qed

text \<open>Behind a value comes a comma, a line break or nothing.\<close>

definition value_end :: "str \<Rightarrow> bool" where
  "value_end r \<longleftrightarrow> r = [] \<or> hd r = CHR '','' \<or> hd r = newline"

lemma value_end_simps [simp]: "value_end []" "value_end (CHR '','' # r)" "value_end (line_break l @ r)"
  by (simp_all add: value_end_def line_break_def)

lemma number_first:
  assumes "integer_text s" "value_end r"
  shows "\<exists>qs. mt number_rx ([], s @ r, []) = (rev s, r, []) # qs"
proof -
  from assms(1) obtain sign d ds where s: "s = sign @ d # ds" "sign = [] \<or> sign = ''-''"
    and d: "is_digit d" "list_all is_digit ds" "d = CHR ''0'' \<longrightarrow> ds = []" by (rule integer_text_split)
  define frac where "frac = opt (Seq (lit ''.'') (plus1 (Cls is_digit)))"
  define expo where "expo = opt (seqs [Cls (\<lambda>c. c = CHR ''e'' \<or> c = CHR ''E''), opt (Cls (\<lambda>c. c = CHR ''-'' \<or> c = CHR ''+'')),
      plus1 (Cls is_digit)])"
  define whole where "whole = Alt (lit ''0'') (Seq (Cls (\<lambda>c. is_digit c \<and> c \<noteq> CHR ''0'')) (Star (Cls is_digit)))"
  have rx: "number_rx = Seq (opt (lit ''-'')) (Seq whole (Seq frac expo))"
    by (simp add: number_rx_def frac_def expo_def whole_def)
  have r: "r = [] \<or> \<not> is_digit (hd r) \<and> hd r \<noteq> CHR ''.'' \<and> hd r \<noteq> CHR ''e'' \<and> hd r \<noteq> CHR ''E''"
    using assms(2) by (auto simp: value_end_def is_digit_def code_def)
  have tail: "mt (Seq frac expo) (b, r, []) = [(b, r, [])]" for b
    using r by (cases r) (auto simp: frac_def expo_def opt_def)
  have first: "\<exists>qs. mt whole (b, d # ds @ r, []) = (rev (d # ds) @ b, r, []) # qs" for b
  proof (cases "d = CHR ''0''")
    case True
    with d(3) show ?thesis by (simp add: whole_def)
  next
    case False
    moreover obtain qs where "star_iter (mt (Cls is_digit)) (length (ds @ r)) (d # b, ds @ r, []) = (rev ds @ d # b, r, []) # qs"
    proof -
      have "takeWhile is_digit (ds @ r) = ds" "dropWhile is_digit (ds @ r) = r"
        using d(2) r by (cases r; simp add: list_all_iff takeWhile_append2 dropWhile_append2)+
      then show ?thesis using star_cls_first [of "ds @ r" "length (ds @ r)" is_digit "d # b" "[]"] that by auto
    qed
    ultimately show ?thesis using d(1) by (simp add: whole_def)
  qed
  have rest: "\<exists>qs. mt (Seq whole (Seq frac expo)) (b, d # ds @ r, []) = (rev (d # ds) @ b, r, []) # qs" for b
  proof -
    obtain qs where "mt whole (b, d # ds @ r, []) = (rev (d # ds) @ b, r, []) # qs" using first by blast
    then show ?thesis by (simp only: mt.simps(3) [of whole] list.map concat.simps tail append_Cons append_Nil) blast
  qed
  have sign: "\<exists>qs. mt (opt (lit ''-'')) ([], sign @ d # ds @ r, []) = (rev sign, d # ds @ r, []) # qs"
    using s(2) digit_not_minus [OF d(1)] by (auto simp: opt_def)
  have seq: "mt (Seq x y) p = mt y q @ concat (map (mt y) qs)" if "mt x p = q # qs" for x y p q qs
    using that by simp
  show ?thesis
    using seq [of "opt (lit ''-'')" _ _ _ "Seq whole (Seq frac expo)"] sign rest [of "rev sign"]
    by (auto simp: rx s(1) simp del: mt.simps)
qed

lemma number_reads:
  assumes "integer_text s" "value_end r"
  shows "json_scalar (s @ r) = Some (JNumber s, r)"
proof -
  obtain qs where "mt number_rx ([], s @ r, []) = (rev s, r, []) # qs" using number_first [OF assms] by blast
  then have "rx_match number_rx (s @ r) = Some (mk_match [] (s @ r) (rev s, r, []))" by (simp add: rx_match_def)
  moreover have "find (\<lambda>(w, j). starts_with w (s @ r)) json_literals = None"
    using integer_text_split [OF assms(1)]
    by (rule integer_text_split [OF assms(1)]) (auto simp: json_literals_def is_digit_def code_def)
  ultimately show ?thesis by (simp add: json_scalar_def mk_match_def between_def)
qed

subsubsection \<open>Reading what a writer has written\<close>

text \<open>
  The reader and the writer meet in an interface: a hook that keeps objects, and a quoting function
  whose quoted strings the reader reads back, for the strings that it keeps.
\<close>

locale json_reader = object_hook bad hook
  for bad :: 'e and hook :: "(str \<times> json) list \<Rightarrow> 'e + json" +
  fixes quote :: "str \<Rightarrow> str" and kept :: "str \<Rightarrow> bool"
  assumes quote_head: "quote s = CHR 0x22 # tl (quote s)"
    and quote_back: "kept s \<Longrightarrow> json_string (Suc (length (tl (quote s) @ r))) (tl (quote s) @ r) = Some (s, r)"

subsubsection \<open>Blocks\<close>

lemma skip_line_break [simp]: "skip_space (line_break l @ s) = skip_space s"
proof -
  have "dropWhile is_json_space (replicate m CHR '' '' @ s) = dropWhile is_json_space s" for m
    by (induction m) (simp_all add: is_json_space_def code_def)
  then show ?thesis by (simp add: skip_space_def line_break_def is_json_space_def code_def)
qed

lemma skip_chars [simp]:
  "skip_space (CHR '','' # s) = CHR '','' # s" "skip_space (CHR '']'' # s) = CHR '']'' # s"
  "skip_space (CHR ''}'' # s) = CHR ''}'' # s"
  by (simp_all add: skip_space_def is_json_space_def code_def)

lemma expect_simps [simp]: "expect c [] = None" "expect c (x # r) = (if x = c then Some r else None)"
  by (simp_all add: expect_def)

context json_reader begin

lemma key_reads:
  assumes "kept k"
  shows "json_key (quote k @ '': '' @ t) = Some (k, skip_space t)"
proof -
  obtain q where q: "quote k = CHR 0x22 # q" using quote_head by blast
  with quote_back [OF assms, of "'': '' @ t"] show ?thesis
    by (simp add: json_key_def expect_def skip_space_def is_json_space_def code_def)
qed

lemma write_head:
  assumes "readable kept j"
  shows "\<exists>c t. json_write quote l j = c # t \<and> \<not> is_json_space c \<and> c \<noteq> CHR '']'' \<and> c \<noteq> CHR ''}''"
proof (cases j)
  case (JNumber s)
  with assms have "integer_text s" by simp
  then show ?thesis unfolding JNumber
    by (rule integer_text_split) (auto simp: is_digit_def is_json_space_def code_def)
next
  case (JString s)
  obtain q where "quote s = CHR 0x22 # q" using quote_head by blast
  with JString show ?thesis by (simp add: is_json_space_def code_def)
qed (auto simp: json_block_def is_json_space_def code_def)

lemma skip_write: "readable kept j \<Longrightarrow> skip_space (json_write quote l j @ s) = json_write quote l j @ s"
  using write_head [of j l] by (auto simp: skip_space_def)

lemma skip_quote: "skip_space (quote s @ t) = quote s @ t"
proof -
  obtain q where "quote s = CHR 0x22 # q" using quote_head by blast
  then show ?thesis by (simp add: skip_space_def is_json_space_def code_def)
qed

lemma items_read:
  assumes "js \<noteq> []" and "list_all (readable kept) js"
    and "\<And>j m t. j \<in> set js \<Longrightarrow> value_end t \<Longrightarrow> 2 * length (json_write quote l j @ t) < m \<Longrightarrow>
      json_value bad hook m (json_write quote l j @ t) = Inr (j, t)"
    and "2 * length (join ('','' @ line_break k) (map (json_write quote l) js) @ line_break k' @ '']'' @ r) + 1 < n"
  shows "json_items bad hook n (join ('','' @ line_break k) (map (json_write quote l) js) @ line_break k' @ '']'' @ r) acc =
    Inr (acc @ js, r)"
  using assms
proof (induction js arbitrary: n acc rule: list_nonempty_induct)
  case (single j)
  then obtain n' where "n = Suc n'" by (cases n) auto
  with single show ?case by simp
next
  case (cons j js)
  let ?rest = "join ('','' @ line_break k) (map (json_write quote l) js) @ line_break k' @ '']'' @ r"
  have shape: "join ('','' @ line_break k) (map (json_write quote l) (j # js)) @ line_break k' @ '']'' @ r =
      json_write quote l j @ '','' @ line_break k @ ?rest"
    using cons.hyps(1) by (simp add: join_Cons)
  obtain n' where n: "n = Suc n'" using cons.prems(3) by (cases n) auto
  have j: "json_value bad hook n' (json_write quote l j @ '','' @ line_break k @ ?rest) = Inr (j, '','' @ line_break k @ ?rest)"
    by (rule cons.prems(2)) (use cons.prems(3) [unfolded shape] n in simp_all)
  obtain j' js' where js: "js = j' # js'" using cons.hyps(1) by (cases js) auto
  have "skip_space ?rest = ?rest"
    using cons.prems(1) skip_write [of j' l] by (cases js') (simp_all add: js)
  moreover have "json_items bad hook n' ?rest (acc @ [j]) = Inr ((acc @ [j]) @ js, r)"
    by (rule cons.IH) (use cons.prems(1,2) cons.prems(3) [unfolded shape] n in simp_all)
  ultimately show ?case unfolding shape n using j by simp
qed

lemma pairs_read:
  assumes "ms \<noteq> []" and "list_all (\<lambda>(q, j). kept q \<and> readable kept j) ms"
    and "\<And>q j m t. (q, j) \<in> set ms \<Longrightarrow> value_end t \<Longrightarrow> 2 * length (json_write quote l j @ t) < m \<Longrightarrow>
      json_value bad hook m (json_write quote l j @ t) = Inr (j, t)"
    and "2 * length (join ('','' @ line_break k) (map (\<lambda>(q, j). quote q @ '': '' @ json_write quote l j) ms) @
      line_break k' @ ''}'' @ r) + 1 < n"
  shows "json_pairs bad hook n (join ('','' @ line_break k) (map (\<lambda>(q, j). quote q @ '': '' @ json_write quote l j) ms) @
      line_break k' @ ''}'' @ r) acc = Inr (acc @ ms, r)"
  using assms
proof (induction ms arbitrary: n acc rule: list_nonempty_induct)
  case (single x)
  obtain q j where x: "x = (q, j)" by fastforce
  from single obtain n' where "n = Suc n'" by (cases n) auto
  with single x key_reads [of q "json_write quote l j @ line_break k' @ ''}'' @ r"] skip_write [of j l] show ?case by simp
next
  case (cons x ms)
  obtain q j where x: "x = (q, j)" by fastforce
  let ?rest = "join ('','' @ line_break k) (map (\<lambda>(q, j). quote q @ '': '' @ json_write quote l j) ms) @ line_break k' @ ''}'' @ r"
  have shape: "join ('','' @ line_break k) (map (\<lambda>(q, j). quote q @ '': '' @ json_write quote l j) (x # ms)) @
      line_break k' @ ''}'' @ r = quote q @ '': '' @ json_write quote l j @ '','' @ line_break k @ ?rest"
    using cons.hyps(1) by (simp add: join_Cons x)
  obtain n' where n: "n = Suc n'" using cons.prems(3) by (cases n) auto
  have key: "json_key (quote q @ '': '' @ json_write quote l j @ '','' @ line_break k @ ?rest) =
      Some (q, json_write quote l j @ '','' @ line_break k @ ?rest)"
    using cons.prems(1) key_reads [of q] skip_write [of j l] by (simp add: x)
  have j: "json_value bad hook n' (json_write quote l j @ '','' @ line_break k @ ?rest) = Inr (j, '','' @ line_break k @ ?rest)"
    by (rule cons.prems(2) [of q]) (use cons.prems(3) [unfolded shape] n x in simp_all)
  obtain q' j' ms' where ms: "ms = (q', j') # ms'" using cons.hyps(1) by (cases ms) auto
  have "skip_space ?rest = ?rest"
    using skip_quote [of q'] by (cases ms') (simp_all add: ms)
  moreover have "json_pairs bad hook n' ?rest (acc @ [(q, j)]) = Inr ((acc @ [(q, j)]) @ ms, r)"
    by (rule cons.IH) (use cons.prems(1,2) cons.prems(3) [unfolded shape] n x in auto)
  ultimately show ?case unfolding shape n using key j by (simp add: x)
qed

lemma value_reads:
  "readable kept j \<Longrightarrow> value_end r \<Longrightarrow> 2 * length (json_write quote l j @ r) < n \<Longrightarrow>
   json_value bad hook n (json_write quote l j @ r) = Inr (j, r)"
proof (induction j arbitrary: l n r)
  case (JNumber s)
  then obtain n' where n: "n = Suc n'" by (cases n) auto
  from JNumber.prems(1) have s: "integer_text s" by simp
  then obtain c t where "s = c # t" and "c \<notin> {CHR 0x22, CHR ''['', CHR ''{''}"
    by (rule integer_text_split) (auto dest: digit_not_open)
  with number_reads [OF s JNumber.prems(2)] n show ?case by simp
next
  case (JString s)
  then obtain n' where "n = Suc n'" by (cases n) auto
  moreover obtain q where q: "quote s = CHR 0x22 # q" using quote_head by blast
  ultimately show ?case using JString.prems(1) quote_back [of s r] by simp
next
  case (JArray js)
  then obtain n' where n: "n = Suc n'" by (cases n) auto
  show ?case
  proof (cases "js = []")
    case False
    then obtain j js' where js: "js = j # js'" by (cases js) auto
    let ?body = "join ('','' @ line_break (Suc l)) (map (json_write quote (Suc l)) js) @ line_break l @ '']'' @ r"
    have skip: "skip_space ?body = ?body"
      using JArray.prems(1) skip_write [of j "Suc l"] by (cases js') (simp_all add: js)
    have "expect CHR '']'' ?body = None"
      using JArray.prems(1) write_head [of j "Suc l"] by (cases js') (auto simp: js)
    moreover have "json_items bad hook n' ?body [] = Inr ([] @ js, r)"
      by (rule items_read) (use False JArray n in \<open>auto simp: json_block_def list_all_iff\<close>)
    ultimately show ?thesis using skip False by (simp add: n json_block_def)
  qed (simp add: n json_block_def)
next
  case (JObject ms)
  then obtain n' where n: "n = Suc n'" by (cases n) auto
  have IH: "json_value bad hook m (json_write quote i j @ t) = Inr (j, t)"
    if "(q, j) \<in> set ms" "value_end t" "2 * length (json_write quote i j @ t) < m" for q j i t m
    using JObject.IH [of "(q, j)" j t i m] JObject.prems(1) that by (auto simp: list_all_iff)
  show ?case
  proof (cases "ms = []")
    case False
    then obtain q j ms' where ms: "ms = (q, j) # ms'" by (cases ms) auto
    let ?body = "join ('','' @ line_break (Suc l)) (map (\<lambda>(q, j). quote q @ '': '' @ json_write quote (Suc l) j) ms) @
      line_break l @ ''}'' @ r"
    have "\<exists>t. ?body = quote q @ t" by (cases ms') (auto simp: ms)
    then obtain t where body: "?body = quote q @ t" by blast
    have skip: "skip_space ?body = ?body" unfolding body by (rule skip_quote)
    have head: "expect CHR ''}'' ?body = None"
      unfolding body by (subst quote_head) simp
    have "json_pairs bad hook n' ?body [] = Inr ([] @ ms, r)"
      by (rule pairs_read [OF False _ IH]) (use False JObject.prems n in \<open>auto simp: json_block_def list_all_iff\<close>)
    with skip head False JObject.prems keeps [of ms] show ?thesis by (simp add: n json_block_def)
  qed (use keeps [of "[]"] in \<open>simp add: n json_block_def keys_def\<close>)
qed (case_tac [!] n; simp add: json_scalar_def json_literals_def)+

lemma loads_write: "readable kept j \<Longrightarrow> json_loads bad hook (json_write quote l j) = Inr j"
  using value_reads [of j "[]" l "Suc (2 * length (json_write quote l j))"] skip_write [of j l "[]"]
  by (simp add: json_loads_def skip_space_def)

end

text \<open>Without a hook, the last value of a duplicate key counts, at the place of the first.\<close>

definition plain_object :: "(str \<times> json) list \<Rightarrow> unit + json" where
  "plain_object pairs = Inr (JObject (put_all pairs []))"

lemma put_new: "k \<notin> set (keys d) \<Longrightarrow> put k v d = d @ [(k, v)]"
  by (induction k v d rule: put.induct) (auto simp: keys_def)

lemma put_all_distinct: "distinct (keys ps) \<Longrightarrow> set (keys ps) \<inter> set (keys d) = {} \<Longrightarrow> put_all ps d = d @ ps"
proof (induction ps arbitrary: d)
  case (Cons p ps)
  obtain k v where p: "p = (k, v)" by fastforce
  with Cons.prems have "put k v d = d @ [(k, v)]" by (intro put_new) (auto simp: keys_def)
  moreover from Cons.prems p have "put_all ps (d @ [(k, v)]) = (d @ [(k, v)]) @ ps"
    by (intro Cons.IH) (auto simp: keys_def)
  ultimately show ?case by (simp add: p)
qed simp

interpretation plain: object_hook "()" plain_object
  by unfold_locales (simp add: plain_object_def put_all_distinct keys_def)

interpretation plain: json_reader "()" plain_object json_quote utf8_text
  by unfold_locales (rule json_quote_head, erule quote_reads)

lemma json_quote_utf8_head: "json_quote_utf8 s = CHR 0x22 # tl (json_quote_utf8 s)"
  by (simp add: json_quote_utf8_def)

text \<open>Dicts of texts read back when their keys are distinct, as those of a dict are.\<close>

lemma readable_number [simp]: "readable kept (json_nat n)" "readable kept (json_int i)"
  by (simp_all add: json_nat_def json_int_def)

lemma readable_or_null: "readable kept (json_or_null f v) \<longleftrightarrow> (\<forall>x. v = Some x \<longrightarrow> readable kept (f x))"
  by (cases v) (simp_all add: json_or_null_def)

lemma readable_texts: "readable kept (json_texts ss) \<longleftrightarrow> list_all kept ss"
  by (simp add: json_texts_def list_all_iff)

lemma keys_map_value: "keys (map (\<lambda>(k, v). (k, f v)) d) = keys d"
  by (simp add: keys_def comp_def case_prod_beta)

lemma readable_text_dict:
  "readable kept (json_text_dict d) \<longleftrightarrow> list_all (\<lambda>(k, v). kept k \<and> kept v) d \<and> distinct (keys d)"
  by (auto simp: json_text_dict_def list_all_iff keys_map_value)

lemma readable_table:
  "readable kept (json_table rs) \<longleftrightarrow> (\<forall>r \<in> set rs. list_all (\<lambda>(k, v). kept k \<and> kept v) r \<and> distinct (keys r))"
  by (auto simp: json_table_def list_all_iff readable_text_dict)

lemmas readable_values = readable_or_null readable_texts readable_text_dict readable_table

interpretation unescaped: json_reader "()" plain_object json_quote_utf8 "\<lambda>_. True"
  by unfold_locales (rule json_quote_utf8_head, rule quote_utf8_reads)

end
