(* ===== verification/Reasoning.thy ===== *)
theory Reasoning
  imports Json
begin

text \<open>
  The grammar of the decision rules, \<open>reasoning_contract.py\<close>: the conditions and the words that
  signal them, the parser and validator of the rule objects, and their application to a query.
  JSON text is read by the parser of the theory Json with the hook of the source; every \<open>raise\<close> of the source is a value of \<open>rule_error\<close>.
\<close>

subsection \<open>The objects of the rules\<close>

datatype rule_error =
    InvalidJson
  | DuplicateKey str
  | NotAnObject
  | UnknownCondition str
  | NotAnActionArray str
  | UnknownPrefix
  | UnknownAction str
  | InvalidValue str str
  | NoPattern
  | BadMode
  | DuplicateActions str

text \<open>\<open>_object_without_duplicates\<close>\<close>

fun object_without_duplicates :: "(str \<times> json) list \<Rightarrow> (str \<times> json) list \<Rightarrow> rule_error + json" where
  "object_without_duplicates [] result = Inr (JObject result)"
| "object_without_duplicates ((key, v) # pairs) result =
     (if has_key result key then Inl (DuplicateKey key)
      else object_without_duplicates pairs (put key v result))"

definition rules_object :: "(str \<times> json) list \<Rightarrow> rule_error + json" where
  "rules_object pairs = object_without_duplicates pairs []"

subsection \<open>The grammar of the rules\<close>

definition CONDITION_SIGNALS :: "str list dict" where
  "CONDITION_SIGNALS = [
    (''if_booking'', [''booking'', ''appointment'', ''calendar'']),
    (''if_boutique'', [''boutique'']),
    (''if_casual'', [''casual'', ''playful'']),
    (''if_checkout'', [''checkout'', ''payment'', ''purchase'']),
    (''if_children'', [''child'', ''children'', ''kids'']),
    (''if_collaboration'', [''collaboration'', ''multiplayer'', ''co-edit'']),
    (''if_competitive'', [''competitive'', ''leaderboard'']),
    (''if_content_focused'', [''content'', ''article'', ''reading'', ''documentation'']),
    (''if_conversion_focused'', [''conversion'', ''sales'', ''signup'', ''purchase'']),
    (''if_creative_field'', [''creative'', ''artist'', ''portfolio'']),
    (''if_crop_focused'', [''crop'', ''farm'', ''agriculture'']),
    (''if_dashboard'', [''dashboard'', ''operations'', ''monitoring'']),
    (''if_data_heavy'', [''data heavy'', ''data-heavy'', ''analytics'', ''large dataset'']),
    (''if_delivery'', [''delivery'', ''courier'', ''shipping'']),
    (''if_discovery_focused'', [''discover'', ''discovery'', ''browse'', ''directory'']),
    (''if_engagement_metric'', [''engagement'', ''retention'', ''contribution'']),
    (''if_experience_focused'', [''experience'', ''immersive'', ''journey'']),
    (''if_gamification'', [''gamification'', ''badges'', ''streak'']),
    (''if_health'', [''health'', ''medical'', ''patient'']),
    (''if_hero_needed'', [''hero'', ''showcase'', ''launch'']),
    (''if_large_dataset'', [''large dataset'', ''thousands'', ''millions'']),
    (''if_light_mode_needed'', [''light mode'', ''light theme'']),
    (''if_low_performance'', [''low performance'', ''low-end'', ''slow device'']),
    (''if_luxury'', [''luxury'', ''premium'', ''high-end'']),
    (''if_medication'', [''medication'', ''medicine'', ''prescription'']),
    (''if_meditation'', [''meditation'', ''breathing'', ''mindfulness'']),
    (''if_minimal_portfolio'', [''minimal portfolio'', ''simple portfolio'']),
    (''if_mobile'', [''mobile'', ''phone'', ''tablet'', ''ios'', ''android'']),
    (''if_personalized'', [''personalized'', ''personalised'', ''recommendation'']),
    (''if_pre_launch'', [''pre-launch'', ''prelaunch'', ''coming soon'', ''waitlist'']),
    (''if_salary_focused'', [''salary'', ''compensation'', ''pay range'']),
    (''if_team_collaboration'', [''team collaboration'', ''team workspace'']),
    (''if_trust_needed'', [''trust'', ''secure'', ''verified'', ''authority'']),
    (''if_ux_focused'', [''ux'', ''usability'', ''accessibility'', ''accessible'']),
    (''if_video_ready'', [''video ready'', ''product video'', ''demo video''])]"

definition ALLOWED_CONDITIONS :: "str list" where
  "ALLOWED_CONDITIONS = ''must_have'' # keys CONDITION_SIGNALS"

definition ACTION_PREFIXES :: "str list" where
  "ACTION_PREFIXES = [''constraint'', ''style'', ''pattern'', ''mode'']"

definition TOKEN_ACTION_PREFIXES :: "str list" where
  "TOKEN_ACTION_PREFIXES = [''constraint'', ''style'']"

definition token_char :: "char \<Rightarrow> bool" where
  "token_char c \<longleftrightarrow> is_digit c \<or> is_lower c"

definition TOKEN_RE :: rx where
  "TOKEN_RE = Seq (plus1 (Cls token_char)) (Star (Seq (lit ''-'') (plus1 (Cls token_char))))"

definition CONDITION_PATTERNS :: "rx list dict" where
  "CONDITION_PATTERNS = map (\<lambda>(condition, signals). (condition, map phrase_rx signals)) CONDITION_SIGNALS"

text \<open>The value of an accepted action string, at its first colon.\<close>

definition split_action :: "str \<Rightarrow> (str \<times> str) option" where
  "split_action action =
     (case split_once CHR '':'' action of (prefix, Some v) \<Rightarrow> Some (prefix, v) | _ \<Rightarrow> None)"

definition validate_action :: "json \<Rightarrow> rule_error + str" where
  "validate_action action =
     (case action of
        JString s \<Rightarrow>
          (case split_action s of
             None \<Rightarrow> Inl UnknownPrefix
           | Some (prefix, v) \<Rightarrow>
               if prefix \<notin> set ACTION_PREFIXES then Inl (UnknownAction s)
               else if prefix \<in> set TOKEN_ACTION_PREFIXES \<and> rx_fullmatch TOKEN_RE v = None
               then Inl (InvalidValue prefix v)
               else if prefix = ''pattern'' \<and> strip v = [] then Inl NoPattern
               else if prefix = ''mode'' \<and> v \<notin> set [''dark'', ''light''] then Inl BadMode
               else Inr s)
      | _ \<Rightarrow> Inl UnknownPrefix)"

fun validate_actions :: "json list \<Rightarrow> rule_error + str list" where
  "validate_actions [] = Inr []"
| "validate_actions (a # as) =
     (case validate_action a of
        Inl e \<Rightarrow> Inl e
      | Inr s \<Rightarrow> map_sum id (\<lambda>ss. s # ss) (validate_actions as))"

definition validate_rule :: "str \<Rightarrow> json \<Rightarrow> rule_error + str list" where
  "validate_rule condition actions =
     (if condition \<notin> set ALLOWED_CONDITIONS then Inl (UnknownCondition condition)
      else (case actions of
              JArray as \<Rightarrow>
                if as = [] then Inl (NotAnActionArray condition)
                else (case validate_actions as of
                        Inl e \<Rightarrow> Inl e
                      | Inr ss \<Rightarrow> if distinct ss then Inr ss else Inl (DuplicateActions condition))
            | _ \<Rightarrow> Inl (NotAnActionArray condition)))"

fun validate_rules :: "(str \<times> json) list \<Rightarrow> rule_error + str list dict" where
  "validate_rules [] = Inr []"
| "validate_rules ((condition, actions) # rules) =
     (case validate_rule condition actions of
        Inl e \<Rightarrow> Inl e
      | Inr as \<Rightarrow> map_sum id (\<lambda>rs. (condition, as) # rs) (validate_rules rules))"

definition parse_decision_rules :: "str \<Rightarrow> rule_error + str list dict" where
  "parse_decision_rules raw =
     (case json_loads InvalidJson rules_object (if raw = [] then ''{}'' else raw) of
        Inl e \<Rightarrow> Inl e
      | Inr (JObject rules) \<Rightarrow> validate_rules rules
      | Inr _ \<Rightarrow> Inl NotAnObject)"

subsection \<open>Applying the rules\<close>

record applied =
  activated :: "(str \<times> str list) list"
  style_ids :: "str list"
  constraints :: "str list"
  pattern :: "str option"
  mode :: "str option"

definition applied_new :: applied where
  "applied_new = \<lparr>activated = [], style_ids = [], constraints = [], pattern = None, mode = None\<rparr>"

text \<open>
  \<open>action.split(":", 1)\<close> raises where there is no colon; \<open>None\<close> is that exception. Validated
  rules never meet it (\<open>apply_valid_rules\<close>).
\<close>

definition apply_action :: "str \<Rightarrow> applied \<Rightarrow> applied option" where
  "apply_action action res =
     (case split_action action of
        None \<Rightarrow> None
      | Some (prefix, v) \<Rightarrow> Some
          (if prefix = ''style'' \<and> v \<notin> set (style_ids res) then res\<lparr>style_ids := style_ids res @ [v]\<rparr>
           else if prefix = ''constraint'' \<and> v \<notin> set (constraints res)
           then res\<lparr>constraints := constraints res @ [v]\<rparr>
           else if prefix = ''pattern'' then res\<lparr>pattern := Some v\<rparr>
           else if prefix = ''mode'' then res\<lparr>mode := Some v\<rparr>
           else res))"

fun apply_actions :: "str list \<Rightarrow> applied \<Rightarrow> applied option" where
  "apply_actions [] res = Some res"
| "apply_actions (a # as) res = (case apply_action a res of None \<Rightarrow> None | Some r \<Rightarrow> apply_actions as r)"

definition condition_active :: "str \<Rightarrow> str \<Rightarrow> bool" where
  "condition_active normalized condition \<longleftrightarrow>
     condition = ''must_have'' \<or>
     (\<exists>p \<in> set (get_or CONDITION_PATTERNS condition []). rx_found p normalized)"

fun apply_rules :: "str list dict \<Rightarrow> str \<Rightarrow> applied \<Rightarrow> applied option" where
  "apply_rules [] normalized res = Some res"
| "apply_rules ((condition, actions) # rules) normalized res =
     (if \<not> condition_active normalized condition then apply_rules rules normalized res
      else (case apply_actions actions (res\<lparr>activated := activated res @ [(condition, actions)]\<rparr>) of
              None \<Rightarrow> None
            | Some r \<Rightarrow> apply_rules rules normalized r))"

definition apply_decision_rules :: "str list dict \<Rightarrow> str \<Rightarrow> applied option" where
  "apply_decision_rules rules query = apply_rules rules (lower query) applied_new"

subsection \<open>Accepted rules are well formed, and applying them never raises\<close>

definition action_ok :: "str \<Rightarrow> bool" where
  "action_ok action \<longleftrightarrow>
     (case split_action action of
        None \<Rightarrow> False
      | Some (prefix, v) \<Rightarrow>
          prefix \<in> set ACTION_PREFIXES \<and>
          (prefix \<in> set TOKEN_ACTION_PREFIXES \<longrightarrow> rx_fullmatch TOKEN_RE v \<noteq> None) \<and>
          (prefix = ''pattern'' \<longrightarrow> strip v \<noteq> []) \<and>
          (prefix = ''mode'' \<longrightarrow> v \<in> set [''dark'', ''light'']))"

definition rules_ok :: "str list dict \<Rightarrow> bool" where
  "rules_ok rules \<longleftrightarrow>
     distinct (keys rules) \<and>
     (\<forall>(condition, actions) \<in> set rules.
        condition \<in> set ALLOWED_CONDITIONS \<and> actions \<noteq> [] \<and> distinct actions \<and> (\<forall>a \<in> set actions. action_ok a))"

lemma validate_action_ok: "validate_action j = Inr s \<longleftrightarrow> j = JString s \<and> action_ok s"
proof (cases j)
  case (JString x)
  have pick: "(if A then Inl a else if B then Inl b else if C then Inl c else if D then Inl d else Inr x) = Inr s \<longleftrightarrow>
      \<not> A \<and> \<not> B \<and> \<not> C \<and> \<not> D \<and> x = s" for A B C D and a b c d :: rule_error
    by auto
  show ?thesis
    by (cases "split_action x") (auto simp only: JString validate_action_def action_ok_def pick json.simps option.simps
        prod.case split_paired_all sum.simps)
qed (simp_all add: validate_action_def)

lemma validate_actions_ok: "validate_actions js = Inr ss \<Longrightarrow> js = map JString ss \<and> (\<forall>s \<in> set ss. action_ok s)"
proof (induction js arbitrary: ss)
  case (Cons j js)
  then obtain s ss' where "validate_action j = Inr s" "validate_actions js = Inr ss'" "ss = s # ss'"
    by (auto simp: map_sum_def split: sum.splits)
  with Cons.IH [of ss'] show ?case by (simp add: validate_action_ok)
qed simp

lemma validate_rule_ok:
  "validate_rule c j = Inr as \<Longrightarrow>
   c \<in> set ALLOWED_CONDITIONS \<and> as \<noteq> [] \<and> distinct as \<and> (\<forall>a \<in> set as. action_ok a)"
  by (cases j) (auto simp: validate_rule_def split: if_splits sum.splits dest!: validate_actions_ok)

lemma validate_rules_ok:
  "validate_rules rs = Inr rules \<Longrightarrow> keys rules = keys rs \<and>
     (\<forall>(condition, actions) \<in> set rules.
        condition \<in> set ALLOWED_CONDITIONS \<and> actions \<noteq> [] \<and> distinct actions \<and> (\<forall>a \<in> set actions. action_ok a))"
proof (induction rs arbitrary: rules)
  case (Cons r rs)
  obtain c j where r: "r = (c, j)" by fastforce
  with Cons.prems obtain as rules' where "validate_rule c j = Inr as" "validate_rules rs = Inr rules'"
      "rules = (c, as) # rules'"
    by (auto simp: map_sum_def split: sum.splits)
  with Cons.IH [of rules'] validate_rule_ok [of c j as] show ?case by (auto simp: r keys_def)
qed (simp add: keys_def)

lemma object_distinct:
  "object_without_duplicates ps acc = Inr j \<Longrightarrow> distinct (keys acc) \<Longrightarrow> \<exists>m. j = JObject m \<and> distinct (keys m)"
  by (induction ps acc rule: object_without_duplicates.induct) (auto simp: keys_def split: if_splits)

lemma object_of_distinct:
  "distinct (keys ps) \<Longrightarrow> set (keys ps) \<inter> set (keys acc) = {} \<Longrightarrow> object_without_duplicates ps acc = Inr (JObject (acc @ ps))"
proof (induction ps acc rule: object_without_duplicates.induct)
  case (2 key v pairs result)
  from 2(3) have "get result key = None" by (auto simp: map_of_eq_None_iff keys_def)
  moreover from this have "\<not> has_key result key" by (simp add: has_key_def)
  moreover have "put key v result = result @ [(key, v)]" using 2(2,3) by (intro put_new) (auto simp: keys_def)
  ultimately show ?case using 2 by (auto simp: keys_def)
qed simp

interpretation rules: json_reader InvalidJson rules_object json_quote_utf8 "\<lambda>_. True"
  by unfold_locales
    (simp add: rules_object_def object_of_distinct keys_def, rule json_quote_utf8_head, rule quote_utf8_reads)

lemma json_scalar_not_object: "json_scalar s = Some (j, r) \<Longrightarrow> j \<noteq> JObject m"
  by (auto simp: json_scalar_def json_literals_def split: option.splits if_splits)

lemma json_value_object: "json_value InvalidJson rules_object n s = Inr (JObject m, r) \<Longrightarrow> distinct (keys m)"
proof (cases n)
  case (Suc n')
  assume v: "json_value InvalidJson rules_object n s = Inr (JObject m, r)"
  with Suc obtain c t where s: "s = c # t" by (cases s) auto
  from v Suc s consider "m = []" | ps where "object_without_duplicates ps [] = Inr (JObject m)"
    by (auto simp: map_sum_def rules_object_def dest: json_scalar_not_object split: if_splits option.splits sum.splits)
  then show ?thesis
    by cases (use object_distinct in \<open>fastforce simp: keys_def\<close>)+
qed simp

lemma parse_rules_ok: "parse_decision_rules raw = Inr rules \<Longrightarrow> rules_ok rules"
proof -
  assume "parse_decision_rules raw = Inr rules"
  then obtain s m where "json_loads InvalidJson rules_object s = Inr (JObject m)" and v: "validate_rules m = Inr rules"
    by (auto simp: parse_decision_rules_def split: sum.splits json.splits)
  then obtain t r n where "json_value InvalidJson rules_object n t = Inr (JObject m, r)"
    by (auto simp: json_loads_def simp del: json_value.simps split: sum.splits if_splits)
  from json_value_object [OF this] validate_rules_ok [OF v] show ?thesis by (simp add: rules_ok_def)
qed

text \<open>The values that a list of actions gives under a prefix.\<close>

definition values_of :: "str \<Rightarrow> str list \<Rightarrow> str list" where
  "values_of prefix actions =
     concat (map (\<lambda>a. case split_action a of None \<Rightarrow> [] | Some (p, v) \<Rightarrow> if p = prefix then [v] else []) actions)"

definition result_ok :: "applied \<Rightarrow> bool" where
  "result_ok r \<longleftrightarrow> distinct (style_ids r) \<and> distinct (constraints r) \<and>
     (\<forall>v \<in> set (style_ids r) \<union> set (constraints r). rx_fullmatch TOKEN_RE v \<noteq> None) \<and>
     (\<forall>p. pattern r = Some p \<longrightarrow> strip p \<noteq> []) \<and> mode r \<in> {None, Some ''dark'', Some ''light''}"

lemma apply_action_ok:
  assumes "action_ok a" and "result_ok r"
  shows "\<exists>r'. apply_action a r = Some r' \<and> result_ok r' \<and> activated r' = activated r \<and>
    set (style_ids r') = set (style_ids r) \<union> set (values_of ''style'' [a]) \<and>
    set (constraints r') = set (constraints r) \<union> set (values_of ''constraint'' [a])"
proof -
  obtain p v where s: "split_action a = Some (p, v)"
    using assms(1) by (auto simp: action_ok_def split: option.splits)
  from assms s show ?thesis
    by (auto simp: apply_action_def action_ok_def result_ok_def values_of_def ACTION_PREFIXES_def
        TOKEN_ACTION_PREFIXES_def)
qed

lemma values_of_Cons: "values_of p (a # as) = values_of p [a] @ values_of p as"
  by (simp add: values_of_def)

lemma apply_actions_ok:
  "\<forall>a \<in> set as. action_ok a \<Longrightarrow> result_ok r \<Longrightarrow>
   \<exists>r'. apply_actions as r = Some r' \<and> result_ok r' \<and> activated r' = activated r \<and>
     set (style_ids r') = set (style_ids r) \<union> set (values_of ''style'' as) \<and>
     set (constraints r') = set (constraints r) \<union> set (values_of ''constraint'' as)"
proof (induction as arbitrary: r)
  case (Cons a as)
  from apply_action_ok [of a r] Cons.prems obtain r1 where r1: "apply_action a r = Some r1" "result_ok r1"
      "activated r1 = activated r" "set (style_ids r1) = set (style_ids r) \<union> set (values_of ''style'' [a])"
      "set (constraints r1) = set (constraints r) \<union> set (values_of ''constraint'' [a])" by auto
  from Cons.IH [OF _ r1(2)] Cons.prems r1 show ?case
    by (auto simp: values_of_Cons [of _ a as])
qed (simp add: values_of_def)

lemma result_ok_activated [simp]: "result_ok (r\<lparr>activated := x\<rparr>) = result_ok r"
  by (simp add: result_ok_def)

definition active_rules :: "str list dict \<Rightarrow> str \<Rightarrow> str list dict" where
  "active_rules rules normalized = filter (\<lambda>(condition, _). condition_active normalized condition) rules"

lemma apply_rules_ok:
  "\<forall>(c, as) \<in> set rules. \<forall>a \<in> set as. action_ok a \<Longrightarrow> result_ok r \<Longrightarrow>
   \<exists>r'. apply_rules rules q r = Some r' \<and> result_ok r' \<and> activated r' = activated r @ active_rules rules q \<and>
     set (style_ids r') = set (style_ids r) \<union> (\<Union>(c, as) \<in> set (active_rules rules q). set (values_of ''style'' as)) \<and>
     set (constraints r') = set (constraints r) \<union>
       (\<Union>(c, as) \<in> set (active_rules rules q). set (values_of ''constraint'' as))"
proof (induction rules arbitrary: r)
  case (Cons rule rules)
  obtain c as where rule: "rule = (c, as)" by fastforce
  show ?case
  proof (cases "condition_active q c")
    case True
    have "\<forall>a \<in> set as. action_ok a" using Cons.prems rule by auto
    from apply_actions_ok [OF this, of "r\<lparr>activated := activated r @ [(c, as)]\<rparr>"] Cons.prems obtain r1 where
      r1: "apply_actions as (r\<lparr>activated := activated r @ [(c, as)]\<rparr>) = Some r1" "result_ok r1"
        "activated r1 = activated r @ [(c, as)]"
        "set (style_ids r1) = set (style_ids r) \<union> set (values_of ''style'' as)"
        "set (constraints r1) = set (constraints r) \<union> set (values_of ''constraint'' as)" by auto
    from Cons.IH [OF _ r1(2)] Cons.prems r1 True show ?thesis
      by (auto simp: rule active_rules_def)
  next
    case False
    with Cons.IH [of r] Cons.prems show ?thesis by (auto simp: rule active_rules_def)
  qed
qed (simp add: active_rules_def)

lemma apply_valid_rules:
  assumes "rules_ok rules"
  shows "\<exists>r. apply_decision_rules rules query = Some r \<and> result_ok r \<and>
    activated r = active_rules rules (lower query) \<and>
    set (style_ids r) = (\<Union>(c, as) \<in> set (active_rules rules (lower query)). set (values_of ''style'' as)) \<and>
    set (constraints r) = (\<Union>(c, as) \<in> set (active_rules rules (lower query)). set (values_of ''constraint'' as))"
proof -
  have new: "result_ok applied_new" "activated applied_new = []" "style_ids applied_new = []" "constraints applied_new = []"
    by (simp_all add: result_ok_def applied_new_def)
  have "\<forall>(c, as) \<in> set rules. \<forall>a \<in> set as. action_ok a"
    using assms by (auto simp: rules_ok_def)
  from apply_rules_ok [OF this new(1), of "lower query"] show ?thesis
    by (simp add: apply_decision_rules_def new)
qed
end
