(* ===== verification/Palette.thy ===== *)
theory Palette
  imports Config
begin

text \<open>
  Dials and colours of \<open>design_system.py\<close> (lines 38 to 254): the tiers of the design dials, the
  WCAG luminance and contrast of hex colours, the colour mode that a query and a style ask for, and
  the palette chosen for it. Floats are exact reals; \<open>x ** 2.4\<close> is \<open>x powr (12 / 5)\<close>.
\<close>

definition REASONING_FILE :: str where
  "REASONING_FILE = ''ui-reasoning.csv''"

definition SEARCH_CONFIG :: "nat dict" where
  "SEARCH_CONFIG = [(''product'', 1), (''style'', 3), (''color'', 5), (''landing'', 2), (''typography'', 2)]"

definition SEMANTIC_COLOR_ENTRIES :: "(str \<times> str \<times> str) list" where
  "SEMANTIC_COLOR_ENTRIES =
    [(''Primary'', ''primary'', ''--color-primary''),
     (''On Primary'', ''on_primary'', ''--color-on-primary''),
     (''Secondary'', ''secondary'', ''--color-secondary''),
     (''On Secondary'', ''on_secondary'', ''--color-on-secondary''),
     (''Accent/CTA'', ''accent'', ''--color-accent''),
     (''On Accent/CTA'', ''on_accent'', ''--color-on-accent''),
     (''Background'', ''background'', ''--color-background''),
     (''Foreground'', ''foreground'', ''--color-foreground''),
     (''Card'', ''card'', ''--color-card''),
     (''Card Foreground'', ''card_foreground'', ''--color-card-foreground''),
     (''Muted'', ''muted'', ''--color-muted''),
     (''Muted Foreground'', ''muted_foreground'', ''--color-muted-foreground''),
     (''Border'', ''border'', ''--color-border''),
     (''Destructive'', ''destructive'', ''--color-destructive''),
     (''On Destructive'', ''on_destructive'', ''--color-on-destructive''),
     (''Ring'', ''ring'', ''--color-ring'')]"

subsection \<open>Dials\<close>

text \<open>A tier of a dial; each dial uses its own fields.\<close>

record tier =
  tier_label :: str
  style_keywords :: "str list"
  tier_name :: str
  spacing :: "str dict"

definition plain_tier :: "str \<Rightarrow> tier" where
  "plain_tier l = \<lparr>tier_label = l, style_keywords = [], tier_name = [], spacing = []\<rparr>"

definition DIAL_TIERS :: "(int \<times> int \<times> tier) list dict" where
  "DIAL_TIERS = [
    (''variance'',
      [(1, 3, (plain_tier ''Centered / Minimal'')\<lparr>style_keywords :=
          [''Minimalism'', ''Exaggerated Minimalism'', ''centered'', ''symmetric'', ''grid-based'']\<rparr>),
       (4, 7, (plain_tier ''Balanced / Modern'')\<lparr>style_keywords := [''modern'', ''structured'', ''balanced'']\<rparr>),
       (8, 10, (plain_tier ''Bold / Asymmetric'')\<lparr>style_keywords :=
          [''Brutalism'', ''Bento Grids'', ''asymmetric'', ''experimental'']\<rparr>)]),
    (''motion'',
      [(1, 3, (plain_tier ''Subtle'')\<lparr>tier_name := ''Subtle''\<rparr>),
       (4, 7, (plain_tier ''Standard'')\<lparr>tier_name := ''Standard''\<rparr>),
       (8, 10, (plain_tier ''Complex'')\<lparr>tier_name := ''Complex''\<rparr>)]),
    (''density'',
      [(1, 3, (plain_tier ''Spacious'')\<lparr>spacing :=
          [(''xs'', ''4px''), (''sm'', ''8px''), (''md'', ''24px''), (''lg'', ''32px''), (''xl'', ''48px''),
           (''2xl'', ''64px''), (''3xl'', ''96px'')]\<rparr>),
       (4, 7, (plain_tier ''Standard'')\<lparr>spacing :=
          [(''xs'', ''4px''), (''sm'', ''8px''), (''md'', ''16px''), (''lg'', ''24px''), (''xl'', ''32px''),
           (''2xl'', ''48px''), (''3xl'', ''64px'')]\<rparr>),
       (8, 10, (plain_tier ''Dense / Dashboard'')\<lparr>spacing :=
          [(''xs'', ''2px''), (''sm'', ''4px''), (''md'', ''8px''), (''lg'', ''12px''), (''xl'', ''16px''),
           (''2xl'', ''24px''), (''3xl'', ''32px'')]\<rparr>)])]"

text \<open>\<open>None\<close> for an unset dial or an unknown dial name; the tier and the value in range otherwise.\<close>

definition resolve_dial :: "str \<Rightarrow> int option \<Rightarrow> (tier \<times> int) option" where
  "resolve_dial dial_name given =
     (case given of
        None \<Rightarrow> None
      | Some i \<Rightarrow>
          (let v = max 1 (min 10 i) in
           map_option (\<lambda>(lo, hi, info). (info, v))
             (find (\<lambda>(lo, hi, info). lo \<le> v \<and> v \<le> hi) (get_or DIAL_TIERS dial_name []))))"

lemma resolve_dial_total:
  assumes "dial_name \<in> set (keys DIAL_TIERS)"
  shows "\<exists>info. resolve_dial dial_name (Some i) = Some (info, max 1 (min 10 i))"
proof -
  let ?v = "max 1 (min 10 i)"
  have "1 \<le> ?v \<and> ?v \<le> 10" by simp
  then consider "1 \<le> ?v \<and> ?v \<le> 3" | "4 \<le> ?v \<and> ?v \<le> 7 \<and> \<not> ?v \<le> 3" | "8 \<le> ?v \<and> ?v \<le> 10 \<and> \<not> ?v \<le> 3 \<and> \<not> ?v \<le> 7"
    by linarith
  then show ?thesis
    using assms by cases (auto simp: resolve_dial_def Let_def DIAL_TIERS_def keys_def get_or_def)
qed

subsection \<open>Luminance and contrast\<close>

definition DARK_PRIMARY_MARKERS :: "str list" where
  "DARK_PRIMARY_MARKERS =
    [''dark mode primary'', ''dark primary'', ''dark-only'', ''dark only'', ''dark preferred'',
     ''dark focused'', ''dark-first'', ''dark rich'', ''light mode only as exception'']"

definition DARK_QUERY_MARKERS :: "str list" where
  "DARK_QUERY_MARKERS =
    [''dark mode'', ''dark theme'', ''dark ui'', ''dark-mode'', ''darkmode'', ''night mode'', ''midnight'', ''oled'']"

definition DARK_ANTI_PATTERN_MARKERS :: "str list" where
  "DARK_ANTI_PATTERN_MARKERS = [''dark mode'', ''dark modes'', ''dark theme'']"

definition DARK_BACKGROUND_MAX_LUMINANCE :: real where
  "DARK_BACKGROUND_MAX_LUMINANCE = 18 / 100"

text \<open>
  \<open>int(s, 16)\<close> for two characters: two digits, or one digit with a sign before it or a blank on
  either side; anything else raises \<open>ValueError\<close>.
\<close>

definition hex_digit :: "char \<Rightarrow> int option" where
  "hex_digit c =
     (if is_digit c then Some (int (code c) - 48)
      else if 97 \<le> code c \<and> code c \<le> 102 then Some (int (code c) - 87)
      else if 65 \<le> code c \<and> code c \<le> 70 then Some (int (code c) - 55)
      else None)"

definition int16 :: "char \<Rightarrow> char \<Rightarrow> int option" where
  "int16 a c =
     (case (hex_digit a, hex_digit c) of
        (Some x, Some y) \<Rightarrow> Some (16 * x + y)
      | (None, Some y) \<Rightarrow>
          if a = CHR ''+'' \<or> is_space a then Some y else if a = CHR ''-'' then Some (- y) else None
      | (Some x, None) \<Rightarrow> if is_space c then Some x else None
      | (None, None) \<Rightarrow> None)"

definition linear_channel :: "real \<Rightarrow> real" where
  "linear_channel c = (if c \<le> 4045 / 100000 then c / (1292 / 100) else ((c + 55 / 1000) / (1055 / 1000)) powr (12 / 5))"

definition luminance_of :: "int \<Rightarrow> int \<Rightarrow> int \<Rightarrow> real" where
  "luminance_of r g b =
     2126 / 10000 * linear_channel (real_of_int r / 255) + 7152 / 10000 * linear_channel (real_of_int g / 255) +
     722 / 10000 * linear_channel (real_of_int b / 255)"

text \<open>The argument is \<open>None\<close> where the palette has no such token.\<close>

definition relative_luminance :: "str option \<Rightarrow> real option" where
  "relative_luminance hex_color =
     (case hex_color of
        None \<Rightarrow> None
      | Some text \<Rightarrow>
          (let v = dropWhile (\<lambda>c. c = CHR ''#'') (strip text);
               v = (if py_len v = 3 then concat (map (\<lambda>c. [c, c]) v) else v)
           in if text = [] then None
              else (case v of
                      [a, a', c, c', d, d'] \<Rightarrow>
                        (case (int16 a a', int16 c c', int16 d d') of
                           (Some r, Some g, Some bl) \<Rightarrow> Some (luminance_of r g bl)
                         | _ \<Rightarrow> None)
                    | _ \<Rightarrow> None)))"

definition palette_is_dark :: "row \<Rightarrow> bool" where
  "palette_is_dark palette =
     (case relative_luminance (Some (field palette ''Background'')) of
        None \<Rightarrow> False | Some l \<Rightarrow> l < DARK_BACKGROUND_MAX_LUMINANCE)"

definition contrast_ratio :: "str option \<Rightarrow> str option \<Rightarrow> real option" where
  "contrast_ratio first second =
     (case (relative_luminance first, relative_luminance second) of
        (Some l, Some l') \<Rightarrow> Some ((max l l' + 5 / 100) / (min l l' + 5 / 100))
      | _ \<Rightarrow> None)"

subsection \<open>The colour mode\<close>

definition style_is_dark_primary :: "row \<Rightarrow> bool" where
  "style_is_dark_primary style =
     (if style = [] then False
      else (let preferred = lower (strip (field style ''Preferred Mode'')) in
        if preferred \<in> set [''dark'', ''light''] then preferred = ''dark''
        else if get style (''Light Mode '' @ u_check) = Some ''not-recommended'' \<and> get style (''Dark Mode '' @ u_check) = Some ''supported''
        then True
        else (\<exists>marker \<in> set DARK_PRIMARY_MARKERS.
                contains marker (lower (field style (''Light Mode '' @ u_check) @ '' '' @ field style (''Dark Mode '' @ u_check))))))"

definition query_wants_dark :: "str \<Rightarrow> bool" where
  "query_wants_dark query \<longleftrightarrow> (\<exists>marker \<in> set DARK_QUERY_MARKERS. contains marker (lower query))"

definition resolve_color_mode :: "str \<Rightarrow> row \<Rightarrow> str" where
  "resolve_color_mode query style =
     (if query_wants_dark query \<or> style_is_dark_primary style then ''dark'' else ''light'')"

subsection \<open>The palette\<close>

definition dark_background :: str where
  "dark_background = ''#0F172A''"

definition enough_contrast :: "str option \<Rightarrow> bool" where
  "enough_contrast candidate = (case contrast_ratio candidate (Some dark_background) of None \<Rightarrow> False | Some r \<Rightarrow> 3 \<le> r)"

definition derived_ring :: "row \<Rightarrow> str" where
  "derived_ring palette =
     (case find enough_contrast [get palette ''Ring'', get palette ''Accent'', get palette ''Primary'', Some ''#60A5FA''] of
        Some (Some ring) \<Rightarrow> ring | _ \<Rightarrow> ''#60A5FA'')"

definition derive_dark_palette :: "row \<Rightarrow> row" where
  "derive_dark_palette palette =
     put_all
       [(''Background'', dark_background), (''Foreground'', ''#F8FAFC''), (''Card'', ''#111827''),
        (''Card Foreground'', ''#F8FAFC''), (''Muted'', ''#1E293B''), (''Muted Foreground'', ''#CBD5E1''),
        (''Border'', ''#334155''), (''Ring'', derived_ring palette), (''_mode_derivation'', ''derived-dark'')]
       palette"

definition select_palette_for_mode :: "table \<Rightarrow> str \<Rightarrow> str \<Rightarrow> row" where
  "select_palette_for_mode palettes mode category =
     (case palettes of
        [] \<Rightarrow> []
      | first # _ \<Rightarrow>
          (case find (\<lambda>p. get p ''Product Type'' = Some category) palettes of
             Some p \<Rightarrow> if mode = ''dark'' \<and> \<not> palette_is_dark p then derive_dark_palette p else p
           | None \<Rightarrow>
               if mode = ''dark''
               then (case find palette_is_dark palettes of Some p \<Rightarrow> p | None \<Rightarrow> first)
               else first))"

definition filter_anti_patterns_for_mode :: "str \<Rightarrow> str \<Rightarrow> str" where
  "filter_anti_patterns_for_mode anti_patterns mode =
     (if mode \<noteq> ''dark'' \<or> anti_patterns = [] then anti_patterns
      else join '' + '' (filter (\<lambda>clause. clause \<noteq> []) (map strip
             (filter (\<lambda>clause. \<not> (\<exists>marker \<in> set DARK_ANTI_PATTERN_MARKERS. contains marker (lower clause)))
                (split_on (\<lambda>c. c = CHR ''+'') anti_patterns)))))"

subsection \<open>Bounds on luminance\<close>

lemma powr_12_5:
  fixes x :: real
  assumes "0 < x"
  shows "(x powr (12 / 5)) ^ 5 = x ^ 12"
proof -
  have "(x powr (12 / 5)) ^ 5 = (x powr (12 / 5)) powr real 5"
    using assms by (intro powr_realpow [symmetric]) simp
  also have "\<dots> = x powr real 12" by (simp add: powr_powr)
  also have "\<dots> = x ^ 12" using assms by (rule powr_realpow)
  finally show ?thesis .
qed

lemma powr_le:
  fixes x :: real
  shows "0 < x \<Longrightarrow> 0 \<le> y \<Longrightarrow> x ^ 12 \<le> y ^ 5 \<Longrightarrow> x powr (12 / 5) \<le> y"
  using powr_12_5 [of x] power_le_imp_le_base [of "x powr (12 / 5)" 4 y] by simp

lemma powr_ge:
  fixes x :: real
  shows "0 < x \<Longrightarrow> 0 \<le> y \<Longrightarrow> y ^ 5 \<le> x ^ 12 \<Longrightarrow> y \<le> x powr (12 / 5)"
  using powr_12_5 [of x] power_le_imp_le_base [of y 4 "x powr (12 / 5)"] by simp

lemma linear_channel_le: "4045 / 100000 < c \<Longrightarrow> 0 \<le> y \<Longrightarrow> ((c + 55 / 1000) / (1055 / 1000)) ^ 12 \<le> y ^ 5 \<Longrightarrow>
    linear_channel c \<le> y"
  by (simp add: linear_channel_def powr_le)

lemma linear_channel_ge: "4045 / 100000 < c \<Longrightarrow> 0 \<le> y \<Longrightarrow> y ^ 5 \<le> ((c + 55 / 1000) / (1055 / 1000)) ^ 12 \<Longrightarrow>
    y \<le> linear_channel c"
  by (simp add: linear_channel_def powr_ge)

lemma linear_channel_bounds: "- 1 / 10 \<le> c \<Longrightarrow> c \<le> 1 \<Longrightarrow> - 1 / 100 \<le> linear_channel c \<and> linear_channel c \<le> 1"
proof (cases "c \<le> 4045 / 100000")
  case False
  assume "c \<le> 1"
  then have "(c + 55 / 1000) / (1055 / 1000) \<le> 1" by simp
  moreover have "0 < (c + 55 / 1000) / (1055 / 1000)" using False by simp
  ultimately have "((c + 55 / 1000) / (1055 / 1000)) powr (12 / 5) \<le> 1"
    by (intro powr_le) (auto intro: power_le_one)
  moreover have "0 \<le> ((c + 55 / 1000) / (1055 / 1000)) powr (12 / 5)" by simp
  moreover have "linear_channel c = ((c + 55 / 1000) / (1055 / 1000)) powr (12 / 5)"
    using False by (simp add: linear_channel_def)
  ultimately show ?thesis by linarith
qed (simp add: linear_channel_def)

lemma hex_digit_bounds: "hex_digit c = Some x \<Longrightarrow> 0 \<le> x \<and> x \<le> 15"
  by (auto simp: hex_digit_def is_digit_def split: if_splits)

lemma int16_bounds: "int16 a c = Some x \<Longrightarrow> - 15 \<le> x \<and> x \<le> 255"
  using hex_digit_bounds [of a] hex_digit_bounds [of c]
  by (auto simp: int16_def split: option.splits if_splits; fastforce)

lemma luminance_of_bounds:
  assumes "- 15 \<le> r \<and> r \<le> 255" "- 15 \<le> g \<and> g \<le> 255" "- 15 \<le> b \<and> b \<le> 255"
  shows "- 1 / 100 \<le> luminance_of r g b \<and> luminance_of r g b \<le> 1"
proof -
  have l: "- 1 / 100 \<le> linear_channel (real_of_int x / 255) \<and> linear_channel (real_of_int x / 255) \<le> 1"
    if "- 15 \<le> x \<and> x \<le> 255" for x
  proof (rule linear_channel_bounds)
    have "real_of_int (- 15) \<le> real_of_int x" and "real_of_int x \<le> real_of_int 255"
      using that by (simp_all only: of_int_le_iff)
    then show "- 1 / 10 \<le> real_of_int x / 255" and "real_of_int x / 255 \<le> 1" by simp_all
  qed
  from l [OF assms(1)] l [OF assms(2)] l [OF assms(3)] show ?thesis
    by (simp add: luminance_of_def)
qed

lemma relative_luminance_bounds: "relative_luminance h = Some l \<Longrightarrow> - 1 / 100 \<le> l \<and> l \<le> 1"
proof -
  assume "relative_luminance h = Some l"
  then obtain a a' c c' d d' r g b where "int16 a a' = Some r" "int16 c c' = Some g" "int16 d d' = Some b"
      and l: "l = luminance_of r g b"
    by (auto simp: relative_luminance_def Let_def split: option.splits if_splits list.splits)
  then have "- 15 \<le> r \<and> r \<le> 255" "- 15 \<le> g \<and> g \<le> 255" "- 15 \<le> b \<and> b \<le> 255"
    by (simp_all add: int16_bounds)
  from luminance_of_bounds [OF this] show ?thesis by (simp add: l)
qed

lemma contrast_ratio_bounds:
  assumes "contrast_ratio a b = Some r"
  shows "1 \<le> r \<and> r \<le> 27"
proof -
  obtain l l' where l: "relative_luminance a = Some l" "relative_luminance b = Some l'"
      "r = (max l l' + 5 / 100) / (min l l' + 5 / 100)"
    using assms by (auto simp: contrast_ratio_def split: option.splits)
  from relative_luminance_bounds [OF l(1)] relative_luminance_bounds [OF l(2)] show ?thesis
    unfolding l(3) by (auto simp: divide_le_eq le_divide_eq)
qed

lemma contrast_ratio_sym: "contrast_ratio a b = contrast_ratio b a"
  by (simp add: contrast_ratio_def max.commute min.commute split: option.splits)

subsection \<open>The derived dark palette is legible\<close>

lemma luminance_literals:
  "relative_luminance (Some ''#0F172A'') = Some (luminance_of 15 23 42)"
  "relative_luminance (Some ''#60A5FA'') = Some (luminance_of 96 165 250)"
  "relative_luminance (Some ''#F8FAFC'') = Some (luminance_of 248 250 252)"
  "relative_luminance (Some ''#111827'') = Some (luminance_of 17 24 39)"
  "relative_luminance (Some ''#1E293B'') = Some (luminance_of 30 41 59)"
  "relative_luminance (Some ''#CBD5E1'') = Some (luminance_of 203 213 225)"
  by (simp_all add: relative_luminance_def py_defs int16_def hex_digit_def)

lemma linear_channel_ge0: "0 \<le> c \<Longrightarrow> 0 \<le> linear_channel c"
  by (simp add: linear_channel_def)

text \<open>Every channel of the dark surfaces is at most 59, every channel of the light texts at least 203.\<close>

lemma linear_channel_dark: "0 \<le> c \<Longrightarrow> c \<le> 59 / 255 \<Longrightarrow> linear_channel c \<le> 1 / 20"
proof (cases "c \<le> 4045 / 100000")
  case False
  assume "c \<le> 59 / 255"
  then have "(c + 55 / 1000) / (1055 / 1000) \<le> 14 / 50" by simp
  then have "((c + 55 / 1000) / (1055 / 1000)) ^ 12 \<le> (14 / 50) ^ 12"
    using False by (intro power_mono) auto
  also have "\<dots> \<le> (1 / 20 :: real) ^ 5" by (simp add: power_divide)
  finally show ?thesis using False by (intro linear_channel_le) auto
qed (simp add: linear_channel_def)

lemma linear_channel_light: "203 / 255 \<le> c \<Longrightarrow> 57 / 100 \<le> linear_channel c"
proof -
  assume c: "203 / 255 \<le> c"
  then have le: "80 / 100 \<le> (c + 55 / 1000) / (1055 / 1000)" by simp
  have "(57 / 100 :: real) ^ 5 \<le> (80 / 100) ^ 12" by (simp add: power_divide)
  also have "\<dots> \<le> ((c + 55 / 1000) / (1055 / 1000)) ^ 12"
    by (rule power_mono [OF le]) simp
  finally show ?thesis using c by (intro linear_channel_ge) auto
qed

lemma luminance_dark:
  assumes "0 \<le> r \<and> r \<le> 59" "0 \<le> g \<and> g \<le> 59" "0 \<le> b \<and> b \<le> 59"
  shows "0 \<le> luminance_of r g b \<and> luminance_of r g b \<le> 1 / 20"
proof -
  have "0 \<le> linear_channel (real_of_int x / 255) \<and> linear_channel (real_of_int x / 255) \<le> 1 / 20"
    if "0 \<le> x \<and> x \<le> 59" for x
  proof -
    have "0 \<le> real_of_int x / 255" and "real_of_int x / 255 \<le> 59 / 255" using that by simp_all
    then show ?thesis by (simp only: linear_channel_dark linear_channel_ge0 simp_thms)
  qed
  from this [OF assms(1)] this [OF assms(2)] this [OF assms(3)] show ?thesis
    by (simp add: luminance_of_def)
qed

lemma luminance_light:
  assumes "203 \<le> r" "203 \<le> g" "203 \<le> b"
  shows "57 / 100 \<le> luminance_of r g b"
proof -
  have "57 / 100 \<le> linear_channel (real_of_int x / 255)" if "203 \<le> x" for x
    using that by (intro linear_channel_light divide_right_mono) auto
  from this [OF assms(1)] this [OF assms(2)] this [OF assms(3)] show ?thesis
    by (simp add: luminance_of_def)
qed

lemma contrast_of: "relative_luminance a = Some l \<Longrightarrow> relative_luminance b = Some l' \<Longrightarrow> l' \<le> l \<Longrightarrow>
    contrast_ratio a b = Some ((l + 5 / 100) / (l' + 5 / 100))"
  by (simp add: contrast_ratio_def max_absorb1 min_absorb2)

lemma light_on_dark:
  assumes "relative_luminance a = Some l" "relative_luminance b = Some l'" "57 / 100 \<le> l" "0 \<le> l'" "l' \<le> 1 / 20"
  shows "\<exists>r. contrast_ratio a b = Some r \<and> 45 / 10 \<le> r"
proof -
  have "contrast_ratio a b = Some ((l + 5 / 100) / (l' + 5 / 100))"
    using assms by (intro contrast_of) auto
  moreover have "45 / 10 * (l' + 5 / 100) \<le> l + 5 / 100" using assms(3,5) by simp
  ultimately show ?thesis using assms(4) by (simp add: le_divide_eq)
qed

lemma blue_ring: "enough_contrast (Some ''#60A5FA'')"
proof -
  have g: "3 / 10 \<le> linear_channel (165 / 255)"
    by (intro linear_channel_ge) (simp_all add: power_divide)
  have "0 \<le> linear_channel (96 / 255)" "0 \<le> linear_channel (250 / 255)"
    by (simp_all add: linear_channel_ge0)
  with g have l: "2 / 10 \<le> luminance_of 96 165 250" by (simp add: luminance_of_def)
  have r: "linear_channel (15 / 255) \<le> 1 / 100" "linear_channel (23 / 255) \<le> 1 / 100"
      "linear_channel (42 / 255) \<le> 3 / 100"
    by (intro linear_channel_le; simp add: power_divide)+
  then have d: "luminance_of 15 23 42 \<le> 2 / 100" by (simp add: luminance_of_def)
  have p: "0 \<le> luminance_of 15 23 42" using luminance_dark [of 15 23 42] by simp
  have "contrast_ratio (Some ''#60A5FA'') (Some dark_background) =
      Some ((luminance_of 96 165 250 + 5 / 100) / (luminance_of 15 23 42 + 5 / 100))"
    using l d by (intro contrast_of) (auto simp: luminance_literals dark_background_def)
  moreover have "3 * (luminance_of 15 23 42 + 5 / 100) \<le> luminance_of 96 165 250 + 5 / 100"
    using l d by simp
  ultimately show ?thesis using p by (simp add: enough_contrast_def le_divide_eq)
qed

lemma derived_ring_contrast: "enough_contrast (Some (derived_ring palette))"
  using blue_ring by (auto simp: derived_ring_def enough_contrast_def contrast_ratio_def relative_luminance_def
      split: if_splits option.splits)

lemma derived_dark_background: "palette_is_dark (derive_dark_palette p)"
proof -
  have "luminance_of 15 23 42 \<le> 1 / 20" using luminance_dark [of 15 23 42] by simp
  then show ?thesis
    by (simp add: palette_is_dark_def derive_dark_palette_def get_or_def dark_background_def luminance_literals
        DARK_BACKGROUND_MAX_LUMINANCE_def)
qed

lemma palette_texts_legible:
  "\<exists>r. contrast_ratio (get (derive_dark_palette p) ''Foreground'') (get (derive_dark_palette p) ''Background'') = Some r \<and> 45 / 10 \<le> r"
  "\<exists>r. contrast_ratio (get (derive_dark_palette p) ''Card Foreground'') (get (derive_dark_palette p) ''Card'') = Some r \<and> 45 / 10 \<le> r"
  "\<exists>r. contrast_ratio (get (derive_dark_palette p) ''Muted Foreground'') (get (derive_dark_palette p) ''Muted'') = Some r \<and> 45 / 10 \<le> r"
proof -
  have k: "get (derive_dark_palette p) ''Foreground'' = Some ''#F8FAFC''"
      "get (derive_dark_palette p) ''Background'' = Some ''#0F172A''"
      "get (derive_dark_palette p) ''Card Foreground'' = Some ''#F8FAFC''"
      "get (derive_dark_palette p) ''Card'' = Some ''#111827''"
      "get (derive_dark_palette p) ''Muted Foreground'' = Some ''#CBD5E1''"
      "get (derive_dark_palette p) ''Muted'' = Some ''#1E293B''"
    by (simp_all add: derive_dark_palette_def dark_background_def)
  note light = luminance_light [of 248 250 252] luminance_light [of 203 213 225]
  note dark = luminance_dark [of 15 23 42] luminance_dark [of 17 24 39] luminance_dark [of 30 41 59]
  show "\<exists>r. contrast_ratio (get (derive_dark_palette p) ''Foreground'') (get (derive_dark_palette p) ''Background'') = Some r \<and> 45 / 10 \<le> r"
    unfolding k by (rule light_on_dark [OF luminance_literals(3) luminance_literals(1)]) (use light dark in simp_all)
  show "\<exists>r. contrast_ratio (get (derive_dark_palette p) ''Card Foreground'') (get (derive_dark_palette p) ''Card'') = Some r \<and> 45 / 10 \<le> r"
    unfolding k by (rule light_on_dark [OF luminance_literals(3) luminance_literals(4)]) (use light dark in simp_all)
  show "\<exists>r. contrast_ratio (get (derive_dark_palette p) ''Muted Foreground'') (get (derive_dark_palette p) ''Muted'') = Some r \<and> 45 / 10 \<le> r"
    unfolding k by (rule light_on_dark [OF luminance_literals(6) luminance_literals(5)]) (use light dark in simp_all)
qed

subsection \<open>The choice of a palette\<close>

lemma select_palette_cases:
  assumes "palettes \<noteq> []"
  shows "\<exists>p \<in> set palettes. select_palette_for_mode palettes mode category = p \<or>
    mode = ''dark'' \<and> \<not> palette_is_dark p \<and> get p ''Product Type'' = Some category \<and>
    select_palette_for_mode palettes mode category = derive_dark_palette p"
  using assms
  by (cases palettes) (auto simp: select_palette_for_mode_def split: option.splits dest!: find_SomeD)

lemma select_palette_dark:
  assumes "\<exists>p \<in> set palettes. get p ''Product Type'' = Some category \<or> palette_is_dark p"
  shows "palette_is_dark (select_palette_for_mode palettes ''dark'' category)"
proof -
  from assms obtain first rest where p: "palettes = first # rest" by (cases palettes) auto
  show ?thesis
  proof (cases "find (\<lambda>p. get p ''Product Type'' = Some category) palettes")
    case (Some p')
    then show ?thesis by (auto simp: select_palette_for_mode_def p derived_dark_background)
  next
    case None
    with assms have "\<exists>p \<in> set palettes. palette_is_dark p" by (auto simp: find_None_iff)
    then obtain p' where "find palette_is_dark palettes = Some p'"
      by (cases "find palette_is_dark palettes") (auto simp: find_None_iff)
    with None find_SomeD [OF this] show ?thesis by (auto simp: select_palette_for_mode_def p)
  qed
qed

lemma derive_keeps:
  "k \<notin> set [''Background'', ''Foreground'', ''Card'', ''Card Foreground'', ''Muted'', ''Muted Foreground'',
     ''Border'', ''Ring'', ''_mode_derivation''] \<Longrightarrow> get (derive_dark_palette p) k = get p k"
  by (auto simp: derive_dark_palette_def)

subsection \<open>Anti-patterns\<close>

lemma contains_lower_mono: "contains m (lower (strip s)) \<Longrightarrow> contains m (lower s)"
proof -
  have "\<exists>u v. s = u @ strip s @ v"
    unfolding strip_by_def
    by (metis append.assoc rev_append rev_rev_ident takeWhile_dropWhile_id)
  then obtain u v where "s = u @ strip s @ v" by blast
  then have "lower s = lower u @ lower (strip s) @ lower v"
    by (metis lower_def map_append)
  then show "contains m (lower (strip s)) \<Longrightarrow> contains m (lower s)"
    by (auto simp: contains_iff) (metis append.assoc)
qed

lemma strip_subset: "set (strip s) \<subseteq> set s"
  unfolding strip_by_def by (auto dest!: set_dropWhileD)

text \<open>The advice that is kept, as a list of clauses.\<close>

definition kept_clauses :: "str \<Rightarrow> str list" where
  "kept_clauses anti_patterns =
     filter (\<lambda>clause. clause \<noteq> []) (map strip
       (filter (\<lambda>clause. \<not> (\<exists>marker \<in> set DARK_ANTI_PATTERN_MARKERS. contains marker (lower clause)))
          (split_on (\<lambda>c. c = CHR ''+'') anti_patterns)))"

lemma kept_clauses_free:
  "clause \<in> set (kept_clauses s) \<Longrightarrow> clause \<noteq> [] \<and> CHR ''+'' \<notin> set clause \<and>
     (\<forall>marker \<in> set DARK_ANTI_PATTERN_MARKERS. \<not> contains marker (lower clause))"
  unfolding kept_clauses_def using strip_subset by (fastforce dest: contains_lower_mono split_on_parts)

lemma filter_anti_patterns_dark:
  "filter_anti_patterns_for_mode s ''dark'' = join '' + '' (kept_clauses s)"
  by (simp add: filter_anti_patterns_for_mode_def kept_clauses_def strip_by_def)
end
