(* ===== verification/Generator.thy ===== *)
theory Generator
  imports StackSearch Reasoning Palette
begin

text \<open>
  The class \<open>DesignSystemGenerator\<close> of \<open>design_system.py\<close> (lines 257 to 604), over a directory of
  data files that does not change: a search is then \<open>search_spec\<close> (\<open>Search\<close>), whatever the caches
  hold. An exception of the source is a value of \<open>gen_error\<close>.
\<close>

datatype gen_error = LoadFailed load_error | BadRules rule_error

record generator =
  gen_db :: data_dir
  reasoning_data :: table
  style_data :: table
  style_lookup :: "row dict"
  landing_lookup :: "row dict"

definition load_optional :: "data_dir \<Rightarrow> str \<Rightarrow> gen_error + table" where
  "load_optional db file =
     (case db (data_path file) of
        None \<Rightarrow> Inr []
      | Some _ \<Rightarrow> map_sum LoadFailed id (contents db (data_path file)))"

definition load_reasoning :: "data_dir \<Rightarrow> gen_error + table" where
  "load_reasoning db = load_optional db REASONING_FILE"

definition load_styles :: "data_dir \<Rightarrow> gen_error + table" where
  "load_styles db = load_optional db ''styles.csv''"

text \<open>A table of rows by identity; a later row replaces an earlier one of the same name.\<close>

definition lookup_by :: "(row \<Rightarrow> str list) \<Rightarrow> table \<Rightarrow> row dict" where
  "lookup_by ids rows =
     foldl (\<lambda>m r. foldl (\<lambda>m i. if strip i \<noteq> [] then put (lower (strip i)) r m else m) m (ids r)) [] rows"

definition pattern_ids :: "row \<Rightarrow> str list" where
  "pattern_ids r = [field r ''Pattern ID'', field r ''Pattern Name''] @ split_on (\<lambda>c. c = CHR ''|'') (field r ''Aliases'')"

definition style_ids_of :: "row \<Rightarrow> str list" where
  "style_ids_of r = [field r ''Style ID'', field r ''Style Category''] @ split_on (\<lambda>c. c = CHR ''|'') (field r ''Aliases'')"

definition load_landing_patterns :: "data_dir \<Rightarrow> gen_error + row dict" where
  "load_landing_patterns db = map_sum id (lookup_by pattern_ids) (load_optional db ''landing.csv'')"

definition build_style_lookup :: "table \<Rightarrow> row dict" where
  "build_style_lookup styles = lookup_by style_ids_of styles"

definition generator_new :: "data_dir \<Rightarrow> gen_error + generator" where
  "generator_new db =
     (case load_reasoning db of Inl e \<Rightarrow> Inl e
      | Inr rules \<Rightarrow>
          (case load_styles db of Inl e \<Rightarrow> Inl e
           | Inr styles \<Rightarrow>
               (case load_landing_patterns db of Inl e \<Rightarrow> Inl e
                | Inr patterns \<Rightarrow>
                    Inr \<lparr>gen_db = db, reasoning_data = rules, style_data = styles,
                         style_lookup = build_style_lookup styles, landing_lookup = patterns\<rparr>)))"

subsection \<open>Resolving a style\<close>

definition ids_in :: "row dict \<Rightarrow> str list" where
  "ids_in lookup = remdups (map (\<lambda>(_, r). field r ''Style ID'') lookup)"

lemma get_in_ids: "get lookup k = Some r \<Longrightarrow> field r ''Style ID'' \<in> set (ids_in lookup)"
  by (auto simp: ids_in_def dest!: map_of_SomeD intro!: image_eqI)

text \<open>
  The loop of \<open>_resolve_style\<close> from the style found under a key: it follows the parents of
  deprecated styles, and ends because every turn adds an id to \<open>seen\<close>.
\<close>

function follow_parents :: "row dict \<Rightarrow> str list \<Rightarrow> str \<Rightarrow> row" where
  "follow_parents lookup seen key =
     (case get lookup key of
        None \<Rightarrow> []
      | Some style \<Rightarrow>
          if style = [] \<or> get_or style ''Status'' ''active'' \<noteq> ''deprecated'' then style
          else (let style_id = field style ''Style ID''; parent_id = field style ''Parent Style ID'' in
                if parent_id = [] \<or> style_id \<in> set seen then []
                else follow_parents lookup (style_id # seen) (lower parent_id)))"
  by pat_completeness auto
termination
proof (relation "measure (\<lambda>(lookup, seen, key). card (set (ids_in lookup) - set seen))", goal_cases)
  case (2 lookup seen key style style_id parent_id)
  then have "style_id \<in> set (ids_in lookup)" by (simp add: get_in_ids)
  with 2 have "set (ids_in lookup) - set (style_id # seen) \<subset> set (ids_in lookup) - set seen" by auto
  then show ?case by (simp add: psubset_card_mono)
qed simp

declare follow_parents.simps [simp del]

definition resolve_style :: "generator \<Rightarrow> str \<Rightarrow> row" where
  "resolve_style g reference = follow_parents (style_lookup g) [] (lower (strip reference))"

text \<open>The rows that \<open>search\<close> gives, with none where it reports an error.\<close>

definition search_rows :: "data_dir \<Rightarrow> str \<Rightarrow> str \<Rightarrow> nat \<Rightarrow> table" where
  "search_rows db query domain n =
     (case search_spec db query (Some domain) (PyInt (int n)) False of
        Refused _ _ \<Rightarrow> [] | Answer out \<Rightarrow> results out)"

subsection \<open>Reasoning\<close>

record reasoning =
  r_pattern :: str
  style_priority :: "str list"
  color_mood :: str
  typography_mood :: str
  r_key_effects :: str
  r_anti_patterns :: str
  decision_rules :: "str list dict"
  activated_rules :: "(str \<times> str list) list"
  r_constraints :: "str list"
  preferred_mode :: "str option"
  is_default :: bool
  r_severity :: str

definition default_reasoning :: reasoning where
  "default_reasoning =
     \<lparr>r_pattern = ''Hero + Features + CTA'', style_priority = [''Minimalism'', ''Flat Design''],
      color_mood = ''Professional'', typography_mood = ''Clean'',
      r_key_effects = ''Subtle hover transitions'', r_anti_patterns = [], decision_rules = [],
      activated_rules = [], r_constraints = [], preferred_mode = None, is_default = True,
      r_severity = ''MEDIUM''\<rparr>"

definition find_reasoning_rule :: "generator \<Rightarrow> str \<Rightarrow> row" where
  "find_reasoning_rule g category =
     (case find (\<lambda>rule. lower (strip (field rule ''UI_Category'')) = lower (strip category)) (reasoning_data g) of
        None \<Rightarrow> [] | Some rule \<Rightarrow> rule)"

definition apply_reasoning :: "generator \<Rightarrow> str \<Rightarrow> str \<Rightarrow> gen_error + reasoning" where
  "apply_reasoning g category query =
     (let rule = find_reasoning_rule g category in
      if rule = [] then Inr default_reasoning
      else (case parse_decision_rules (get_or rule ''Decision_Rules'' ''{}'') of
              Inl e \<Rightarrow> Inl (BadRules e)
            | Inr rules \<Rightarrow>
                (case apply_decision_rules rules query of
                   None \<Rightarrow> Inl (BadRules UnknownPrefix)
                 | Some applied \<Rightarrow>
                     Inr \<lparr>r_pattern = (case pattern applied of
                            Some p \<Rightarrow> if p \<noteq> [] then p else field rule ''Recommended_Pattern''
                          | None \<Rightarrow> field rule ''Recommended_Pattern''),
                          style_priority =
                            map (\<lambda>i. get_or (resolve_style g i) ''Style Category'' i) (style_ids applied) @
                            map strip (split_on (\<lambda>c. c = CHR ''+'') (field rule ''Style_Priority'')),
                          color_mood = field rule ''Color_Mood'',
                          typography_mood = field rule ''Typography_Mood'',
                          r_key_effects = field rule ''Key_Effects'',
                          r_anti_patterns = field rule ''Anti_Patterns'',
                          decision_rules = rules, activated_rules = activated applied,
                          r_constraints = constraints applied, preferred_mode = mode applied,
                          is_default = False, r_severity = get_or rule ''Severity'' ''MEDIUM''\<rparr>)))"

subsection \<open>The searches\<close>

definition resolved_query :: "str \<Rightarrow> str \<Rightarrow> reasoning \<Rightarrow> str" where
  "resolved_query query category r =
     (let constraints = join '' '' (map (map (\<lambda>c. if c = CHR ''-'' then CHR '' '' else c)) (r_constraints r))
      in join '' '' (filter (\<lambda>part. part \<noteq> []) [query, category, constraints]))"

text \<open>The query that each domain is searched with.\<close>

definition domain_query :: "generator \<Rightarrow> str \<Rightarrow> str \<Rightarrow> reasoning \<Rightarrow> str list \<Rightarrow> str \<Rightarrow> str" where
  "domain_query g query category r priority domain =
     (let resolved = resolved_query query category r in
      if domain = ''style'' \<and> priority \<noteq> [] then resolved @ '' '' @ join '' '' (take 2 priority)
      else if domain = ''color'' then color_mood r @ '' '' @ resolved
      else if domain = ''landing''
      then (let landing_query =
                  (if has_key (landing_lookup g) (lower (r_pattern r)) then r_pattern r
                   else r_pattern r @ '' '' @ resolved)
            in if landing_query \<noteq> [] then landing_query else query)
      else if domain = ''typography'' then typography_mood r @ '' '' @ resolved
      else query)"

definition multi_domain_search :: "generator \<Rightarrow> str \<Rightarrow> str \<Rightarrow> reasoning \<Rightarrow> str list \<Rightarrow> table dict" where
  "multi_domain_search g query category r priority =
     map (\<lambda>(domain, n). (domain, search_rows (gen_db g) (domain_query g query category r priority domain) domain n))
       SEARCH_CONFIG"

subsection \<open>The best style\<close>

text \<open>\<open>repr\<close> of a string, and \<open>str\<close> of a row.\<close>

definition repr_char :: "char \<Rightarrow> char \<Rightarrow> str" where
  "repr_char quote c =
     (if c = quote \<or> code c = 92 then [CHR 0x5C, c]
      else if code c = 10 then [CHR 0x5C, CHR ''n'']
      else if code c = 13 then [CHR 0x5C, CHR ''r'']
      else if code c = 9 then [CHR 0x5C, CHR ''t'']
      else if code c < 32 \<or> code c = 127
      then [CHR 0x5C, CHR ''x'', ''0123456789abcdef'' ! (code c div 16), ''0123456789abcdef'' ! (code c mod 16)]
      else [c])"

definition repr_str :: "str \<Rightarrow> str" where
  "repr_str s =
     (let quote = (if CHR 0x27 \<in> set s \<and> CHR 0x22 \<notin> set s then CHR 0x22 else CHR 0x27)
      in [quote] @ concat (map (repr_char quote) s) @ [quote])"

definition str_of_row :: "row \<Rightarrow> str" where
  "str_of_row r = ''{'' @ join '', '' (map (\<lambda>(k, v). repr_str k @ '': '' @ repr_str v) r) @ ''}''"

definition alnum_tokens :: "str \<Rightarrow> str list" where
  "alnum_tokens s = remdups (runs (\<lambda>c. is_digit c \<or> is_lower c) (lower s))"

definition keyword_score :: "row \<Rightarrow> str \<Rightarrow> nat" where
  "keyword_score result kw =
     (let kw_tokens = alnum_tokens kw;
          name_tokens = alnum_tokens (field result ''Style Category'');
          keyword_tokens = alnum_tokens (field result ''Keywords'')
      in if kw_tokens \<noteq> [] \<and> set kw_tokens \<subseteq> set name_tokens then 10
         else if \<exists>t \<in> set kw_tokens. t \<in> set keyword_tokens then 3
         else if \<exists>t \<in> set kw_tokens. contains t (lower (str_of_row result)) then 1
         else 0)"

definition match_score :: "str list \<Rightarrow> row \<Rightarrow> nat" where
  "match_score priority_keywords result = sum_list (map (keyword_score result) priority_keywords)"

definition canonical_style :: "generator \<Rightarrow> str \<Rightarrow> row option" where
  "canonical_style g priority =
     (let style = resolve_style g priority in
      if style \<noteq> [] \<and> get_or style ''Status'' ''active'' \<noteq> ''deprecated'' then Some style else None)"

definition select_best_match :: "generator \<Rightarrow> table \<Rightarrow> str list \<Rightarrow> row" where
  "select_best_match g rows priority_keywords =
     (case rows of
        [] \<Rightarrow> []
      | first # _ \<Rightarrow>
          if priority_keywords = [] then first
          else (case List.map_filter (canonical_style g) priority_keywords of
                  style # _ \<Rightarrow> style
                | [] \<Rightarrow>
                    (case sort_desc fst (map (\<lambda>r. (int (match_score priority_keywords r), r)) rows) of
                       (s, r) # _ \<Rightarrow> if 0 < s then r else first
                     | [] \<Rightarrow> first)))"

subsection \<open>The recommendation\<close>

record pattern_info =
  pt_name :: str
  pt_sections :: str
  pt_cta :: str
  pt_color_strategy :: str
  pt_conversion :: str

record style_info =
  st_id :: str
  st_name :: str
  st_type :: str
  st_effects :: str
  st_keywords :: str
  st_best_for :: str
  st_performance :: str
  st_accessibility :: str
  st_light :: str
  st_dark :: str

record typography_info =
  ty_heading :: str
  ty_body :: str
  ty_mood :: str
  ty_best_for :: str
  ty_fonts_url :: str
  ty_css_import :: str

record source_info =
  src_product :: "str option"
  src_reasoning :: "str option"
  src_style :: "str option"
  src_color :: "str option"
  src_typography :: "str option"
  src_landing :: "str option"

record dial_info =
  d_variance :: "(int \<times> str) option"
  d_motion :: "(int \<times> str) option"
  d_density :: "(int \<times> str) option"

record design_system =
  project_name :: str
  ds_category :: str
  ds_pattern :: pattern_info
  ds_style :: style_info
  ds_colors :: "str dict"
  ds_typography :: typography_info
  key_effects :: str
  anti_patterns :: str
  ds_rules :: "str list dict"
  ds_activated :: "(str \<times> str list) list"
  ds_constraints :: "str list"
  reasoning_default :: bool
  sources :: source_info
  color_derivation :: "str option"
  severity :: str
  dials :: dial_info
  motion_snippet :: row
  spacing_scale :: "str dict option"

definition pattern_of :: "row \<Rightarrow> reasoning \<Rightarrow> pattern_info" where
  "pattern_of landing r =
     \<lparr>pt_name = get_or landing ''Pattern Name'' (r_pattern r),
      pt_sections = get_or landing ''Section Order'' ''Hero > Features > CTA'',
      pt_cta = get_or landing ''Primary CTA Placement'' ''Above fold'',
      pt_color_strategy = field landing ''Color Strategy'',
      pt_conversion = field landing ''Conversion Optimization''\<rparr>"

definition style_of :: "row \<Rightarrow> style_info" where
  "style_of style =
     \<lparr>st_id = get_or style ''Style ID'' ''minimalism-and-swiss-style'',
      st_name = get_or style ''Style Category'' ''Minimalism'',
      st_type = get_or style ''Type'' ''General'',
      st_effects = field style ''Effects & Animation'',
      st_keywords = field style ''Keywords'',
      st_best_for = field style ''Best For'',
      st_performance = field style ''Performance'',
      st_accessibility = field style ''Accessibility'',
      st_light = field style (''Light Mode '' @ u_check),
      st_dark = field style (''Dark Mode '' @ u_check)\<rparr>"

definition colors_of :: "row \<Rightarrow> str dict" where
  "colors_of color =
    [(''primary'', get_or color ''Primary'' ''#2563EB''),
     (''on_primary'', field color ''On Primary''),
     (''secondary'', get_or color ''Secondary'' ''#3B82F6''),
     (''on_secondary'', field color ''On Secondary''),
     (''accent'', get_or color ''Accent'' ''#F97316''),
     (''on_accent'', field color ''On Accent''),
     (''background'', get_or color ''Background'' ''#F8FAFC''),
     (''foreground'', get_or color ''Foreground'' ''#1E293B''),
     (''card'', field color ''Card''),
     (''card_foreground'', field color ''Card Foreground''),
     (''muted'', field color ''Muted''),
     (''muted_foreground'', field color ''Muted Foreground''),
     (''border'', field color ''Border''),
     (''destructive'', field color ''Destructive''),
     (''on_destructive'', field color ''On Destructive''),
     (''ring'', field color ''Ring''),
     (''notes'', field color ''Notes''),
     (''cta'', get_or color ''Accent'' ''#F97316''),
     (''text'', get_or color ''Foreground'' ''#1E293B''),
     (''on_cta'', field color ''On Accent'')]"

definition typography_of :: "row \<Rightarrow> reasoning \<Rightarrow> typography_info" where
  "typography_of typo r =
     \<lparr>ty_heading = get_or typo ''Heading Font'' ''Inter'',
      ty_body = get_or typo ''Body Font'' ''Inter'',
      ty_mood = get_or typo ''Mood/Style Keywords'' (typography_mood r),
      ty_best_for = field typo ''Best For'',
      ty_fonts_url = field typo ''Google Fonts URL'',
      ty_css_import = field typo ''CSS Import''\<rparr>"

definition head_or :: "row \<Rightarrow> table \<Rightarrow> row" where
  "head_or d rows = (case rows of [] \<Rightarrow> d | r # _ \<Rightarrow> r)"

definition best_landing :: "table \<Rightarrow> str \<Rightarrow> row" where
  "best_landing rows pat =
     (case find (\<lambda>r. get r ''Pattern Name'' = Some pat) rows of Some r \<Rightarrow> r | None \<Rightarrow> head_or [] rows)"

definition snippet_for :: "data_dir \<Rightarrow> str \<Rightarrow> (tier \<times> int) option \<Rightarrow> row" where
  "snippet_for db query motion =
     (case motion of
        None \<Rightarrow> []
      | Some (info, _) \<Rightarrow>
          (let matches = search_rows db (query @ '' '' @ tier_name info) ''gsap'' 5 in
           case filter (\<lambda>m. get m ''Intensity Tier'' = Some (tier_name info)) matches of
             m # _ \<Rightarrow> m | [] \<Rightarrow> head_or [] matches))"

definition sources_of :: "table \<Rightarrow> str \<Rightarrow> reasoning \<Rightarrow> row \<Rightarrow> row \<Rightarrow> row \<Rightarrow> row \<Rightarrow> source_info" where
  "sources_of products category r style color typo landing =
     \<lparr>src_product = (if products \<noteq> [] then Some category else None),
      src_reasoning = (if is_default r then None else Some category),
      src_style = (case get style ''Style ID'' of
                     Some i \<Rightarrow> if i \<noteq> [] then Some i else get style ''Style Category''
                   | None \<Rightarrow> get style ''Style Category''),
      src_color = get color ''Product Type'',
      src_typography = get typo ''Font Pairing Name'',
      src_landing = get landing ''Pattern Name''\<rparr>"

definition dial_of :: "(tier \<times> int) option \<Rightarrow> (int \<times> str) option" where
  "dial_of d = map_option (\<lambda>(info, v). (v, tier_label info)) d"

definition chosen_mode :: "reasoning \<Rightarrow> str \<Rightarrow> row \<Rightarrow> str" where
  "chosen_mode r query style =
     (case preferred_mode r of Some m \<Rightarrow> if m \<noteq> [] then m else resolve_color_mode query style
      | None \<Rightarrow> resolve_color_mode query style)"

definition generate ::
  "generator \<Rightarrow> str \<Rightarrow> str option \<Rightarrow> int option \<Rightarrow> int option \<Rightarrow> int option \<Rightarrow> gen_error + design_system" where
  "generate g query name variance motion density =
     (let db = gen_db g;
          variance_info = resolve_dial ''variance'' variance;
          motion_info = resolve_dial ''motion'' motion;
          density_info = resolve_dial ''density'' density;
          products = search_rows db query ''product'' 1;
          category = (case products of [] \<Rightarrow> ''General'' | p # _ \<Rightarrow> get_or p ''Product Type'' ''General'')
      in case apply_reasoning g category query of
           Inl e \<Rightarrow> Inl e
         | Inr r \<Rightarrow>
             (let priority = (case variance_info of
                                None \<Rightarrow> style_priority r | Some (info, _) \<Rightarrow> style_keywords info @ style_priority r);
                  found = multi_domain_search g query category r priority;
                  style = select_best_match g (get_or found ''style'' []) priority;
                  color_mode = chosen_mode r query style;
                  color = select_palette_for_mode (get_or found ''color'' []) color_mode category;
                  typo = head_or [] (get_or found ''typography'' []);
                  landing = best_landing (get_or found ''landing'' []) (r_pattern r);
                  style_effects = field style ''Effects & Animation''
              in Inr
                \<lparr>project_name = (case name of Some nm \<Rightarrow> if nm \<noteq> [] then nm else upper query | None \<Rightarrow> upper query),
                 ds_category = category, ds_pattern = pattern_of landing r, ds_style = style_of style,
                 ds_colors = colors_of color, ds_typography = typography_of typo r,
                 key_effects = (if style_effects \<noteq> [] then style_effects else r_key_effects r),
                 anti_patterns = filter_anti_patterns_for_mode (r_anti_patterns r) color_mode,
                 ds_rules = decision_rules r, ds_activated = activated_rules r, ds_constraints = r_constraints r,
                 reasoning_default = is_default r,
                 sources = sources_of products category r style color typo landing,
                 color_derivation = get color ''_mode_derivation'', severity = r_severity r,
                 dials = \<lparr>d_variance = dial_of variance_info, d_motion = dial_of motion_info,
                          d_density = dial_of density_info\<rparr>,
                 motion_snippet = snippet_for db query motion_info,
                 spacing_scale = map_option (\<lambda>(info, _). spacing info) density_info\<rparr>))"

subsection \<open>Resolved styles are never deprecated\<close>

lemma follow_parents_active:
  "follow_parents lookup seen key = r \<Longrightarrow> r = [] \<or> get_or r ''Status'' ''active'' \<noteq> ''deprecated'' \<and> r \<in> snd ` set lookup"
proof (induction lookup seen key rule: follow_parents.induct)
  case (1 lookup seen key)
  show ?case
  proof (cases "get lookup key")
    case None
    with "1.prems" show ?thesis by (simp add: follow_parents.simps)
  next
    case (Some style)
    have in_l: "style \<in> snd ` set lookup" using Some by (force dest: map_of_SomeD)
    show ?thesis
    proof (cases "style = [] \<or> get_or style ''Status'' ''active'' \<noteq> ''deprecated''")
      case True
      with Some "1.prems" in_l show ?thesis by (auto simp: follow_parents.simps [of lookup seen key])
    next
      case False
      show ?thesis
      proof (cases "field style ''Parent Style ID'' = [] \<or> field style ''Style ID'' \<in> set seen")
        case True
        with Some False "1.prems" show ?thesis by (auto simp: follow_parents.simps [of lookup seen key] Let_def)
      next
        case f: False
        with Some False "1.prems" have
          "follow_parents lookup (field style ''Style ID'' # seen) (lower (field style ''Parent Style ID'')) = r"
          by (simp add: follow_parents.simps [of lookup seen key] Let_def)
        from "1.IH" [OF Some False refl refl f this] show ?thesis .
      qed
    qed
  qed
qed

lemma resolve_style_active:
  "resolve_style g ref = [] \<or>
   get_or (resolve_style g ref) ''Status'' ''active'' \<noteq> ''deprecated'' \<and> resolve_style g ref \<in> snd ` set (style_lookup g)"
  unfolding resolve_style_def using follow_parents_active [OF refl] .

lemma canonical_style_eq: "canonical_style g p = (if resolve_style g p = [] then None else Some (resolve_style g p))"
  using resolve_style_active [of g p] by (auto simp: canonical_style_def Let_def)

subsection \<open>The best match\<close>

lemma map_filter_head: "List.map_filter f xs = y # ys \<Longrightarrow>
    \<exists>us x vs. xs = us @ x # vs \<and> f x = Some y \<and> (\<forall>u \<in> set us. f u = None)"
proof (induction xs)
  case (Cons x xs)
  show ?case
  proof (cases "f x")
    case None
    with Cons obtain us z vs where "xs = us @ z # vs" "f z = Some y" "\<forall>u \<in> set us. f u = None"
      by (auto simp: map_filter_simps)
    with None show ?thesis by (intro exI [of _ "x # us"]) auto
  next
    case (Some z)
    with Cons.prems show ?thesis by (intro exI [of _ "[]"]) (auto simp: map_filter_simps)
  qed
qed (simp add: map_filter_simps)

lemma select_best_match_in:
  assumes "rows \<noteq> []"
  shows "select_best_match g rows ps \<in> set rows \<or>
    (\<exists>us p vs. ps = us @ p # vs \<and> (\<forall>u \<in> set us. resolve_style g u = []) \<and>
       resolve_style g p \<noteq> [] \<and> select_best_match g rows ps = resolve_style g p)"
proof -
  obtain first rest where rows: "rows = first # rest" using assms by (cases rows) auto
  show ?thesis
  proof (cases "List.map_filter (canonical_style g) ps")
    case Nil
    let ?scored = "sort_desc fst (map (\<lambda>r. (int (match_score ps r), r)) rows)"
    have "set ?scored \<subseteq> (\<lambda>r. (int (match_score ps r), r)) ` set rows" by simp
    then have "r \<in> set rows" if "?scored = (s, r) # t" for s r t
      using that by (metis (no_types, lifting) imageE list.set_intros(1) prod.inject subsetD)
    then show ?thesis
      using Nil by (auto simp: select_best_match_def rows split: list.splits)
  next
    case (Cons style styles)
    from map_filter_head [OF Cons] obtain us p vs where
      "ps = us @ p # vs" "canonical_style g p = Some style" "\<forall>u \<in> set us. canonical_style g u = None" by blast
    with Cons show ?thesis
      by (auto simp: select_best_match_def rows canonical_style_eq split: if_splits)
  qed
qed

subsection \<open>Generation\<close>

lemma apply_reasoning_total:
  assumes "\<forall>rule \<in> set (reasoning_data g). \<exists>rs. parse_decision_rules (get_or rule ''Decision_Rules'' ''{}'') = Inr rs"
  shows "\<exists>r. apply_reasoning g category query = Inr r"
proof -
  let ?rule = "find_reasoning_rule g category"
  show ?thesis
  proof (cases "?rule = []")
    case True
    then show ?thesis by (simp add: apply_reasoning_def Let_def)
  next
    case False
    then have "?rule \<in> set (reasoning_data g)"
      by (auto simp: find_reasoning_rule_def split: option.splits dest: find_SomeD)
    with assms obtain rs where rs: "parse_decision_rules (get_or ?rule ''Decision_Rules'' ''{}'') = Inr rs" by blast
    from apply_valid_rules [OF parse_rules_ok [OF rs], of query] obtain a where "apply_decision_rules rs query = Some a"
      by blast
    with False rs show ?thesis by (simp add: apply_reasoning_def Let_def)
  qed
qed

lemma generate_cases:
  "(\<exists>r. apply_reasoning g category query = Inr r) \<Longrightarrow>
   category = (case search_rows (gen_db g) query ''product'' 1 of
                 [] \<Rightarrow> ''General'' | p # _ \<Rightarrow> get_or p ''Product Type'' ''General'') \<Longrightarrow>
   \<exists>ds. generate g query name v m d = Inr ds"
  by (auto simp: generate_def Let_def)

text \<open>The palette and the advice of a recommendation agree with one colour mode.\<close>

lemma found_colors:
  "get_or (multi_domain_search g query category r priority) ''color'' [] =
   search_rows (gen_db g) (color_mood r @ '' '' @ resolved_query query category r) ''color'' 5"
  by (simp add: multi_domain_search_def SEARCH_CONFIG_def get_or_def domain_query_def Let_def)

lemma generate_agrees:
  assumes "generate g query name v m d = Inr ds"
  shows "\<exists>r style. apply_reasoning g (ds_category ds) query = Inr r \<and> ds_style ds = style_of style \<and>
    (let color = select_palette_for_mode
           (search_rows (gen_db g) (color_mood r @ '' '' @ resolved_query query (ds_category ds) r) ''color'' 5)
           (chosen_mode r query style) (ds_category ds)
     in ds_colors ds = colors_of color \<and> color_derivation ds = get color ''_mode_derivation'') \<and>
    anti_patterns ds = filter_anti_patterns_for_mode (r_anti_patterns r) (chosen_mode r query style)"
proof -
  let ?category = "case search_rows (gen_db g) query ''product'' 1 of
      [] \<Rightarrow> ''General'' | p # _ \<Rightarrow> get_or p ''Product Type'' ''General''"
  obtain r where r: "apply_reasoning g ?category query = Inr r"
    using assms by (cases "apply_reasoning g ?category query") (simp_all add: generate_def Let_def)
  let ?priority = "case resolve_dial ''variance'' v of
      None \<Rightarrow> style_priority r | Some (info, _) \<Rightarrow> style_keywords info @ style_priority r"
  let ?found = "multi_domain_search g query ?category r ?priority"
  let ?style = "select_best_match g (get_or ?found ''style'' []) ?priority"
  have "ds_category ds = ?category" "ds_style ds = style_of ?style"
      "ds_colors ds = colors_of (select_palette_for_mode (get_or ?found ''color'' []) (chosen_mode r query ?style) ?category)"
      "color_derivation ds = get (select_palette_for_mode (get_or ?found ''color'' []) (chosen_mode r query ?style) ?category)
        ''_mode_derivation''"
      "anti_patterns ds = filter_anti_patterns_for_mode (r_anti_patterns r) (chosen_mode r query ?style)"
    using assms r by (auto simp: generate_def Let_def)
  with r show ?thesis by (auto simp: Let_def found_colors)
qed

lemma dark_color_background:
  "palette_is_dark color \<Longrightarrow>
   \<exists>l. relative_luminance (Some (field (colors_of color) ''background'')) = Some l \<and> l < DARK_BACKGROUND_MAX_LUMINANCE"
  by (cases "get color ''Background''")
    (auto simp: palette_is_dark_def colors_of_def get_or_def relative_luminance_def split: option.splits)

lemma generate_dark:
  assumes "generate g query name v m d = Inr ds" and "query_wants_dark query"
    and "apply_reasoning g (ds_category ds) query = Inr r" and "preferred_mode r \<in> {None, Some ''dark''}"
  shows "anti_patterns ds = join '' + '' (kept_clauses (r_anti_patterns r))"
    and "\<exists>p \<in> set (search_rows (gen_db g) (color_mood r @ '' '' @ resolved_query query (ds_category ds) r) ''color'' 5).
           get p ''Product Type'' = Some (ds_category ds) \<or> palette_is_dark p \<Longrightarrow>
         \<exists>l. relative_luminance (Some (field (ds_colors ds) ''background'')) = Some l \<and> l < DARK_BACKGROUND_MAX_LUMINANCE"
proof -
  have "chosen_mode r query style = ''dark''" for style
    using assms(2, 4) by (auto simp: chosen_mode_def resolve_color_mode_def)
  with generate_agrees [OF assms(1)] assms(3)
  have a: "anti_patterns ds = filter_anti_patterns_for_mode (r_anti_patterns r) ''dark''"
    and c: "ds_colors ds = colors_of (select_palette_for_mode
      (search_rows (gen_db g) (color_mood r @ '' '' @ resolved_query query (ds_category ds) r) ''color'' 5) ''dark'' (ds_category ds))"
    by (auto simp: Let_def)
  from a show "anti_patterns ds = join '' + '' (kept_clauses (r_anti_patterns r))" by (simp add: filter_anti_patterns_dark)
  show "\<exists>p \<in> set (search_rows (gen_db g) (color_mood r @ '' '' @ resolved_query query (ds_category ds) r) ''color'' 5).
           get p ''Product Type'' = Some (ds_category ds) \<or> palette_is_dark p \<Longrightarrow>
         \<exists>l. relative_luminance (Some (field (ds_colors ds) ''background'')) = Some l \<and> l < DARK_BACKGROUND_MAX_LUMINANCE"
    unfolding c by (intro dark_color_background select_palette_dark)
qed
end
