(* ===== verification/AsciiBox.thy ===== *)
theory AsciiBox
  imports Generator
begin

text \<open>
  The terminal output of \<open>design_system.py\<close>: \<open>format_ascii_box\<close> and its helpers (lines 607 to
  788), one definition per section of the box. \<open>None\<close> is the \<open>ValueError\<close> of a colour swatch. The
  value of the environment variable COLORTERM is an argument.
\<close>

definition BOX_WIDTH :: nat where
  "BOX_WIDTH = 90"

definition hex_to_ansi :: "str \<Rightarrow> str \<Rightarrow> str option" where
  "hex_to_ansi colorterm hex_color =
     (if hex_color = [] \<or> \<not> starts_with ''#'' hex_color then Some []
      else if colorterm \<notin> set [''truecolor'', ''24bit''] then Some []
      else (let v = dropWhile (\<lambda>c. c = CHR ''#'') hex_color in
        if py_len v \<noteq> 6 then Some []
        else (case v of
                [a, a', c, c', d, d'] \<Rightarrow>
                  (case (int16 a a', int16 c c', int16 d d') of
                     (Some r, Some g, Some bl) \<Rightarrow>
                       Some ([CHR 0x1B] @ ''[38;2;'' @ (str_of_int r) @ '';'' @ (str_of_int g) @ '';'' @ (str_of_int bl) @ ''m'' @ u_block @ u_block @ [CHR 0x1B] @ ''[0m '')
                   | _ \<Rightarrow> None)
              | _ \<Rightarrow> None)))"

definition ansi_rx :: rx where
  "ansi_rx = Seq (lit ([CHR 0x1B] @ ''['')) (Seq (Star (Cls (\<lambda>c. is_digit c \<or> c = CHR '';''))) (lit ''m''))"

definition visible_len :: "str \<Rightarrow> nat" where
  "visible_len s = py_len (rx_sub ansi_rx [] s)"

definition ansi_ljust :: "str \<Rightarrow> nat \<Rightarrow> str" where
  "ansi_ljust s width = s @ replicate (width - visible_len s) CHR '' ''"

text \<open>\<open>s * n\<close> for a count that may be negative.\<close>

definition repeat_str :: "int \<Rightarrow> str \<Rightarrow> str" where
  "repeat_str n s = concat (replicate (nat n) s)"

definition section_header :: "str \<Rightarrow> int \<Rightarrow> str" where
  "section_header name width =
     (let label = (u_hline @ u_hline @ u_hline @ '' '' @ name @ '' ''); fill = repeat_str (width - int (py_len label) - 1) u_hline
      in (u_vright @ label @ fill @ u_vleft))"

text \<open>The loop of \<open>wrap_text\<close>: the current line and the lines already finished.\<close>

fun wrap_words :: "str \<Rightarrow> nat \<Rightarrow> str list \<Rightarrow> str \<Rightarrow> str list" where
  "wrap_words prefix width [] current = (if current \<noteq> prefix then [current] else [])"
| "wrap_words prefix width (word # words) current =
     (if int (py_len current) + int (py_len word) + 1 \<le> int width - 2
      then wrap_words prefix width words (current @ (if current \<noteq> prefix then '' '' else []) @ word)
      else (if current \<noteq> prefix then [current] else []) @ wrap_words prefix width words (prefix @ word))"

definition wrap_text :: "str \<Rightarrow> str \<Rightarrow> nat \<Rightarrow> str list" where
  "wrap_text text prefix width = (if text = [] then [] else wrap_words prefix width (split_ws text) prefix)"

definition box_line :: "str \<Rightarrow> str" where
  "box_line s = ljust BOX_WIDTH s @ u_vline"

definition box_section :: "str \<Rightarrow> str" where
  "box_section name = section_header name (int BOX_WIDTH + 1)"

definition indent :: str where
  "indent = (u_vline @ ''     '')"

definition wrapped_lines :: "str \<Rightarrow> str list" where
  "wrapped_lines text = map box_line (wrap_text text indent BOX_WIDTH)"

definition dial_line :: "str \<Rightarrow> (int \<times> str) option \<Rightarrow> str list" where
  "dial_line label d =
     (case d of None \<Rightarrow> [] | Some (v, name) \<Rightarrow> [box_line (u_vline @ ''  '' @ label @ (str_of_int v) @ ''/10 '' @ u_emdash @ '' '' @ name)])"

definition box_dials :: "dial_info \<Rightarrow> str list" where
  "box_dials d =
     (if d_variance d = None \<and> d_motion d = None \<and> d_density d = None then []
      else [box_section ''DESIGN DIALS''] @ dial_line ''Variance: '' (d_variance d) @
           dial_line ''Motion:   '' (d_motion d) @ dial_line ''Density:  '' (d_density d))"

definition pattern_sections :: "pattern_info \<Rightarrow> str list" where
  "pattern_sections p = filter (\<lambda>s. s \<noteq> []) (map strip (split_sep '' > '' (pt_sections p) []))"

definition numbered :: "nat \<Rightarrow> str list \<Rightarrow> (nat \<times> str) list" where
  "numbered n xs = zip [n..<n + length xs] xs"

definition box_pattern :: "pattern_info \<Rightarrow> str list" where
  "box_pattern p =
     [box_section ''PATTERN'', box_line (u_vline @ ''  Name: '' @ (pt_name p))] @
     (if pt_conversion p \<noteq> [] then [box_line (u_vline @ ''     Conversion: '' @ (pt_conversion p))] else []) @
     (if pt_cta p \<noteq> [] then [box_line (u_vline @ ''     CTA: '' @ (pt_cta p))] else []) @
     [box_line (u_vline @ ''     Sections:'')] @
     map (\<lambda>(i, section). box_line (u_vline @ ''       '' @ (str_of_nat i) @ ''. '' @ section)) (numbered 1 (pattern_sections p))"

definition box_style :: "style_info \<Rightarrow> str list" where
  "box_style s =
     [box_section ''STYLE'', box_line (u_vline @ ''  Name: '' @ (st_name s))] @
     (if st_light s \<noteq> [] \<or> st_dark s \<noteq> []
      then [box_line (u_vline @ ''     Mode Support: Light '' @ (st_light s) @ ''  Dark '' @ (st_dark s))] else []) @
     (if st_keywords s \<noteq> [] then wrapped_lines (''Keywords: '' @ (st_keywords s)) else []) @
     (if st_best_for s \<noteq> [] then wrapped_lines (''Best For: '' @ (st_best_for s)) else []) @
     (if st_performance s \<noteq> [] \<or> st_accessibility s \<noteq> []
      then [box_line (u_vline @ ''     Performance: '' @ (st_performance s) @ '' | Accessibility: '' @ (st_accessibility s))] else [])"

fun box_swatches :: "str \<Rightarrow> str dict \<Rightarrow> (str \<times> str \<times> str) list \<Rightarrow> str list option" where
  "box_swatches colorterm colors [] = Some []"
| "box_swatches colorterm colors ((label, key, css_var) # entries) =
     (let hex_val = field colors key in
      if hex_val = [] then box_swatches colorterm colors entries
      else (case hex_to_ansi colorterm hex_val of
              None \<Rightarrow> None
            | Some swatch \<Rightarrow>
                map_option (\<lambda>lines.
                  (ansi_ljust (u_vline @ ''     '' @ swatch @ (ljust 14 (label @ '':'')) @ '' '' @ (ljust 10 hex_val) @ '' ('' @ css_var @ '')'') BOX_WIDTH @
                   u_vline) # lines)
                  (box_swatches colorterm colors entries)))"

definition box_colors :: "str \<Rightarrow> str dict \<Rightarrow> str list option" where
  "box_colors colorterm colors =
     map_option (\<lambda>swatches.
       [box_section ''COLORS''] @ swatches @
       (if field colors ''notes'' \<noteq> [] then wrapped_lines (''Notes: '' @ (field colors ''notes'')) else []))
       (box_swatches colorterm colors SEMANTIC_COLOR_ENTRIES)"

definition box_typography :: "typography_info \<Rightarrow> str list" where
  "box_typography t =
     [box_section ''TYPOGRAPHY'', box_line (u_vline @ ''  '' @ (ty_heading t) @ '' / '' @ (ty_body t))] @
     (if ty_mood t \<noteq> [] then wrapped_lines (''Mood: '' @ (ty_mood t)) else []) @
     (if ty_best_for t \<noteq> [] then wrapped_lines (''Best For: '' @ (ty_best_for t)) else []) @
     (if ty_fonts_url t \<noteq> [] then [box_line (u_vline @ ''     Google Fonts: '' @ (ty_fonts_url t))] else []) @
     (if ty_css_import t \<noteq> [] then [box_line (u_vline @ ''     CSS Import: '' @ (py_take 70 (ty_css_import t)) @ ''...'')] else [])"

definition box_motion :: "row \<Rightarrow> str list" where
  "box_motion m =
     (if m = [] then []
      else [box_section ''MOTION'',
            box_line (u_vline @ ''  '' @ (field m ''Category'') @ '' ('' @ (field m ''Intensity Tier'') @ '')''),
            box_line (u_vline @ ''     Trigger: '' @ (field m ''Trigger'') @ '' | Duration: '' @ (field m ''Duration'') @ '' | Easing: '' @ (field m ''Easing''))] @
           wrapped_lines (''GSAP: '' @ (field m ''GSAP Snippet'')) @
           (if field m ''Framework Notes'' \<noteq> [] then wrapped_lines (''Framework: '' @ (field m ''Framework Notes''))
            else []))"

definition checklist_items :: "str list" where
  "checklist_items =
    [''[ ] No emojis as icons (use SVG: Heroicons/Lucide)'',
     ''[ ] cursor-pointer on all clickable elements'',
     ''[ ] Hover states with smooth transitions (150-300ms)'',
     ''[ ] Light mode: text contrast 4.5:1 minimum'',
     ''[ ] Focus states visible for keyboard nav'',
     ''[ ] prefers-reduced-motion respected'',
     ''[ ] Responsive: 375px, 768px, 1024px, 1440px'']"

definition rule_line :: "str \<Rightarrow> str \<Rightarrow> str \<Rightarrow> str" where
  "rule_line left fill right = left @ repeat_str (int BOX_WIDTH - 1) fill @ right"

definition box_header :: "str \<Rightarrow> str list" where
  "box_header project =
     [rule_line u_ddr u_hdouble u_ddl,
      ansi_ljust (u_vdouble @ ''  TARGET: '' @ project @ '' - RECOMMENDED DESIGN SYSTEM'') BOX_WIDTH @ u_vdouble,
      rule_line u_dur u_hdouble u_dul, rule_line u_dr u_hline u_dl]"

definition box_lines :: "str \<Rightarrow> design_system \<Rightarrow> str list option" where
  "box_lines colorterm ds =
     map_option (\<lambda>colors.
       box_header (project_name ds) @ box_dials (dials ds) @ box_pattern (ds_pattern ds) @
       box_style (ds_style ds) @ colors @ box_typography (ds_typography ds) @
       (if key_effects ds \<noteq> [] then [box_section ''KEY EFFECTS''] @ wrapped_lines (key_effects ds) else []) @
       box_motion (motion_snippet ds) @
       (if anti_patterns ds \<noteq> [] then [box_section ''AVOID''] @ wrapped_lines (anti_patterns ds) else []) @
       [box_section ''PRE-DELIVERY CHECKLIST''] @ map (\<lambda>item. box_line (indent @ item)) checklist_items @
       [rule_line u_ur u_hline u_ul])
       (box_colors colorterm (ds_colors ds))"

definition format_ascii_box :: "str \<Rightarrow> design_system \<Rightarrow> str option" where
  "format_ascii_box colorterm ds = map_option (join [newline]) (box_lines colorterm ds)"

subsection \<open>Wrapping keeps every word and the width\<close>

definition words_ok :: "str list \<Rightarrow> bool" where
  "words_ok ws \<longleftrightarrow> (\<forall>w \<in> set ws. w \<noteq> [] \<and> (\<forall>c \<in> set w. \<not> is_space c))"

lemma split_ws_ok: "words_ok (split_ws s)"
  by (auto simp: words_ok_def split_ws_def dest: runs_parts)

lemma split_ws_word: "w \<noteq> [] \<Longrightarrow> \<forall>c \<in> set w. \<not> is_space c \<Longrightarrow> split_ws w = [w]"
  by (simp add: split_ws_def runs_def split_on_id)

lemma split_ws_append_space: "split_ws (u @ CHR '' '' # v) = split_ws u @ split_ws v"
proof -
  have "is_space CHR '' ''" by (simp add: py_defs)
  then show ?thesis by (simp add: split_ws_def runs_def split_on_append_sep)
qed

text \<open>The text of a line after its prefix.\<close>

definition body :: "str \<Rightarrow> str \<Rightarrow> str" where
  "body prefix line = drop (length prefix) line"

lemma wrap_words_prefix:
  "starts_with prefix current \<Longrightarrow> line \<in> set (wrap_words prefix width ws current) \<Longrightarrow> starts_with prefix line"
proof (induction prefix width ws current rule: wrap_words.induct)
  case (2 prefix width word words current)
  then show ?case by (auto simp: starts_with_iff split: if_splits)
qed (auto split: if_splits)

lemma wrap_words_lossless:
  "words_ok ws \<Longrightarrow> starts_with prefix current \<Longrightarrow>
   concat (map (\<lambda>line. split_ws (body prefix line)) (wrap_words prefix width ws current)) =
     split_ws (body prefix current) @ ws"
proof (induction prefix width ws current rule: wrap_words.induct)
  case (1 prefix width current)
  then show ?case by (auto simp: body_def split_ws_def runs_def)
next
  case (2 prefix width word words current)
  then obtain t where t: "current = prefix @ t" by (auto simp: starts_with_iff)
  have w: "split_ws word = [word]" and ok: "words_ok words"
    using "2.prems" split_ws_word by (auto simp: words_ok_def)
  have empty: "split_ws [] = []" by (simp add: split_ws_def runs_def)
  show ?case
  proof (cases "int (py_len current) + int (py_len word) + 1 \<le> int width - 2")
    case True
    have "split_ws (body prefix (current @ (if current \<noteq> prefix then '' '' else []) @ word)) =
        split_ws (body prefix current) @ [word]"
      using w split_ws_append_space [of t word] by (auto simp: t body_def empty)
    with "2.IH"(1) [OF True ok] True t show ?thesis by (simp add: starts_with_iff)
  next
    case False
    have "split_ws (body prefix (prefix @ word)) = [word]" by (simp add: body_def w)
    with "2.IH"(2) [OF False ok] False t show ?thesis
      by (auto simp: starts_with_iff body_def empty)
  qed
qed

lemma wrap_words_width:
  "line \<in> set (wrap_words prefix width ws current) \<Longrightarrow>
   int (py_len current) \<le> int width - 2 \<or> (\<exists>w. current = prefix @ w \<and> length (split_ws w) \<le> 1) \<Longrightarrow> words_ok ws \<Longrightarrow>
   int (py_len line) \<le> int width - 2 \<or> (\<exists>w. line = prefix @ w \<and> length (split_ws w) \<le> 1)"
proof (induction prefix width ws current rule: wrap_words.induct)
  case (2 prefix width word words current)
  have ok: "words_ok words" and w: "length (split_ws word) \<le> 1"
    using "2.prems"(3) split_ws_word [of word] by (auto simp: words_ok_def)
  show ?case
  proof (cases "int (py_len current) + int (py_len word) + 1 \<le> int width - 2")
    case True
    let ?longer = "current @ (if current \<noteq> prefix then '' '' else []) @ word"
    have "int (py_len ?longer) \<le> int width - 2" using True by (auto simp: py_len_def is_cont_byte_def code_def)
    with "2.IH"(1) [OF True] "2.prems"(1) True ok show ?thesis by simp
  next
    case False
    with "2.prems" "2.IH"(2) [OF False] w ok show ?thesis by (auto split: if_splits)
  qed
qed (auto split: if_splits)

text \<open>What \<open>wrap_text\<close> promises.\<close>

lemma wrap_text_spec:
  "concat (map (\<lambda>line. split_ws (body prefix line)) (wrap_text text prefix width)) = split_ws text \<and>
   (\<forall>line \<in> set (wrap_text text prefix width).
      starts_with prefix line \<and>
      (int (py_len line) \<le> int width - 2 \<or> (\<exists>w. line = prefix @ w \<and> length (split_ws w) \<le> 1)))"
proof (cases "text = []")
  case True
  then show ?thesis by (simp add: wrap_text_def split_ws_def runs_def)
next
  case False
  have e: "split_ws [] = []" by (simp add: split_ws_def runs_def)
  have p: "starts_with prefix prefix" by (simp add: starts_with_iff)
  have "\<exists>w. prefix = prefix @ w \<and> length (split_ws w) \<le> 1" by (intro exI [of _ "[]"]) (simp add: e)
  then show ?thesis
    using False wrap_words_lossless [OF split_ws_ok [of "text"] p, of width]
      wrap_words_prefix [OF p] wrap_words_width [OF _ _ split_ws_ok [of "text"]]
    by (auto simp: wrap_text_def body_def e)
qed

subsection \<open>Widths\<close>

lemma py_len_repeat: "py_len s = 1 \<Longrightarrow> py_len (repeat_str n s) = nat n"
proof -
  assume "py_len s = 1"
  then have "py_len (concat (replicate k s)) = k" for k
    by (induction k) (simp_all add: py_len_def)
  then show ?thesis by (simp add: repeat_str_def)
qed

lemma box_glyphs [simp]:
  "py_len u_hline = 1" "py_len u_hdouble = 1" "py_len u_vline = 1" "py_len u_vright = 1" "py_len u_vleft = 1" "py_len u_ddr = 1" "py_len u_ddl = 1"
  by (simp_all add: py_len_def is_cont_byte_def code_def)

lemma box_line_width: "py_len s \<le> BOX_WIDTH \<Longrightarrow> py_len (box_line s) = BOX_WIDTH + 1"
  by (simp add: box_line_def py_len_ljust max_def)

lemma rule_line_width: "py_len l = 1 \<Longrightarrow> py_len f = 1 \<Longrightarrow> py_len r = 1 \<Longrightarrow> py_len (rule_line l f r) = BOX_WIDTH + 1"
  by (simp add: rule_line_def py_len_repeat BOX_WIDTH_def)

text \<open>The section rules come out one column wider than the rest of the box.\<close>

lemma section_header_width:
  "py_len name + 6 \<le> nat width \<Longrightarrow> py_len (section_header name width) = Suc (nat width)"
proof -
  assume a: "py_len name + 6 \<le> nat width"
  have l: "py_len (u_hline @ u_hline @ u_hline @ '' '' @ name @ '' '') = py_len name + 5"
    by (simp add: py_len_def is_cont_byte_def code_def)
  have "py_len (section_header name width) =
      1 + py_len (u_hline @ u_hline @ u_hline @ '' '' @ name @ '' '') + py_len (repeat_str (width - int (py_len (u_hline @ u_hline @ u_hline @ '' '' @ name @ '' '')) - 1) u_hline) + 1"
    by (simp only: section_header_def Let_def py_len_append box_glyphs)
  then show ?thesis using a unfolding l by (simp add: py_len_repeat)
qed

lemma box_section_width: "py_len name \<le> 80 \<Longrightarrow> py_len (box_section name) = BOX_WIDTH + 2"
  by (simp add: box_section_def section_header_width BOX_WIDTH_def)
end
