(* ===== verification/Markdown.thy ===== *)
theory Markdown
  imports Runs Generator
begin

text \<open>
  The markdown documents of \<open>design_system.py\<close>: \<open>format_markdown\<close> (lines 791 to 915),
  \<open>format_master_md\<close> (1076 to 1379), \<open>format_page_override_md\<close> with the overrides it is given
  (1381 to 1624). A document is a list of lines; one definition per section. The clock's text is
  an argument.
\<close>

definition bold_dial :: "str \<Rightarrow> (int \<times> str) option \<Rightarrow> str list" where
  "bold_dial label d =
     (case d of None \<Rightarrow> [] | Some (v, name) \<Rightarrow> [(''- **'' @ label @ '':** '' @ (str_of_int v) @ ''/10 '' @ u_emdash @ '' '' @ name)])"

definition no_dials :: "dial_info \<Rightarrow> bool" where
  "no_dials d \<longleftrightarrow> d_variance d = None \<and> d_motion d = None \<and> d_density d = None"

definition md_dials :: "dial_info \<Rightarrow> str list" where
  "md_dials d =
     (if no_dials d then []
      else [''### Design Dials''] @ bold_dial ''Variance'' (d_variance d) @ bold_dial ''Motion'' (d_motion d) @
           bold_dial ''Density'' (d_density d) @ [[]])"

text \<open>A line that is written only when its text is not empty.\<close>

definition line_if :: "str \<Rightarrow> str \<Rightarrow> str list" where
  "line_if cond l = (if cond \<noteq> [] then [l] else [])"

definition md_pattern :: "design_system \<Rightarrow> str list" where
  "md_pattern ds =
     [''### Pattern'',
      (''- **Name:** '' @ (pt_name (ds_pattern ds)))] @
     line_if (pt_conversion (ds_pattern ds)) ((''- **Conversion Focus:** '' @ (pt_conversion (ds_pattern ds)))) @
     line_if (pt_cta (ds_pattern ds)) ((''- **CTA Placement:** '' @ (pt_cta (ds_pattern ds)))) @
     line_if (pt_color_strategy (ds_pattern ds)) ((''- **Color Strategy:** '' @ (pt_color_strategy (ds_pattern ds)))) @
     [(''- **Sections:** '' @ (pt_sections (ds_pattern ds))),
      []]"

definition md_style :: "design_system \<Rightarrow> str list" where
  "md_style ds =
     [''### Style'',
      (''- **Name:** '' @ (st_name (ds_style ds)))] @
     line_if (st_light (ds_style ds) @ st_dark (ds_style ds)) ((''- **Mode Support:** Light '' @ (st_light (ds_style ds)) @ '' | Dark '' @ (st_dark (ds_style ds)))) @
     line_if (st_keywords (ds_style ds)) ((''- **Keywords:** '' @ (st_keywords (ds_style ds)))) @
     line_if (st_best_for (ds_style ds)) ((''- **Best For:** '' @ (st_best_for (ds_style ds)))) @
     line_if (st_performance (ds_style ds) @ st_accessibility (ds_style ds)) ((''- **Performance:** '' @ (st_performance (ds_style ds)) @ '' | **Accessibility:** '' @ (st_accessibility (ds_style ds)))) @
     [[]]"

definition color_row :: "str dict \<Rightarrow> str \<times> str \<times> str \<Rightarrow> str list" where
  "color_row colors entry =
     (case entry of (label, key, css_var) \<Rightarrow>
        let hex_val = field colors key in
        if hex_val \<noteq> [] then [(''| '' @ label @ '' | `'' @ hex_val @ ''` | `'' @ css_var @ ''` |'')] else [])"

definition color_rows :: "design_system \<Rightarrow> str list" where
  "color_rows ds = concat (map (color_row (ds_colors ds)) SEMANTIC_COLOR_ENTRIES)"

definition md_colors :: "design_system \<Rightarrow> str list" where
  "md_colors ds =
     [''### Colors'',
      ''| Role | Hex | CSS Variable |'',
      ''|------|-----|--------------|''] @ color_rows ds @
     line_if (field (ds_colors ds) ''notes'') (([CHR 0x0A] @ ''*Notes: '' @ (field (ds_colors ds) ''notes'') @ ''*'')) @ [[]]"

definition md_typography :: "design_system \<Rightarrow> str list" where
  "md_typography ds =
     [''### Typography'',
      (''- **Heading:** '' @ (ty_heading (ds_typography ds))),
      (''- **Body:** '' @ (ty_body (ds_typography ds)))] @
     line_if (ty_mood (ds_typography ds)) ((''- **Mood:** '' @ (ty_mood (ds_typography ds)))) @
     line_if (ty_best_for (ds_typography ds)) ((''- **Best For:** '' @ (ty_best_for (ds_typography ds)))) @
     line_if (ty_fonts_url (ds_typography ds)) ((''- **Google Fonts:** '' @ (ty_fonts_url (ds_typography ds)))) @
     (if ty_css_import (ds_typography ds) \<noteq> []
      then [''- **CSS Import:**'',
      ''```css'',
      (ty_css_import (ds_typography ds)),
      ''```''] else []) @ [[]]"

definition md_effects :: "design_system \<Rightarrow> str list" where
  "md_effects ds = (if key_effects ds \<noteq> [] then [''### Key Effects'',
      (key_effects ds),
      []] else [])"

definition md_motion :: "design_system \<Rightarrow> str list" where
  "md_motion ds =
     (let m = motion_snippet ds in
      if m = [] then []
      else [''### Motion'',
      (''**'' @ (field (motion_snippet ds) ''Category'') @ ''** ('' @ (field (motion_snippet ds) ''Intensity Tier'') @ '') '' @ u_emdash @ '' Trigger: '' @ (field (motion_snippet ds) ''Trigger'') @ '' | Duration: '' @ (field (motion_snippet ds) ''Duration'') @ '' | Easing: `'' @ (field (motion_snippet ds) ''Easing'') @ ''`''),
      ''```js'',
      field (motion_snippet ds) ''GSAP Snippet'',
      ''```''] @
           line_if (field m ''Framework Notes'') ((''*Framework notes: '' @ (field (motion_snippet ds) ''Framework Notes'') @ ''*'')) @
           line_if (field m ''Do'') ((''- '' @ u_tick @ '' '' @ (field (motion_snippet ds) ''Do''))) @
           line_if (field m ''Don't'') ((''- '' @ u_cross @ '' '' @ (field (motion_snippet ds) ''Don't''))) @ [[]])"

definition md_avoid :: "design_system \<Rightarrow> str list" where
  "md_avoid ds =
     (if anti_patterns ds = [] then []
      else [''### Avoid (Anti-patterns)'', (''- '' @ (replace_all '' + '' (newline # ''- '') (anti_patterns ds))), []])"

definition md_checklist :: "str list" where
  "md_checklist =
     [''### Pre-Delivery Checklist'',
      ''- [ ] No emojis as icons (use SVG: Heroicons/Lucide)'',
      ''- [ ] cursor-pointer on all clickable elements'',
      ''- [ ] Hover states with smooth transitions (150-300ms)'',
      ''- [ ] Light mode: text contrast 4.5:1 minimum'',
      ''- [ ] Focus states visible for keyboard nav'',
      ''- [ ] prefers-reduced-motion respected'',
      ''- [ ] Responsive: 375px, 768px, 1024px, 1440px'',
      []]"

definition markdown_lines :: "design_system \<Rightarrow> str list" where
  "markdown_lines ds =
     [(''## Design System: '' @ (project_name ds)),
      []] @ md_dials (dials ds) @ md_pattern ds @ md_style ds @ md_colors ds @
     md_typography ds @ md_effects ds @ md_motion ds @ md_avoid ds @ md_checklist"

definition format_markdown :: "design_system \<Rightarrow> str" where
  "format_markdown ds = join [newline] (markdown_lines ds)"

subsection \<open>The master file\<close>

definition dial_part :: "str \<Rightarrow> (int \<times> str) option \<Rightarrow> str list" where
  "dial_part label d = (case d of None \<Rightarrow> [] | Some (v, name) \<Rightarrow> [(label @ '' '' @ (str_of_int v) @ ''/10 ('' @ name @ '')'')])"

definition master_dials :: "dial_info \<Rightarrow> str list" where
  "master_dials d =
     (if no_dials d then []
      else [(''**Design Dials:** '' @ (join '' | '' (dial_part ''Variance'' (d_variance d) @
              dial_part ''Motion'' (d_motion d) @ dial_part ''Density'' (d_density d))))])"

definition master_logic :: "str list" where
  "master_logic =
     [''# Design System Master File'',
      [],
      ''> **LOGIC:** When building a specific page, first check `design-system/pages/[page-name].md`.'',
      ''> If that file exists, its rules **override** this Master file.'',
      ''> If not, strictly follow the rules below.'',
      [],
      ''---'',
      []]"

definition master_intro :: "str \<Rightarrow> design_system \<Rightarrow> str list" where
  "master_intro timestamp ds =
     master_logic @
     [(''**Project:** '' @ (project_name ds)),
      (''**Generated:** '' @ timestamp),
      (''**Category:** '' @ (ds_category ds))] @ master_dials (dials ds) @
     [[],
      ''---'',
      []]"

definition master_colors :: "design_system \<Rightarrow> str list" where
  "master_colors ds =
     [''## Global Rules'',
      [],
      ''### Color Palette'',
      [],
      ''| Role | Hex | CSS Variable |'',
      ''|------|-----|--------------|''] @ color_rows ds @ [[]] @
     (if field (ds_colors ds) ''notes'' \<noteq> [] then [(''**Color Notes:** '' @ (field (ds_colors ds) ''notes'')),
      []] else [])"

definition master_typography :: "design_system \<Rightarrow> str list" where
  "master_typography ds =
     [''### Typography'',
      [],
      (''- **Heading Font:** '' @ (ty_heading (ds_typography ds))),
      (''- **Body Font:** '' @ (ty_body (ds_typography ds)))] @
     line_if (ty_mood (ds_typography ds)) ((''- **Mood:** '' @ (ty_mood (ds_typography ds)))) @
     line_if (ty_fonts_url (ds_typography ds))
       ((''- **Google Fonts:** ['' @ (ty_heading (ds_typography ds)) @ '' + '' @ (ty_body (ds_typography ds)) @ '']('' @ (ty_fonts_url (ds_typography ds)) @ '')'')) @ [[]] @
     (if ty_css_import (ds_typography ds) \<noteq> []
      then [''**CSS Import:**'',
      ''```css'',
      ty_css_import (ds_typography ds),
      ''```'',
      []] else [])"

definition spacing_usage :: "str dict" where
  "spacing_usage =
     [(''xs'', ''Tight gaps''), (''sm'', ''Icon gaps, inline spacing''), (''md'', ''Standard padding''),
      (''lg'', ''Section padding''), (''xl'', ''Large gaps''), (''2xl'', ''Section margins''), (''3xl'', ''Hero padding'')]"

definition spacing_tokens :: "str list" where
  "spacing_tokens = [''xs'', ''sm'', ''md'', ''lg'', ''xl'', ''2xl'', ''3xl'']"

definition default_spacing :: "str dict" where
  "default_spacing = spacing (snd (snd (get_or DIAL_TIERS ''density'' [] ! 1)))"

text \<open>
  \<open>n / 16\<close> in the format \<open>g\<close>: the sixteenths as four decimals without trailing zeros, which is
  what \<open>g\<close> prints below 1600 (its six significant digits); the tiers stay below 100.
\<close>

definition sixteenths :: "nat \<Rightarrow> str" where
  "sixteenths n =
     (let frac = n mod 16 * 625;
          digits = [digit_char (frac div 1000), digit_char (frac div 100), digit_char (frac div 10), digit_char frac];
          kept = rev (dropWhile (\<lambda>c. c = CHR ''0'') (rev digits))
      in str_of_nat (n div 16) @ (if kept = [] then [] else ''.'' @ kept))"

definition rstrip_px :: "str \<Rightarrow> str" where
  "rstrip_px s = rev (dropWhile (\<lambda>c. c = CHR ''p'' \<or> c = CHR ''x'') (rev s))"

definition spacing_row :: "str dict \<Rightarrow> str \<Rightarrow> str" where
  "spacing_row scale token =
     (let px_value = field scale token; rem_value = sixteenths (nat_of_digits (rstrip_px px_value)) @ ''rem''
      in (''| `--space-'' @ token @ ''` | `'' @ px_value @ ''` / `'' @ rem_value @ ''` | '' @ (field spacing_usage token) @ '' |''))"

definition master_spacing :: "design_system \<Rightarrow> str list" where
  "master_spacing ds =
     (let scale = (case spacing_scale ds of Some sc \<Rightarrow> if sc \<noteq> [] then sc else default_spacing | None \<Rightarrow> default_spacing);
          density = (case d_density (dials ds) of
                       None \<Rightarrow> (''*Density: None/10 '' @ u_emdash @ '' None*'')
                     | Some (v, name) \<Rightarrow> (''*Density: '' @ (str_of_int v) @ ''/10 '' @ u_emdash @ '' '' @ name @ ''*''))
      in [''### Spacing Variables'',
      []] @
         (if spacing_scale ds \<noteq> None \<and> spacing_scale ds \<noteq> Some [] then [density, []] else []) @
         [''| Token | Value | Usage |'',
      ''|-------|-------|-------|''] @ map (spacing_row scale) spacing_tokens @ [[]])"

definition master_shadows :: "str list" where
  "master_shadows =
     [''### Shadow Depths'',
      [],
      ''| Level | Value | Usage |'',
      ''|-------|-------|-------|'',
      ''| `--shadow-sm` | `0 1px 2px rgba(0,0,0,0.05)` | Subtle lift |'',
      ''| `--shadow-md` | `0 4px 6px rgba(0,0,0,0.1)` | Cards, buttons |'',
      ''| `--shadow-lg` | `0 10px 15px rgba(0,0,0,0.1)` | Modals, dropdowns |'',
      ''| `--shadow-xl` | `0 20px 25px rgba(0,0,0,0.15)` | Hero images, featured cards |'',
      []]"

definition master_buttons :: "design_system \<Rightarrow> str list" where
  "master_buttons ds =
     [''---'',
      [],
      ''## Component Specs'',
      [],
      ''### Buttons'',
      [],
      ''```css'',
      ''/* Primary Button */'',
      ''.btn-primary {'',
      (''  background: '' @ (get_or (ds_colors ds) ''cta'' ''#F97316'') @ '';''),
      ''  color: white;'',
      ''  padding: 12px 24px;'',
      ''  border-radius: 8px;'',
      ''  font-weight: 600;'',
      ''  transition: all 200ms ease;'',
      ''  cursor: pointer;'',
      ''}'',
      [],
      ''.btn-primary:hover {'',
      ''  opacity: 0.9;'',
      ''  transform: translateY(-1px);'',
      ''}'',
      [],
      ''/* Secondary Button */'',
      ''.btn-secondary {'',
      ''  background: transparent;'',
      (''  color: '' @ (get_or (ds_colors ds) ''primary'' ''#2563EB'') @ '';''),
      (''  border: 2px solid '' @ (get_or (ds_colors ds) ''primary'' ''#2563EB'') @ '';''),
      ''  padding: 12px 24px;'',
      ''  border-radius: 8px;'',
      ''  font-weight: 600;'',
      ''  transition: all 200ms ease;'',
      ''  cursor: pointer;'',
      ''}'',
      ''```'',
      []]"

definition master_cards :: "design_system \<Rightarrow> str list" where
  "master_cards ds =
     [''### Cards'',
      [],
      ''```css'',
      ''.card {'',
      (''  background: '' @ (get_or (ds_colors ds) ''background'' ''#FFFFFF'') @ '';''),
      ''  border-radius: 12px;'',
      ''  padding: 24px;'',
      ''  box-shadow: var(--shadow-md);'',
      ''  transition: all 200ms ease;'',
      ''  cursor: pointer;'',
      ''}'',
      [],
      ''.card:hover {'',
      ''  box-shadow: var(--shadow-lg);'',
      ''  transform: translateY(-2px);'',
      ''}'',
      ''```'',
      []]"

definition master_inputs :: "design_system \<Rightarrow> str list" where
  "master_inputs ds =
     [''### Inputs'',
      [],
      ''```css'',
      ''.input {'',
      ''  padding: 12px 16px;'',
      ''  border: 1px solid #E2E8F0;'',
      ''  border-radius: 8px;'',
      ''  font-size: 16px;'',
      ''  transition: border-color 200ms ease;'',
      ''}'',
      [],
      ''.input:focus {'',
      (''  border-color: '' @ (get_or (ds_colors ds) ''primary'' ''#2563EB'') @ '';''),
      ''  outline: none;'',
      (''  box-shadow: 0 0 0 3px '' @ (get_or (ds_colors ds) ''primary'' ''#2563EB'') @ ''20;''),
      ''}'',
      ''```'',
      []]"

definition master_modals :: "str list" where
  "master_modals =
     [''### Modals'',
      [],
      ''```css'',
      ''.modal-overlay {'',
      ''  background: rgba(0, 0, 0, 0.5);'',
      ''  backdrop-filter: blur(4px);'',
      ''}'',
      [],
      ''.modal {'',
      ''  background: white;'',
      ''  border-radius: 16px;'',
      ''  padding: 32px;'',
      ''  box-shadow: var(--shadow-xl);'',
      ''  max-width: 500px;'',
      ''  width: 90%;'',
      ''}'',
      ''```'',
      []]"

definition para_if :: "str \<Rightarrow> str \<Rightarrow> str list" where
  "para_if cond l = (if cond \<noteq> [] then [l, []] else [])"

definition master_style :: "design_system \<Rightarrow> str list" where
  "master_style ds =
     [''---'',
      [],
      ''## Style Guidelines'',
      [],
      (''**Style:** '' @ (st_name (ds_style ds))),
      []] @
     para_if (st_keywords (ds_style ds)) ((''**Keywords:** '' @ (st_keywords (ds_style ds)))) @
     para_if (st_best_for (ds_style ds)) ((''**Best For:** '' @ (st_best_for (ds_style ds)))) @
     para_if (key_effects ds) ((''**Key Effects:** '' @ (key_effects ds)))"

definition master_pattern :: "design_system \<Rightarrow> str list" where
  "master_pattern ds =
     [''### Page Pattern'',
      [],
      (''**Pattern Name:** '' @ (pt_name (ds_pattern ds))),
      []] @
     line_if (pt_conversion (ds_pattern ds)) ((''- **Conversion Strategy:** '' @ (pt_conversion (ds_pattern ds)))) @
     line_if (pt_cta (ds_pattern ds)) ((''- **CTA Placement:** '' @ (pt_cta (ds_pattern ds)))) @
     [(''- **Section Order:** '' @ (pt_sections (ds_pattern ds))),
      []]"

definition master_motion :: "design_system \<Rightarrow> str list" where
  "master_motion ds =
     (let m = motion_snippet ds in
      if m = [] then []
      else [''---'',
      [],
      ''## Motion'',
      [],
      (''**'' @ (field (motion_snippet ds) ''Category'') @ ''** ('' @ (field (motion_snippet ds) ''Intensity Tier'') @ '') '' @ u_emdash @ '' Trigger: '' @ (field (motion_snippet ds) ''Trigger'') @ '' | Duration: '' @ (field (motion_snippet ds) ''Duration'') @ '' | Easing: `'' @ (field (motion_snippet ds) ''Easing'') @ ''`''),
      [],
      ''```js'',
      field (motion_snippet ds) ''GSAP Snippet'',
      ''```'',
      []] @
           para_if (field m ''Framework Notes'') ((''**Framework notes:** '' @ (field (motion_snippet ds) ''Framework Notes''))) @
           line_if (field m ''Do'') ((''- '' @ u_tick @ '' '' @ (field (motion_snippet ds) ''Do''))) @
           line_if (field m ''Don't'') ((''- '' @ u_cross @ '' '' @ (field (motion_snippet ds) ''Don't''))) @
           line_if (field m ''Performance Notes'') ((''- '' @ u_bolt @ '' '' @ (field (motion_snippet ds) ''Performance Notes''))) @ [[]])"

definition advice_bullets :: "design_system \<Rightarrow> str list" where
  "advice_bullets ds =
     filter (\<lambda>anti. anti \<noteq> []) (map strip (split_on (\<lambda>c. c = CHR ''+'') (anti_patterns ds)))"

definition anti_head :: "str list" where
  "anti_head =
     [''---'',
      [],
      ''## Anti-Patterns (Do NOT Use)'',
      []]"

definition forbidden_patterns :: "str list" where
  "forbidden_patterns =
     [[],
      ''### Additional Forbidden Patterns'',
      [],
      (''- '' @ u_cross @ '' **Emojis as icons** '' @ u_emdash @ '' Use SVG icons (Heroicons, Lucide, Simple Icons)''),
      (''- '' @ u_cross @ '' **Missing cursor:pointer** '' @ u_emdash @ '' All clickable elements must have cursor:pointer''),
      (''- '' @ u_cross @ '' **Layout-shifting hovers** '' @ u_emdash @ '' Avoid scale transforms that shift layout''),
      (''- '' @ u_cross @ '' **Low contrast text** '' @ u_emdash @ '' Maintain 4.5:1 minimum contrast ratio''),
      (''- '' @ u_cross @ '' **Instant state changes** '' @ u_emdash @ '' Always use transitions (150-300ms)''),
      (''- '' @ u_cross @ '' **Invisible focus states** '' @ u_emdash @ '' Focus states must be visible for a11y''),
      []]"

definition master_anti :: "design_system \<Rightarrow> str list" where
  "master_anti ds =
     anti_head @
     (if anti_patterns ds \<noteq> [] then map (\<lambda>anti. (''- '' @ u_cross @ '' '' @ anti)) (advice_bullets ds) else []) @
     forbidden_patterns"

definition master_checklist :: "str list" where
  "master_checklist =
     [''---'',
      [],
      ''## Pre-Delivery Checklist'',
      [],
      ''Before delivering any UI code, verify:'',
      [],
      ''- [ ] No emojis used as icons (use SVG instead)'',
      ''- [ ] All icons from consistent icon set (Heroicons/Lucide)'',
      ''- [ ] `cursor-pointer` on all clickable elements'',
      ''- [ ] Hover states with smooth transitions (150-300ms)'',
      ''- [ ] Light mode: text contrast 4.5:1 minimum'',
      ''- [ ] Focus states visible for keyboard navigation'',
      ''- [ ] `prefers-reduced-motion` respected'',
      ''- [ ] Responsive: 375px, 768px, 1024px, 1440px'',
      ''- [ ] No content hidden behind fixed navbars'',
      ''- [ ] No horizontal scroll on mobile'',
      []]"

definition master_lines :: "str \<Rightarrow> design_system \<Rightarrow> str list" where
  "master_lines timestamp ds =
     master_intro timestamp ds @ master_colors ds @ master_typography ds @ master_spacing ds @ master_shadows @
     master_buttons ds @ master_cards ds @ master_inputs ds @ master_modals @ master_style ds @
     master_pattern ds @ master_motion ds @ master_anti ds @ master_checklist"

definition format_master_md :: "str \<Rightarrow> design_system \<Rightarrow> str" where
  "format_master_md timestamp ds = join [newline] (master_lines timestamp ds)"

subsection \<open>Page overrides\<close>

definition page_title :: "str \<Rightarrow> str" where
  "page_title page_name =
     title_from False (map (\<lambda>c. if c = CHR ''-'' \<or> c = CHR ''_'' then CHR '' '' else c) page_name)"

definition page_patterns :: "(str list \<times> str) list" where
  "page_patterns =
    [([''dashboard'', ''admin'', ''analytics'', ''data'', ''metrics'', ''stats'', ''monitor'', ''overview''],
      ''Dashboard / Data View''),
     ([''checkout'', ''payment'', ''cart'', ''purchase'', ''order'', ''billing''], ''Checkout / Payment''),
     ([''settings'', ''profile'', ''account'', ''preferences'', ''config''], ''Settings / Profile''),
     ([''landing'', ''marketing'', ''homepage'', ''hero'', ''home'', ''promo''], ''Landing / Marketing''),
     ([''login'', ''signin'', ''signup'', ''register'', ''auth'', ''password''], ''Authentication''),
     ([''pricing'', ''plans'', ''subscription'', ''tiers'', ''packages''], ''Pricing / Plans''),
     ([''blog'', ''article'', ''post'', ''news'', ''content'', ''story''], ''Blog / Article''),
     ([''product'', ''item'', ''detail'', ''pdp'', ''shop'', ''store''], ''Product Detail''),
     ([''search'', ''results'', ''browse'', ''filter'', ''catalog'', ''list''], ''Search Results''),
     ([''empty'', ''404'', ''error'', ''not found'', ''zero''], ''Empty State'')]"

definition detect_page_type :: "str \<Rightarrow> table \<Rightarrow> str" where
  "detect_page_type context style_results =
     (case find (\<lambda>(keywords, _). \<exists>kw \<in> set keywords. contains kw (lower context)) page_patterns of
        Some (_, page_type) \<Rightarrow> page_type
      | None \<Rightarrow>
          (case style_results of
             [] \<Rightarrow> ''General''
           | s # _ \<Rightarrow>
               (let best_for = lower (field s ''Best For'') in
                if contains ''dashboard'' best_for \<or> contains ''data'' best_for then ''Dashboard / Data View''
                else if contains ''landing'' best_for \<or> contains ''marketing'' best_for then ''Landing / Marketing''
                else ''General'')))"

record overrides =
  page_type :: str
  ov_layout :: "str dict"
  ov_spacing :: "str dict"
  ov_typography :: "str dict"
  ov_colors :: "str dict"
  ov_components :: "str list"
  unique_components :: "str list"
  recommendations :: "str list"

text \<open>What the keywords of the best style say about layout and spacing.\<close>

definition layout_of_style :: "str \<Rightarrow> str dict \<times> str dict" where
  "layout_of_style keywords =
     (if \<exists>kw \<in> set [''data'', ''dense'', ''dashboard'', ''grid'']. contains kw (lower keywords)
      then ([(''Max Width'', ''1400px or full-width''), (''Grid'', ''12-column grid for data flexibility'')],
            [(''Content Density'', (''High '' @ u_emdash @ '' optimize for information display''))])
      else if \<exists>kw \<in> set [''minimal'', ''simple'', ''clean'', ''single'']. contains kw (lower keywords)
      then ([(''Max Width'', ''800px (narrow, focused)''), (''Layout'', ''Single column, centered'')],
            [(''Content Density'', (''Low '' @ u_emdash @ '' focus on clarity''))])
      else ([(''Max Width'', ''1200px (standard)''), (''Layout'', ''Full-width sections, centered content'')], []))"

definition ux_advice :: "row \<Rightarrow> str list" where
  "ux_advice ux = line_if (field ux ''Do'') (field ux ''Category'' @ '': '' @ field ux ''Do'')"

definition ux_avoid :: "row \<Rightarrow> str list" where
  "ux_avoid ux = line_if (field ux ''Don't'') (''Avoid: '' @ field ux ''Don't'')"

definition default_recommendations :: "str list" where
  "default_recommendations =
    [''Refer to MASTER.md for all design rules'', ''Add specific overrides as needed for this page'']"

definition overrides_from :: "str \<Rightarrow> table \<Rightarrow> table \<Rightarrow> table \<Rightarrow> overrides" where
  "overrides_from context style_results ux_results landing_results =
     (let (layout0, spacing0) = (case style_results of [] \<Rightarrow> ([], []) | s # _ \<Rightarrow> layout_of_style (field s ''Keywords''));
          effects = (case style_results of
                       [] \<Rightarrow> [] | s # _ \<Rightarrow> line_if (field s ''Effects & Animation'')
                                            (''Effects: '' @ field s ''Effects & Animation''));
          landing = head_or [] landing_results;
          layout1 = (if field landing ''Section Order'' \<noteq> []
                     then put ''Sections'' (field landing ''Section Order'') layout0 else layout0);
          cta = line_if (field landing ''Primary CTA Placement'')
                  (''CTA Placement: '' @ field landing ''Primary CTA Placement'');
          recs = effects @ concat (map ux_advice ux_results) @ cta
      in \<lparr>page_type = detect_page_type context style_results,
          ov_layout = (if layout1 = [] then [(''Max Width'', ''1200px''), (''Layout'', ''Responsive grid'')] else layout1),
          ov_spacing = spacing0, ov_typography = [],
          ov_colors = (if field landing ''Color Strategy'' \<noteq> []
                       then [(''Strategy'', field landing ''Color Strategy'')] else []),
          ov_components = concat (map ux_avoid ux_results), unique_components = [],
          recommendations = (if recs = [] then default_recommendations else recs)\<rparr>)"

definition generate_intelligent_overrides :: "data_dir \<Rightarrow> str \<Rightarrow> str option \<Rightarrow> overrides" where
  "generate_intelligent_overrides db page_name page_query =
     (let context = lower page_name @ '' '' @ lower (case page_query of None \<Rightarrow> [] | Some q \<Rightarrow> q)
      in overrides_from context (search_rows db context ''style'' 1) (search_rows db context ''ux'' 3)
           (search_rows db context ''landing'' 1))"

definition override_section :: "str \<Rightarrow> str dict \<Rightarrow> str \<Rightarrow> str list" where
  "override_section name entries none =
     [(''### '' @ name @ '' Overrides''), []] @
     (if entries \<noteq> [] then map (\<lambda>(key, v). (''- **'' @ key @ '':** '' @ v)) entries
      else [(''- No overrides '' @ u_emdash @ '' use Master '' @ none)]) @ [[]]"

definition bullets_or :: "str list \<Rightarrow> str \<Rightarrow> str list" where
  "bullets_or items none = (if items \<noteq> [] then map (\<lambda>i. ''- '' @ i) items else [none])"

definition override_lines :: "str \<Rightarrow> design_system \<Rightarrow> str \<Rightarrow> overrides \<Rightarrow> str list" where
  "override_lines timestamp ds page_name ov =
     [(''# '' @ (page_title page_name) @ '' Page Overrides''), [], (''> **PROJECT:** '' @ (project_name ds)),
      (''> **Generated:** '' @ timestamp), (''> **Page Type:** '' @ (page_type ov)), [],
      (''> '' @ u_warn @ '' **IMPORTANT:** Rules in this file **override** the Master file (`design-system/MASTER.md`).''),
      ''> Only deviations from the Master are documented here. For all other rules, refer to the Master.'',
      [], ''---'', [], ''## Page-Specific Rules'', []] @
     override_section ''Layout'' (ov_layout ov) ''layout'' @
     override_section ''Spacing'' (ov_spacing ov) ''spacing'' @
     override_section ''Typography'' (ov_typography ov) ''typography'' @
     override_section ''Color'' (ov_colors ov) ''colors'' @
     [''### Component Overrides'', []] @
     bullets_or (ov_components ov) (''- No overrides '' @ u_emdash @ '' use Master component specs'') @
     [[], ''---'', [], ''## Page-Specific Components'', []] @
     bullets_or (unique_components ov) ''- No unique components for this page'' @
     [[], ''---'', [], ''## Recommendations'', []] @
     map (\<lambda>rec. ''- '' @ rec) (recommendations ov) @ [[]]"

definition format_page_override_md :: "data_dir \<Rightarrow> str \<Rightarrow> design_system \<Rightarrow> str \<Rightarrow> str option \<Rightarrow> str" where
  "format_page_override_md db timestamp ds page_name page_query =
     join [newline] (override_lines timestamp ds page_name (generate_intelligent_overrides db page_name page_query))"

subsection \<open>The advice printed is the advice kept\<close>

lemma strip_space_Cons: "is_space c \<Longrightarrow> strip (c # s) = strip s"
  by (simp add: strip_by_def)

lemma strip_append_space: "is_space c \<Longrightarrow> strip (s @ [c]) = strip s"
proof (cases "\<forall>x \<in> set s. is_space x")
  case True
  assume "is_space c"
  with True have "dropWhile is_space (s @ [c]) = []" "dropWhile is_space s = []"
    by (simp_all only: dropWhile_eq_Nil_conv) auto
  then show ?thesis by (simp only: strip_by_def)
next
  case False
  assume "is_space c"
  with False show ?thesis by (auto simp: strip_by_def dropWhile_append)
qed

declare strip_strip [simp]

lemma split_on_space: "\<not> P CHR '' '' \<Longrightarrow> map strip (split_on P (CHR '' '' # s)) = map strip (split_on P s)"
proof -
  have "is_space CHR '' ''" by (simp add: py_defs)
  then show "\<not> P CHR '' '' \<Longrightarrow> ?thesis"
    by (auto simp: strip_space_Cons split: list.splits)
qed

lemma split_joined_clauses:
  "cs \<noteq> [] \<Longrightarrow> \<forall>c \<in> set cs. CHR ''+'' \<notin> set c \<Longrightarrow>
   map strip (split_on (\<lambda>c. c = CHR ''+'') (join '' + '' cs)) = map strip cs"
proof (induction cs)
  case (Cons c cs)
  let ?P = "\<lambda>x. x = CHR ''+''"
  have sp: "is_space CHR '' ''" by (simp add: py_defs)
  have c: "split_on ?P (c @ '' '') = [c @ '' '']" using Cons.prems by (intro split_on_id) auto
  show ?case
  proof (cases cs)
    case Nil
    have "split_on ?P c = [c]" using Cons.prems by (intro split_on_id) auto
    with Nil show ?thesis by simp
  next
    case (Cons d ds)
    have "join '' + '' (c # cs) = (c @ '' '') @ CHR ''+'' # CHR '' '' # join '' + '' cs"
      by (simp add: Cons)
    then have "split_on ?P (join '' + '' (c # cs)) = (c @ '' '') # split_on ?P (CHR '' '' # join '' + '' cs)"
      using split_on_append_sep [of ?P "CHR ''+''" "c @ '' ''"] c by simp
    then show ?thesis
      using Cons.IH Cons.prems Cons split_on_space [of ?P "join '' + '' cs"] sp by (simp add: strip_append_space)
  qed
qed simp

lemma kept_clauses_stripped: "map strip (kept_clauses s) = kept_clauses s"
  unfolding kept_clauses_def by (rule map_idI) auto

lemma advice_round_trip:
  assumes "anti_patterns ds = filter_anti_patterns_for_mode raw ''dark''"
  shows "advice_bullets ds = kept_clauses raw"
proof (cases "kept_clauses raw")
  case Nil
  then show ?thesis using assms by (simp add: advice_bullets_def filter_anti_patterns_dark strip_by_def)
next
  case (Cons c cs)
  have "\<forall>c \<in> set (kept_clauses raw). CHR ''+'' \<notin> set c" using kept_clauses_free by blast
  then have "map strip (split_on (\<lambda>c. c = CHR ''+'') (join '' + '' (kept_clauses raw))) = kept_clauses raw"
    using split_joined_clauses [of "kept_clauses raw"] Cons kept_clauses_stripped [of raw] by simp
  moreover have "filter (\<lambda>c. c \<noteq> []) (kept_clauses raw) = kept_clauses raw"
    by (rule filter_True) (use kept_clauses_free in blast)
  ultimately show ?thesis
    using assms by (simp add: advice_bullets_def filter_anti_patterns_dark)
qed

lemma master_anti_bullets: "advice \<in> set (advice_bullets ds) \<Longrightarrow> (''- '' @ u_cross @ '' '' @ advice) \<in> set (master_anti ds)"
  by (cases "anti_patterns ds = []") (simp_all add: master_anti_def, simp add: advice_bullets_def strip_by_def)

subsection \<open>Overrides are never empty\<close>

lemma put_not_Nil [simp]: "put k v d \<noteq> []"
  by (cases d) (auto split: if_splits)

lemma overrides_nonempty:
  "ov_layout (overrides_from context ss us ls) \<noteq> [] \<and> recommendations (overrides_from context ss us ls) \<noteq> [] \<and>
   distinct (keys (ov_layout (overrides_from context ss us ls)))"
  by (auto simp: overrides_from_def Let_def default_recommendations_def layout_of_style_def keys_def
      split: list.splits prod.splits if_splits)

lemma detect_page_type_known:
  "detect_page_type context ss \<in> insert ''General'' (snd ` set page_patterns)"
  by (auto simp: detect_page_type_def page_patterns_def Let_def split: option.splits list.splits dest!: find_SomeD)
end
