(* ===== verification/Persist.thy ===== *)
theory Persist
  imports Runs Files AsciiBox Markdown
begin

text \<open>
  Persistence of a design system (\<open>design_system.py\<close>, lines 918 to 1073): slugs, the write to a
  temporary file that is then published, \<open>persist_design_system\<close> and the entry point
  \<open>generate_design_system\<close> on an explicit file system. The write for writers that run at the same
  time is in the theory Writers.
\<close>

subsection \<open>Slugs\<close>

definition slug_char :: "char \<Rightarrow> bool" where
  "slug_char c \<longleftrightarrow> is_lower c \<or> is_digit c \<or> c = CHR ''_'' \<or> c = CHR ''-''"

definition safe_slug :: "str \<Rightarrow> str \<Rightarrow> str" where
  "safe_slug name fallback =
     (let slug = strip_by (\<lambda>c. c = CHR ''-'') (rx_sub (plus1 (Cls (\<lambda>c. \<not> slug_char c))) ''-'' (lower name))
      in if slug \<noteq> [] then slug else fallback)"

definition slug_ok :: "str \<Rightarrow> bool" where
  "slug_ok s \<longleftrightarrow> s \<noteq> [] \<and> (\<forall>c \<in> set s. slug_char c) \<and> hd s \<noteq> CHR ''-'' \<and> last s \<noteq> CHR ''-''"

lemma safe_slug_ok:
  assumes "slug_ok fallback"
  shows "slug_ok (safe_slug name fallback)"
proof -
  let ?dash = "\<lambda>c. c = CHR ''-''"
  let ?s = "squeeze (\<lambda>c. \<not> slug_char c) ''-'' (lower name)"
  have "slug_char c" if "c \<in> set (strip_by ?dash ?s)" for c
  proof -
    have "c \<in> set ?s" using that by (rule strip_by_set)
    from squeeze_set [OF this] show ?thesis by (auto simp: slug_char_def)
  qed
  with assms strip_by_hd [of ?dash ?s] show ?thesis by (auto simp: safe_slug_def Let_def slug_ok_def)
qed

lemma slug_char_lower: "slug_char c \<Longrightarrow> lower_char c = c"
  by (auto simp: slug_char_def lower_char_def is_lower_def is_upper_def is_digit_def code_def)

lemma safe_slug_id: "slug_ok s \<Longrightarrow> safe_slug s fallback = s"
proof -
  assume s: "slug_ok s"
  then have "lower s = s" by (auto simp: lower_def slug_ok_def slug_char_lower intro: map_idI)
  moreover have "squeeze (\<lambda>c. \<not> slug_char c) ''-'' s = s" using s by (intro squeeze_id) (auto simp: slug_ok_def)
  moreover have "strip_by (\<lambda>c. c = CHR ''-'') s = s" using s by (intro strip_by_id) (auto simp: slug_ok_def)
  ultimately show ?thesis using s by (simp add: safe_slug_def slug_ok_def)
qed

subsection \<open>Writing a file\<close>

datatype write_outcome = Wrote | AlreadyExists | OsError

text \<open>\<open>tempfile\<close> picks the random part so that no such file exists.\<close>

definition temp_name :: "path \<Rightarrow> str \<Rightarrow> path" where
  "temp_name p rnd = (fst p, butlast (snd p) @ [''.'' @ last (snd p) @ ''.'' @ rnd @ ''.tmp''])"

definition write_persisted_file :: "str \<Rightarrow> path \<Rightarrow> str \<Rightarrow> bool \<Rightarrow> filesystem \<Rightarrow> write_outcome \<times> filesystem" where
  "write_persisted_file rnd path content force fs =
     (let temp = temp_name path rnd;
          written = (fs_files fs)(temp \<mapsto> content)
      in if force
         then (if fs_dirs fs path then (OsError, fs\<lparr>fs_files := written(temp := None)\<rparr>)
               else (Wrote, fs\<lparr>fs_files := (written(path := written temp))(temp := None)\<rparr>))
         else if written path \<noteq> None \<or> fs_dirs fs path then (AlreadyExists, fs\<lparr>fs_files := written(temp := None)\<rparr>)
         else (Wrote, fs\<lparr>fs_files := (written(path := written temp))(temp := None)\<rparr>))"

record persist_result =
  status :: str
  design_system_dir :: str
  master_file :: str
  created_files :: "str list"
  message :: "str option"

definition project_dir :: "path \<Rightarrow> design_system \<Rightarrow> path" where
  "project_dir base ds =
     sub_path base [''design-system'',
       safe_slug (if project_name ds \<noteq> [] then project_name ds else ''default'') ''default'']"

definition master_path :: "path \<Rightarrow> design_system \<Rightarrow> path" where
  "master_path base ds = sub_path (project_dir base ds) [''MASTER.md'']"

definition page_path :: "path \<Rightarrow> design_system \<Rightarrow> str \<Rightarrow> path" where
  "page_path base ds page = sub_path (project_dir base ds) [''pages'', safe_slug page ''page'' @ ''.md'']"

definition base_dir :: "path \<Rightarrow> str option \<Rightarrow> path" where
  "base_dir cwd output_dir = (case output_dir of None \<Rightarrow> cwd | Some d \<Rightarrow> if d \<noteq> [] then path_of d else cwd)"

definition persisted :: "str \<Rightarrow> path \<Rightarrow> design_system \<Rightarrow> path list \<Rightarrow> str option \<Rightarrow> persist_result" where
  "persisted st base ds created msg =
     \<lparr>status = st, design_system_dir = path_str (project_dir base ds),
      master_file = path_str (master_path base ds), created_files = map path_str created, message = msg\<rparr>"

definition skipped_master :: "path \<Rightarrow> design_system \<Rightarrow> persist_result" where
  "skipped_master base ds =
     persisted ''skipped_exists'' base ds [] (Some (path_str (master_path base ds) @
       '' already exists and was not modified. '' @
       ''Read it first to check for prior design decisions, then '' @
       ''re-run with force=True / --force to overwrite.''))"

definition skipped_page :: "path \<Rightarrow> design_system \<Rightarrow> str \<Rightarrow> persist_result" where
  "skipped_page base ds page =
     persisted ''skipped_exists'' base ds []
       (Some (path_str (page_path base ds page) @ '' already exists and was not modified.''))"

text \<open>
  What the clock says and the random parts of the two temporary names are arguments; \<open>None\<close> is an
  \<open>OSError\<close>. An empty page name counts as none.
\<close>

record surroundings =
  cwd :: path
  master_time :: str
  page_time :: str
  master_rnd :: str
  page_rnd :: str

definition write_page ::
  "data_dir \<Rightarrow> surroundings \<Rightarrow> path \<Rightarrow> design_system \<Rightarrow> str \<Rightarrow> str option \<Rightarrow> bool \<Rightarrow> path list \<Rightarrow> filesystem \<Rightarrow>
     persist_result option \<times> filesystem" where
  "write_page db env base ds page page_query force created fs =
     (let page_file = page_path base ds page in
      case write_persisted_file (page_rnd env) page_file
             (format_page_override_md db (page_time env) ds page page_query) force fs of
        (Wrote, fs') \<Rightarrow> (Some (persisted ''success'' base ds (created @ [page_file]) None), fs')
      | (AlreadyExists, fs') \<Rightarrow>
          (Some (if created = [] then skipped_page base ds page else persisted ''success'' base ds created None), fs')
      | (OsError, fs') \<Rightarrow> (None, fs'))"

definition persist_design_system ::
  "data_dir \<Rightarrow> surroundings \<Rightarrow> design_system \<Rightarrow> str \<Rightarrow> str option \<Rightarrow> str option \<Rightarrow> bool \<Rightarrow> filesystem \<Rightarrow>
     persist_result option \<times> filesystem" where
  "persist_design_system db env ds page output_dir page_query force fs =
     (let base = base_dir (cwd env) output_dir in
      case make_dirs (project_dir base ds) fs of
        None \<Rightarrow> (None, fs)
      | Some fs1 \<Rightarrow>
          (case make_dirs (sub_path (project_dir base ds) [''pages'']) fs1 of
             None \<Rightarrow> (None, fs1)
           | Some fs2 \<Rightarrow>
               (case write_persisted_file (master_rnd env) (master_path base ds)
                       (format_master_md (master_time env) ds) force fs2 of
                  (OsError, fs3) \<Rightarrow> (None, fs3)
                | (AlreadyExists, fs3) \<Rightarrow>
                    (if page = [] then (Some (skipped_master base ds), fs3)
                     else write_page db env base ds page page_query force [] fs3)
                | (Wrote, fs3) \<Rightarrow>
                    (if page = [] then (Some (persisted ''success'' base ds [master_path base ds] None), fs3)
                     else write_page db env base ds page page_query force [master_path base ds] fs3))))"

text \<open>The entry point. Persisting comes before formatting, so it has happened even if a colour does not parse.\<close>

datatype run_error = Generation gen_error | PersistOsError | BadColor

record run_result =
  text_of :: str
  system_of :: design_system
  persistence :: "persist_result option"

record run_options =
  o_project :: "str option"
  o_markdown :: bool
  o_persist :: bool
  o_page :: str
  o_output_dir :: "str option"
  o_variance :: "int option"
  o_motion :: "int option"
  o_density :: "int option"
  o_force :: bool

definition formatted :: "str \<Rightarrow> run_options \<Rightarrow> design_system \<Rightarrow> persist_result option \<Rightarrow> run_error + run_result" where
  "formatted colorterm opts ds persistence_result =
     (case (if o_markdown opts then Some (format_markdown ds) else format_ascii_box colorterm ds) of
        None \<Rightarrow> Inl BadColor
      | Some t \<Rightarrow> Inr \<lparr>text_of = t, system_of = ds, persistence = persistence_result\<rparr>)"

definition generate_design_system ::
  "data_dir \<Rightarrow> surroundings \<Rightarrow> str \<Rightarrow> str \<Rightarrow> run_options \<Rightarrow> filesystem \<Rightarrow> (run_error + run_result) \<times> filesystem" where
  "generate_design_system db env colorterm query opts fs =
     (case generator_new db of
        Inl e \<Rightarrow> (Inl (Generation e), fs)
      | Inr g \<Rightarrow>
          (case generate g query (o_project opts) (o_variance opts) (o_motion opts) (o_density opts) of
             Inl e \<Rightarrow> (Inl (Generation e), fs)
           | Inr ds \<Rightarrow>
               (if o_persist opts
                then (case persist_design_system db env ds (o_page opts) (o_output_dir opts) (Some query)
                             (o_force opts) fs of
                        (None, fs') \<Rightarrow> (Inl PersistOsError, fs')
                      | (Some r, fs') \<Rightarrow> (formatted colorterm opts ds (Some r), fs'))
                else (formatted colorterm opts ds None, fs))))"

subsection \<open>What persisting writes\<close>

definition is_temp :: "path \<Rightarrow> bool" where
  "is_temp p \<longleftrightarrow> snd p \<noteq> [] \<and> starts_with ''.'' (last (snd p))"

lemma temp_is_temp [simp]: "is_temp (temp_name p rnd)"
  by (simp add: is_temp_def temp_name_def)

lemma slug_hd: "slug_ok s \<Longrightarrow> \<not> starts_with ''.'' (s @ t)"
  by (cases s) (auto simp: slug_ok_def slug_char_def is_lower_def is_digit_def code_def)

lemma default_slugs: "slug_ok ''default''" "slug_ok ''page''"
  by (simp_all add: slug_ok_def slug_char_def is_lower_def is_digit_def code_def)

lemma master_not_temp [simp]: "\<not> is_temp (master_path base ds)"
  by (simp add: is_temp_def master_path_def sub_path_def)

lemma page_not_temp [simp]: "\<not> is_temp (page_path base ds page)"
  using slug_hd [OF safe_slug_ok [OF default_slugs(2)]] by (simp add: is_temp_def page_path_def sub_path_def)

lemma master_not_page [simp]: "master_path base ds \<noteq> page_path base ds page"
  by (simp add: master_path_def page_path_def sub_path_def)

lemma page_not_master [simp]: "page_path base ds page \<noteq> master_path base ds"
  using master_not_page by metis

lemma not_master_temp [simp]: "temp_name p rnd \<noteq> master_path base ds" "temp_name p rnd \<noteq> page_path base ds page"
  using temp_is_temp master_not_temp page_not_temp by metis+

lemma write_effect:
  assumes "write_persisted_file rnd p c force fs = (res, fs')"
    and "fs_files fs (temp_name p rnd) = None" and "\<not> is_temp p"
  shows "fs_dirs fs' = fs_dirs fs \<and> fs_files fs' = (if res = Wrote then (fs_files fs)(p \<mapsto> c) else fs_files fs) \<and>
    (res = Wrote \<longleftrightarrow> \<not> fs_dirs fs p \<and> (force \<or> fs_files fs p = None)) \<and> (res = OsError \<longleftrightarrow> force \<and> fs_dirs fs p)"
proof -
  have "temp_name p rnd \<noteq> p" using assms(3) temp_is_temp by metis
  with assms(1,2) show ?thesis
    by (auto simp: write_persisted_file_def Let_def fun_eq_iff split: if_splits)
qed

lemma make_dirs_files: "make_dirs p fs = Some fs' \<Longrightarrow> fs_files fs' = fs_files fs"
  by (auto simp: make_dirs_def split: if_splits)

text \<open>What a result says was written, and that without \<open>force\<close> only absent files were.\<close>

definition wrote_exactly ::
  "(path \<times> str) list \<Rightarrow> bool \<Rightarrow> filesystem \<Rightarrow> persist_result \<Rightarrow> filesystem \<Rightarrow> bool" where
  "wrote_exactly written force fs r fs' \<longleftrightarrow>
     fs_files fs' = fs_files fs ++ map_of written \<and> created_files r = map path_str (map fst written) \<and>
     (status r = ''success'' \<longleftrightarrow> written \<noteq> []) \<and> (force \<or> (\<forall>(p, c) \<in> set written. fs_files fs p = None))"

lemma write_page_effect:
  assumes "write_page db env base ds page q force (map fst earlier) fs1 = (Some r, fs')"
    and "fs_files fs1 = fs_files fs ++ map_of earlier" and "earlier = [] \<or> earlier = [(master_path base ds, master_text)]"
    and "force \<or> (\<forall>(p, c) \<in> set earlier. fs_files fs p = None)"
    and "fs_files fs (temp_name (page_path base ds page) (page_rnd env)) = None"
  shows "\<exists>more. (more = [] \<or> more = [(page_path base ds page, format_page_override_md db (page_time env) ds page q)]) \<and>
    wrote_exactly (earlier @ more) force fs r fs'"
proof -
  let ?p = "page_path base ds page" and ?c = "format_page_override_md db (page_time env) ds page q"
  obtain res fs2 where w: "write_persisted_file (page_rnd env) ?p ?c force fs1 = (res, fs2)" by fastforce
  have np: "?p \<notin> fst ` set earlier" using assms(3) page_not_master by auto
  have nt: "temp_name ?p (page_rnd env) \<notin> fst ` set earlier"
    using assms(3) not_master_temp by auto
  have "fs_files fs1 (temp_name ?p (page_rnd env)) = None"
    using nt assms(2,5) by (simp add: map_add_def map_of_eq_None_iff split: option.splits)
  from write_effect [OF w this] have e: "fs_files fs2 = (if res = Wrote then (fs_files fs1)(?p \<mapsto> ?c) else fs_files fs1)"
      "res = Wrote \<Longrightarrow> force \<or> fs_files fs1 ?p = None" by auto
  have f1: "fs_files fs1 ?p = fs_files fs ?p"
    using np assms(2) by (simp add: map_add_def map_of_eq_None_iff [THEN iffD2])
  show ?thesis
  proof (cases res)
    case Wrote
    then have "wrote_exactly (earlier @ [(?p, ?c)]) force fs r fs'"
      using assms(1,2,4) w e f1 np
      by (auto simp: write_page_def wrote_exactly_def persisted_def Let_def map_add_assoc fun_eq_iff map_add_def
          map_of_eq_None_iff [THEN iffD2] split: option.splits dest: map_of_SomeD)
    then show ?thesis by (intro exI [of _ "[(?p, ?c)]"]) simp
  next
    case AlreadyExists
    then have "wrote_exactly earlier force fs r fs'"
      using assms(1,2,4) w e
      by (auto simp: write_page_def wrote_exactly_def persisted_def skipped_page_def Let_def split: if_splits)
    then show ?thesis by (intro exI [of _ "[]"]) simp
  next
    case OsError
    then show ?thesis using assms(1) w by (simp add: write_page_def Let_def)
  qed
qed

lemma persist_effect:
  assumes "persist_design_system db env ds page output_dir q force fs = (Some r, fs')"
    and "base = base_dir (cwd env) output_dir"
    and "fs_files fs (temp_name (master_path base ds) (master_rnd env)) = None"
    and "fs_files fs (temp_name (page_path base ds page) (page_rnd env)) = None"
  shows "\<exists>written. wrote_exactly written force fs r fs' \<and> distinct (map fst written) \<and>
    set written \<subseteq> {(master_path base ds, format_master_md (master_time env) ds),
                   (page_path base ds page, format_page_override_md db (page_time env) ds page q)}"
proof -
  let ?m = "master_path base ds" and ?c = "format_master_md (master_time env) ds"
  from assms(1) obtain fs1 fs2 where d: "make_dirs (project_dir base ds) fs = Some fs1"
      "make_dirs (sub_path (project_dir base ds) [''pages'']) fs1 = Some fs2"
    by (auto simp: persist_design_system_def assms(2) Let_def split: option.splits)
  then have f2: "fs_files fs2 = fs_files fs" by (simp add: make_dirs_files)
  obtain res fs3 where w: "write_persisted_file (master_rnd env) ?m ?c force fs2 = (res, fs3)" by fastforce
  from write_effect [OF w] assms(3) f2 have
    e: "fs_files fs3 = (if res = Wrote then (fs_files fs)(?m \<mapsto> ?c) else fs_files fs)"
       "res = Wrote \<Longrightarrow> force \<or> fs_files fs ?m = None" by auto
  let ?earlier = "if res = Wrote then [(?m, ?c)] else []"
  have res: "res \<noteq> OsError" using assms(1) d w by (auto simp: persist_design_system_def assms(2) Let_def)
  have f3: "fs_files fs3 = fs_files fs ++ map_of ?earlier" using e(1) by (auto simp: fun_eq_iff map_add_def)
  have fo: "force \<or> (\<forall>(p, c) \<in> set ?earlier. fs_files fs p = None)" using e(2) by auto
  show ?thesis
  proof (cases "page = []")
    case True
    then have "wrote_exactly ?earlier force fs r fs'"
      using assms(1) d w res f3 fo
      by (cases res) (auto simp: persist_design_system_def assms(2) [symmetric] Let_def wrote_exactly_def persisted_def skipped_master_def)
    then show ?thesis by (intro exI [of _ ?earlier]) auto
  next
    case False
    then have "write_page db env base ds page q force (map fst ?earlier) fs3 = (Some r, fs')"
      using assms(1) d w res by (cases res) (auto simp: persist_design_system_def assms(2) [symmetric] Let_def)
    from write_page_effect [OF this f3 _ fo assms(4), of ?c] obtain more where
      "more = [] \<or> more = [(page_path base ds page, format_page_override_md db (page_time env) ds page q)]"
        "wrote_exactly (?earlier @ more) force fs r fs'"
      by (meson assms)
    then show ?thesis by (intro exI [of _ "?earlier @ more"]) auto
  qed
qed
end
