(* ===== verification/JsonOutput.thy ===== *)
theory JsonOutput
  imports StackSearch Persist
begin

text \<open>
  The dictionaries that the commands print with \<open>--json\<close>, as JSON values: the answers of \<open>search\<close> and
  \<open>search_stack\<close> (\<open>core.py\<close>, lines 755 to 848 and 951 to 993), the recommendation and the report of
  persisting it (\<open>design_system.py\<close>, lines 521 to 604 and 1036 to 1073). Members come in the order in
  which the code puts them.
\<close>

subsection \<open>Answers of the searches\<close>

definition redirect_json :: "redirection \<Rightarrow> json" where
  "redirect_json r = json_text_dict [(''domain'', to_domain r), (''id'', to_id r)]"

definition output_json :: "search_output \<Rightarrow> json" where
  "output_json out = JObject
     ([(''domain'', JString (out_domain out))] @ optional_member ''stack'' JString (out_stack out) @
      [(''query'', JString (out_query out)), (''file'', JString (out_file out)), (''count'', json_nat (out_count out)),
       (''results'', json_table (results out))] @
      (if auto_detected out
       then (''auto_detected'', JBool True) #
         (case runner_up_domain out of None \<Rightarrow> [] | Some d \<Rightarrow> if d = [] then [] else [(''runner_up_domain'', JString d)])
       else []) @
      optional_member ''redirect'' redirect_json (redirect out) @
      optional_member ''error'' JString (out_error out) @
      optional_member ''suggestions'' json_texts (suggestions out))"

text \<open>A refusal names the domain, null when none was asked for, or the stack when it is known.\<close>

definition search_json :: "outcome \<Rightarrow> json" where
  "search_json answer =
     (case answer of
        Refused e d \<Rightarrow> JObject [(''error'', JString e), (''domain'', json_or_null JString d)]
      | Answer out \<Rightarrow> output_json out)"

definition stack_json :: "outcome \<Rightarrow> json" where
  "stack_json answer =
     (case answer of
        Refused e stack \<Rightarrow> JObject ((''error'', JString e) # optional_member ''stack'' JString stack)
      | Answer out \<Rightarrow> output_json out)"

subsection \<open>The recommendation\<close>

definition pattern_json :: "pattern_info \<Rightarrow> json" where
  "pattern_json p = json_text_dict
     [(''name'', pt_name p), (''sections'', pt_sections p), (''cta_placement'', pt_cta p),
      (''color_strategy'', pt_color_strategy p), (''conversion'', pt_conversion p)]"

definition style_json :: "style_info \<Rightarrow> json" where
  "style_json s = json_text_dict
     [(''id'', st_id s), (''name'', st_name s), (''type'', st_type s), (''effects'', st_effects s),
      (''keywords'', st_keywords s), (''best_for'', st_best_for s), (''performance'', st_performance s),
      (''accessibility'', st_accessibility s), (''light_mode'', st_light s), (''dark_mode'', st_dark s)]"

definition typography_json :: "typography_info \<Rightarrow> json" where
  "typography_json t = json_text_dict
     [(''heading'', ty_heading t), (''body'', ty_body t), (''mood'', ty_mood t), (''best_for'', ty_best_for t),
      (''google_fonts_url'', ty_fonts_url t), (''css_import'', ty_css_import t)]"

definition rules_json :: "str list dict \<Rightarrow> json" where
  "rules_json rules = JObject (map (\<lambda>(condition, actions). (condition, json_texts actions)) rules)"

definition activated_json :: "(str \<times> str list) list \<Rightarrow> json" where
  "activated_json rules = JArray
     (map (\<lambda>(condition, actions). JObject [(''condition'', JString condition), (''actions'', json_texts actions)]) rules)"

definition identities_json :: "source_info \<Rightarrow> json" where
  "identities_json s = JObject
     (map (\<lambda>(k, v). (k, json_or_null JString v))
       [(''product'', src_product s), (''reasoning'', src_reasoning s), (''style'', src_style s),
        (''color'', src_color s), (''typography'', src_typography s), (''landing'', src_landing s)])"

definition dials_json :: "dial_info \<Rightarrow> json" where
  "dials_json d = JObject
     [(''variance'', json_or_null (json_int \<circ> fst) (d_variance d)), (''variance_label'', json_or_null (JString \<circ> snd) (d_variance d)),
      (''motion'', json_or_null (json_int \<circ> fst) (d_motion d)), (''motion_label'', json_or_null (JString \<circ> snd) (d_motion d)),
      (''density'', json_or_null (json_int \<circ> fst) (d_density d)), (''density_label'', json_or_null (JString \<circ> snd) (d_density d))]"

definition system_json :: "design_system \<Rightarrow> json" where
  "system_json ds = JObject
     [(''project_name'', JString (project_name ds)), (''category'', JString (ds_category ds)),
      (''pattern'', pattern_json (ds_pattern ds)), (''style'', style_json (ds_style ds)),
      (''colors'', json_text_dict (ds_colors ds)), (''typography'', typography_json (ds_typography ds)),
      (''key_effects'', JString (key_effects ds)), (''anti_patterns'', JString (anti_patterns ds)),
      (''decision_rules'', rules_json (ds_rules ds)), (''activated_rules'', activated_json (ds_activated ds)),
      (''constraints'', json_texts (ds_constraints ds)), (''reasoning_default'', JBool (reasoning_default ds)),
      (''source_identities'', identities_json (sources ds)),
      (''source_derivations'', JObject [(''color_mode'', json_or_null JString (color_derivation ds))]),
      (''severity'', JString (severity ds)), (''dials'', dials_json (dials ds)),
      (''motion_snippet'', json_text_dict (motion_snippet ds)),
      (''spacing_scale'', json_or_null json_text_dict (spacing_scale ds))]"

definition persist_json :: "persist_result \<Rightarrow> json" where
  "persist_json r = JObject
     ([(''status'', JString (status r)), (''design_system_dir'', JString (design_system_dir r)),
       (''master_file'', JString (master_file r)), (''created_files'', json_texts (created_files r))] @
      optional_member ''message'' JString (message r))"

definition run_json :: "run_result \<Rightarrow> json" where
  "run_json r = JObject
     [(''design_system'', system_json (system_of r)), (''persistence'', json_or_null persist_json (persistence r))]"

subsection \<open>The answers are dictionaries\<close>

text \<open>
  Members of JSON objects read back only with distinct keys. Those of the results are columns of the
  configuration, those of the rules are the conditions of a parsed object.
\<close>

abbreviation sound_row :: "row \<Rightarrow> bool" where
  "sound_row r \<equiv> distinct (keys r)"

lemma config_columns_distinct: "(k, c) \<in> set CSV_CONFIG \<Longrightarrow> distinct (output_cols c)"
proof -
  have "\<forall>(k, c) \<in> set CSV_CONFIG. distinct (output_cols c)" by code_simp
  then show "(k, c) \<in> set CSV_CONFIG \<Longrightarrow> distinct (output_cols c)" by auto
qed

lemma searched_columns_distinct: "distinct (output_cols (domain_config_of (searched_domain d)))"
proof -
  have "has_key CSV_CONFIG ''style''" by code_simp
  then obtain c where "get CSV_CONFIG (searched_domain d) = Some c"
    by (cases "get CSV_CONFIG (searched_domain d)") (auto simp: searched_domain_def has_key_def split: if_splits)
  then show ?thesis using config_columns_distinct by (auto simp: domain_config_of_def dest: map_of_SomeD)
qed

lemma project_row_sound: "distinct cols \<Longrightarrow> sound_row (project_row r cols)"
  by (simp add: project_row_keys)

lemma search_results_sound:
  assumes "search_spec db query domain m diags = Answer out" and "r \<in> set (results out)"
  shows "sound_row r"
proof -
  from search_spec_ok [OF assms(1)] assms(2) obtain row where
    "r = project_row row (output_cols (domain_config_of (searched_domain (out_domain out))))"
    unfolding answer_ok_def from_rows_def by blast
  then show ?thesis by (simp only: project_row_sound [OF searched_columns_distinct])
qed

lemma readable_output:
  assumes "\<forall>r \<in> set (results out). sound_row r"
  shows "readable (\<lambda>_. True) (output_json out)"
  using assms
  by (auto simp: output_json_def optional_member_def readable_values redirect_json_def list_all_iff keys_def
    split: option.splits)

lemma readable_search: "readable (\<lambda>_. True) (search_json (search_spec db query domain m diags))"
proof (cases "search_spec db query domain m diags")
  case (Answer out)
  with search_results_sound [OF Answer] readable_output show ?thesis by (simp add: search_json_def)
qed (simp add: search_json_def readable_values keys_def)

lemma readable_stack: "readable (\<lambda>_. True) (stack_json (search_stack_spec db query stack m diags))"
proof (cases "search_stack_spec db query stack m diags")
  case (Refused e s)
  then show ?thesis by (auto simp: stack_json_def optional_member_def keys_def split: option.split)
next
  case (Answer out)
  have "distinct STACK_OUTPUT_COLS" by code_simp
  then have "\<forall>r \<in> set (results out). sound_row r"
    using search_stack_generation [OF Answer] project_row_sound by fastforce
  with readable_output Answer show ?thesis by (simp add: stack_json_def)
qed

text \<open>The recommendation: its rules are those parsed, and its snippet is a result of a search.\<close>

lemma search_rows_sound: "r \<in> set (search_rows db query domain n) \<Longrightarrow> sound_row r"
  by (cases "search_spec db query (Some domain) (PyInt (int n)) False")
    (simp_all add: search_rows_def search_results_sound)

lemma snippet_sound: "sound_row (snippet_for db query motion)"
proof (cases motion)
  case (Some m)
  obtain info v where m: "m = (info, v)" by fastforce
  let ?found = "search_rows db (query @ '' '' @ tier_name info) ''gsap'' 5"
  have head: "sound_row (head_or [] ?found)"
  proof (cases ?found)
    case (Cons x xs)
    then have "x \<in> set ?found" by simp
    then have "sound_row x" by (rule search_rows_sound)
    with Cons show ?thesis by (simp add: head_or_def)
  qed (simp add: head_or_def keys_def)
  show ?thesis
  proof (cases "filter (\<lambda>m. get m ''Intensity Tier'' = Some (tier_name info)) ?found")
    case Nil
    with head show ?thesis by (simp add: snippet_for_def Some m)
  next
    case (Cons x xs)
    then have "x \<in> set (filter (\<lambda>m. get m ''Intensity Tier'' = Some (tier_name info)) ?found)" by simp
    then have "x \<in> set ?found" by (simp only: set_filter mem_Collect_eq)
    then have "sound_row x" by (rule search_rows_sound)
    with Cons show ?thesis by (simp add: snippet_for_def Some m)
  qed
qed (simp add: snippet_for_def keys_def)

lemma resolve_dial_tier: "resolve_dial d i = Some (info, v) \<Longrightarrow> \<exists>lo hi. (lo, hi, info) \<in> set (get_or DIAL_TIERS d [])"
  by (auto simp: resolve_dial_def Let_def split: option.splits dest!: find_SomeD)

lemma spacing_sound: "resolve_dial ''density'' i = Some (info, v) \<Longrightarrow> distinct (keys (spacing info))"
proof -
  have "list_all (\<lambda>(lo, hi, info). distinct (keys (spacing info))) (get_or DIAL_TIERS ''density'' [])"
    by (simp add: DIAL_TIERS_def get_or_def keys_def plain_tier_def)
  moreover assume "resolve_dial ''density'' i = Some (info, v)"
  ultimately show "distinct (keys (spacing info))" by (auto simp: list_all_iff dest!: resolve_dial_tier)
qed

lemma reasoning_rules_distinct: "apply_reasoning g category query = Inr r \<Longrightarrow> distinct (keys (decision_rules r))"
  using parse_rules_ok
  by (auto simp: apply_reasoning_def Let_def default_reasoning_def rules_ok_def keys_def split: if_splits sum.splits option.splits)

lemma readable_system:
  assumes "generate g query name variance motion density = Inr ds"
  shows "readable (\<lambda>_. True) (system_json ds)"
proof -
  let ?category = "case search_rows (gen_db g) query ''product'' 1 of [] \<Rightarrow> ''General'' | p # _ \<Rightarrow> get_or p ''Product Type'' ''General''"
  obtain r where r: "apply_reasoning g ?category query = Inr r"
    using assms by (cases "apply_reasoning g ?category query") (simp_all add: generate_def Let_def)
  have ds: "ds_rules ds = decision_rules r" "motion_snippet ds = snippet_for (gen_db g) query (resolve_dial ''motion'' motion)"
      "spacing_scale ds = map_option (\<lambda>(info, _). spacing info) (resolve_dial ''density'' density)"
      "\<exists>color. ds_colors ds = colors_of color"
    using assms unfolding generate_def Let_def r by auto
  have "distinct (keys (ds_rules ds))" using reasoning_rules_distinct [OF r] by (simp add: ds)
  moreover have "sound_row (motion_snippet ds)" by (simp add: ds snippet_sound)
  moreover have "\<forall>sp. spacing_scale ds = Some sp \<longrightarrow> distinct (keys sp)" using spacing_sound by (auto simp: ds)
  moreover have "distinct (keys (ds_colors ds))" using ds(4) by (auto simp: colors_of_def keys_def)
  ultimately show ?thesis
    by (auto simp: system_json_def readable_values pattern_json_def style_json_def typography_json_def rules_json_def
      activated_json_def identities_json_def dials_json_def keys_map_value list_all_iff) (auto simp: keys_def)
qed

lemma readable_run:
  assumes "generate_design_system db env colorterm query opts fs = (Inr r, fs')"
  shows "readable (\<lambda>_. True) (run_json r)"
proof -
  obtain g where "generate g query (o_project opts) (o_variance opts) (o_motion opts) (o_density opts) = Inr (system_of r)"
    using assms by (auto simp: generate_design_system_def formatted_def split: sum.splits if_splits prod.splits option.splits)
  from readable_system [OF this] show ?thesis
    by (auto simp: run_json_def readable_values persist_json_def optional_member_def keys_def list_all_iff split: option.splits)
qed
end
