(* ===== verification/Writers.thy ===== *)
theory Writers
  imports Persist
begin

text \<open>
  Concurrent persistence (\<open>design_system.py\<close>, lines 972 to 992): the write as a step relation on the
  files shared by any number of writers, its invariants, that every run ends, and that a writer by
  itself does what the function of the theory Persist says.
\<close>

subsection \<open>Writers that run at the same time\<close>

text \<open>
  \<open>_write_persisted_file\<close> as small steps on the files that all writers share. A job is one call;
  a writer is at a line of it, and may lose an argument with the operating system at any call or
  die between two. \<open>Cleaning t r\<close> is the \<open>finally\<close> block with the temporary file \<open>t\<close>.
\<close>

record job =
  job_target :: path
  job_text :: str
  job_force :: bool

datatype phase = Idle | Opened path | Written path | Cleaning path write_outcome | Finished write_outcome | Crashed

type_synonym disk = "(path \<Rightarrow> str option) \<times> (nat \<Rightarrow> phase)"

inductive writer_step :: "job list \<Rightarrow> disk \<Rightarrow> disk \<Rightarrow> bool" for jobs where
  create: "i < length jobs \<Longrightarrow> ph i = Idle \<Longrightarrow> t = temp_name (job_target (jobs ! i)) rnd \<Longrightarrow> F t = None \<Longrightarrow>
    writer_step jobs (F, ph) (F(t \<mapsto> []), ph(i := Opened t))"
| create_fails: "i < length jobs \<Longrightarrow> ph i = Idle \<Longrightarrow> writer_step jobs (F, ph) (F, ph(i := Finished OsError))"
| extend: "i < length jobs \<Longrightarrow> ph i = Opened t \<Longrightarrow> F t = Some c \<Longrightarrow> length c < m \<Longrightarrow>
    m \<le> length (job_text (jobs ! i)) \<Longrightarrow>
    writer_step jobs (F, ph) (F(t \<mapsto> take m (job_text (jobs ! i))), ph)"
| synced: "i < length jobs \<Longrightarrow> ph i = Opened t \<Longrightarrow> F t = Some c \<Longrightarrow> length c = length (job_text (jobs ! i)) \<Longrightarrow>
    writer_step jobs (F, ph) (F, ph(i := Written t))"
| write_fails: "i < length jobs \<Longrightarrow> ph i = Opened t \<Longrightarrow>
    writer_step jobs (F, ph) (F, ph(i := Cleaning t OsError))"
| replace: "i < length jobs \<Longrightarrow> ph i = Written t \<Longrightarrow> job_force (jobs ! i) \<Longrightarrow> F t = Some c \<Longrightarrow>
    writer_step jobs (F, ph) (F(job_target (jobs ! i) \<mapsto> c, t := None), ph(i := Finished Wrote))"
| link: "i < length jobs \<Longrightarrow> ph i = Written t \<Longrightarrow> \<not> job_force (jobs ! i) \<Longrightarrow> F t = Some c \<Longrightarrow>
    F (job_target (jobs ! i)) = None \<Longrightarrow>
    writer_step jobs (F, ph) (F(job_target (jobs ! i) \<mapsto> c), ph(i := Cleaning t Wrote))"
| link_loses: "i < length jobs \<Longrightarrow> ph i = Written t \<Longrightarrow> \<not> job_force (jobs ! i) \<Longrightarrow>
    F (job_target (jobs ! i)) \<noteq> None \<Longrightarrow>
    writer_step jobs (F, ph) (F, ph(i := Cleaning t AlreadyExists))"
| publish_fails: "i < length jobs \<Longrightarrow> ph i = Written t \<Longrightarrow>
    writer_step jobs (F, ph) (F, ph(i := Cleaning t OsError))"
| unlink: "i < length jobs \<Longrightarrow> ph i = Cleaning t r \<Longrightarrow>
    writer_step jobs (F, ph) (F(t := None), ph(i := Finished r))"
| unlink_fails: "i < length jobs \<Longrightarrow> ph i = Cleaning t r \<Longrightarrow>
    writer_step jobs (F, ph) (F, ph(i := Finished OsError))"
| crash: "i < length jobs \<Longrightarrow> \<not> (\<exists>r. ph i = Finished r) \<Longrightarrow> ph i \<noteq> Crashed \<Longrightarrow>
    writer_step jobs (F, ph) (F, ph(i := Crashed))"

inductive reaches :: "job list \<Rightarrow> disk \<Rightarrow> disk \<Rightarrow> bool" for jobs and d where
  start: "reaches jobs d d"
| more: "reaches jobs d d1 \<Longrightarrow> writer_step jobs d1 d2 \<Longrightarrow> reaches jobs d d2"

lemmas writer_step_induct = writer_step.induct [split_format (complete)]

inductive_cases writer_stepE: "writer_step jobs (F, ph) d"

text \<open>The temporary file that a writer still holds.\<close>

fun held :: "phase \<Rightarrow> path option" where
  "held (Opened t) = Some t"
| "held (Written t) = Some t"
| "held (Cleaning t r) = Some t"
| "held _ = None"

definition all_idle :: "nat \<Rightarrow> phase" where
  "all_idle i = Idle"

definition won :: "phase \<Rightarrow> bool" where
  "won p \<longleftrightarrow> (\<exists>t. p = Cleaning t Wrote) \<or> p = Finished Wrote"

text \<open>Targets are ordinary files: the temporary names, which start with a dot, are not among them.\<close>

definition targets_ok :: "job list \<Rightarrow> bool" where
  "targets_ok jobs \<longleftrightarrow> (\<forall>j \<in> set jobs. \<not> is_temp (job_target j))"

definition unforced :: "job list \<Rightarrow> path \<Rightarrow> bool" where
  "unforced jobs p \<longleftrightarrow> (\<forall>j \<in> set jobs. job_target j = p \<longrightarrow> \<not> job_force j)"

text \<open>Held files are temporary, belong to one writer, and hold a prefix of its text, all of it when synced.\<close>

definition temps_ok :: "job list \<Rightarrow> disk \<Rightarrow> bool" where
  "temps_ok jobs d \<longleftrightarrow>
     (\<forall>i t. held (snd d i) = Some t \<longrightarrow> is_temp t \<and> i < length jobs \<and> fst d t \<noteq> None) \<and>
     (\<forall>i j t. held (snd d i) = Some t \<and> held (snd d j) = Some t \<longrightarrow> i = j) \<and>
     (\<forall>i t. snd d i = Opened t \<longrightarrow> (\<exists>m. fst d t = Some (take m (job_text (jobs ! i))))) \<and>
     (\<forall>i t. snd d i = Written t \<longrightarrow> fst d t = Some (job_text (jobs ! i)))"

text \<open>Every ordinary file is as it was before, or holds the whole text of a writer.\<close>

definition files_ok :: "job list \<Rightarrow> (path \<Rightarrow> str option) \<Rightarrow> disk \<Rightarrow> bool" where
  "files_ok jobs F0 d \<longleftrightarrow>
     (\<forall>p. \<not> is_temp p \<longrightarrow>
        fst d p = F0 p \<or> (\<exists>j \<in> set jobs. job_target j = p \<and> fst d p = Some (job_text j))) \<and>
     (\<forall>p. \<not> is_temp p \<and> unforced jobs p \<and> F0 p \<noteq> None \<longrightarrow> fst d p = F0 p) \<and>
     (\<forall>i p. i < length jobs \<and> won (snd d i) \<and> job_target (jobs ! i) = p \<and> unforced jobs p \<longrightarrow>
        fst d p = Some (job_text (jobs ! i)) \<and> F0 p = None \<and>
        (\<forall>j < length jobs. won (snd d j) \<and> job_target (jobs ! j) = p \<longrightarrow> j = i))"

lemma temps_okD:
  assumes "temps_ok jobs (F, ph)"
  shows "held (ph i) = Some t \<Longrightarrow> is_temp t" and "held (ph i) = Some t \<Longrightarrow> i < length jobs"
    and "held (ph i) = Some t \<Longrightarrow> F t \<noteq> None" and "held (ph i) = Some t \<Longrightarrow> held (ph j) = Some t \<Longrightarrow> i = j"
    and "ph i = Opened t \<Longrightarrow> \<exists>m. F t = Some (take m (job_text (jobs ! i)))"
    and "ph i = Written t \<Longrightarrow> F t = Some (job_text (jobs ! i))"
  using assms unfolding temps_ok_def fst_conv snd_conv by blast+

lemma held_cases:
  "held p = Some t \<longleftrightarrow> p = Opened t \<or> p = Written t \<or> (\<exists>r. p = Cleaning t r)"
  by (cases p) auto

lemma temps_ok_idle: "temps_ok jobs (F, all_idle)"
  by (simp add: temps_ok_def all_idle_def)

text \<open>A writer that lets its file go, or changes nothing but its own temporary file and targets.\<close>

lemma temps_ok_release:
  assumes "temps_ok jobs (F, ph)" and "held p = None"
    and "\<And>t. is_temp t \<Longrightarrow> held (ph i) \<noteq> Some t \<Longrightarrow> F' t = F t"
  shows "temps_ok jobs (F', ph(i := p))"
proof -
  note ok = temps_okD [OF assms(1)]
  have same: "F' t = F t" if "held (ph j) = Some t" "j \<noteq> i" for j t
    using assms(3) [OF ok(1) [OF that(1)]] ok(4) [of j t i] that by blast
  have none: "p \<noteq> Opened t" "p \<noteq> Written t" for t using assms(2) by auto
  show ?thesis
    unfolding temps_ok_def fst_conv snd_conv
  proof (intro conjI allI impI, goal_cases)
    case (1 j t) then show ?case using ok(1) assms(2) by (auto split: if_splits)
  next
    case (2 j t) then show ?case using ok(2) assms(2) by (auto split: if_splits)
  next
    case (3 j t) then show ?case using ok(3) same assms(2) by (auto split: if_splits)
  next
    case (4 j k t) then show ?case using ok(4) assms(2) by (auto split: if_splits)
  next
    case (5 j t) then show ?case using ok(5) [of j t] same [of j t] none by (cases "j = i") simp_all
  next
    case (6 j t) then show ?case using ok(6) [of j t] same [of j t] none by (cases "j = i") simp_all
  qed
qed

lemma temps_ok_own:
  assumes "temps_ok jobs (F, ph)" and "i < length jobs" and "is_temp t" and "held p = Some t"
    and "held (ph i) = Some t \<or> (\<forall>j. held (ph j) \<noteq> Some t)"
    and "\<And>u. is_temp u \<Longrightarrow> u \<noteq> t \<Longrightarrow> F' u = F u" and "F' t \<noteq> None"
    and "p = Opened t \<Longrightarrow> \<exists>m. F' t = Some (take m (job_text (jobs ! i)))"
    and "p = Written t \<Longrightarrow> F' t = Some (job_text (jobs ! i))"
  shows "temps_ok jobs (F', ph(i := p))"
proof -
  note ok = temps_okD [OF assms(1)]
  have other: "u \<noteq> t" if "held (ph j) = Some u" "j \<noteq> i" for j u
    using ok(4) [of j t i] assms(5) that by metis
  have same: "F' u = F u" if "held (ph j) = Some u" "j \<noteq> i" for j u
    using assms(6) [OF ok(1) [OF that(1)] other [OF that]] .
  have p: "p = Opened u \<or> p = Written u \<Longrightarrow> u = t" for u using assms(4) by auto
  show ?thesis
    unfolding temps_ok_def fst_conv snd_conv
  proof (intro conjI allI impI, goal_cases)
    case (1 j u) then show ?case using ok(1) assms(3,4) by (auto split: if_splits)
  next
    case (2 j u) then show ?case using ok(2) assms(2) by (auto split: if_splits)
  next
    case (3 j u) then show ?case using ok(3) same assms(4,7) by (auto split: if_splits)
  next
    case (4 j k u)
    then show ?case
      by (metis assms(4) fun_upd_apply ok(4) option.inject other)
  next
    case (5 j u)
    show ?case
    proof (cases "j = i")
      case True
      with 5 have "p = Opened u" by simp
      with p have "u = t" by blast
      with \<open>p = Opened u\<close> True assms(8) show ?thesis by simp
    next
      case False
      with 5 have "ph j = Opened u" by simp
      with ok(5) [OF this] same [of j u] False show ?thesis by simp
    qed
  next
    case (6 j u)
    show ?case
    proof (cases "j = i")
      case True
      with 6 have "p = Written u" by simp
      with p have "u = t" by blast
      with \<open>p = Written u\<close> True assms(9) show ?thesis by simp
    next
      case False
      with 6 have "ph j = Written u" by simp
      with ok(6) [OF this] same [of j u] False show ?thesis by simp
    qed
  qed
qed

lemma target_not_temp: "targets_ok jobs \<Longrightarrow> i < length jobs \<Longrightarrow> \<not> is_temp (job_target (jobs ! i))"
  by (simp add: targets_ok_def)

lemma temps_ok_step:
  assumes "writer_step jobs (F, ph) (F', ph')" and "targets_ok jobs" and "temps_ok jobs (F, ph)"
  shows "temps_ok jobs (F', ph')"
  using assms(1)
proof cases
  case (create i t rnd)
  moreover have "\<forall>j. held (ph j) \<noteq> Some t" using temps_okD(3) [OF assms(3)] create by blast
  ultimately show ?thesis
    by (auto intro!: temps_ok_own [OF assms(3)] exI [of _ 0])
next
  case (extend i t c m)
  then have "temps_ok jobs (F', ph(i := Opened t))"
    using temps_okD(1) [OF assms(3), of i t]
    by (intro temps_ok_own [OF assms(3), of i t]) auto
  with extend show ?thesis by (metis fun_upd_triv)
next
  case (synced i t c)
  moreover from synced temps_okD(5) [OF assms(3), of i t] have "F t = Some (job_text (jobs ! i))" by auto
  ultimately show ?thesis
    using temps_okD(1) [OF assms(3), of i t] by (auto intro!: temps_ok_own [OF assms(3), of i t])
next
  case (link i t c)
  then show ?thesis
    using temps_okD(1,3) [OF assms(3), of i t] target_not_temp [OF assms(2), of i]
    by (auto intro!: temps_ok_own [OF assms(3), of i t])
next
  case (replace i t c)
  then show ?thesis
    using temps_okD(1) [OF assms(3), of i t] target_not_temp [OF assms(2), of i]
    by (auto intro!: temps_ok_release [OF assms(3)])
next
  case (unlink i t r)
  then show ?thesis by (auto intro!: temps_ok_release [OF assms(3)])
next
  case (write_fails i t)
  then show ?thesis
    using temps_okD(1,3) [OF assms(3), of i t] by (auto intro!: temps_ok_own [OF assms(3), of i t])
next
  case (link_loses i t)
  then show ?thesis
    using temps_okD(1,3) [OF assms(3), of i t] by (auto intro!: temps_ok_own [OF assms(3), of i t])
next
  case (publish_fails i t)
  then show ?thesis
    using temps_okD(1,3) [OF assms(3), of i t] by (auto intro!: temps_ok_own [OF assms(3), of i t])
qed (auto intro!: temps_ok_release [OF assms(3)])

text \<open>Steps that leave the ordinary files alone and make nobody a winner keep the files in order.\<close>

lemma files_ok_same:
  assumes "files_ok jobs F0 (F, ph)" and "\<And>p. \<not> is_temp p \<Longrightarrow> F' p = F p"
    and "\<And>j. won (ph' j) \<Longrightarrow> won (ph j)" and "targets_ok jobs"
  shows "files_ok jobs F0 (F', ph')"
  unfolding files_ok_def fst_conv snd_conv
proof (intro conjI allI impI, goal_cases)
  case (1 p)
  then show ?case using assms(1,2) unfolding files_ok_def fst_conv snd_conv by metis
next
  case (2 p)
  then show ?case using assms(1,2) unfolding files_ok_def fst_conv snd_conv by metis
next
  case (3 i p)
  then have "F p = Some (job_text (jobs ! i))" using assms(1,3) unfolding files_ok_def fst_conv snd_conv by blast
  moreover have "\<not> is_temp p" using 3 assms(4) target_not_temp by blast
  ultimately show ?case using assms(2) by simp
next
  case (4 i p)
  then show ?case using assms(1,3) unfolding files_ok_def fst_conv snd_conv by metis
next
  case (5 i p j)
  then show ?case using assms(1,3) unfolding files_ok_def fst_conv snd_conv by metis
qed

lemma files_ok_publish:
  assumes "files_ok jobs F0 (F, ph)" and "i < length jobs" and "p = job_target (jobs ! i)"
    and "F' p = Some (job_text (jobs ! i))" and "\<And>q. \<not> is_temp q \<Longrightarrow> q \<noteq> p \<Longrightarrow> F' q = F q"
    and "job_force (jobs ! i) \<or> F p = None" and "\<And>j. j \<noteq> i \<Longrightarrow> won (ph' j) \<Longrightarrow> won (ph j)"
    and "targets_ok jobs"
  shows "files_ok jobs F0 (F', ph')"
proof -
  note old = assms(1) [unfolded files_ok_def fst_conv snd_conv]
  have mem: "jobs ! i \<in> set jobs" using assms(2) by simp
  have absent: "F p = None" if "unforced jobs p" using assms(3,6) that mem by (auto simp: unforced_def)
  have F0: "F0 p = None" if "unforced jobs p"
    using absent [OF that] old that target_not_temp [OF assms(8,2)] assms(3) by metis
  have nobody: "\<not> won (ph j)" if "unforced jobs p" "j < length jobs" "job_target (jobs ! j) = p" for j
    using absent [OF that(1)] old that by (metis option.distinct(1))
  show ?thesis
    unfolding files_ok_def fst_conv snd_conv
  proof (intro conjI allI impI, goal_cases)
    case (1 q)
    then show ?case using old assms(3-5) mem by metis
  next
    case (2 q)
    then show ?case using old assms(5) F0 by metis
  next
    case (3 k q)
    show ?case
    proof (cases "q = p")
      case True
      with 3 nobody [of k] assms(7) have "k = i" by blast
      with True assms(4) show ?thesis by simp
    next
      case False
      moreover from False 3 assms(3) have "k \<noteq> i" by blast
      moreover have "\<not> is_temp q" using 3 target_not_temp [OF assms(8)] by blast
      ultimately show ?thesis using 3 old assms(5,7) by metis
    qed
  next
    case (4 k q)
    show ?case
    proof (cases "q = p")
      case False
      moreover from False 4 assms(3) have "k \<noteq> i" by blast
      ultimately show ?thesis using 4 old assms(7) by metis
    qed (use 4 F0 in simp)
  next
    case (5 k q j)
    show ?case
    proof (cases "q = p")
      case True
      with 5 nobody [of k] nobody [of j] assms(7) show ?thesis by metis
    next
      case False
      with 5 assms(3) have "k \<noteq> i" "j \<noteq> i" by blast+
      with 5 old assms(7) show ?thesis by metis
    qed
  qed
qed

lemma won_simps [simp]:
  "\<not> won Idle" "\<not> won (Opened t)" "\<not> won (Written t)" "\<not> won Crashed"
  "won (Cleaning t r) \<longleftrightarrow> r = Wrote" "won (Finished r) \<longleftrightarrow> r = Wrote"
  by (simp_all add: won_def)

lemma files_ok_step:
  assumes "writer_step jobs (F, ph) (F', ph')" and "targets_ok jobs"
    and "temps_ok jobs (F, ph)" and "files_ok jobs F0 (F, ph)"
  shows "files_ok jobs F0 (F', ph')"
  using assms(1)
proof cases
  case (replace i t c)
  with temps_okD(6) [OF assms(3)] have "c = job_text (jobs ! i)" by auto
  with replace show ?thesis
    using temps_okD(1) [OF assms(3), of i t] target_not_temp [OF assms(2), of i] assms(2)
    by (intro files_ok_publish [OF assms(4), of i]) auto
next
  case (link i t c)
  with temps_okD(6) [OF assms(3)] have "c = job_text (jobs ! i)" by auto
  with link show ?thesis using assms(2) by (intro files_ok_publish [OF assms(4), of i]) auto
next
  case (create i t rnd)
  then show ?thesis using assms(2) by (intro files_ok_same [OF assms(4)]) (auto split: if_splits)
next
  case (extend i t c m)
  then show ?thesis
    using assms(2) temps_okD(1) [OF assms(3), of i t] by (intro files_ok_same [OF assms(4)]) (auto split: if_splits)
next
  case (unlink i t r)
  then show ?thesis
    using assms(2) temps_okD(1) [OF assms(3), of i t] by (intro files_ok_same [OF assms(4)]) (auto split: if_splits)
qed (use assms(2) in \<open>(intro files_ok_same [OF assms(4)]; auto split: if_splits)\<close>)+

lemma reaches_ok:
  assumes "reaches jobs (F0, all_idle) d" and "targets_ok jobs"
  shows "temps_ok jobs d \<and> files_ok jobs F0 d"
  using assms(1)
proof (induction rule: reaches.induct)
  case start
  show ?case by (simp add: temps_ok_idle files_ok_def all_idle_def)
next
  case (more d1 d2)
  obtain F ph F' ph' where "d1 = (F, ph)" "d2 = (F', ph')" by fastforce
  with more temps_ok_step files_ok_step assms(2) show ?case by blast
qed

subsection \<open>Every run of the writers ends\<close>

fun remaining :: "str \<Rightarrow> (path \<Rightarrow> str option) \<Rightarrow> phase \<Rightarrow> nat" where
  "remaining txt F Idle = length txt + 4"
| "remaining txt F (Opened t) = (case F t of None \<Rightarrow> length txt | Some c \<Rightarrow> length txt - length c) + 3"
| "remaining txt F (Written t) = 2"
| "remaining txt F (Cleaning t r) = 1"
| "remaining txt F (Finished r) = 0"
| "remaining txt F Crashed = 0"

definition work_left :: "job list \<Rightarrow> disk \<Rightarrow> nat" where
  "work_left jobs d = (\<Sum>i<length jobs. remaining (job_text (jobs ! i)) (fst d) (snd d i))"

lemma work_left_less:
  assumes "i < length jobs"
    and "remaining (job_text (jobs ! i)) F' (ph' i) < remaining (job_text (jobs ! i)) F (ph i)"
    and "\<And>j. j < length jobs \<Longrightarrow> j \<noteq> i \<Longrightarrow> remaining (job_text (jobs ! j)) F' (ph' j) = remaining (job_text (jobs ! j)) F (ph j)"
  shows "work_left jobs (F', ph') < work_left jobs (F, ph)"
  unfolding work_left_def fst_conv snd_conv
  by (rule sum_strict_mono_ex1) (use assms in \<open>auto simp: le_less\<close>)

lemma remaining_cong: "(\<And>t. held p = Some t \<Longrightarrow> F' t = F t) \<Longrightarrow> remaining txt F' p = remaining txt F p"
  by (cases p) auto

lemma others_same:
  assumes "temps_ok jobs (F, ph)" and "held (ph i) = Some t \<or> F t = None" and "\<not> is_temp q"
    and "\<And>u. u \<noteq> t \<Longrightarrow> u \<noteq> q \<Longrightarrow> F' u = F u" and "j \<noteq> i"
  shows "remaining txt F' (ph j) = remaining txt F (ph j)"
proof (rule remaining_cong)
  fix u assume u: "held (ph j) = Some u"
  have "u \<noteq> q" using temps_okD(1) [OF assms(1) u] assms(3) by blast
  moreover have "u \<noteq> t"
    using temps_okD(3) [OF assms(1) u] temps_okD(4) [OF assms(1) u, of i] assms(2,5) by auto
  ultimately show "F' u = F u" by (rule assms(4) [rotated])
qed

lemma work_left_step:
  assumes "writer_step jobs (F, ph) (F', ph')" and "targets_ok jobs" and "temps_ok jobs (F, ph)"
  shows "work_left jobs (F', ph') < work_left jobs (F, ph)"
  using assms(1)
proof cases
  case (create i t rnd)
  then show ?thesis
    using others_same [OF assms(3) _ target_not_temp [OF assms(2), of i], of i t F']
    by (intro work_left_less [of i]) auto
next
  case (extend i t c m)
  then show ?thesis
    using others_same [OF assms(3) _ target_not_temp [OF assms(2), of i], of i t F']
    by (intro work_left_less [of i]) auto
next
  case (replace i t c)
  then show ?thesis
    using others_same [OF assms(3) _ target_not_temp [OF assms(2), of i], of i t F']
    by (intro work_left_less [of i]) auto
next
  case (link i t c)
  then show ?thesis
    using others_same [OF assms(3) _ target_not_temp [OF assms(2), of i], of i t F']
    by (intro work_left_less [of i]) auto
next
  case (unlink i t r)
  then show ?thesis
    using others_same [OF assms(3) _ target_not_temp [OF assms(2), of i], of i t F']
    by (intro work_left_less [of i]) auto
next
  case (crash i)
  then show ?thesis by (intro work_left_less [of i]) (cases "ph i"; auto)+
qed (auto intro: work_left_less)

text \<open>A writer that has neither finished nor died can take a step.\<close>

lemma writer_can_step:
  assumes "i < length jobs" and "ph i \<noteq> Crashed" and "\<And>r. ph i \<noteq> Finished r"
  shows "\<exists>F' ph'. writer_step jobs (F, ph) (F', ph') \<and> ph' i \<noteq> Crashed"
proof (cases "ph i")
  case Idle
  with writer_step.create_fails [of i jobs ph F] assms(1) show ?thesis by fastforce
next
  case (Opened t)
  with writer_step.write_fails [of i jobs ph t F] assms(1) show ?thesis by fastforce
next
  case (Written t)
  with writer_step.publish_fails [of i jobs ph t F] assms(1) show ?thesis by fastforce
next
  case (Cleaning t r)
  with writer_step.unlink [of i jobs ph t r F] assms(1) show ?thesis by fastforce
qed (use assms in auto)

lemma runs_reach: "(writer_step jobs ^^ n) d d' \<Longrightarrow> reaches jobs d d'"
  by (induction n arbitrary: d') (auto intro: reaches.intros)

lemma run_bounded:
  assumes "(writer_step jobs ^^ n) (F0, all_idle) d" and "targets_ok jobs"
  shows "n + work_left jobs d \<le> work_left jobs (F0, all_idle)"
  using assms(1)
proof (induction n arbitrary: d)
  case (Suc n)
  then obtain d1 where d1: "(writer_step jobs ^^ n) (F0, all_idle) d1" "writer_step jobs d1 d" by auto
  have "temps_ok jobs d1" using reaches_ok [OF runs_reach [OF d1(1)] assms(2)] by blast
  with d1(2) assms(2) have "work_left jobs d < work_left jobs d1" by (cases d1; cases d) (auto intro: work_left_step)
  with Suc.IH [OF d1(1)] show ?case by simp
qed simp

lemma work_at_start: "work_left jobs (F0, all_idle) = (\<Sum>j\<leftarrow>jobs. length (job_text j) + 4)"
  by (simp add: work_left_def all_idle_def sum_list_sum_nth atLeast0LessThan)

subsection \<open>A writer by itself does what the function says\<close>

definition left_by :: "job \<Rightarrow> (path \<Rightarrow> str option) \<Rightarrow> write_outcome \<Rightarrow> path \<Rightarrow> str option" where
  "left_by j F0 res = (if res = Wrote then F0(job_target j \<mapsto> job_text j) else F0)"

definition fits :: "job \<Rightarrow> (path \<Rightarrow> str option) \<Rightarrow> write_outcome \<Rightarrow> bool" where
  "fits j F0 res \<longleftrightarrow> (res = Wrote \<longrightarrow> job_force j \<or> F0 (job_target j) = None) \<and>
     (res = AlreadyExists \<longrightarrow> \<not> job_force j \<and> F0 (job_target j) \<noteq> None)"

fun solo_ok :: "job \<Rightarrow> (path \<Rightarrow> str option) \<Rightarrow> (path \<Rightarrow> str option) \<Rightarrow> phase \<Rightarrow> bool" where
  "solo_ok j F0 F Idle = (F = F0)"
| "solo_ok j F0 F (Opened t) = (is_temp t \<and> F0 t = None \<and> F = F0(t := F t))"
| "solo_ok j F0 F (Written t) = (is_temp t \<and> F0 t = None \<and> F = F0(t := F t))"
| "solo_ok j F0 F (Cleaning t r) =
     (is_temp t \<and> F0 t = None \<and> F = (left_by j F0 r)(t := F t) \<and> fits j F0 r)"
| "solo_ok j F0 F (Finished r) = (r \<noteq> OsError \<longrightarrow> F = left_by j F0 r \<and> fits j F0 r)"
| "solo_ok j F0 F Crashed = True"

lemma solo_step:
  assumes "writer_step [j] (F, ph) (F', ph')" and "targets_ok [j]" and "temps_ok [j] (F, ph)"
    and "solo_ok j F0 F (ph 0)"
  shows "solo_ok j F0 F' (ph' 0)"
  using assms(1)
proof cases
  case (create i t rnd)
  then show ?thesis using assms(4) by auto
next
  case (replace i t c)
  moreover from replace temps_okD(6) [OF assms(3), of i] have "c = job_text j" by auto
  ultimately show ?thesis using assms(2,4) by (auto simp: left_by_def fits_def targets_ok_def fun_eq_iff)
next
  case (link i t c)
  moreover from link temps_okD(6) [OF assms(3), of i] have "c = job_text j" by auto
  moreover from link assms(2,4) have "job_target j \<noteq> t" by (auto simp: targets_ok_def)
  then have "F (job_target j) = F0 (job_target j)" using link assms(4) by (metis fun_upd_apply solo_ok.simps(3) length_Cons less_Suc0 list.size(3))
  ultimately show ?thesis using assms(2,4) by (auto simp: left_by_def fits_def targets_ok_def fun_eq_iff)
next
  case (link_loses i t)
  then show ?thesis using assms(2,4) by (auto simp: left_by_def fits_def targets_ok_def) (metis fun_upd_apply)
next
  case (extend i t c m)
  then show ?thesis using assms(4) by (auto simp: fun_eq_iff)
next
  case (unlink i t r)
  then show ?thesis using assms(2,4) by (auto simp: left_by_def targets_ok_def fun_eq_iff split: if_splits)
qed (use assms(4) in \<open>auto simp: left_by_def fits_def\<close>)

lemma solo_run:
  assumes "reaches [j] (F0, all_idle) d" and "targets_ok [j]"
  shows "solo_ok j F0 (fst d) (snd d 0)"
  using assms(1)
proof (induction rule: reaches.induct)
  case (more d1 d2)
  have "temps_ok [j] d1" using reaches_ok [OF more(1) assms(2)] by blast
  with more solo_step [OF _ assms(2)] show ?case by (cases d1; cases d2) auto
qed (simp add: all_idle_def)

definition no_dirs :: "(path \<Rightarrow> str option) \<Rightarrow> filesystem" where
  "no_dirs F = \<lparr>fs_files = F, fs_dirs = \<lambda>_. False\<rparr>"

lemma write_result:
  assumes "\<not> is_temp (job_target j)" and "F0 (temp_name (job_target j) rnd) = None" and "fits j F0 r" and "r \<noteq> OsError"
  shows "write_persisted_file rnd (job_target j) (job_text j) (job_force j) (no_dirs F0) = (r, no_dirs (left_by j F0 r))"
proof -
  obtain r' fs' where w: "write_persisted_file rnd (job_target j) (job_text j) (job_force j) (no_dirs F0) = (r', fs')"
    by fastforce
  from write_effect [OF w] assms(1,2) have
    "fs_dirs fs' = (\<lambda>_. False)" "fs_files fs' = (if r' = Wrote then F0(job_target j \<mapsto> job_text j) else F0)"
    "r' = Wrote \<longleftrightarrow> job_force j \<or> F0 (job_target j) = None" "r' \<noteq> OsError"
    by (auto simp: no_dirs_def)
  with assms(3,4) have "r' = r" "fs' = no_dirs (left_by j F0 r)"
    by (cases r; cases r'; auto simp: fits_def no_dirs_def left_by_def)+
  with w show ?thesis by simp
qed

lemma solo_refines:
  assumes "reaches [j] (F0, all_idle) (F, ph)" and "ph 0 = Finished r" and "r \<noteq> OsError"
    and "\<not> is_temp (job_target j)" and "F0 (temp_name (job_target j) rnd) = None"
  shows "write_persisted_file rnd (job_target j) (job_text j) (job_force j) (no_dirs F0) = (r, no_dirs F)"
proof -
  have "targets_ok [j]" using assms(4) by (simp add: targets_ok_def)
  from solo_run [OF assms(1) this] assms(2,3) have "F = left_by j F0 r" "fits j F0 r" by auto
  with write_result [of j F0 rnd r] assms(3-5) show ?thesis by simp
qed

lemma reaches_trans: "reaches jobs d1 d2 \<Longrightarrow> reaches jobs d2 d3 \<Longrightarrow> reaches jobs d1 d3"
  by (rotate_tac, induction rule: reaches.induct) (auto intro: reaches.more)

lemma reaches_step: "writer_step jobs d1 d2 \<Longrightarrow> reaches jobs d1 d2"
  by (rule reaches.more [OF reaches.start])

lemma solo_exists:
  assumes "\<not> is_temp (job_target j)" and "F0 (temp_name (job_target j) rnd) = None"
  shows "\<exists>r F ph. reaches [j] (F0, all_idle) (F, ph) \<and> ph 0 = Finished r \<and> r \<noteq> OsError"
proof -
  let ?t = "temp_name (job_target j) rnd" and ?jobs = "[j]"
  let ?F1 = "F0(?t \<mapsto> job_text j)"
  have len: "0 < length ?jobs" by simp
  have a: "reaches ?jobs (F0, all_idle) (F0(?t \<mapsto> []), all_idle(0 := Opened ?t))"
    using assms(2) by (intro reaches_step writer_step.create) (auto simp: all_idle_def)
  have b: "reaches ?jobs (F0(?t \<mapsto> []), all_idle(0 := Opened ?t)) (?F1, all_idle(0 := Opened ?t))"
  proof (cases "job_text j")
    case Nil
    then show ?thesis by (simp add: reaches.start)
  next
    case (Cons c s)
    then show ?thesis
      using writer_step.extend [of 0 ?jobs "all_idle(0 := Opened ?t)" ?t "F0(?t \<mapsto> [])" "[]" "length (job_text j)"]
      by (intro reaches_step) simp
  qed
  have "reaches ?jobs (?F1, all_idle(0 := Opened ?t)) (?F1, all_idle(0 := Written ?t))"
    using writer_step.synced [of 0 ?jobs "all_idle(0 := Opened ?t)" ?t ?F1 "job_text j"]
    by (intro reaches_step) simp
  with a b have w: "reaches ?jobs (F0, all_idle) (?F1, all_idle(0 := Written ?t))" by (blast intro: reaches_trans)
  have "\<exists>r F ph. reaches ?jobs (?F1, all_idle(0 := Written ?t)) (F, ph) \<and> ph 0 = Finished r \<and> r \<noteq> OsError"
  proof (cases "job_force j")
    case True
    then have "writer_step ?jobs (?F1, all_idle(0 := Written ?t))
        (?F1(job_target j \<mapsto> job_text j, ?t := None), all_idle(0 := Finished Wrote))"
      using writer_step.replace [of 0 ?jobs "all_idle(0 := Written ?t)" ?t ?F1 "job_text j"] by simp
    from reaches_step [OF this] show ?thesis by fastforce
  next
    case False
    have "\<exists>F r. writer_step ?jobs (?F1, all_idle(0 := Written ?t)) (F, all_idle(0 := Cleaning ?t r)) \<and> r \<noteq> OsError"
    proof (cases "?F1 (job_target j)")
      case None
      then show ?thesis
        using writer_step.link [of 0 ?jobs "all_idle(0 := Written ?t)" ?t ?F1 "job_text j"] False by fastforce
    next
      case (Some c)
      then show ?thesis
        using writer_step.link_loses [of 0 ?jobs "all_idle(0 := Written ?t)" ?t ?F1] False by fastforce
    qed
    then obtain F r where s: "writer_step ?jobs (?F1, all_idle(0 := Written ?t)) (F, all_idle(0 := Cleaning ?t r))"
      and r: "r \<noteq> OsError" by blast
    have "writer_step ?jobs (F, all_idle(0 := Cleaning ?t r)) (F(?t := None), all_idle(0 := Finished r))"
      using writer_step.unlink [of 0 ?jobs "all_idle(0 := Cleaning ?t r)" ?t r F] by simp
    from reaches.more [OF reaches_step [OF s] this] r show ?thesis by fastforce
  qed
  with reaches_trans [OF w] show ?thesis by blast
qed
end
