(* ===== verification/SearchCli.thy ===== *)
theory SearchCli
  imports JsonOutput Writers
begin

text \<open>
  The command \<open>search.py\<close>: how a search is printed (lines 41 to 93) and which of the three modes
  runs (119 to 177), with what it prints on standard output, as text or as JSON. The searches read a
  data directory at rest, where the caches are invisible; the parsing of the arguments is not modelled.
\<close>

definition TRUNCATE_AT :: nat where
  "TRUNCATE_AT = 300"

definition shown_value :: "bool \<Rightarrow> str \<Rightarrow> str \<Rightarrow> str" where
  "shown_value full key v =
     (if \<not> full \<and> key \<notin> set UNTRUNCATED_COLS \<and> TRUNCATE_AT < py_len v then py_take TRUNCATE_AT v @ ''...'' else v)"

definition result_lines :: "bool \<Rightarrow> nat \<times> row \<Rightarrow> str list" where
  "result_lines full entry =
     (case entry of (i, row) \<Rightarrow>
        [(''### Result '' @ (str_of_nat i))] @ map (\<lambda>(key, v). (''- **'' @ key @ '':** '' @ (shown_value full key v))) row @ [[]])"

definition domain_note :: "search_output \<Rightarrow> str" where
  "domain_note out = out_domain out @
     (if auto_detected out
      then '' (auto-detected'' @
           (case runner_up_domain out of None \<Rightarrow> [] | Some d \<Rightarrow> if d = [] then [] else '', runner-up: '' @ d) @ '')''
      else [])"

definition head_lines :: "search_output \<Rightarrow> str list" where
  "head_lines out =
     (case out_stack out of
        Some stack \<Rightarrow> [''## UI Pro Max Stack Guidelines'', (''**Stack:** '' @ stack @ '' | **Query:** '' @ (out_query out))]
      | None \<Rightarrow> [''## UI Pro Max Search Results'', (''**Domain:** '' @ (domain_note out) @ '' | **Query:** '' @ (out_query out))]) @
     [(''**Source:** '' @ (out_file out) @ '' | **Found:** '' @ (str_of_nat (out_count out)) @ '' results'' @ [CHR 0x0A])]"

definition no_match_lines :: "search_output \<Rightarrow> str list" where
  "no_match_lines out =
     (case redirect out of
        Some r \<Rightarrow>
          [(''This legacy style label is now modeled in the `'' @ (to_domain r) @ ''` domain as `'' @ (to_id r) @ ''`. Search that domain instead of treating a page composition as a visual style.'')]
      | None \<Rightarrow>
          [''No matches. This is not a match with an empty value -- the query did not hit the database. Retry with broader/different keywords before falling back to general defaults, and say explicitly that no database match was found if you do fall back.''] @
          (case suggestions out of
             None \<Rightarrow> []
           | Some s \<Rightarrow> if s = [] then [] else [(''**Closest known terms:** '' @ (join '', '' s))]))"

text \<open>
  A result with an \<open>error\<close> prints nothing else; the errors of \<open>search\<close> and \<open>search_stack\<close> are their
  refusals and the error a diagnostic carries into the answer.
\<close>

definition format_output :: "outcome \<Rightarrow> bool \<Rightarrow> str" where
  "format_output result full =
     (case result of
        Refused e _ \<Rightarrow> ''Error: '' @ e
      | Answer out \<Rightarrow>
          (case out_error out of
             Some e \<Rightarrow> ''Error: '' @ e
           | None \<Rightarrow>
               join [newline] (head_lines out @
                 (if out_count out = 0 then no_match_lines out
                  else concat (map (result_lines full) (List.enumerate 1 (results out)))))))"

subsection \<open>The three modes\<close>

record cli_args =
  a_query :: str
  a_domain :: "str option"
  a_stack :: "str option"
  a_max :: int
  a_json :: bool
  a_full :: bool
  a_design :: bool
  a_run :: run_options

abbreviation u_page :: str where
  "u_page \<equiv> [CHR 0xF0, CHR 0x9F, CHR 0x93, CHR 0x84]"

abbreviation u_book :: str where
  "u_book \<equiv> [CHR 0xF0, CHR 0x9F, CHR 0x93, CHR 0x96]"

definition persistence_lines :: "persist_result \<Rightarrow> str list" where
  "persistence_lines r =
     [newline # replicate 60 CHR ''=''] @
     (if status r = ''skipped_exists''
      then [u_warn @ ''  '' @ (case message r of None \<Rightarrow> ''MASTER.md already exists; not overwritten.'' | Some m \<Rightarrow> m)]
      else [(u_tick @ '' Design system persisted to '' @ (design_system_dir r) @ ''/'')] @ map (\<lambda>f. (''   '' @ u_page @ '' '' @ f)) (created_files r) @
           [[], (u_book @ '' Usage: When building a page, check '' @ (design_system_dir r) @ ''/pages/[page].md first.''),
            ''   If it exists, its rules override MASTER.md. Otherwise, use MASTER.md.'']) @
     [replicate 60 CHR ''='']"

definition design_lines :: "run_options \<Rightarrow> run_result \<Rightarrow> str list" where
  "design_lines opts r =
     text_of r # (if o_persist opts then (case persistence r of None \<Rightarrow> [] | Some p \<Rightarrow> persistence_lines p) else [])"

text \<open>With \<open>--json\<close> a mode prints one document, and its text otherwise.\<close>

definition document_or_text :: "bool \<Rightarrow> json \<Rightarrow> str list \<Rightarrow> str list" where
  "document_or_text as_json j text_lines = (if as_json then [json_write json_quote_utf8 0 j] else text_lines)"

definition search_main ::
  "data_dir \<Rightarrow> surroundings \<Rightarrow> str \<Rightarrow> cli_args \<Rightarrow> filesystem \<Rightarrow> (run_error + str list) \<times> filesystem" where
  "search_main db env colorterm args fs =
     (if a_design args
      then (case generate_design_system db env colorterm (a_query args) (a_run args) fs of
              (Inl e, fs') \<Rightarrow> (Inl e, fs')
            | (Inr r, fs') \<Rightarrow> (Inr (document_or_text (a_json args) (run_json r) (design_lines (a_run args) r)), fs'))
      else (case a_stack args of
              Some stack \<Rightarrow>
                (let answer = search_stack_spec db (a_query args) stack (PyInt (a_max args)) False
                 in (Inr (document_or_text (a_json args) (stack_json answer) [format_output answer (a_full args)]), fs))
            | None \<Rightarrow>
                (let answer = search_spec db (a_query args) (a_domain args) (PyInt (a_max args)) False
                 in (Inr (document_or_text (a_json args) (search_json answer) [format_output answer (a_full args)]), fs))))"

text \<open>
  What the command shows of a value is the value, or its first 300 characters and three dots; it is
  only cut without \<open>--full\<close>, outside the columns that are never cut, and when longer.
\<close>

lemma shown_values_bounded:
  "(shown_value full key v = v \<or> (\<exists>rest. v = py_take 300 v @ rest \<and> shown_value full key v = py_take 300 v @ ''...'')) \<and>
   (full \<or> key \<in> set UNTRUNCATED_COLS \<or> py_len v \<le> 300 \<longrightarrow> shown_value full key v = v) \<and>
   (\<not> full \<and> key \<notin> set UNTRUNCATED_COLS \<longrightarrow> py_len (shown_value full key v) \<le> 303)"
  using py_take_prefix [of v 300]
  by (auto simp: shown_value_def TRUNCATE_AT_def py_len_py_take) (simp add: py_len_def is_cont_byte_def code_def)

text \<open>
  What the command prints with \<open>--json\<close>: a single document, which \<open>json.loads\<close> reads as the answer.
\<close>

definition answer_json :: "data_dir \<Rightarrow> surroundings \<Rightarrow> str \<Rightarrow> cli_args \<Rightarrow> filesystem \<Rightarrow> run_error + json" where
  "answer_json db env colorterm args fs =
     (if a_design args
      then map_sum id run_json (fst (generate_design_system db env colorterm (a_query args) (a_run args) fs))
      else Inr (case a_stack args of
                  Some stack \<Rightarrow> stack_json (search_stack_spec db (a_query args) stack (PyInt (a_max args)) False)
                | None \<Rightarrow> search_json (search_spec db (a_query args) (a_domain args) (PyInt (a_max args)) False)))"

lemma json_reads_back:
  assumes "a_json args" and "search_main db env colorterm args fs = (Inr lines, fs')"
  shows "\<exists>document j. lines = [document] \<and> answer_json db env colorterm args fs = Inr j \<and>
    json_loads () plain_object document = Inr j"
proof (cases "a_design args")
  case True
  with assms obtain r where r: "generate_design_system db env colorterm (a_query args) (a_run args) fs = (Inr r, fs')"
    and "lines = [json_write json_quote_utf8 0 (run_json r)]"
    by (auto simp: search_main_def document_or_text_def split: prod.splits sum.splits)
  with True unescaped.loads_write [OF readable_run [OF r], of 0] show ?thesis by (simp add: answer_json_def)
next
  case False
  with assms show ?thesis
    using unescaped.loads_write [OF readable_search] unescaped.loads_write [OF readable_stack]
    by (auto simp: search_main_def answer_json_def document_or_text_def Let_def split: option.splits)
qed

end
