(* ===== verification/Tailwind.thy ===== *)
theory Tailwind
  imports Persist Json
begin

text \<open>
  The generator of Tailwind configurations, \<open>tailwind_config_gen.py\<close>: the configuration as a JSON
  value that the operations extend, \<open>json.dumps\<close> with an indentation of two, the check of plugin
  names, the write that refuses to add a competing configuration, and the command after the parsing
  of its arguments. The text of an \<open>OSError\<close> is an argument.
\<close>

subsection \<open>The generator\<close>

record tailwind =
  tw_typescript :: bool
  tw_framework :: str
  tw_output :: path
  tw_force :: bool
  tw_content :: "str list"
  tw_extend :: "(str \<times> json) list"
  tw_plugins :: "str list"

definition VALID_PLUGIN_NAME :: rx where
  "VALID_PLUGIN_NAME =
     (let w = (\<lambda>c. is_alnum c \<or> c = CHR ''_'' \<or> c = CHR ''-'') in
      seqs [opt (seqs [lit ''@'', plus1 (Cls w), lit ''/'']), plus1 (Cls w),
        Star (Seq (lit ''/'') (plus1 (Cls (\<lambda>c. w c \<or> c = CHR ''.'')))), AtEnd])"

definition TAILWIND_CONFIG_NAMES :: "str list" where
  "TAILWIND_CONFIG_NAMES =
     [''tailwind.config.js'', ''tailwind.config.cjs'', ''tailwind.config.mjs'', ''tailwind.config.ts'']"

definition default_output_path :: "path \<Rightarrow> bool \<Rightarrow> path" where
  "default_output_path here typescript =
     sub_path here [''tailwind.config.'' @ (if typescript then ''ts'' else ''js'')]"

definition content_paths :: "str list dict" where
  "content_paths =
    [(''react'', [''./src/**/*.{js,jsx,ts,tsx}'', ''./index.html'']),
     (''vue'', [''./src/**/*.{vue,js,ts,jsx,tsx}'', ''./index.html'']),
     (''svelte'', [''./src/**/*.{svelte,js,ts}'', ''./src/app.html'']),
     (''nextjs'', [''./app/**/*.{js,ts,jsx,tsx}'', ''./pages/**/*.{js,ts,jsx,tsx}'',
        ''./components/**/*.{js,ts,jsx,tsx}''])]"

definition default_content_paths :: "str \<Rightarrow> str list" where
  "default_content_paths framework = get_or content_paths framework (get_or content_paths ''react'' [])"

definition tailwind_new :: "path \<Rightarrow> bool \<Rightarrow> str \<Rightarrow> path option \<Rightarrow> bool \<Rightarrow> tailwind" where
  "tailwind_new here typescript framework output_path force =
     \<lparr>tw_typescript = typescript, tw_framework = framework,
      tw_output = (case output_path of None \<Rightarrow> default_output_path here typescript | Some p \<Rightarrow> p),
      tw_force = force, tw_content = default_content_paths framework, tw_extend = [], tw_plugins = []\<rparr>"

text \<open>\<open>extend[section].update(entries)\<close>, with the section added where it is missing.\<close>

definition extend_section :: "str \<Rightarrow> (str \<times> json) list \<Rightarrow> tailwind \<Rightarrow> tailwind" where
  "extend_section name entries g =
     (let old = (case get (tw_extend g) name of Some (JObject ms) \<Rightarrow> ms | _ \<Rightarrow> [])
      in g\<lparr>tw_extend := put name (JObject (put_all entries old)) (tw_extend g)\<rparr>)"

definition strings :: "str dict \<Rightarrow> (str \<times> json) list" where
  "strings entries = map (\<lambda>(k, v). (k, JString v)) entries"

definition add_colors :: "str dict \<Rightarrow> tailwind \<Rightarrow> tailwind" where
  "add_colors colors = extend_section ''colors'' (strings colors)"

definition shades :: "str list" where
  "shades = [''50'', ''100'', ''200'', ''300'', ''400'', ''500'', ''600'', ''700'', ''800'', ''900'', ''950'']"

definition add_color_palette :: "str \<Rightarrow> tailwind \<Rightarrow> tailwind" where
  "add_color_palette name =
     extend_section ''colors''
       [(name, JObject (map (\<lambda>n. (n, JString (''var(--color-'' @ name @ ''-'' @ n @ '')''))) shades))]"

definition add_fonts :: "str list dict \<Rightarrow> tailwind \<Rightarrow> tailwind" where
  "add_fonts fonts = extend_section ''fontFamily'' (map (\<lambda>(k, v). (k, JArray (map JString v))) fonts)"

definition add_spacing :: "str dict \<Rightarrow> tailwind \<Rightarrow> tailwind" where
  "add_spacing entries = extend_section ''spacing'' (strings entries)"

definition add_breakpoints :: "str dict \<Rightarrow> tailwind \<Rightarrow> tailwind" where
  "add_breakpoints entries = extend_section ''screens'' (strings entries)"

definition add_plugins :: "str list \<Rightarrow> tailwind \<Rightarrow> tailwind" where
  "add_plugins plugins g =
     g\<lparr>tw_plugins := foldl (\<lambda>ps p. if p \<in> set ps then ps else ps @ [p]) (tw_plugins g) plugins\<rparr>"

definition recommend_plugins :: "tailwind \<Rightarrow> str list" where
  "recommend_plugins g =
     [''tailwindcss-animate''] @ (if tw_framework g = ''nextjs'' then [''@tailwindcss/typography''] else [])"

text \<open>\<open>Inl\<close> is the \<open>ValueError\<close> for a plugin name that the pattern does not match.\<close>

fun require_all :: "str list \<Rightarrow> str + str list" where
  "require_all [] = Inr []"
| "require_all (plugin # plugins) =
     (case rx_match VALID_PLUGIN_NAME plugin of
        None \<Rightarrow> Inl plugin
      | Some _ \<Rightarrow> map_sum id (\<lambda>rs. (''require('' @ [CHR 0x27] @ plugin @ [CHR 0x27] @ '')'') # rs) (require_all plugins))"

definition format_plugins :: "tailwind \<Rightarrow> str + str" where
  "format_plugins g = map_sum id (join '', '') (require_all (tw_plugins g))"

definition indent_json :: "str \<Rightarrow> nat \<Rightarrow> str" where
  "indent_json json_str level =
     (let lines = split_on (\<lambda>c. c = newline) json_str
      in join [newline] (map (\<lambda>l. replicate (2 * level) CHR '' '' @ l) (butlast (tl lines))))"

definition config_object :: "tailwind \<Rightarrow> json" where
  "config_object g = JObject
     [(''darkMode'', JArray [JString ''class'']), (''content'', JArray (map JString (tw_content g))),
      (''theme'', JObject [(''extend'', JObject (tw_extend g))])]"

definition generate_typescript :: "tailwind \<Rightarrow> str + str" where
  "generate_typescript g =
     map_sum id (\<lambda>plugins_str.
       (''import type { Config } from '' @ [CHR 0x27] @ ''tailwindcss'' @ [CHR 0x27] @ [CHR 0x0A] @ [CHR 0x0A] @ ''const config: Config = {'' @ [CHR 0x0A]) @
       indent_json (json_dump 0 (config_object g)) 1 @
       ('','' @ [CHR 0x0A] @ ''  plugins: ['') @ plugins_str @ (''],'' @ [CHR 0x0A] @ ''}'' @ [CHR 0x0A] @ [CHR 0x0A] @ ''export default config'' @ [CHR 0x0A]))
       (format_plugins g)"

definition generate_javascript :: "tailwind \<Rightarrow> str + str" where
  "generate_javascript g =
     map_sum id (\<lambda>plugins_str.
       (''/** @type {import('' @ [CHR 0x27] @ ''tailwindcss'' @ [CHR 0x27] @ '').Config} */'' @ [CHR 0x0A] @ ''module.exports = {'' @ [CHR 0x0A]) @
       indent_json (json_dump 0 (config_object g)) 1 @
       ('','' @ [CHR 0x0A] @ ''  plugins: ['') @ plugins_str @ (''],'' @ [CHR 0x0A] @ ''}'' @ [CHR 0x0A]))
       (format_plugins g)"

definition generate_config_string :: "tailwind \<Rightarrow> str + str" where
  "generate_config_string g = (if tw_typescript g then generate_typescript g else generate_javascript g)"

subsection \<open>Writing the file\<close>

definition final_name :: "path \<Rightarrow> str" where
  "final_name p = (if snd p = [] then [] else last (snd p))"

definition path_parent :: "path \<Rightarrow> path" where
  "path_parent p = (fst p, butlast (snd p))"

definition fs_exists :: "filesystem \<Rightarrow> path \<Rightarrow> bool" where
  "fs_exists fs p \<longleftrightarrow> fs_files fs p \<noteq> None \<or> fs_dirs fs p"

definition existing_configs :: "path \<Rightarrow> filesystem \<Rightarrow> path list" where
  "existing_configs output fs =
     (if final_name output \<in> set TAILWIND_CONFIG_NAMES
      then filter (fs_exists fs) (map (\<lambda>name. sub_path (path_parent output) [name]) TAILWIND_CONFIG_NAMES)
      else if fs_exists fs output then [output] else [])"

definition refusal :: "path list \<Rightarrow> str" where
  "refusal existing =
     ''Tailwind configuration already exists: '' @ join '', '' (map path_str existing) @
     ''. Refusing to create or overwrite a competing config; '' @
     ''re-run with --force only if this is intentional.''"

definition write_config :: "str \<Rightarrow> tailwind \<Rightarrow> filesystem \<Rightarrow> (str + bool \<times> str) \<times> filesystem" where
  "write_config os_error g fs =
     (let existing = existing_configs (tw_output g) fs in
      if existing \<noteq> [] \<and> \<not> tw_force g then (Inr (False, refusal existing), fs)
      else (case generate_config_string g of
              Inl plugin \<Rightarrow> (Inl plugin, fs)
            | Inr content \<Rightarrow>
                if fs_dirs fs (tw_output g) \<or> \<not> fs_dirs fs (path_parent (tw_output g))
                then (Inr (False, ''Failed to write config: '' @ os_error), fs)
                else (Inr (True, ''Configuration written to '' @ path_str (tw_output g)),
                      fs\<lparr>fs_files := (fs_files fs)(tw_output g \<mapsto> content)\<rparr>)))"

definition validate_config :: "tailwind \<Rightarrow> bool \<times> str" where
  "validate_config g =
     (if tw_content g = [] then (False, ''No content paths specified'')
      else if tw_extend g = [] then (True, ''Warning: No theme extensions defined'')
      else (True, ''Configuration valid''))"

subsection \<open>The command\<close>

record tailwind_args =
  ta_framework :: str
  ta_js :: bool
  ta_output :: "path option"
  ta_colors :: "str list"
  ta_fonts :: "str list"
  ta_spacing :: "str list"
  ta_breakpoints :: "str list"
  ta_plugins :: bool
  ta_validate_only :: bool
  ta_force :: bool

text \<open>\<open>NAME:VALUE\<close> pairs; the first specification without a colon is an error.\<close>

fun parse_specs :: "(str \<Rightarrow> 'a) \<Rightarrow> str list \<Rightarrow> 'a dict \<Rightarrow> str + 'a dict" where
  "parse_specs f [] d = Inr d"
| "parse_specs f (spec # specs) d =
     (case split_once CHR '':'' spec of
        (_, None) \<Rightarrow> Inl spec
      | (name, Some v) \<Rightarrow> parse_specs f specs (put name (f v) d))"

definition font_names :: "str \<Rightarrow> str list" where
  "font_names family =
     map (\<lambda>f. strip_by (\<lambda>c. c = CHR 0x27 \<or> c = CHR 0x22) (strip f)) (split_on (\<lambda>c. c = CHR '','') family)"

definition with_specs ::
  "str \<Rightarrow> (str \<Rightarrow> 'a) \<Rightarrow> ('a dict \<Rightarrow> tailwind \<Rightarrow> tailwind) \<Rightarrow> str list \<Rightarrow> str + tailwind \<Rightarrow> str + tailwind" where
  "with_specs kind f add specs g =
     (case g of
        Inl e \<Rightarrow> Inl e
      | Inr g' \<Rightarrow>
          if specs = [] then Inr g'
          else (case parse_specs f specs [] of
                  Inl spec \<Rightarrow> Inl (''Invalid '' @ kind @ '' spec: '' @ spec)
                | Inr entries \<Rightarrow> Inr (add entries g')))"

definition configured :: "path \<Rightarrow> tailwind_args \<Rightarrow> str + tailwind" where
  "configured here args =
     with_specs ''breakpoint'' id add_breakpoints (ta_breakpoints args)
      (with_specs ''spacing'' id add_spacing (ta_spacing args)
        (with_specs ''font'' font_names add_fonts (ta_fonts args)
          (with_specs ''color'' id add_colors (ta_colors args)
            (Inr (tailwind_new here (\<not> ta_js args) (ta_framework args) (ta_output args) (ta_force args))))))"

definition plugin_lines :: "str list \<Rightarrow> str list" where
  "plugin_lines recommended =
     [''Added recommended plugins: '' @ join '', '' recommended, ([CHR 0x0A] @ ''Install with:''),
      ''  npm install -D '' @ join '' '' recommended]"

text \<open>The exit code and the lines printed, or the plugin name of the \<open>ValueError\<close> nobody catches.\<close>

definition tailwind_main ::
  "path \<Rightarrow> str \<Rightarrow> tailwind_args \<Rightarrow> filesystem \<Rightarrow> (str + nat \<times> str list) \<times> filesystem" where
  "tailwind_main here os_error args fs =
     (case configured here args of
        Inl e \<Rightarrow> (Inr (1, [e]), fs)
      | Inr g0 \<Rightarrow>
          (let recommended = recommend_plugins g0;
               g = (if ta_plugins args then add_plugins recommended g0 else g0);
               said = (if ta_plugins args then plugin_lines recommended else []);
               (valid, message) = validate_config g
           in if \<not> valid then (Inr (1, said @ [''Validation failed: '' @ message]), fs)
              else (let said = said @ (if starts_with ''Warning'' message then [message] else []) in
                if ta_validate_only args
                then (map_sum id (\<lambda>s. (0, said @ [''Configuration valid'', ([CHR 0x0A] @ ''Generated config:''), s]))
                        (generate_config_string g), fs)
                else (case write_config os_error g fs of
                        (Inl plugin, fs') \<Rightarrow> (Inl plugin, fs')
                      | (Inr (success, m), fs') \<Rightarrow> (Inr (if success then 0 else 1, said @ [m]), fs')))))"

subsection \<open>Plugin names cannot break out of their quotes\<close>

definition plugin_char :: "char \<Rightarrow> bool" where
  "plugin_char c \<longleftrightarrow> is_alnum c \<or> c \<in> set ''_-@/.''"

lemma plugin_chars_safe: "plugin_char c \<Longrightarrow> c \<noteq> CHR 0x27 \<and> c \<noteq> CHR 0x5C \<and> c \<noteq> CHR '')'' \<and> c \<noteq> newline"
  by (auto simp: plugin_char_def is_alnum_def is_digit_def is_upper_def is_lower_def code_def)

lemma valid_name_cls: "cls_in plugin_char VALID_PLUGIN_NAME"
  by (simp add: VALID_PLUGIN_NAME_def Let_def opt_def plus1_def plugin_char_def)

lemma seq_at_end: "q \<in> set (mt (Seq r1 (Seq r2 (Seq r3 AtEnd))) p) \<Longrightarrow> after q = [] \<or> after q = [newline]"
  by (auto split: if_splits)

lemma valid_name_shape: "\<exists>r1 r2 r3. VALID_PLUGIN_NAME = Seq r1 (Seq r2 (Seq r3 AtEnd))"
  by (simp add: VALID_PLUGIN_NAME_def Let_def)

lemma valid_plugin_name:
  assumes "rx_match VALID_PLUGIN_NAME plugin = Some m"
  shows "\<exists>name rest. plugin = name @ rest \<and> (rest = [] \<or> rest = [newline]) \<and> (\<forall>c \<in> set name. plugin_char c)"
proof -
  obtain q where q: "q \<in> set (mt VALID_PLUGIN_NAME ([], plugin, []))"
    using assms by (auto simp: rx_match_def split: list.splits)
  have "after q = [] \<or> after q = [newline]"
    using q valid_name_shape seq_at_end by metis
  moreover from mt_moves_in [OF valid_name_cls q] obtain u where "plugin = u @ after q" "\<forall>c \<in> set u. plugin_char c"
    by (auto simp: moves_in_def)
  ultimately show ?thesis by blast
qed

lemma require_all_ok:
  "require_all ps = Inr rs \<Longrightarrow>
   rs = map (\<lambda>p. ''require('' @ [CHR 0x27] @ p @ [CHR 0x27] @ '')'') ps \<and> (\<forall>p \<in> set ps. rx_match VALID_PLUGIN_NAME p \<noteq> None)"
proof (induction ps arbitrary: rs)
  case (Cons p ps)
  then show ?case by (cases "require_all ps") (auto split: option.splits)
qed simp

lemma require_all_bad: "require_all ps = Inl p \<Longrightarrow> p \<in> set ps \<and> rx_match VALID_PLUGIN_NAME p = None"
proof (induction ps)
  case (Cons q ps)
  then show ?case by (cases "require_all ps") (auto split: option.splits)
qed simp

subsection \<open>Nothing is overwritten without force\<close>

lemma write_config_effect:
  assumes "write_config os_error g fs = (r, fs')"
  shows "(\<exists>content m. r = Inr (True, m) \<and> generate_config_string g = Inr content \<and>
      fs' = fs\<lparr>fs_files := (fs_files fs)(tw_output g \<mapsto> content)\<rparr> \<and>
      (existing_configs (tw_output g) fs = [] \<or> tw_force g)) \<or>
    fs' = fs \<and> (\<forall>m. r \<noteq> Inr (True, m))"
  using assms by (auto simp: write_config_def Let_def split: if_splits sum.splits)

lemma no_existing_config:
  assumes "existing_configs output fs = []"
  shows "\<not> fs_exists fs output \<and>
    (final_name output \<in> set TAILWIND_CONFIG_NAMES \<longrightarrow>
       (\<forall>name \<in> set TAILWIND_CONFIG_NAMES. \<not> fs_exists fs (sub_path (path_parent output) [name])))"
proof (cases "final_name output \<in> set TAILWIND_CONFIG_NAMES")
  case True
  with assms have none: "\<forall>name \<in> set TAILWIND_CONFIG_NAMES. \<not> fs_exists fs (sub_path (path_parent output) [name])"
    by (auto simp: existing_configs_def filter_empty_conv)
  from True have "snd output \<noteq> []" by (auto simp: final_name_def TAILWIND_CONFIG_NAMES_def)
  then have "sub_path (path_parent output) [final_name output] = output"
    by (simp add: sub_path_def path_parent_def final_name_def prod_eq_iff)
  with none True show ?thesis by metis
next
  case False
  with assms show ?thesis by (auto simp: existing_configs_def split: if_splits)
qed

subsection \<open>The command never raises\<close>

lemma recommended_valid:
  "p \<in> {''tailwindcss-animate'', ''@tailwindcss/typography''} \<Longrightarrow> rx_match VALID_PLUGIN_NAME p \<noteq> None"
  by (elim insertE emptyE; simp only:; code_simp)

lemma add_plugins_distinct: "distinct (tw_plugins g) \<Longrightarrow> distinct (tw_plugins (add_plugins ps g))"
proof -
  have "distinct qs \<Longrightarrow> distinct (foldl (\<lambda>ps p. if p \<in> set ps then ps else ps @ [p]) qs ps)" for qs
    by (induction ps arbitrary: qs) auto
  then show "distinct (tw_plugins g) \<Longrightarrow> ?thesis" by (simp add: add_plugins_def)
qed

lemma add_plugins_set: "set (tw_plugins (add_plugins ps g)) = set (tw_plugins g) \<union> set ps"
proof -
  have "set (foldl (\<lambda>ps p. if p \<in> set ps then ps else ps @ [p]) qs ps) = set qs \<union> set ps" for qs
    by (induction ps arbitrary: qs) auto
  then show ?thesis by (simp add: add_plugins_def)
qed

lemma extend_plugins [simp]: "tw_plugins (extend_section name entries g) = tw_plugins g"
  by (simp add: extend_section_def Let_def)

lemma with_specs_plugins:
  assumes "with_specs kind f add specs g = Inr g1" and "\<And>d g. tw_plugins (add d g) = tw_plugins g"
  shows "\<exists>g0. g = Inr g0 \<and> tw_plugins g1 = tw_plugins g0"
  using assms by (auto simp: with_specs_def split: sum.splits if_splits)

lemma configured_plugins: "configured here args = Inr g \<Longrightarrow> tw_plugins g = []"
  unfolding configured_def
  by (auto dest!: with_specs_plugins simp: add_breakpoints_def add_spacing_def add_fonts_def add_colors_def tailwind_new_def)

lemma generates:
  assumes "\<forall>p \<in> set (tw_plugins g). rx_match VALID_PLUGIN_NAME p \<noteq> None"
  shows "\<exists>s. generate_config_string g = Inr s"
proof -
  have "\<exists>rs. require_all (tw_plugins g) = Inr rs"
    using require_all_bad assms by (cases "require_all (tw_plugins g)") blast+
  then show ?thesis
    by (auto simp: generate_config_string_def generate_typescript_def generate_javascript_def format_plugins_def)
qed

lemma tailwind_main_returns: "\<exists>code lines fs'. tailwind_main here os_error args fs = (Inr (code, lines), fs')"
proof (cases "configured here args")
  case (Inl e)
  then show ?thesis by (simp add: tailwind_main_def)
next
  case (Inr g0)
  obtain g where g: "g = (if ta_plugins args then add_plugins (recommend_plugins g0) g0 else g0)" by simp
  have "set (tw_plugins g) \<subseteq> {''tailwindcss-animate'', ''@tailwindcss/typography''}"
    using configured_plugins [OF Inr] by (auto simp: g add_plugins_set recommend_plugins_def)
  then have "\<forall>p \<in> set (tw_plugins g). rx_match VALID_PLUGIN_NAME p \<noteq> None" using recommended_valid by blast
  from generates [OF this] obtain s where s: "generate_config_string g = Inr s" by blast
  then have "fst (write_config os_error g fs) \<noteq> Inl p" for p by (simp add: write_config_def Let_def)
  then obtain success m fs' where "write_config os_error g fs = (Inr (success, m), fs')"
    by (cases "write_config os_error g fs"; cases "fst (write_config os_error g fs)") fastforce+
  with s Inr show ?thesis
    by (cases "validate_config g") (simp add: tailwind_main_def Let_def g [symmetric])
qed

subsection \<open>The generated object reads back\<close>

text \<open>Two more spaces after every line break.\<close>

definition deeper :: "str \<Rightarrow> str" where
  "deeper s = concat (map (\<lambda>c. if c = newline then newline # ''  '' else [c]) s)"

lemma deeper_simps [simp]:
  "deeper [] = []" "deeper (c # s) = (if c = newline then newline # ''  '' @ deeper s else c # deeper s)"
  "deeper (s @ t) = deeper s @ deeper t"
  by (simp_all add: deeper_def)

lemma deeper_id: "newline \<notin> set s \<Longrightarrow> deeper s = s"
  by (induction s) auto

lemma deeper_line_break [simp]: "deeper (line_break l) = line_break (Suc l)"
  by (simp add: line_break_def deeper_id)

lemma deeper_join: "deeper (join sep xs) = join (deeper sep) (map deeper xs)"
  by (induction sep xs rule: join.induct) simp_all

lemma hex_char_line: "hex_char n \<noteq> newline"
proof -
  have "\<forall>m \<in> {0..<16}. ''0123456789abcdef'' ! m \<noteq> newline" by code_simp
  then show ?thesis by (simp add: hex_char_def)
qed

lemma char_of_line: "(n :: nat) < 256 \<Longrightarrow> n \<noteq> 10 \<Longrightarrow> char_of n \<noteq> newline"
proof -
  assume "n < 256" "n \<noteq> 10"
  then have "code (char_of n) \<noteq> code newline" by (simp, simp add: code_def)
  then show ?thesis by auto
qed

lemma json_escape_line: "newline \<notin> set (json_escape n)"
proof (cases "n \<in> {34, 92, 10, 13, 9, 8, 12}")
  case True
  then show ?thesis using char_of_line [of 34] char_of_line [of 92] by (auto simp: json_escape_def)
next
  case False
  then have "json_escape n = (if 32 \<le> n \<and> n < 127 then [char_of n]
      else if n < 65536 then u_escape n
      else u_escape (55296 + (n - 65536) div 1024) @ u_escape (56320 + (n - 65536) mod 1024))"
    by (simp add: json_escape_def)
  moreover have "newline \<notin> set (u_escape m)" for m
    using hex_char_line [THEN not_sym] by (simp add: u_escape_def)
  ultimately show ?thesis using False char_of_line [of n, THEN not_sym] by simp
qed

lemma json_quote_line: "newline \<notin> set (json_quote s)"
  using json_escape_line by (auto simp: json_quote_def)

lemma deeper_dump: "textual j \<Longrightarrow> deeper (json_dump l j) = json_dump (Suc l) j"
proof (induction j arbitrary: l)
  case (JNumber s)
  then have "integer_text s" by simp
  moreover have "\<not> is_digit newline" by (simp add: is_digit_def code_def)
  ultimately have "newline \<notin> set s" by (elim integer_text_split) (auto simp: list_all_iff)
  then show ?case by (simp add: deeper_id)
next
  case (JString s)
  then show ?case using json_quote_line by (simp add: deeper_id)
next
  case (JArray js)
  then have m: "map (deeper \<circ> json_dump (Suc l)) js = map (json_dump (Suc (Suc l))) js" by (auto simp: list_all_iff)
  show ?case by (simp add: json_block_def deeper_join m)
next
  case (JObject ms)
  have "deeper (json_quote q @ '': '' @ json_dump (Suc l) j) = json_quote q @ '': '' @ json_dump (Suc (Suc l)) j"
    if "(q, j) \<in> set ms" for q j
    using JObject.IH [of "(q, j)" j] JObject.prems that json_quote_line [of q] by (auto simp: list_all_iff deeper_id)
  then have m: "map (deeper \<circ> (\<lambda>(q, j). json_quote q @ CHR '':'' # CHR '' '' # json_dump (Suc l) j)) ms =
      map (\<lambda>(q, j). json_quote q @ CHR '':'' # CHR '' '' # json_dump (Suc (Suc l)) j) ms" by auto
  show ?case by (simp add: json_block_def deeper_join m)
qed (auto simp: deeper_id)

lemma join_indented: "join [newline] (map (\<lambda>l. ''  '' @ l) (split_on (\<lambda>c. c = newline) s)) = ''  '' @ deeper s"
proof (induction s)
  case (Cons c s)
  obtain x xs where s: "split_on (\<lambda>c. c = newline) s = x # xs" by (meson list.exhaust split_on_nonempty)
  with Cons show ?case by (cases xs) auto
qed simp

text \<open>The lines between the braces, two spaces deeper, with the braces put back, are the same object.\<close>

lemma indented_body:
  assumes "textual (JObject ms)" "ms \<noteq> []"
  shows "indent_json (json_dump 0 (JObject ms)) 1 =
    replicate 4 CHR '' '' @ join ('','' @ line_break 2) (map (\<lambda>(q, j). json_quote q @ '': '' @ json_dump 2 j) ms)"
proof -
  let ?items = "\<lambda>l. map (\<lambda>(q, j). json_quote q @ '': '' @ json_dump l j) ms"
  let ?body = "join ('','' @ line_break 1) (?items 1)"
  have dump: "json_dump 0 (JObject ms) = ''{'' @ newline # (''  '' @ ?body) @ newline # ''}''"
    using assms(2) by (simp add: json_block_def line_break_def numeral_2_eq_2)
  have "split_on (\<lambda>c. c = newline) (json_dump 0 (JObject ms)) =
      [''{''] @ split_on (\<lambda>c. c = newline) (''  '' @ ?body) @ [''}'']"
    unfolding dump by (simp only: split_on_append_sep) simp
  then have "indent_json (json_dump 0 (JObject ms)) 1 =
      join [newline] (map (\<lambda>l. ''  '' @ l) (split_on (\<lambda>c. c = newline) (''  '' @ ?body)))"
    by (simp add: indent_json_def numeral_2_eq_2 butlast_append del: append_Cons)
  also have "\<dots> = ''  '' @ ''  '' @ deeper ?body" by (simp only: join_indented) simp
  also have "deeper ?body = join ('','' @ line_break 2) (?items 2)"
  proof -
    have "deeper (json_quote q @ '': '' @ json_dump 1 j) = json_quote q @ '': '' @ json_dump 2 j"
      if "(q, j) \<in> set ms" for q j
      using assms(1) that json_quote_line [of q] deeper_dump [of j 1] by (auto simp: list_all_iff deeper_id numeral_2_eq_2)
    then have m: "map (deeper \<circ> (\<lambda>(q, j). json_quote q @ '': '' @ json_dump 1 j)) ms = ?items 2" by auto
    have "deeper (line_break 1) = line_break 2" by (simp add: numeral_2_eq_2)
    then show ?thesis by (simp only: deeper_join map_map m) simp
  qed
  finally show ?thesis by (simp add: numeral_eq_Suc)
qed

lemma indented_reads:
  assumes "textual (JObject ms)" "ms \<noteq> []"
  shows "json_loads () plain_object (''{'' @ newline # indent_json (json_dump 0 (JObject ms)) 1 @ newline # ''}'') =
    Inr (JObject ms)"
proof -
  let ?body = "join ('','' @ line_break 2) (map (\<lambda>(q, j). json_quote q @ '': '' @ json_dump 2 j) ms)"
  let ?text = "''{'' @ newline # indent_json (json_dump 0 (JObject ms)) 1 @ newline # ''}''"
  have text': "?text = CHR ''{'' # line_break 2 @ ?body @ line_break 0 @ ''}''"
    by (simp only: indented_body [OF assms]) (simp add: line_break_def)
  obtain q j ms' where ms: "ms = (q, j) # ms'" using assms(2) by (cases ms) auto
  have skip: "skip_space (?body @ line_break 0 @ ''}'') = ?body @ line_break 0 @ ''}''"
    and head: "expect CHR ''}'' (?body @ line_break 0 @ ''}'') = None"
    using plain.skip_quote [of q] json_quote_head [of q] by (cases ms'; fastforce simp: ms json_quote_def)+
  have len: "length ?text = 2 + length (line_break 2) + length ?body + length (line_break 0)"
    by (simp only: text') simp
  have "json_pairs () plain_object (2 * length ?text) (?body @ line_break 0 @ ''}'' @ []) [] = Inr ([] @ ms, [])"
    by (rule plain.pairs_read [where l = 2], use assms in \<open>simp_all only: len list_all_iff readable.simps value_end_simps\<close>)
      (auto intro: plain.value_reads)
  moreover obtain B where B: "B = ?body @ line_break 0 @ ''}''" by simp
  ultimately have pairs: "json_pairs () plain_object (2 * length ?text) B [] = Inr (ms, [])" by simp
  have "json_value () plain_object (Suc (2 * length ?text)) (CHR ''{'' # line_break 2 @ B) = Inr (JObject ms, [])"
    using pairs skip [folded B] head [folded B] assms(1) plain.keeps [of ms]
    by (simp add: numeral_2_eq_2 del: length_append length_Cons)
  moreover have "?text = CHR ''{'' # line_break 2 @ B" by (simp only: text' B)
  ultimately show ?thesis
    by (simp only: json_loads_def) (simp add: skip_space_def is_json_space_def code_def)
qed
end
