(* ===== verification/TokenValidator.thy ===== *)
theory TokenValidator
  imports Tailwind
begin

text \<open>
  The design token validator, \<open>html-token-validator.py\<close>: the forbidden patterns, what becomes of each
  of their matches, the report, and the command after the parsing of its arguments;
  \<open>slide-token-validator.py\<close> chooses the arguments it passes on. The names in a directory, the
  environment and the resolution of symbolic links are arguments.
\<close>

subsection \<open>Patterns\<close>

definition spaces_rx :: rx where
  "spaces_rx = Star (Cls is_space)"

definition digits_rx :: rx where
  "digits_rx = plus1 (Cls is_digit)"

definition comma_rx :: rx where
  "comma_rx = seqs [spaces_rx, lit '','', spaces_rx]"

text \<open>One character other than \<open>x\<close>, with the bytes that continue it.\<close>

definition not_char :: "char \<Rightarrow> rx" where
  "not_char x = Seq (Cls (\<lambda>c. c \<noteq> x \<and> \<not> is_cont_byte c)) (Star (Cls is_cont_byte))"

definition font_rx :: "char \<Rightarrow> rx" where
  "font_rx quote = seqs
     [lit ''font-family:'', spaces_rx, lit [quote], not_char CHR ''v'', not_char CHR ''a'', not_char CHR ''r'',
      Star (Cls (\<lambda>c. c \<noteq> quote)), lit [quote], lit '','']"

definition hex_rx :: rx where
  "hex_rx = seqs
     [lit ''#'', rep 3 8 (Cls (\<lambda>c. is_digit c \<or> 65 \<le> code c \<and> code c \<le> 70 \<or> 97 \<le> code c \<and> code c \<le> 102)), WordB]"

definition rgb_rx :: rx where
  "rgb_rx = seqs
     [lit ''rgb('', spaces_rx, digits_rx, comma_rx, digits_rx, comma_rx, digits_rx, spaces_rx, lit '')'']"

definition rgba_rx :: rx where
  "rgba_rx = seqs
     [lit ''rgba('', spaces_rx, digits_rx, comma_rx, digits_rx, comma_rx, digits_rx, comma_rx,
      plus1 (Cls (\<lambda>c. is_digit c \<or> c = CHR ''.'')), spaces_rx, lit '')'']"

definition hsl_rx :: rx where
  "hsl_rx = seqs [lit ''hsl('', plus1 (Cls (\<lambda>c. c \<noteq> CHR '')'')), lit '')'']"

definition FORBIDDEN_PATTERNS :: "(rx \<times> str) list" where
  "FORBIDDEN_PATTERNS =
     [(hex_rx, ''hex color''), (rgb_rx, ''rgb color''), (rgba_rx, ''rgba color''), (hsl_rx, ''hsl color''),
      (font_rx CHR 0x27, ''hardcoded font''), (font_rx CHR 0x22, ''hardcoded font'')]"

definition rgba_prefix :: "str \<times> str \<times> str \<Rightarrow> rx" where
  "rgba_prefix rgb =
     (case rgb of (r, g, bl) \<Rightarrow> seqs [lit ''rgba('', spaces_rx, lit r, comma_rx, lit g, comma_rx, lit bl])"

definition ALLOWED_RGBA_PATTERNS :: "rx list" where
  "ALLOWED_RGBA_PATTERNS = map rgba_prefix
     [(''59'', ''130'', ''246''), (''245'', ''158'', ''11''), (''16'', ''185'', ''129''), (''20'', ''184'', ''166''),
      (''0'', ''0'', ''0''), (''255'', ''255'', ''255''), (''15'', ''23'', ''42''), (''7'', ''11'', ''20'')]"

definition ALLOWED_EXCEPTIONS :: "str list" where
  "ALLOWED_EXCEPTIONS =
     [''pexels.com'', ''unsplash.com'', ''youtube.com'', ''ytimg.com'', ''googlefonts'', ''fonts.googleapis.com'',
      ''fonts.gstatic.com'']"

subsection \<open>The verdict on a match\<close>

record validation =
  v_path :: path
  v_errors :: "str list"
  v_warnings :: "str list"
  v_passed :: bool

definition validation_new :: "path \<Rightarrow> validation" where
  "validation_new p = \<lparr>v_path = p, v_errors = [], v_warnings = [], v_passed = True\<rparr>"

definition add_error :: "str \<Rightarrow> validation \<Rightarrow> validation" where
  "add_error msg r = r\<lparr>v_errors := v_errors r @ [msg], v_passed := False\<rparr>"

definition add_warning :: "str \<Rightarrow> validation \<Rightarrow> validation" where
  "add_warning msg r = r\<lparr>v_warnings := v_warnings r @ [msg]\<rparr>"

definition rfind :: "str \<Rightarrow> str \<Rightarrow> int" where
  "rfind sub s =
     (case filter (\<lambda>i. starts_with sub (drop i s)) (rev [0..<Suc (length s)]) of [] \<Rightarrow> -1 | i # _ \<Rightarrow> int i)"

definition is_inside_block :: "str \<Rightarrow> str \<Rightarrow> str \<Rightarrow> bool" where
  "is_inside_block pre open_tag close_tag \<longleftrightarrow> rfind close_tag pre < rfind open_tag pre"

definition is_allowed_exception :: "str \<Rightarrow> bool" where
  "is_allowed_exception ctx \<longleftrightarrow> (\<exists>exc \<in> set ALLOWED_EXCEPTIONS. contains exc (lower ctx))"

definition is_allowed_rgba :: "str \<Rightarrow> bool" where
  "is_allowed_rgba match_text \<longleftrightarrow> (\<exists>pat \<in> set ALLOWED_RGBA_PATTERNS. rx_match pat match_text \<noteq> None)"

text \<open>The last \<open>n\<close> characters, and the text around the start of a match.\<close>

definition py_last :: "nat \<Rightarrow> str \<Rightarrow> str" where
  "py_last n s = drop (length (py_take (py_len s - n) s)) s"

definition get_context :: "match \<Rightarrow> str" where
  "get_context m = py_last 100 (m_pre m) @ py_take 100 (m_text m @ m_post m)"

definition in_var_call :: "str \<Rightarrow> str \<Rightarrow> bool" where
  "in_var_call match_text ctx \<longleftrightarrow>
     (let inner = Star (Cls (\<lambda>c. c \<noteq> CHR '')''))
      in contains ''var('' ctx \<and> contains match_text ctx \<and>
         rx_found (seqs [lit ''var('', inner, lit match_text, inner, lit '')'']) ctx)"

datatype verdict = InScript | External | BrandRgba | VarFallback | InStyle | InlineStyle | Elsewhere

definition verdict_of :: "str \<Rightarrow> match \<Rightarrow> verdict" where
  "verdict_of description m =
     (let ctx = get_context m in
      if is_inside_block (m_pre m) ''<script'' ''</script>'' then InScript
      else if is_allowed_exception ctx then External
      else if description = ''rgba color'' \<and> is_allowed_rgba (m_text m) then BrandRgba
      else if in_var_call (m_text m) ctx then VarFallback
      else if is_inside_block (m_pre m) ''<style'' ''</style>'' then InStyle
      else if contains ''style=\"'' ctx then InlineStyle
      else Elsewhere)"

definition note_match :: "bool \<Rightarrow> str \<Rightarrow> match \<Rightarrow> validation \<Rightarrow> validation" where
  "note_match verbose description m r =
     (let warn = (\<lambda>msg. if verbose then add_warning (msg @ m_text m) r else r) in
      case verdict_of description m of
        InScript \<Rightarrow> warn ''Allowed in <script>: ''
      | External \<Rightarrow> warn ''Allowed external: ''
      | BrandRgba \<Rightarrow> warn ''Allowed brand rgba: ''
      | VarFallback \<Rightarrow> r
      | InStyle \<Rightarrow> add_error (''Hardcoded '' @ description @ '' in <style>: '' @ m_text m) r
      | InlineStyle \<Rightarrow> add_error (''Hardcoded '' @ description @ '' in inline style: '' @ m_text m) r
      | Elsewhere \<Rightarrow> r)"

definition token_patterns :: "str list" where
  "token_patterns = [''var(--color-'', ''var(--primitive-'', ''var(--typography-'', ''var(--card-'', ''var(--button-'']"

definition token_count :: "str \<Rightarrow> nat" where
  "token_count content = sum_list (map (\<lambda>p. length (rx_findall (lit p) content)) token_patterns)"

definition all_matches :: "str \<Rightarrow> (str \<times> match) list" where
  "all_matches content =
     concat (map (\<lambda>(pat, description). map (\<lambda>m. (description, m)) (rx_finditer pat content)) FORBIDDEN_PATTERNS)"

definition validate_html :: "str \<Rightarrow> path \<Rightarrow> bool \<Rightarrow> validation" where
  "validate_html content file_path verbose =
     (let start = (if contains ''design-tokens.css'' content then validation_new file_path
                   else add_error ''Missing design-tokens.css import'' (validation_new file_path));
          checked = foldl (\<lambda>r (description, m). note_match verbose description m r) start (all_matches content);
          n = token_count content
      in if n < 5
         then add_warning (''Low token usage ('' @ str_of_nat n @
                ''var() references). Consider using more design tokens.'') checked
         else checked)"

subsection \<open>Files and the report\<close>

text \<open>Reading a path that exists but is a directory raises: the value is then \<open>None\<close>.\<close>

definition validate_file :: "filesystem \<Rightarrow> bool \<Rightarrow> path \<Rightarrow> validation option" where
  "validate_file fs verbose p =
     (if \<not> fs_exists fs p then Some (add_error ''File not found'' (validation_new p))
      else map_option (\<lambda>content. validate_html content p verbose) (fs_files fs p))"

definition validate_directory :: "(path \<Rightarrow> str list) \<Rightarrow> filesystem \<Rightarrow> bool \<Rightarrow> path \<Rightarrow> validation list option" where
  "validate_directory names fs verbose dir =
     (if fs_dirs fs dir
      then those (map (\<lambda>n. validate_file fs verbose (sub_path dir [n])) (sort (filter (ends_with ''.html'') (names dir))))
      else Some [])"

definition result_report :: "validation \<Rightarrow> str list" where
  "result_report r =
     [(''  '' @ (if v_passed r then u_check else u_ballot) @ '' '' @ (final_name (v_path r)))] @
     map (\<lambda>e. (''      '' @ u_vright @ u_hline @ '' '' @ e)) (take 5 (v_errors r)) @
     (if 5 < length (v_errors r)
      then [(''      '' @ u_ur @ u_hline @ '' ... and '' @ (str_of_nat (length (v_errors r) - 5)) @ '' more errors'')] else [])"

definition type_report :: "str \<times> validation list \<Rightarrow> str list" where
  "type_report entry =
     (case entry of (asset_type, rs) \<Rightarrow>
        let passed = length (filter v_passed rs) in
        if rs = [] then []
        else ([CHR 0x0A] @ (if passed = length rs then u_check else u_ballot) @ '' '' @ (upper asset_type) @ '': '' @ (str_of_nat passed) @ ''/'' @ (str_of_nat (length rs)) @ '' passed'') #
          concat (map result_report (filter (\<lambda>r. \<not> v_passed r) rs)))"

definition error_count :: "validation list dict \<Rightarrow> nat" where
  "error_count all_results = sum_list (map (\<lambda>r. length (v_errors r)) (concat (map snd all_results)))"

definition print_summary :: "validation list dict \<Rightarrow> bool \<times> str list" where
  "print_summary all_results =
     (let rs = concat (map snd all_results); files = length rs; passed = length (filter v_passed rs);
          errors = error_count all_results
      in (errors = 0,
          [newline # replicate 60 CHR ''='', ''HTML DESIGN TOKEN VALIDATION SUMMARY'', replicate 60 CHR ''=''] @
          concat (map type_report all_results) @
          [newline # replicate 60 CHR ''-'',
           (if errors = 0 then (u_check @ '' ALL PASSED: '' @ (str_of_nat passed) @ ''/'' @ (str_of_nat files) @ '' files valid'')
            else (u_ballot @ '' FAILED: '' @ (str_of_nat (files - passed)) @ ''/'' @ (str_of_nat files) @ '' files have issues ('' @ (str_of_nat errors) @ '' total errors)'')),
           replicate 60 CHR ''-'']))"

subsection \<open>The command\<close>

definition project_markers :: "str list list" where
  "project_markers = [[''assets'', ''design-tokens.json''], [''assets'', ''design-tokens.css''], [''package.json''], [''.git'']]"

definition find_project_root :: "(str \<Rightarrow> path) \<Rightarrow> str option \<Rightarrow> path \<Rightarrow> filesystem \<Rightarrow> path" where
  "find_project_root resolve override start fs =
     (case override of
        Some o' \<Rightarrow> if o' \<noteq> [] then resolve o'
          else (case find (\<lambda>p. \<exists>mk \<in> set project_markers. fs_exists fs (sub_path p mk)) (rev (ancestors start)) of
                  Some p \<Rightarrow> p | None \<Rightarrow> start)
      | None \<Rightarrow>
          (case find (\<lambda>p. \<exists>mk \<in> set project_markers. fs_exists fs (sub_path p mk)) (rev (ancestors start)) of
             Some p \<Rightarrow> p | None \<Rightarrow> start))"

definition ASSET_DIRS :: "str list dict" where
  "ASSET_DIRS = [(''slides'', [''assets'', ''designs'', ''slides'']), (''infographics'', [''assets'', ''infographics''])]"

definition variable_rx :: rx where
  "variable_rx = seqs
     [Grp 1 (Seq (lit ''--'') (plus1 (Cls (\<lambda>c. is_word c \<or> c = CHR ''-'')))), lit '':'', spaces_rx,
      Grp 2 (plus1 (Cls (\<lambda>c. c \<noteq> CHR '';''))), lit '';'']"

definition load_css_variables :: "filesystem \<Rightarrow> path \<Rightarrow> str dict" where
  "load_css_variables fs project =
     (case fs_files fs (sub_path project [''assets'', ''design-tokens.css'']) of
        None \<Rightarrow> []
      | Some content \<Rightarrow>
          foldl (\<lambda>d m. put (get_or (m_groups m) 1 []) (strip (get_or (m_groups m) 2 [])) d) []
            (rx_finditer variable_rx content))"

definition css_name_value :: "str \<times> str \<Rightarrow> str" where
  "css_name_value entry = (''  '' @ (fst entry) @ '': '' @ (snd entry))"

definition colors_report :: "str dict \<Rightarrow> str list" where
  "colors_report variables =
     [([CHR 0x0A] @ ''Design Tokens (from design-tokens.css):''), replicate 40 CHR ''-''] @
     map css_name_value (take 30 (sort_key fst variables)) @
     (if 30 < length variables then [(''  ... and '' @ (str_of_nat (length variables - 30)) @ '' more'')] else [])"

record validator_args =
  va_files :: "path list"
  va_type :: str
  va_verbose :: bool
  va_colors :: bool

definition validator_checks ::
  "(path \<Rightarrow> str list) \<Rightarrow> filesystem \<Rightarrow> path \<Rightarrow> validator_args \<Rightarrow> (str \<times> validation list option) list" where
  "validator_checks names fs project args =
     (if va_files args \<noteq> []
      then [(''specified'', those (map (validate_file fs (va_verbose args)) (va_files args)))]
      else map (\<lambda>t. (t, validate_directory names fs (va_verbose args) (sub_path project (get_or ASSET_DIRS t []))))
             (if va_type args = ''all'' then keys ASSET_DIRS else filter (has_key ASSET_DIRS) [va_type args]))"

definition validator_results ::
  "(path \<Rightarrow> str list) \<Rightarrow> filesystem \<Rightarrow> path \<Rightarrow> validator_args \<Rightarrow> validation list dict option" where
  "validator_results names fs project args =
     those (map (\<lambda>(t, rs). map_option (Pair t) rs) (validator_checks names fs project args))"

text \<open>The exit code of the process and its lines; \<open>None\<close> when it ends with a traceback.\<close>

definition validator_main ::
  "(path \<Rightarrow> str list) \<Rightarrow> filesystem \<Rightarrow> path \<Rightarrow> validator_args \<Rightarrow> (nat \<times> str list) option" where
  "validator_main names fs project args =
     (if va_colors args then Some (0, colors_report (load_css_variables fs project))
      else case validator_results names fs project args of
             None \<Rightarrow> None
           | Some all_results \<Rightarrow>
               (case print_summary all_results of (success, lines) \<Rightarrow> Some (if success then 0 else 1, lines)))"

text \<open>The arguments that the wrapper for slides passes on.\<close>

definition slide_validator_args :: "str list \<Rightarrow> str list" where
  "slide_validator_args args =
     (if args = [] \<or> (\<forall>a \<in> set args. starts_with ''-'' a) then [''--type'', ''slides''] @ args else args)"

subsection \<open>When a file passes\<close>

definition offends :: "str \<times> match \<Rightarrow> bool" where
  "offends dm \<longleftrightarrow> verdict_of (fst dm) (snd dm) \<in> {InStyle, InlineStyle}"

lemma note_match_effect:
  "v_passed (note_match verbose d m r) = (v_passed r \<and> \<not> offends (d, m))"
  "length (v_errors (note_match verbose d m r)) = length (v_errors r) + (if offends (d, m) then 1 else 0)"
  by (simp_all add: note_match_def offends_def add_error_def add_warning_def Let_def split: verdict.split)

lemma foldl_note:
  "v_passed (foldl (\<lambda>r (d, m). note_match verbose d m r) r ms) = (v_passed r \<and> (\<forall>dm \<in> set ms. \<not> offends dm)) \<and>
   length (v_errors (foldl (\<lambda>r (d, m). note_match verbose d m r) r ms)) = length (v_errors r) + length (filter offends ms)"
  by (induction ms arbitrary: r) (auto simp: note_match_effect split: if_splits)

lemma validate_html_spec:
  "v_passed (validate_html content p verbose) =
     (contains ''design-tokens.css'' content \<and> (\<forall>dm \<in> set (all_matches content). \<not> offends dm)) \<and>
   length (v_errors (validate_html content p verbose)) =
     (if contains ''design-tokens.css'' content then 0 else 1) + length (filter offends (all_matches content))"
  by (simp add: validate_html_def Let_def foldl_note add_warning_def add_error_def validation_new_def)

lemma passed_no_errors: "v_passed (validate_html content p verbose) \<longleftrightarrow> v_errors (validate_html content p verbose) = []"
proof -
  have "v_errors (validate_html content p verbose) = [] \<longleftrightarrow> length (v_errors (validate_html content p verbose)) = 0" by simp
  also have "\<dots> \<longleftrightarrow> v_passed (validate_html content p verbose)"
    using validate_html_spec [of content p verbose] by (auto simp: filter_empty_conv)
  finally show ?thesis by simp
qed

lemma file_passed_no_errors: "validate_file fs verbose p = Some r \<Longrightarrow> v_passed r \<longleftrightarrow> v_errors r = []"
  by (auto simp: validate_file_def passed_no_errors add_error_def split: if_splits)

lemma those_member: "those xs = Some ys \<Longrightarrow> y \<in> set ys \<Longrightarrow> Some y \<in> set xs"
proof (induction xs arbitrary: ys)
  case (Cons x xs)
  then show ?case by (cases x) (auto split: option.splits)
qed simp

lemma those_map: "those (map f xs) = Some ys \<Longrightarrow> y \<in> set ys \<Longrightarrow> \<exists>x \<in> set xs. f x = Some y"
  by (drule (1) those_member) auto

lemma directory_files:
  assumes "validate_directory names fs verbose dir = Some rs" "r \<in> set rs"
  shows "\<exists>p. validate_file fs verbose p = Some r"
proof (cases "fs_dirs fs dir")
  case True
  with assms(1) have "those (map (\<lambda>n. validate_file fs verbose (sub_path dir [n]))
      (sort (filter (ends_with ''.html'') (names dir)))) = Some rs" by (simp add: validate_directory_def)
  from those_map [OF this assms(2)] show ?thesis by blast
next
  case False
  with assms show ?thesis by (simp add: validate_directory_def)
qed

lemma checks_are_files:
  assumes "(t, Some rs) \<in> set (validator_checks names fs project args)" "r \<in> set rs"
  shows "\<exists>p. validate_file fs (va_verbose args) p = Some r"
proof (cases "va_files args = []")
  case True
  let ?dir = "sub_path project (get_or ASSET_DIRS t [])"
  from True assms(1) have "validate_directory names fs (va_verbose args) ?dir = Some rs"
    by (simp only: validator_checks_def if_False simp_thms) (auto simp del: Product_Type.split_paired_Ex)
  from directory_files [OF this assms(2)] show ?thesis .
next
  case False
  with assms(1) have "those (map (validate_file fs (va_verbose args)) (va_files args)) = Some rs"
    by (auto simp: validator_checks_def)
  from those_map [OF this assms(2)] show ?thesis by blast
qed

lemma results_are_files:
  assumes "validator_results names fs project args = Some all_results"
    and "r \<in> set (concat (map snd all_results))"
  shows "\<exists>p. validate_file fs (va_verbose args) p = Some r"
proof -
  from assms(2) obtain t rs where entry: "(t, rs) \<in> set all_results" and r: "r \<in> set rs" by auto
  from those_map [OF assms(1) [unfolded validator_results_def] entry]
  have "(t, Some rs) \<in> set (validator_checks names fs project args)" by auto
  from checks_are_files [OF this r] show ?thesis .
qed

lemma exit_code_zero:
  assumes "validator_results names fs project args = Some all_results" "\<not> va_colors args"
  shows "\<exists>lines. validator_main names fs project args =
      Some (if \<forall>r \<in> set (concat (map snd all_results)). v_passed r then 0 else 1, lines)"
proof -
  have "error_count all_results = 0 \<longleftrightarrow> (\<forall>r \<in> set (concat (map snd all_results)). v_errors r = [])"
    by (auto simp: error_count_def)
  also have "\<dots> \<longleftrightarrow> (\<forall>r \<in> set (concat (map snd all_results)). v_passed r)"
    using results_are_files [OF assms(1)] file_passed_no_errors by blast
  finally show ?thesis using assms by (simp add: validator_main_def print_summary_def Let_def)
qed

lemma script_never_offends: "is_inside_block (m_pre m) ''<script'' ''</script>'' \<Longrightarrow> \<not> offends (d, m)"
  by (simp add: offends_def verdict_of_def)
end
