(* ===== verification/Shadcn.thy ===== *)
theory Shadcn
  imports Tailwind
begin

text \<open>
  The installer of shadcn/ui components, \<open>shadcn_add.py\<close>: which components are installed, which
  version the project asks for, when \<open>npx\<close> is run and with which arguments, and the command after
  the parsing of its arguments. What \<open>npx\<close> does with an argument list is an argument; every function
  returns the argument list that was run, if any. An exception that nobody catches is a value of
  \<open>shadcn_error\<close>.
\<close>

subsection \<open>The project\<close>

datatype shadcn_error = AttributeError | IndexError | IsDirectory

datatype npx_result = Ran str | Failed str str str | NotFound

record installer =
  in_root :: path
  in_dry :: bool

definition installer_new :: "path \<Rightarrow> path option \<Rightarrow> bool \<Rightarrow> installer" where
  "installer_new here project_root dry_run =
     \<lparr>in_root = (case project_root of None \<Rightarrow> here | Some p \<Rightarrow> p), in_dry = dry_run\<rparr>"

definition components_json :: "installer \<Rightarrow> path" where
  "components_json i = sub_path (in_root i) [''components.json'']"

definition check_shadcn_config :: "filesystem \<Rightarrow> installer \<Rightarrow> bool" where
  "check_shadcn_config fs i = fs_exists fs (components_json i)"

text \<open>\<open>base / s\<close>\<close>

text \<open>\<open>d.get(key, default)\<close>, which only a JSON object has.\<close>

definition json_get :: "json \<Rightarrow> str \<Rightarrow> json \<Rightarrow> shadcn_error + json" where
  "json_get d key fallback = (case d of JObject ms \<Rightarrow> Inr (get_or ms key fallback) | _ \<Rightarrow> Inl AttributeError)"

definition components_alias :: "json \<Rightarrow> shadcn_error + str" where
  "components_alias config =
     (case json_get config ''aliases'' (JObject []) of
        Inl e \<Rightarrow> Inl e
      | Inr aliases \<Rightarrow>
          (case json_get aliases ''components'' (JString ''components'') of
             Inl e \<Rightarrow> Inl e
           | Inr (JString s) \<Rightarrow> Inr (replace_all ''@/'' [] s)
           | Inr _ \<Rightarrow> Inl AttributeError))"

definition ui_dir :: "installer \<Rightarrow> str \<Rightarrow> path" where
  "ui_dir i alias' = sub_path (join_path (in_root i) alias') [''ui'']"

text \<open>The name without its last suffix; a leading dot starts no suffix.\<close>

definition tsx_stem :: "str \<Rightarrow> str" where
  "tsx_stem name = (if name = ''.tsx'' then name else take (length name - 4) name)"

definition ends_in :: "str \<Rightarrow> str \<Rightarrow> bool" where
  "ends_in suffix s = starts_with (rev suffix) (rev s)"

definition get_installed_components ::
  "(path \<Rightarrow> str list) \<Rightarrow> filesystem \<Rightarrow> installer \<Rightarrow> shadcn_error + str list" where
  "get_installed_components names fs i =
     (if \<not> check_shadcn_config fs i then Inr []
      else case fs_files fs (components_json i) of
             None \<Rightarrow> Inr []
           | Some content \<Rightarrow>
               (case json_loads () plain_object content of
                  Inl _ \<Rightarrow> Inr []
                | Inr config \<Rightarrow>
                    map_sum id (\<lambda>alias'.
                      let dir = ui_dir i alias' in
                      if \<not> fs_dirs fs dir then []
                      else map tsx_stem (filter (\<lambda>n. ends_in ''.tsx'' n \<and> fs_files fs (sub_path dir [n]) \<noteq> None) (names dir)))
                      (components_alias config)))"

definition pinned_version :: str where
  "pinned_version = ''2.3.0''"

text \<open>Whether a JSON value counts as true; the numbers that do not are the zeros.\<close>

definition zero_number :: "str \<Rightarrow> bool" where
  "zero_number s \<longleftrightarrow> s \<notin> set [''NaN'', ''Infinity'', ''-Infinity''] \<and>
     (\<forall>c \<in> set (takeWhile (\<lambda>c. c \<noteq> CHR ''e'' \<and> c \<noteq> CHR ''E'') s). c \<in> set ''-.0'')"

fun truthy :: "json \<Rightarrow> bool" where
  "truthy JNull = False"
| "truthy (JBool v) = v"
| "truthy (JNumber s) = (\<not> zero_number s)"
| "truthy (JString s) = (s \<noteq> [])"
| "truthy (JArray js) = (js \<noteq> [])"
| "truthy (JObject ms) = (ms \<noteq> [])"

text \<open>\<open>version.lstrip("^~>=<").split()[0]\<close>\<close>

definition bare_version :: "json \<Rightarrow> shadcn_error + str" where
  "bare_version version =
     (case version of
        JString s \<Rightarrow>
          (case split_ws (dropWhile (\<lambda>c. c \<in> set ''^~>=<'') s) of
             [] \<Rightarrow> Inl IndexError | w # _ \<Rightarrow> Inr w)
      | _ \<Rightarrow> Inl AttributeError)"

fun section_version :: "json \<Rightarrow> str list \<Rightarrow> shadcn_error + str" where
  "section_version pkg [] = Inr pinned_version"
| "section_version pkg (name # sections) =
     (case json_get pkg name (JObject []) of
        Inl e \<Rightarrow> Inl e
      | Inr deps \<Rightarrow>
          (case json_get deps ''shadcn'' JNull of
             Inl e \<Rightarrow> Inl e
           | Inr version \<Rightarrow> if truthy version then bare_version version else section_version pkg sections))"

definition get_shadcn_version :: "filesystem \<Rightarrow> installer \<Rightarrow> shadcn_error + str" where
  "get_shadcn_version fs i =
     (let pkg_json = sub_path (in_root i) [''package.json''] in
      if \<not> fs_exists fs pkg_json then Inr pinned_version
      else case fs_files fs pkg_json of
             None \<Rightarrow> Inl IsDirectory
           | Some content \<Rightarrow>
               (case json_loads () plain_object content of
                  Inl _ \<Rightarrow> Inr pinned_version
                | Inr pkg \<Rightarrow> section_version pkg [''dependencies'', ''devDependencies'']))"

subsection \<open>Running \<open>npx\<close>\<close>

type_synonym outcome = "(shadcn_error + bool \<times> str) \<times> str list option"

definition not_initialized :: str where
  "not_initialized = (''shadcn not initialized. Run '' @ [CHR 0x27] @ ''npx shadcn@latest init'' @ [CHR 0x27] @ '' first'')"

definition npx_command :: "str \<Rightarrow> str list \<Rightarrow> bool \<Rightarrow> str list" where
  "npx_command version what overwrite =
     [''npx'', ''shadcn@'' @ version, ''add''] @ what @ (if overwrite then [''--overwrite''] else [])"

definition failure_text :: "str \<Rightarrow> str \<Rightarrow> str \<Rightarrow> str" where
  "failure_text err out fault = (if err \<noteq> [] then err else if out \<noteq> [] then out else fault)"

definition run_npx :: "(str list \<Rightarrow> npx_result) \<Rightarrow> str \<Rightarrow> str \<Rightarrow> str list \<Rightarrow> outcome" where
  "run_npx npx success failure cmd =
     (Inr (case npx cmd of
             Ran out \<Rightarrow> (True, success @ (if out \<noteq> [] then ([CHR 0x0A] @ [CHR 0x0A] @ ''Output:'' @ [CHR 0x0A]) @ out else []))
           | Failed err out fault \<Rightarrow> (False, failure @ failure_text err out fault)
           | NotFound \<Rightarrow> (False, ''npx not found. Ensure Node.js is installed'')),
      Some cmd)"

definition add_components ::
  "(str list \<Rightarrow> npx_result) \<Rightarrow> (path \<Rightarrow> str list) \<Rightarrow> filesystem \<Rightarrow> installer \<Rightarrow> str list \<Rightarrow> bool \<Rightarrow> outcome" where
  "add_components npx names fs i components overwrite =
     (if components = [] then (Inr (False, ''No components specified''), None)
      else if \<not> check_shadcn_config fs i then (Inr (False, not_initialized), None)
      else case get_installed_components names fs i of
             Inl e \<Rightarrow> (Inl e, None)
           | Inr installed \<Rightarrow>
               (let already = filter (\<lambda>c. c \<in> set installed) components in
                if already \<noteq> [] \<and> \<not> overwrite
                then (Inr (False, ''Components already installed: '' @ join '', '' already @
                        ''. Use --overwrite to reinstall''), None)
                else case get_shadcn_version fs i of
                       Inl e \<Rightarrow> (Inl e, None)
                     | Inr version \<Rightarrow>
                         (let cmd = npx_command version components overwrite in
                          if in_dry i then (Inr (True, ''Would run: '' @ join '' '' cmd), None)
                          else run_npx npx (''Successfully added components: '' @ join '', '' components)
                                 ''Failed to add components: '' cmd)))"

definition add_all_components ::
  "(str list \<Rightarrow> npx_result) \<Rightarrow> filesystem \<Rightarrow> installer \<Rightarrow> bool \<Rightarrow> outcome" where
  "add_all_components npx fs i overwrite =
     (if \<not> check_shadcn_config fs i then (Inr (False, not_initialized), None)
      else case get_shadcn_version fs i of
             Inl e \<Rightarrow> (Inl e, None)
           | Inr version \<Rightarrow>
               (let cmd = npx_command version [''--all''] overwrite in
                if in_dry i then (Inr (True, ''Would run: '' @ join '' '' cmd), None)
                else run_npx npx ''Successfully added all components'' ''Failed to add all components: '' cmd))"

definition list_installed :: "(path \<Rightarrow> str list) \<Rightarrow> filesystem \<Rightarrow> installer \<Rightarrow> shadcn_error + bool \<times> str" where
  "list_installed names fs i =
     (if \<not> check_shadcn_config fs i then Inr (False, ''shadcn not initialized'')
      else map_sum id (\<lambda>installed.
             if installed = [] then (True, ''No components installed'')
             else (True, (''Installed components:'' @ [CHR 0x0A]) @ join [newline] (map (\<lambda>c. ''  - '' @ c) (sort installed))))
             (get_installed_components names fs i))"

subsection \<open>The command\<close>

record shadcn_args =
  sh_components :: "str list"
  sh_all :: bool
  sh_overwrite :: bool
  sh_dry :: bool
  sh_list :: bool
  sh_root :: "path option"

definition exit_with :: "bool \<times> str \<Rightarrow> nat \<times> str" where
  "exit_with r = (if fst r then 0 else 1, snd r)"

definition shadcn_main ::
  "(str list \<Rightarrow> npx_result) \<Rightarrow> str \<Rightarrow> (path \<Rightarrow> str list) \<Rightarrow> filesystem \<Rightarrow> path \<Rightarrow> shadcn_args \<Rightarrow>
   (shadcn_error + nat \<times> str) \<times> str list option" where
  "shadcn_main npx help_text names fs here args =
     (let i = installer_new here (sh_root args) (sh_dry args) in
      if sh_list args then (map_sum id exit_with (list_installed names fs i), None)
      else if sh_all args
      then map_prod (map_sum id exit_with) id (add_all_components npx fs i (sh_overwrite args))
      else if sh_components args = [] then (Inr (1, help_text), None)
      else map_prod (map_sum id exit_with) id (add_components npx names fs i (sh_components args) (sh_overwrite args)))"

subsection \<open>When \<open>npx\<close> runs\<close>

lemma run_npx_ran [simp]: "snd (run_npx npx success failure cmd) = Some cmd"
  by (simp add: run_npx_def)

lemma add_components_ran:
  assumes "add_components npx names fs i components overwrite = (r, Some cmd)"
  shows "components \<noteq> [] \<and> check_shadcn_config fs i \<and> \<not> in_dry i \<and>
    (\<exists>version installed. get_shadcn_version fs i = Inr version \<and> get_installed_components names fs i = Inr installed \<and>
       cmd = npx_command version components overwrite \<and> (overwrite \<or> set components \<inter> set installed = {}))"
  using assms
  by (auto simp: add_components_def run_npx_def Let_def filter_empty_conv split: if_splits sum.splits)

lemma add_all_ran:
  assumes "add_all_components npx fs i overwrite = (r, Some cmd)"
  shows "check_shadcn_config fs i \<and> \<not> in_dry i \<and>
    (\<exists>version. get_shadcn_version fs i = Inr version \<and> cmd = npx_command version [''--all''] overwrite)"
  using assms by (auto simp: add_all_components_def run_npx_def Let_def split: if_splits sum.splits)

subsection \<open>The version\<close>

lemma split_ws_no_space: "w \<in> set (split_ws s) \<Longrightarrow> w \<noteq> [] \<and> (\<forall>c \<in> set w. \<not> is_space c)"
  using split_on_parts [of w is_space s] by (auto simp: split_ws_def runs_def)

lemma bare_version_word:
  assumes "bare_version v = Inr version"
  shows "version \<noteq> [] \<and> (\<forall>c \<in> set version. \<not> is_space c)"
proof -
  from assms obtain s where v: "v = JString s" by (cases v) (simp_all add: bare_version_def)
  let ?words = "split_ws (dropWhile (\<lambda>c. c \<in> set ''^~>=<'') s)"
  from assms v have "version \<in> set ?words" by (cases ?words) (simp_all add: bare_version_def)
  then show ?thesis by (rule split_ws_no_space)
qed

text \<open>A version is one word without spaces: the pinned one, or the first word of a string of the project.\<close>

lemma section_version_word:
  "section_version pkg names = Inr version \<Longrightarrow> version \<noteq> [] \<and> (\<forall>c \<in> set version. \<not> is_space c)"
proof (induction pkg names rule: section_version.induct)
  case (1 pkg)
  then show ?case by (auto simp: pinned_version_def is_space_def code_def)
next
  case (2 pkg name names)
  then obtain deps v where d: "json_get pkg name (JObject []) = Inr deps" "json_get deps ''shadcn'' JNull = Inr v"
    by (auto split: sum.splits)
  show ?case
  proof (cases "truthy v")
    case True
    with 2(2) d have "bare_version v = Inr version" by simp
    then show ?thesis by (rule bare_version_word)
  next
    case False
    with 2 d show ?thesis by simp
  qed
qed

lemma pinned_version_word: "pinned_version \<noteq> [] \<and> (\<forall>c \<in> set pinned_version. \<not> is_space c)"
  by (simp add: pinned_version_def is_space_def code_def)

lemma shadcn_version_word:
  assumes "get_shadcn_version fs i = Inr version"
  shows "version \<noteq> [] \<and> (\<forall>c \<in> set version. \<not> is_space c)"
proof -
  note [simp del] = section_version.simps
  let ?pkg = "sub_path (in_root i) [''package.json'']"
  show ?thesis
  proof (cases "fs_exists fs ?pkg")
    case True
    with assms obtain content where "fs_files fs ?pkg = Some content"
      by (cases "fs_files fs ?pkg") (simp_all add: get_shadcn_version_def)
    with True assms consider "version = pinned_version"
      | pkg where "section_version pkg [''dependencies'', ''devDependencies''] = Inr version"
      by (cases "json_loads () plain_object content") (simp_all add: get_shadcn_version_def)
    then show ?thesis by cases (auto simp: pinned_version_word dest: section_version_word)
  next
    case False
    with assms pinned_version_word show ?thesis by (simp add: get_shadcn_version_def)
  qed
qed

end
