(* ===== verification/Html.thy ===== *)
theory Html
  imports PyBase
begin

text \<open>
  HTML as the scripts write it: \<open>html.escape\<close>, and a scanner that keeps of a document its tags without
  the contents of double-quoted attribute values. Two documents with the same markup differ only in
  text and in attribute values. A document with values is a list of parts; locale \<open>inert_values\<close> is what
  the values promise so that they cannot change its markup.
\<close>

subsection \<open>Escaping\<close>

definition escape_char :: "char \<Rightarrow> str" where
  "escape_char c =
     (if c = CHR ''&'' then ''&amp;''
      else if c = CHR ''<'' then ''&lt;''
      else if c = CHR ''>'' then ''&gt;''
      else if c = CHR 0x22 then ''&quot;''
      else if c = CHR 0x27 then ''&#x27;''
      else [c])"

definition html_escape :: "str \<Rightarrow> str" where
  "html_escape s = concat (map escape_char s)"

text \<open>What a browser makes of the references that escaping writes.\<close>

definition references :: "(str \<times> char) list" where
  "references =
     [(''&amp;'', CHR ''&''), (''&lt;'', CHR ''<''), (''&gt;'', CHR ''>''), (''&quot;'', CHR 0x22), (''&#x27;'', CHR 0x27)]"

fun html_unescape :: "str \<Rightarrow> str" where
  "html_unescape [] = []"
| "html_unescape (c # s) =
     (case find (\<lambda>(r, x). starts_with r (c # s)) references of
        Some (r, x) \<Rightarrow> x # html_unescape (drop (length r - 1) s)
      | None \<Rightarrow> c # html_unescape s)"

lemma html_unescape_escape_char: "html_unescape (escape_char c @ s) = c # html_unescape s"
  by (simp add: escape_char_def references_def)

lemma html_unescape_escape: "html_unescape (html_escape s) = s"
proof (induction s)
  case Nil
  show ?case by (simp add: html_escape_def)
next
  case (Cons c s)
  have "html_escape (c # s) = escape_char c @ html_escape s" by (simp add: html_escape_def)
  with Cons show ?case by (simp only: html_unescape_escape_char)
qed

subsection \<open>Markup\<close>

datatype html_state = InText | InTag | InQuotes

fun scan_char :: "html_state \<Rightarrow> char \<Rightarrow> html_state \<times> str" where
  "scan_char InText c = (if c = CHR ''<'' then (InTag, [c]) else (InText, []))"
| "scan_char InTag c = (if c = CHR ''>'' then (InText, [c]) else if c = CHR 0x22 then (InQuotes, [c]) else (InTag, [c]))"
| "scan_char InQuotes c = (if c = CHR 0x22 then (InTag, [c]) else (InQuotes, []))"

fun scan :: "html_state \<Rightarrow> str \<Rightarrow> html_state \<times> str" where
  "scan st [] = (st, [])"
| "scan st (c # s) = (case scan_char st c of (st', k) \<Rightarrow> case scan st' s of (st'', k') \<Rightarrow> (st'', k @ k'))"

definition inert :: "str \<Rightarrow> bool" where
  "inert s \<longleftrightarrow> CHR ''<'' \<notin> set s \<and> CHR 0x22 \<notin> set s"

lemma scan_append: "scan st (s @ t) = (case scan st s of (st', k) \<Rightarrow> case scan st' t of (st'', k') \<Rightarrow> (st'', k @ k'))"
  by (induction s arbitrary: st) (auto split: prod.splits)

lemma scan_inert: "inert s \<Longrightarrow> st \<noteq> InTag \<Longrightarrow> scan st s = (st, [])"
  by (induction s) (cases st; auto simp: inert_def)+

lemma inert_escape: "inert (html_escape s)"
  by (auto simp: inert_def html_escape_def escape_char_def split: if_splits)

lemma inert_append [simp]: "inert (s @ t) \<longleftrightarrow> inert s \<and> inert t"
  by (auto simp: inert_def)

lemma digit_char_inert: "CHR ''<'' \<noteq> digit_char m \<and> CHR 0x22 \<noteq> digit_char m"
proof -
  have "code CHR ''<'' = 60" "code CHR 0x22 = 34" by code_simp+
  then show ?thesis by (auto simp: digit_char_def simp flip: code_inject)
qed

lemma inert_digits: "inert (str_of_nat n)"
proof (induction n rule: str_of_nat.induct)
  case (1 n)
  then show ?case by (subst str_of_nat.simps) (auto simp: inert_def digit_char_inert)
qed

lemma inert_int: "inert (str_of_int n)"
  using inert_digits by (auto simp: str_of_int_def inert_def)

subsection \<open>Documents with values\<close>

datatype 'h part = Line str | Lit str | Hole 'h

fun render :: "('h \<Rightarrow> str) \<Rightarrow> 'h part \<Rightarrow> str" where
  "render inner (Line s) = s @ [newline]"
| "render inner (Lit s) = s"
| "render inner (Hole h) = inner h"

definition fill :: "('h \<Rightarrow> str) \<Rightarrow> 'h part list \<Rightarrow> str" where
  "fill inner ps = concat (map (render inner) ps)"

text \<open>
  The scanner on the parts, without their values: \<open>None\<close> if a value stands inside a tag without quotes
  around it.
\<close>

fun scan_parts :: "html_state \<Rightarrow> 'h part list \<Rightarrow> (html_state \<times> str) option" where
  "scan_parts st [] = Some (st, [])"
| "scan_parts st (Line s # ps) = (case scan st (s @ [newline]) of (st', k) \<Rightarrow> map_option (map_prod id ((@) k)) (scan_parts st' ps))"
| "scan_parts st (Lit s # ps) = (case scan st s of (st', k) \<Rightarrow> map_option (map_prod id ((@) k)) (scan_parts st' ps))"
| "scan_parts st (Hole _ # ps) = (if st = InTag then None else scan_parts st ps)"

definition text_to_text :: "'h part list \<Rightarrow> bool" where
  "text_to_text ps \<longleftrightarrow> (case scan_parts InText ps of Some (InText, k) \<Rightarrow> True | _ \<Rightarrow> False)"

definition markup_of :: "'h part list \<Rightarrow> str" where
  "markup_of ps = (case scan_parts InText ps of Some (st, k) \<Rightarrow> k | None \<Rightarrow> [])"

lemma fill_Nil [simp]: "fill inner [] = []"
  by (simp add: fill_def)

lemma fill_Cons [simp]: "fill inner (p # ps) = render inner p @ fill inner ps"
  by (simp add: fill_def)

lemma fill_append [simp]: "fill inner (ps @ qs) = fill inner ps @ fill inner qs"
  by (simp add: fill_def)

lemma scan_parts_append:
  "scan_parts st (ps @ qs) =
     (case scan_parts st ps of
        None \<Rightarrow> None
      | Some (st', k) \<Rightarrow> map_option (map_prod id ((@) k)) (scan_parts st' qs))"
  by (induction st ps rule: scan_parts.induct)
    (simp_all add: map_option_case map_prod_def split: prod.splits option.splits)

lemma text_to_text_append: "text_to_text ps \<Longrightarrow> text_to_text qs \<Longrightarrow> text_to_text (ps @ qs)"
  by (auto simp: text_to_text_def scan_parts_append split: option.splits prod.splits html_state.splits)

locale inert_values =
  fixes inner :: "'h \<Rightarrow> str"
  assumes inert: "inert (inner h)"
begin

lemma scan_fill: "scan_parts st ps = Some (st', k) \<Longrightarrow> scan st (fill inner ps) = (st', k)"
  by (induction st ps arbitrary: st' k rule: scan_parts.induct)
    (auto simp: scan_append scan_inert inert split: prod.splits if_splits)

lemma scan_text: "text_to_text ps \<Longrightarrow> scan InText (fill inner ps) = (InText, markup_of ps)"
  by (auto simp: text_to_text_def markup_of_def split: option.splits prod.splits html_state.splits intro!: scan_fill)

end

text \<open>Documents without values.\<close>

interpretation blank: inert_values "\<lambda>_. []"
  by unfold_locales (simp add: inert_def)

end
