(* ===== verification/Urls.thy ===== *)
theory Urls
  imports PyBase
begin

text \<open>
  \<open>urlsplit\<close> of the module \<open>urllib.parse\<close> and the attributes of its results, on ASCII text. Whether the text between brackets
  is an IPv6 address is an argument.
\<close>

record split_url =
  su_scheme :: str
  su_netloc :: str
  su_path :: str
  su_query :: str

definition url_clean :: "str \<Rightarrow> str" where
  "url_clean url = filter (\<lambda>c. code c \<notin> {9, 10, 13}) (dropWhile (\<lambda>c. code c \<le> 32) url)"

definition scheme_char :: "char \<Rightarrow> bool" where
  "scheme_char c \<longleftrightarrow> is_alnum c \<or> c \<in> {CHR ''+'', CHR ''-'', CHR ''.''}"

definition split_scheme :: "str \<Rightarrow> str \<times> str" where
  "split_scheme url =
     (case split_once CHR '':'' url of
        (s, Some rest) \<Rightarrow>
          if s \<noteq> [] \<and> (is_upper (hd s) \<or> is_lower (hd s)) \<and> list_all scheme_char s then (lower s, rest) else ([], url)
      | (s, None) \<Rightarrow> ([], url))"

definition split_netloc :: "str \<Rightarrow> str \<times> str" where
  "split_netloc rest =
     (if starts_with ''//'' rest
      then (takeWhile (\<lambda>c. c \<notin> {CHR ''/'', CHR ''?'', CHR ''#''}) (drop 2 rest),
            dropWhile (\<lambda>c. c \<notin> {CHR ''/'', CHR ''?'', CHR ''#''}) (drop 2 rest))
      else ([], rest))"

definition brackets_ok :: "(str \<Rightarrow> bool) \<Rightarrow> str \<Rightarrow> bool" where
  "brackets_ok is_ipv6 netloc \<longleftrightarrow>
     (CHR ''['' \<in> set netloc \<longleftrightarrow> CHR '']'' \<in> set netloc) \<and>
     (CHR ''['' \<in> set netloc \<longrightarrow>
        (case snd (split_once CHR ''['' netloc) of Some t \<Rightarrow> is_ipv6 (fst (split_once CHR '']'' t)) | None \<Rightarrow> False))"

text \<open>\<open>None\<close> is the \<open>ValueError\<close>.\<close>

definition url_split :: "(str \<Rightarrow> bool) \<Rightarrow> str \<Rightarrow> split_url option" where
  "url_split is_ipv6 url =
     (case split_scheme (url_clean url) of
        (scheme, rest) \<Rightarrow>
          case split_netloc rest of
            (netloc, t) \<Rightarrow>
              if \<not> brackets_ok is_ipv6 netloc then None
              else case split_once CHR ''?'' (fst (split_once CHR ''#'' t)) of
                     (path, query) \<Rightarrow>
                       Some \<lparr>su_scheme = scheme, su_netloc = netloc, su_path = path,
                         su_query = (case query of None \<Rightarrow> [] | Some q \<Rightarrow> q)\<rparr>)"

subsection \<open>Attributes\<close>

definition user_info :: "str \<Rightarrow> str option" where
  "user_info netloc =
     (if CHR ''@'' \<in> set netloc then Some (rev (tl (dropWhile (\<lambda>c. c \<noteq> CHR ''@'') (rev netloc)))) else None)"

definition host_info :: "str \<Rightarrow> str" where
  "host_info netloc = rev (takeWhile (\<lambda>c. c \<noteq> CHR ''@'') (rev netloc))"

definition url_username :: "split_url \<Rightarrow> str option" where
  "url_username u = map_option (\<lambda>i. fst (split_once CHR '':'' i)) (user_info (su_netloc u))"

definition url_password :: "split_url \<Rightarrow> str option" where
  "url_password u = (case user_info (su_netloc u) of None \<Rightarrow> None | Some i \<Rightarrow> snd (split_once CHR '':'' i))"

definition text_or_none :: "str option \<Rightarrow> str option" where
  "text_or_none s = (if s = Some [] then None else s)"

definition url_hostname :: "split_url \<Rightarrow> str option" where
  "url_hostname u =
     (let info = host_info (su_netloc u);
          host = (case split_once CHR ''['' info of
                    (_, Some t) \<Rightarrow> fst (split_once CHR '']'' t)
                  | (s, None) \<Rightarrow> fst (split_once CHR '':'' s))
      in if host = [] then None
         else case split_once CHR ''%'' host of
                (h, None) \<Rightarrow> Some (lower h)
              | (h, Some zone) \<Rightarrow> Some (lower h @ ''%'' @ zone))"

definition port_text :: "split_url \<Rightarrow> str option" where
  "port_text u =
     (let info = host_info (su_netloc u) in
      text_or_none
        (case split_once CHR ''['' info of
           (_, Some t) \<Rightarrow> (case snd (split_once CHR '']'' t) of None \<Rightarrow> None | Some p \<Rightarrow> snd (split_once CHR '':'' p))
         | (s, None) \<Rightarrow> snd (split_once CHR '':'' s)))"

text \<open>The outer \<open>None\<close> is the \<open>ValueError\<close>.\<close>

definition url_port :: "split_url \<Rightarrow> nat option option" where
  "url_port u =
     (case port_text u of
        None \<Rightarrow> Some None
      | Some p \<Rightarrow> if list_all is_digit p \<and> nat_of_digits p \<le> 65535 then Some (Some (nat_of_digits p)) else None)"

subsection \<open>Schemes\<close>

lemma space_code: "is_space c \<Longrightarrow> code c \<le> 32"
  by (auto simp: is_space_def)

lemma lower_char_code: "code c \<le> code (lower_char c)"
  by (simp add: lower_char_def is_upper_def)

lemma lower_char_not_lower: "lower_char c = d \<Longrightarrow> \<not> is_lower d \<Longrightarrow> c = d"
  by (auto simp: lower_char_def is_upper_def is_lower_def split: if_splits)

lemma starts_with_filter:
  "starts_with p (lower s) \<Longrightarrow> \<forall>c \<in> set p. \<forall>d. lower_char d = c \<longrightarrow> Q d \<Longrightarrow> starts_with p (lower (filter Q s))"
  by (induction p s rule: starts_with.induct) (auto simp: lower_def)

lemma starts_with_lower_append: "starts_with p (lower s) \<Longrightarrow> starts_with p (lower (s @ t))"
  by (induction p s rule: starts_with.induct) (auto simp: lower_def)

lemma clean_start:
  assumes "starts_with p (lower (strip u))" and "p \<noteq> []" and "\<forall>c \<in> set p. 32 < code c \<and> \<not> is_upper c"
  shows "starts_with p (lower (url_clean u))"
proof -
  let ?s = "dropWhile is_space u"
  have "?s = strip u @ rev (takeWhile is_space (rev ?s))"
    by (metis strip_by_def rev_append rev_rev_ident takeWhile_dropWhile_id)
  with assms(1) have start: "starts_with p (lower ?s)" by (metis starts_with_lower_append)
  then obtain c t where "?s = c # t" "lower_char c = hd p"
    using assms(2) by (cases p; cases ?s) (auto simp: lower_def)
  with assms(2,3) have "32 < code (lower_char c)" by (cases p) auto
  then have "32 < code c" by (auto simp: lower_char_def is_upper_def split: if_splits)
  then have "dropWhile (\<lambda>c. code c \<le> 32) ?s = ?s" by (simp add: \<open>?s = c # t\<close>)
  moreover have "dropWhile (\<lambda>c. code c \<le> 32) u = dropWhile (\<lambda>c. code c \<le> 32) (takeWhile is_space u @ ?s)" by simp
  moreover have "dropWhile (\<lambda>c. code c \<le> 32) (takeWhile is_space u @ ?s) = dropWhile (\<lambda>c. code c \<le> 32) ?s"
    by (rule dropWhile_append2) (auto dest!: set_takeWhileD space_code)
  ultimately have clean: "url_clean u = filter (\<lambda>c. code c \<notin> {9, 10, 13}) ?s" unfolding url_clean_def by simp
  have "code d \<notin> {9, 10, 13}" if "lower_char d \<in> set p" for d
  proof -
    from that assms(3) have "32 < code (lower_char d)" by blast
    then show ?thesis by (auto simp: lower_char_def is_upper_def split: if_splits)
  qed
  with start show ?thesis unfolding clean by (intro starts_with_filter) auto
qed

lemma starts_with_append_left: "starts_with (p @ q) s \<Longrightarrow> starts_with p s"
  by (induction p s rule: starts_with.induct) auto

lemma colon_prefix:
  "starts_with (p @ '':'') (lower t) \<Longrightarrow> CHR '':'' \<notin> set p \<Longrightarrow> \<exists>a b. split_once CHR '':'' t = (a, Some b) \<and> lower a = p"
proof (induction p arbitrary: t)
  case Nil
  have "\<not> is_lower CHR '':''" by code_simp
  then have "c = CHR '':''" if "lower_char c = CHR '':''" for c using that lower_char_not_lower by blast
  with Nil show ?case by (cases t) (auto simp: lower_def)
next
  case (Cons c p)
  then obtain d u where t: "t = d # u" "lower_char d = c" "starts_with (p @ '':'') (lower u)"
    by (cases t) (auto simp: lower_def)
  have "lower_char CHR '':'' = CHR '':''" by code_simp
  with Cons t(2) have "d \<noteq> CHR '':''" by auto
  with Cons.IH [OF t(3)] Cons.prems t show ?case by (auto simp: lower_def)
qed

text \<open>What starts like an address of the web, or like a reference within the site, has no other scheme.\<close>

lemma web_scheme:
  assumes "p \<in> {''http://'', ''https://'', ''#'', ''/''}" and "starts_with p (lower t)"
  shows "fst (split_scheme t) \<in> {[], ''http'', ''https''}"
proof -
  have code: "\<not> is_lower CHR ''#''" "\<not> is_lower CHR ''/''" "\<not> is_lower CHR '':''"
    "\<not> is_upper CHR ''#''" "\<not> is_upper CHR ''/''" "lower_char CHR '':'' = CHR '':''" by code_simp+
  have unlower: "lower_char c = CHR ''#'' \<longleftrightarrow> c = CHR ''#''" "lower_char c = CHR ''/'' \<longleftrightarrow> c = CHR ''/''" for c
    using code lower_char_not_lower [of c] by (auto simp: lower_char_def)
  from assms consider "starts_with ''#'' (lower t) \<or> starts_with ''/'' (lower t)"
    | "starts_with (''http'' @ '':'') (lower t)" | "starts_with (''https'' @ '':'') (lower t)"
    using starts_with_append_left [of "''http:''" "''//''"] starts_with_append_left [of "''https:''" "''//''"] by auto
  then show ?thesis
  proof cases
    case 1
    then have "t \<noteq> []" "CHR ''#'' = lower_char (hd t) \<or> CHR ''/'' = lower_char (hd t)"
      by (cases t; simp add: lower_def)+
    then have "hd t = CHR ''#'' \<or> hd t = CHR ''/''" by (metis unlower)
    then have "\<not> is_upper (hd t)" "\<not> is_lower (hd t)" using code by auto
    moreover have "fst (split_once CHR '':'' t) = [] \<or> hd (fst (split_once CHR '':'' t)) = hd t"
      by (cases t) (auto split: prod.splits)
    ultimately show ?thesis by (auto simp: split_scheme_def split: prod.splits option.splits)
  next
    case 2
    with colon_prefix [of "''http''" t] show ?thesis by (auto simp: split_scheme_def split: if_splits)
  next
    case 3
    with colon_prefix [of "''https''" t] show ?thesis by (auto simp: split_scheme_def split: if_splits)
  qed
qed

subsection \<open>Quoting\<close>

text \<open>\<open>urllib.parse.quote\<close>, byte by byte.\<close>

definition plain_byte :: "char \<Rightarrow> bool" where
  "plain_byte c \<longleftrightarrow> is_alnum c \<or> c \<in> set ''_.-~/''"

definition upper_hex :: "nat \<Rightarrow> char" where
  "upper_hex n = ''0123456789ABCDEF'' ! (n mod 16)"

definition url_quote :: "str \<Rightarrow> str" where
  "url_quote s = concat (map (\<lambda>c. if plain_byte c then [c] else [CHR ''%'', upper_hex (code c div 16), upper_hex (code c)]) s)"

lemma upper_hex_plain: "is_alnum (upper_hex n)"
proof -
  have "\<forall>i < 16. is_alnum (''0123456789ABCDEF'' ! i)" by code_simp
  then show ?thesis by (simp add: upper_hex_def)
qed

lemma url_quote_plain: "c \<in> set (url_quote s) \<Longrightarrow> plain_byte c \<or> c = CHR ''%''"
  by (auto simp: url_quote_def plain_byte_def upper_hex_plain split: if_splits)

text \<open>\<open>urllib.parse.quote_plus\<close>: the slash is quoted as well, and a blank is a plus sign.\<close>

definition quote_plus :: "str \<Rightarrow> str" where
  "quote_plus s = concat (map (\<lambda>c. if c = CHR '' '' then ''+'' else if c = CHR ''/'' then ''%2F'' else url_quote [c]) s)"

end
