(* ===== verification/PyNumbers.thy ===== *)
theory PyNumbers
  imports Complex_Main Regex
begin

text \<open>
  Numbers and their text: \<open>float\<close> and \<open>int\<close> on ASCII text, and the formats of f-strings. Floats are
  exact reals.
\<close>

subsection \<open>Reading numbers\<close>

text \<open>
  \<open>float(s)\<close> for text that is not infinite or not a number: a sign, digits with a point, an
  exponent, with single underscores between digits.
\<close>

definition digit_run :: rx where
  "digit_run = Seq (Cls is_digit) (Star (Seq (opt (lit ''_'')) (Cls is_digit)))"

definition float_rx :: rx where
  "float_rx = seqs
     [Grp 1 (opt (Cls (\<lambda>c. c = CHR ''-'' \<or> c = CHR ''+''))),
      Alt (seqs [Grp 2 digit_run, opt (Seq (lit ''.'') (opt (Grp 3 digit_run)))]) (Seq (lit ''.'') (Grp 3 digit_run)),
      opt (seqs [Cls (\<lambda>c. c = CHR ''e'' \<or> c = CHR ''E''), Grp 4 (opt (Cls (\<lambda>c. c = CHR ''-'' \<or> c = CHR ''+''))),
        Grp 5 digit_run])]"

definition digits_value :: "str \<Rightarrow> nat" where
  "digits_value s = nat_of_digits (filter is_digit s)"

definition float_of :: "str \<Rightarrow> real option" where
  "float_of s =
     map_option (\<lambda>m.
       let part = (\<lambda>n. get_or (m_groups m) n []); fraction = filter is_digit (part 3);
           mantissa = real (digits_value (part 2 @ part 3)) / 10 ^ length fraction;
           e = digits_value (part 5);
           size = (if part 4 = ''-'' then mantissa / 10 ^ e else mantissa * 10 ^ e)
       in if part 1 = ''-'' then - size else size)
       (rx_fullmatch float_rx (strip s))"

text \<open>\<open>int(s)\<close>.\<close>

definition int_rx :: rx where
  "int_rx = Seq (Grp 1 (opt (Cls (\<lambda>c. c = CHR ''-'' \<or> c = CHR ''+'')))) (Grp 2 digit_run)"

definition int_text :: "str \<Rightarrow> int option" where
  "int_text s =
     map_option (\<lambda>m.
       let n = int (digits_value (get_or (m_groups m) 2 [])) in if get_or (m_groups m) 1 [] = ''-'' then - n else n)
       (rx_fullmatch int_rx (strip s))"

subsection \<open>Writing numbers\<close>

text \<open>A number with \<open>d\<close> digits after the point.\<close>

definition fixed :: "nat \<Rightarrow> real \<Rightarrow> str" where
  "fixed d x =
     (let n = nat (round (x * 10 ^ d)); fraction = str_of_nat (n mod 10 ^ d)
      in str_of_nat (n div 10 ^ d) @ ''.'' @ replicate (d - length fraction) CHR ''0'' @ fraction)"

text \<open>A number in at least two digits.\<close>

definition two_digits :: "nat \<Rightarrow> str" where
  "two_digits n = (if n < 10 then CHR ''0'' # str_of_nat n else str_of_nat n)"

end
