(* ===== verification/PyJson.thy ===== *)
theory PyJson
  imports Json PyNumbers
begin

text \<open>
  Values from JSON as Python treats them: their text and their truth. What \<open>str\<close> gives for a number that
  is not an integer, a list or a dict is an argument.
\<close>

definition str_of_json :: "(json \<Rightarrow> str) \<Rightarrow> json \<Rightarrow> str" where
  "str_of_json py_str j =
     (case j of
        JNull \<Rightarrow> ''None''
      | JBool b \<Rightarrow> if b then ''True'' else ''False''
      | JString s \<Rightarrow> s
      | JNumber s \<Rightarrow> (case int_text s of Some n \<Rightarrow> str_of_int n | None \<Rightarrow> py_str j)
      | _ \<Rightarrow> py_str j)"

definition truthy :: "json \<Rightarrow> bool" where
  "truthy j =
     (case j of
        JNull \<Rightarrow> False
      | JBool b \<Rightarrow> b
      | JNumber s \<Rightarrow> float_of s \<noteq> Some 0
      | JString s \<Rightarrow> s \<noteq> []
      | JArray js \<Rightarrow> js \<noteq> []
      | JObject kvs \<Rightarrow> kvs \<noteq> [])"

text \<open>\<open>j == n\<close> for an integer.\<close>

definition equals_int :: "json \<Rightarrow> int \<Rightarrow> bool" where
  "equals_int j n =
     (case j of
        JNumber s \<Rightarrow> float_of s = Some (real_of_int n)
      | JBool b \<Rightarrow> n = (if b then 1 else 0)
      | _ \<Rightarrow> False)"

definition py_get :: "json dict \<Rightarrow> str \<Rightarrow> json" where
  "py_get d key = get_or d key JNull"

text \<open>Calls one after the other, the first exception ends them.\<close>

definition chain :: "'e + 'a \<Rightarrow> ('a \<Rightarrow> 'e + 'b) \<Rightarrow> 'e + 'b" where
  "chain m f = (case m of Inl e \<Rightarrow> Inl e | Inr x \<Rightarrow> f x)"

lemma chain_simps [simp]: "chain (Inl e) f = Inl e" "chain (Inr x) f = f x"
  by (simp_all add: chain_def)

lemma chain_Inr: "chain m f = Inr y \<longleftrightarrow> (\<exists>x. m = Inr x \<and> f x = Inr y)"
  by (cases m) simp_all

end
