(* ===== verification/SlideDeck.thy ===== *)
theory SlideDeck
  imports Html Urls Files PyJson
begin

text \<open>
  \<open>generate-slide.py\<close>: slides and decks in HTML from data in JSON. An f-string is a list of parts that
  \<open>fill\<close> renders for the data of a slide: literal text, \<open>_e(data.get(key, default))\<close>,
  \<open>_safe_url(data.get(key, default))\<close> and an \<open>int\<close>. What \<open>str\<close> gives for a number that is not an integer,
  a list or a dict is an argument. The markup of a deck depends on nothing but the types of its slides
  and the numbers of their cards and bars.
\<close>

subsection \<open>Values\<close>

datatype deck_error = AttributeError | TypeError | ValueError | OverflowError | FileNotFound | BadJson | OsFailure

definition esc_value :: "(json \<Rightarrow> str) \<Rightarrow> json \<Rightarrow> str" where
  "esc_value py_str v = html_escape (if v = JNull then [] else str_of_json py_str v)"

definition url_schemes :: "str list" where
  "url_schemes = [''http://'', ''https://'', ''#'', ''/'']"

text \<open>
  The text of a value that is false is not one of the accepted prefixes, so only the empty string would
  have to be told apart, and it is not either.
\<close>

definition safe_url :: "(json \<Rightarrow> str) \<Rightarrow> json \<Rightarrow> str" where
  "safe_url py_str v =
     (let u = str_of_json py_str v in
      if \<exists>p \<in> set url_schemes. starts_with p (lower (strip u)) then html_escape u else ''#'')"

text \<open>\<open>int(v)\<close>.\<close>

definition int_of_json :: "json \<Rightarrow> deck_error + int" where
  "int_of_json v =
     (case v of
        JNumber s \<Rightarrow>
          (case float_of s of
             Some x \<Rightarrow> Inr (if x < 0 then \<lceil>x\<rceil> else \<lfloor>x\<rfloor>)
           | None \<Rightarrow> Inl (if s = ''NaN'' then ValueError else OverflowError))
      | JBool b \<Rightarrow> Inr (if b then 1 else 0)
      | JString s \<Rightarrow> (case int_text s of Some n \<Rightarrow> Inr n | None \<Rightarrow> Inl ValueError)
      | _ \<Rightarrow> Inl TypeError)"

text \<open>What a loop over the value visits.\<close>

definition elements_of :: "json \<Rightarrow> deck_error + json list" where
  "elements_of v =
     (case v of
        JArray js \<Rightarrow> Inr js
      | JString s \<Rightarrow> Inr (map (\<lambda>c. JString [c]) s)
      | JObject kvs \<Rightarrow> Inr (map (\<lambda>(k, _). JString k) kvs)
      | _ \<Rightarrow> Inl TypeError)"

text \<open>\<open>v[:4]\<close>; for a dict it is a \<open>TypeError\<close> up to Python 3.11 and a \<open>KeyError\<close> later.\<close>

definition first_four :: "json \<Rightarrow> deck_error + json list" where
  "first_four v = (case v of JObject _ \<Rightarrow> Inl TypeError | _ \<Rightarrow> map_sum id (take 4) (elements_of v))"

subsection \<open>Values in slides\<close>

datatype deck_hole =
    Esc str str
  | Url str str
  | Num int

type_synonym deck_part = "deck_hole part"

fun value_text :: "(json \<Rightarrow> str) \<Rightarrow> json dict \<Rightarrow> deck_hole \<Rightarrow> str" where
  "value_text py_str d (Esc key v) = esc_value py_str (get_or d key (JString v))"
| "value_text py_str d (Url key v) = safe_url py_str (get_or d key (JString v))"
| "value_text py_str d (Num n) = str_of_int n"

abbreviation fill_slide :: "(json \<Rightarrow> str) \<Rightarrow> json dict \<Rightarrow> deck_part list \<Rightarrow> str" where
  "fill_slide py_str d \<equiv> fill (value_text py_str d)"

subsection \<open>The slides\<close>

definition title_parts :: "str \<Rightarrow> deck_part list" where
  "title_parts month =
    [Line [],
      Line ''    <section class=\"slide slide--glow flex flex-col items-center justify-center text-center\">'',
      Lit ''        <div class=\"badge mb-6\">'',
      Hole (Esc ''badge'' ''Pitch Deck''),
      Line ''</div>'',
      Lit ''        <h1 class=\"slide-title mb-6\">'',
      Hole (Esc ''title'' ''Your Title Here''),
      Line ''</h1>'',
      Lit ''        <p class=\"slide-subheading mb-8\">'',
      Hole (Esc ''subtitle'' ''Your compelling subtitle''),
      Line ''</p>'',
      Line ''        <div class=\"flex gap-4\">'',
      Lit ''            <a href=\"#\" class=\"btn btn-primary\">'',
      Hole (Esc ''cta'' ''Get Started''),
      Line ''</a>'',
      Lit ''            <a href=\"#\" class=\"btn btn-secondary\">'',
      Hole (Esc ''secondary_cta'' ''Learn More''),
      Line ''</a>'',
      Line ''        </div>'',
      Line ''        <div class=\"slide-footer\">'',
      Lit ''            <span>'',
      Hole (Esc ''company'' ''Company Name''),
      Line ''</span>'',
      Lit ''            <span>'',
      Hole (Esc ''date'' month),
      Line ''</span>'',
      Line ''        </div>'',
      Line ''    </section>'',
      Lit ''    '']"

definition problem_parts :: "deck_part list" where
  "problem_parts =
    [Line [],
      Line ''    <section class=\"slide slide--surface\">'',
      Line ''        <div class=\"badge mb-6\">The Problem</div>'',
      Lit ''        <h2 class=\"slide-heading mb-8\">'',
      Hole (Esc ''headline'' ''The problem your audience faces''),
      Line ''</h2>'',
      Line ''        <div class=\"grid grid-3 gap-8\">'',
      Line ''            <div class=\"card\">'',
      Line ''                <div class=\"text-primary\" style=\"font-size: var(--primitive-fontSize-4xl); margin-bottom: var(--primitive-spacing-4);\">01</div>'',
      Lit ''                <h4 style=\"margin-bottom: var(--primitive-spacing-2); font-size: var(--primitive-fontSize-xl);\">'',
      Hole (Esc ''pain_1_title'' ''Pain Point 1''),
      Line ''</h4>'',
      Lit ''                <p class=\"text-muted\">'',
      Hole (Esc ''pain_1_desc'' ''Description of the first pain point''),
      Line ''</p>'',
      Line ''            </div>'',
      Line ''            <div class=\"card\">'',
      Line ''                <div class=\"text-secondary\" style=\"font-size: var(--primitive-fontSize-4xl); margin-bottom: var(--primitive-spacing-4);\">02</div>'',
      Lit ''                <h4 style=\"margin-bottom: var(--primitive-spacing-2); font-size: var(--primitive-fontSize-xl);\">'',
      Hole (Esc ''pain_2_title'' ''Pain Point 2''),
      Line ''</h4>'',
      Lit ''                <p class=\"text-muted\">'',
      Hole (Esc ''pain_2_desc'' ''Description of the second pain point''),
      Line ''</p>'',
      Line ''            </div>'',
      Line ''            <div class=\"card\">'',
      Line ''                <div class=\"text-accent\" style=\"font-size: var(--primitive-fontSize-4xl); margin-bottom: var(--primitive-spacing-4);\">03</div>'',
      Lit ''                <h4 style=\"margin-bottom: var(--primitive-spacing-2); font-size: var(--primitive-fontSize-xl);\">'',
      Hole (Esc ''pain_3_title'' ''Pain Point 3''),
      Line ''</h4>'',
      Lit ''                <p class=\"text-muted\">'',
      Hole (Esc ''pain_3_desc'' ''Description of the third pain point''),
      Line ''</p>'',
      Line ''            </div>'',
      Line ''        </div>'',
      Line ''        <div class=\"slide-footer\">'',
      Lit ''            <span>'',
      Hole (Esc ''company'' ''Company Name''),
      Line ''</span>'',
      Lit ''            <span>'',
      Hole (Esc ''page'' ''2''),
      Line ''</span>'',
      Line ''        </div>'',
      Line ''    </section>'',
      Lit ''    '']"

definition solution_parts :: "deck_part list" where
  "solution_parts =
    [Line [],
      Line ''    <section class=\"slide\">'',
      Line ''        <div class=\"badge mb-6\">The Solution</div>'',
      Lit ''        <h2 class=\"slide-heading mb-8\">'',
      Hole (Esc ''headline'' ''How we solve this''),
      Line ''</h2>'',
      Line ''        <div class=\"flex gap-8\" style=\"flex: 1;\">'',
      Line ''            <div style=\"flex: 1;\">'',
      Line ''                <div class=\"feature-item\">'',
      Line ''                    <div class=\"feature-icon\">&#10003;</div>'',
      Line ''                    <div class=\"feature-content\">'',
      Lit ''                        <h4>'',
      Hole (Esc ''feature_1_title'' ''Feature 1''),
      Line ''</h4>'',
      Lit ''                        <p>'',
      Hole (Esc ''feature_1_desc'' ''Description of feature 1''),
      Line ''</p>'',
      Line ''                    </div>'',
      Line ''                </div>'',
      Line ''                <div class=\"feature-item\">'',
      Line ''                    <div class=\"feature-icon\">&#10003;</div>'',
      Line ''                    <div class=\"feature-content\">'',
      Lit ''                        <h4>'',
      Hole (Esc ''feature_2_title'' ''Feature 2''),
      Line ''</h4>'',
      Lit ''                        <p>'',
      Hole (Esc ''feature_2_desc'' ''Description of feature 2''),
      Line ''</p>'',
      Line ''                    </div>'',
      Line ''                </div>'',
      Line ''                <div class=\"feature-item\">'',
      Line ''                    <div class=\"feature-icon\">&#10003;</div>'',
      Line ''                    <div class=\"feature-content\">'',
      Lit ''                        <h4>'',
      Hole (Esc ''feature_3_title'' ''Feature 3''),
      Line ''</h4>'',
      Lit ''                        <p>'',
      Hole (Esc ''feature_3_desc'' ''Description of feature 3''),
      Line ''</p>'',
      Line ''                    </div>'',
      Line ''                </div>'',
      Line ''            </div>'',
      Line ''            <div style=\"flex: 1;\" class=\"card flex items-center justify-center\">'',
      Line ''                <div class=\"text-center\">'',
      Line ''                    <div class=\"text-accent\" style=\"font-size: 80px; margin-bottom: var(--primitive-spacing-4);\">&#9670;</div>'',
      Line ''                    <p class=\"text-muted\">Product screenshot or demo</p>'',
      Line ''                </div>'',
      Line ''            </div>'',
      Line ''        </div>'',
      Line ''        <div class=\"slide-footer\">'',
      Lit ''            <span>'',
      Hole (Esc ''company'' ''Company Name''),
      Line ''</span>'',
      Lit ''            <span>'',
      Hole (Esc ''page'' ''3''),
      Line ''</span>'',
      Line ''        </div>'',
      Line ''    </section>'',
      Lit ''    '']"

definition metric_parts :: "deck_part list" where
  "metric_parts =
    [Line [],
      Line ''        <div class=\"card metric\">'',
      Lit ''            <div class=\"metric-value\">'',
      Hole (Esc ''value'' []),
      Line ''</div>'',
      Lit ''            <div class=\"metric-label\">'',
      Hole (Esc ''label'' []),
      Line ''</div>'',
      Line ''        </div>'',
      Lit ''    '']"

definition metrics_top :: "deck_part list" where
  "metrics_top =
    [Line [],
      Line ''    <section class=\"slide slide--surface slide--glow\">'',
      Line ''        <div class=\"badge mb-6\">Traction</div>'',
      Lit ''        <h2 class=\"slide-heading mb-8 text-center\">'',
      Hole (Esc ''headline'' ''Our Growth''),
      Line ''</h2>'',
      Line ''        <div class=\"grid grid-4 gap-6\" style=\"flex: 1; align-items: center;\">'',
      Lit ''            '']"

definition metrics_bottom :: "deck_part list" where
  "metrics_bottom =
    [Line [],
      Line ''        </div>'',
      Line ''        <div class=\"slide-footer\">'',
      Lit ''            <span>'',
      Hole (Esc ''company'' ''Company Name''),
      Line ''</span>'',
      Lit ''            <span>'',
      Hole (Esc ''page'' ''4''),
      Line ''</span>'',
      Line ''        </div>'',
      Line ''    </section>'',
      Lit ''    '']"

definition bar_parts :: "str \<Rightarrow> int \<Rightarrow> deck_part list" where
  "bar_parts percent n =
    [Line [],
      Lit ''        <div class=\"bar\" style=\"height: '',
      Hole (Num n),
      Line ''%;\">'',
      Lit ''            <span class=\"bar-value\">'',
      Hole (Esc ''display'' percent),
      Line ''</span>'',
      Lit ''            <span class=\"bar-label\">'',
      Hole (Esc ''label'' []),
      Line ''</span>'',
      Line ''        </div>'',
      Lit ''    '']"

definition chart_top :: "deck_part list" where
  "chart_top =
    [Line [],
      Line ''    <section class=\"slide\">'',
      Lit ''        <div class=\"badge mb-6\">'',
      Hole (Esc ''badge'' ''Growth''),
      Line ''</div>'',
      Lit ''        <h2 class=\"slide-heading mb-8\">'',
      Hole (Esc ''headline'' ''Revenue Growth''),
      Line ''</h2>'',
      Line ''        <div class=\"chart-container\" style=\"flex: 1;\">'',
      Lit ''            <div class=\"chart-title\">'',
      Hole (Esc ''chart_title'' ''Quarterly Revenue''),
      Line ''</div>'',
      Line ''            <div class=\"bar-chart\" style=\"flex: 1; padding-bottom: 40px;\">'',
      Lit ''                '']"

definition chart_bottom :: "deck_part list" where
  "chart_bottom =
    [Line [],
      Line ''            </div>'',
      Line ''        </div>'',
      Line ''        <div class=\"slide-footer\">'',
      Lit ''            <span>'',
      Hole (Esc ''company'' ''Company Name''),
      Line ''</span>'',
      Lit ''            <span>'',
      Hole (Esc ''page'' ''5''),
      Line ''</span>'',
      Line ''        </div>'',
      Line ''    </section>'',
      Lit ''    '']"

definition testimonial_parts :: "deck_part list" where
  "testimonial_parts =
    [Line [],
      Line ''    <section class=\"slide slide--surface flex flex-col justify-center\">'',
      Line ''        <div class=\"badge mb-6\">What They Say</div>'',
      Line ''        <div class=\"testimonial\" style=\"max-width: 900px;\">'',
      Lit ''            <p class=\"testimonial-quote\">\"'',
      Hole (Esc ''quote'' ''This product changed how we work. Incredible results.''),
      Line ''\"</p>'',
      Lit ''            <p class=\"testimonial-author\">'',
      Hole (Esc ''author'' ''Jane Doe''),
      Line ''</p>'',
      Lit ''            <p class=\"testimonial-role\">'',
      Hole (Esc ''role'' ''CEO, Example Company''),
      Line ''</p>'',
      Line ''        </div>'',
      Line ''        <div class=\"slide-footer\">'',
      Lit ''            <span>'',
      Hole (Esc ''company'' ''Company Name''),
      Line ''</span>'',
      Lit ''            <span>'',
      Hole (Esc ''page'' ''6''),
      Line ''</span>'',
      Line ''        </div>'',
      Line ''    </section>'',
      Lit ''    '']"

definition cta_parts :: "deck_part list" where
  "cta_parts =
    [Line [],
      Line ''    <section class=\"slide slide--gradient flex flex-col items-center justify-center text-center\">'',
      Lit ''        <h2 class=\"slide-heading mb-6\" style=\"color: var(--color-foreground);\">'',
      Hole (Esc ''headline'' ''Ready to get started?''),
      Line ''</h2>'',
      Lit ''        <p class=\"slide-body mb-8\" style=\"color: rgba(255,255,255,0.8);\">'',
      Hole (Esc ''subheadline'' ''Join thousands of teams already using our solution.''),
      Line ''</p>'',
      Line ''        <div class=\"flex gap-4\">'',
      Lit ''            <a href=\"'',
      Hole (Url ''cta_url'' ''#''),
      Lit ''\" class=\"btn\" style=\"background: var(--color-foreground); color: var(--color-primary);\">'',
      Hole (Esc ''cta'' ''Start Free Trial''),
      Line ''</a>'',
      Line ''        </div>'',
      Line ''        <div class=\"slide-footer\" style=\"border-color: rgba(255,255,255,0.2); color: rgba(255,255,255,0.6);\">'',
      Lit ''            <span>'',
      Hole (Esc ''contact'' ''contact@example.com''),
      Line ''</span>'',
      Lit ''            <span>'',
      Hole (Esc ''website'' ''www.example.com''),
      Line ''</span>'',
      Line ''        </div>'',
      Line ''    </section>'',
      Lit ''    '']"

definition default_metrics :: json where
  "default_metrics = JArray (map (\<lambda>(v, l). JObject [(''value'', JString v), (''label'', JString l)])
     [(''10K+'', ''Active Users''), (''95%'', ''Retention Rate''), (''3x'', ''Revenue Growth''), (''$2M'', ''ARR'')])"

definition default_bars :: json where
  "default_bars = JArray (map (\<lambda>(l, v). JObject [(''label'', JString l), (''value'', JNumber v)])
     [(''Q1'', ''40''), (''Q2'', ''60''), (''Q3'', ''80''), (''Q4'', ''100'')])"

text \<open>Each element must have a \<open>get\<close>; the first that fails ends the loop.\<close>

fun each_dict :: "(json dict \<Rightarrow> deck_error + str) \<Rightarrow> json list \<Rightarrow> deck_error + str" where
  "each_dict f [] = Inr []"
| "each_dict f (JObject d # js) =
     (case f d of Inl e \<Rightarrow> Inl e | Inr s \<Rightarrow> map_sum id ((@) s) (each_dict f js))"
| "each_dict f (_ # js) = Inl AttributeError"

definition metric_html :: "(json \<Rightarrow> str) \<Rightarrow> json dict \<Rightarrow> deck_error + str" where
  "metric_html py_str m = Inr (fill_slide py_str m metric_parts)"

definition bar_html :: "(json \<Rightarrow> str) \<Rightarrow> json dict \<Rightarrow> deck_error + str" where
  "bar_html py_str b =
     (let v = get_or b ''value'' (JNumber ''0'') in
      map_sum id (\<lambda>n. fill_slide py_str b (bar_parts (str_of_json py_str v @ ''%'') n)) (int_of_json v))"

definition generate_metrics_slide :: "(json \<Rightarrow> str) \<Rightarrow> json dict \<Rightarrow> deck_error + str" where
  "generate_metrics_slide py_str d =
     (case first_four (get_or d ''metrics'' default_metrics) of
        Inl e \<Rightarrow> Inl e
      | Inr ms \<Rightarrow>
          map_sum id (\<lambda>metrics_html. fill_slide py_str d metrics_top @ metrics_html @ fill_slide py_str d metrics_bottom)
            (each_dict (metric_html py_str) ms))"

definition generate_chart_slide :: "(json \<Rightarrow> str) \<Rightarrow> json dict \<Rightarrow> deck_error + str" where
  "generate_chart_slide py_str d =
     (case elements_of (get_or d ''bars'' default_bars) of
        Inl e \<Rightarrow> Inl e
      | Inr bs \<Rightarrow>
          map_sum id (\<lambda>bars_html. fill_slide py_str d chart_top @ bars_html @ fill_slide py_str d chart_bottom)
            (each_dict (bar_html py_str) bs))"

definition SLIDE_GENERATORS :: "str \<Rightarrow> (json \<Rightarrow> str) \<Rightarrow> (json dict \<Rightarrow> deck_error + str) dict" where
  "SLIDE_GENERATORS month py_str =
     [(''title'', \<lambda>d. Inr (fill_slide py_str d (title_parts month))),
      (''problem'', \<lambda>d. Inr (fill_slide py_str d problem_parts)),
      (''solution'', \<lambda>d. Inr (fill_slide py_str d solution_parts)),
      (''metrics'', generate_metrics_slide py_str),
      (''traction'', generate_metrics_slide py_str),
      (''chart'', generate_chart_slide py_str),
      (''testimonial'', \<lambda>d. Inr (fill_slide py_str d testimonial_parts)),
      (''cta'', \<lambda>d. Inr (fill_slide py_str d cta_parts)),
      (''closing'', \<lambda>d. Inr (fill_slide py_str d cta_parts))]"

subsection \<open>The template\<close>

text \<open>\<open>SLIDE_TEMPLATE\<close> in the pieces between its three fields, with the doubled braces of \<open>format\<close> as they are printed.\<close>

definition template_top :: "deck_part list" where
  "template_top =
    [Line ''<!DOCTYPE html>'',
      Line ''<html lang=\"en\" data-theme=\"dark\">'',
      Line ''<head>'',
      Line ''    <meta charset=\"UTF-8\">'',
      Line ''    <meta name=\"viewport\" content=\"width=device-width, initial-scale=1.0\">'',
      Lit ''    <title>'']"

definition template_fonts :: "deck_part list" where
  "template_fonts =
    [Line ''</title>'',
      Line [],
      Line ''    <!-- Brand Fonts -->'',
      Line ''    <link rel=\"preconnect\" href=\"https://fonts.googleapis.com\">'',
      Line ''    <link href=\"https://fonts.googleapis.com/css2?family=Space+Grotesk:wght@500;600;700&family=Inter:wght@400;500;600&family=JetBrains+Mono:wght@400&display=swap\" rel=\"stylesheet\">'',
      Line [],
      Line ''    <!-- Design Tokens - SINGLE SOURCE OF TRUTH -->'',
      Lit ''    <link rel=\"stylesheet\" href=\"'']"

definition css_reset :: "deck_part list" where
  "css_reset =
    [Line ''\">'',
      Line [],
      Line ''    <style>'',
      Line ''        /* ============================================'',
      Line ''           STRICT TOKEN USAGE - NO HARDCODED VALUES'',
      Line ''           All styles MUST use var(--token-name)'',
      Line ''           ============================================ */'',
      Line [],
      Line ''        * {'',
      Line ''            margin: 0;'',
      Line ''            padding: 0;'',
      Line ''            box-sizing: border-box;'',
      Line ''        }'',
      Line [],
      Line ''        html, body {'',
      Line ''            width: 100%;'',
      Line ''            height: 100%;'',
      Line ''        }'',
      Line [],
      Line ''        body {'',
      Line ''            font-family: var(--typography-font-body);'',
      Line ''            background: var(--color-background);'',
      Line ''            color: var(--color-foreground);'',
      Line ''            line-height: var(--primitive-lineHeight-relaxed);'',
      Line ''        }'',
      Line []]"

definition css_deck :: "deck_part list" where
  "css_deck =
    [Line ''        /* Slide Container - 16:9 aspect ratio */'',
      Line ''        .slide-deck {'',
      Line ''            width: 100%;'',
      Line ''            max-width: 1920px;'',
      Line ''            margin: 0 auto;'',
      Line ''        }'',
      Line [],
      Line ''        .slide {'',
      Line ''            width: 100%;'',
      Line ''            aspect-ratio: 16 / 9;'',
      Line ''            padding: var(--slide-padding);'',
      Line ''            background: var(--slide-bg);'',
      Line ''            display: flex;'',
      Line ''            flex-direction: column;'',
      Line ''            position: relative;'',
      Line ''            overflow: hidden;'',
      Line ''        }'',
      Line [],
      Line ''        .slide + .slide {'',
      Line ''            margin-top: var(--primitive-spacing-8);'',
      Line ''        }'',
      Line [],
      Line ''        /* Background Variants */'',
      Line ''        .slide--surface {'',
      Line ''            background: var(--slide-bg-surface);'',
      Line ''        }'',
      Line [],
      Line ''        .slide--gradient {'',
      Line ''            background: var(--slide-bg-gradient);'',
      Line ''        }'',
      Line [],
      Line ''        .slide--glow::before {'',
      Line (''            content: '' @ [CHR 0x27] @ [CHR 0x27] @ '';''),
      Line ''            position: absolute;'',
      Line ''            top: 50%;'',
      Line ''            left: 50%;'',
      Line ''            transform: translate(-50%, -50%);'',
      Line ''            width: 150%;'',
      Line ''            height: 150%;'',
      Line ''            background: var(--primitive-gradient-glow);'',
      Line ''            pointer-events: none;'',
      Line ''        }'',
      Line []]"

definition css_type :: "deck_part list" where
  "css_type =
    [Line ''        /* Typography - MUST use token fonts and sizes */'',
      Line ''        h1, h2, h3, h4, h5, h6 {'',
      Line ''            font-family: var(--typography-font-heading);'',
      Line ''            font-weight: var(--primitive-fontWeight-bold);'',
      Line ''            line-height: var(--primitive-lineHeight-tight);'',
      Line ''        }'',
      Line [],
      Line ''        .slide-title {'',
      Line ''            font-size: var(--slide-title-size);'',
      Line ''            background: var(--primitive-gradient-primary);'',
      Line ''            -webkit-background-clip: text;'',
      Line ''            -webkit-text-fill-color: transparent;'',
      Line ''            background-clip: text;'',
      Line ''        }'',
      Line [],
      Line ''        .slide-heading {'',
      Line ''            font-size: var(--slide-heading-size);'',
      Line ''            color: var(--color-foreground);'',
      Line ''        }'',
      Line [],
      Line ''        .slide-subheading {'',
      Line ''            font-size: var(--primitive-fontSize-3xl);'',
      Line ''            color: var(--color-foreground-secondary);'',
      Line ''            font-weight: var(--primitive-fontWeight-medium);'',
      Line ''        }'',
      Line [],
      Line ''        .slide-body {'',
      Line ''            font-size: var(--slide-body-size);'',
      Line ''            color: var(--color-foreground-secondary);'',
      Line ''            max-width: 80ch;'',
      Line ''        }'',
      Line [],
      Line ''        /* Brand Colors - Primary/Secondary/Accent */'',
      Line ''        .text-primary { color: var(--color-primary); }'',
      Line ''        .text-secondary { color: var(--color-secondary); }'',
      Line ''        .text-accent { color: var(--color-accent); }'',
      Line ''        .text-muted { color: var(--color-foreground-muted); }'',
      Line [],
      Line ''        .bg-primary { background: var(--color-primary); }'',
      Line ''        .bg-secondary { background: var(--color-secondary); }'',
      Line ''        .bg-accent { background: var(--color-accent); }'',
      Line ''        .bg-surface { background: var(--color-surface); }'',
      Line []]"

definition css_cards :: "deck_part list" where
  "css_cards =
    [Line ''        /* Cards - Using component tokens */'',
      Line ''        .card {'',
      Line ''            background: var(--card-bg);'',
      Line ''            border: 1px solid var(--card-border);'',
      Line ''            border-radius: var(--card-radius);'',
      Line ''            padding: var(--card-padding);'',
      Line ''            box-shadow: var(--card-shadow);'',
      Line ''            transition: border-color var(--primitive-duration-base) var(--primitive-easing-out);'',
      Line ''        }'',
      Line [],
      Line ''        .card:hover {'',
      Line ''            border-color: var(--card-border-hover);'',
      Line ''        }'',
      Line []]"

definition css_buttons :: "deck_part list" where
  "css_buttons =
    [Line ''        /* Buttons - Using component tokens */'',
      Line ''        .btn {'',
      Line ''            display: inline-flex;'',
      Line ''            align-items: center;'',
      Line ''            justify-content: center;'',
      Line ''            padding: var(--button-primary-padding-y) var(--button-primary-padding-x);'',
      Line ''            border-radius: var(--button-primary-radius);'',
      Line ''            font-size: var(--button-primary-font-size);'',
      Line ''            font-weight: var(--button-primary-font-weight);'',
      Line ''            font-family: var(--typography-font-body);'',
      Line ''            text-decoration: none;'',
      Line ''            cursor: pointer;'',
      Line ''            border: none;'',
      Line ''            transition: all var(--primitive-duration-base) var(--primitive-easing-out);'',
      Line ''        }'',
      Line [],
      Line ''        .btn-primary {'',
      Line ''            background: var(--button-primary-bg);'',
      Line ''            color: var(--button-primary-fg);'',
      Line ''            box-shadow: var(--button-primary-shadow);'',
      Line ''        }'',
      Line [],
      Line ''        .btn-primary:hover {'',
      Line ''            background: var(--button-primary-bg-hover);'',
      Line ''        }'',
      Line [],
      Line ''        .btn-secondary {'',
      Line ''            background: transparent;'',
      Line ''            color: var(--color-primary);'',
      Line ''            border: 2px solid var(--color-primary);'',
      Line ''        }'',
      Line []]"

definition css_layout :: "deck_part list" where
  "css_layout =
    [Line ''        /* Layout Utilities */'',
      Line ''        .flex { display: flex; }'',
      Line ''        .flex-col { flex-direction: column; }'',
      Line ''        .items-center { align-items: center; }'',
      Line ''        .justify-center { justify-content: center; }'',
      Line ''        .justify-between { justify-content: space-between; }'',
      Line ''        .gap-4 { gap: var(--primitive-spacing-4); }'',
      Line ''        .gap-6 { gap: var(--primitive-spacing-6); }'',
      Line ''        .gap-8 { gap: var(--primitive-spacing-8); }'',
      Line [],
      Line ''        .grid { display: grid; }'',
      Line ''        .grid-2 { grid-template-columns: repeat(2, 1fr); }'',
      Line ''        .grid-3 { grid-template-columns: repeat(3, 1fr); }'',
      Line ''        .grid-4 { grid-template-columns: repeat(4, 1fr); }'',
      Line [],
      Line ''        .text-center { text-align: center; }'',
      Line ''        .mt-auto { margin-top: auto; }'',
      Line ''        .mb-4 { margin-bottom: var(--primitive-spacing-4); }'',
      Line ''        .mb-6 { margin-bottom: var(--primitive-spacing-6); }'',
      Line ''        .mb-8 { margin-bottom: var(--primitive-spacing-8); }'',
      Line []]"

definition css_metrics :: "deck_part list" where
  "css_metrics =
    [Line ''        /* Metric Cards */'',
      Line ''        .metric {'',
      Line ''            text-align: center;'',
      Line ''            padding: var(--primitive-spacing-6);'',
      Line ''        }'',
      Line [],
      Line ''        .metric-value {'',
      Line ''            font-family: var(--typography-font-heading);'',
      Line ''            font-size: var(--primitive-fontSize-6xl);'',
      Line ''            font-weight: var(--primitive-fontWeight-bold);'',
      Line ''            background: var(--primitive-gradient-primary);'',
      Line ''            -webkit-background-clip: text;'',
      Line ''            -webkit-text-fill-color: transparent;'',
      Line ''            background-clip: text;'',
      Line ''        }'',
      Line [],
      Line ''        .metric-label {'',
      Line ''            font-size: var(--primitive-fontSize-lg);'',
      Line ''            color: var(--color-foreground-secondary);'',
      Line ''            margin-top: var(--primitive-spacing-2);'',
      Line ''        }'',
      Line []]"

definition css_features :: "deck_part list" where
  "css_features =
    [Line ''        /* Feature List */'',
      Line ''        .feature-item {'',
      Line ''            display: flex;'',
      Line ''            align-items: flex-start;'',
      Line ''            gap: var(--primitive-spacing-4);'',
      Line ''            padding: var(--primitive-spacing-4) 0;'',
      Line ''        }'',
      Line [],
      Line ''        .feature-icon {'',
      Line ''            width: 48px;'',
      Line ''            height: 48px;'',
      Line ''            border-radius: var(--primitive-radius-lg);'',
      Line ''            background: var(--color-surface-elevated);'',
      Line ''            display: flex;'',
      Line ''            align-items: center;'',
      Line ''            justify-content: center;'',
      Line ''            color: var(--color-primary);'',
      Line ''            font-size: var(--primitive-fontSize-xl);'',
      Line ''            flex-shrink: 0;'',
      Line ''        }'',
      Line [],
      Line ''        .feature-content h4 {'',
      Line ''            font-size: var(--primitive-fontSize-xl);'',
      Line ''            color: var(--color-foreground);'',
      Line ''            margin-bottom: var(--primitive-spacing-2);'',
      Line ''        }'',
      Line [],
      Line ''        .feature-content p {'',
      Line ''            color: var(--color-foreground-secondary);'',
      Line ''            font-size: var(--primitive-fontSize-base);'',
      Line ''        }'',
      Line []]"

definition css_testimonial :: "deck_part list" where
  "css_testimonial =
    [Line ''        /* Testimonial */'',
      Line ''        .testimonial {'',
      Line ''            background: var(--color-surface);'',
      Line ''            border-radius: var(--primitive-radius-xl);'',
      Line ''            padding: var(--primitive-spacing-8);'',
      Line ''            border-left: 4px solid var(--color-primary);'',
      Line ''        }'',
      Line [],
      Line ''        .testimonial-quote {'',
      Line ''            font-size: var(--primitive-fontSize-2xl);'',
      Line ''            color: var(--color-foreground);'',
      Line ''            font-style: italic;'',
      Line ''            margin-bottom: var(--primitive-spacing-6);'',
      Line ''        }'',
      Line [],
      Line ''        .testimonial-author {'',
      Line ''            font-size: var(--primitive-fontSize-lg);'',
      Line ''            color: var(--color-primary);'',
      Line ''            font-weight: var(--primitive-fontWeight-semibold);'',
      Line ''        }'',
      Line [],
      Line ''        .testimonial-role {'',
      Line ''            font-size: var(--primitive-fontSize-base);'',
      Line ''            color: var(--color-foreground-muted);'',
      Line ''        }'',
      Line [],
      Line ''        /* Badge/Tag */'',
      Line ''        .badge {'',
      Line ''            display: inline-block;'',
      Line ''            padding: var(--primitive-spacing-2) var(--primitive-spacing-4);'',
      Line ''            background: var(--color-surface-elevated);'',
      Line ''            border-radius: var(--primitive-radius-full);'',
      Line ''            font-size: var(--primitive-fontSize-sm);'',
      Line ''            color: var(--color-accent);'',
      Line ''            font-weight: var(--primitive-fontWeight-medium);'',
      Line ''        }'',
      Line []]"

definition css_chart :: "deck_part list" where
  "css_chart =
    [Line ''        /* Chart Container */'',
      Line ''        .chart-container {'',
      Line ''            background: var(--color-surface);'',
      Line ''            border-radius: var(--primitive-radius-xl);'',
      Line ''            padding: var(--primitive-spacing-6);'',
      Line ''            height: 100%;'',
      Line ''            display: flex;'',
      Line ''            flex-direction: column;'',
      Line ''        }'',
      Line [],
      Line ''        .chart-title {'',
      Line ''            font-family: var(--typography-font-heading);'',
      Line ''            font-size: var(--primitive-fontSize-xl);'',
      Line ''            color: var(--color-foreground);'',
      Line ''            margin-bottom: var(--primitive-spacing-4);'',
      Line ''        }'',
      Line [],
      Line ''        /* CSS-only Bar Chart */'',
      Line ''        .bar-chart {'',
      Line ''            display: flex;'',
      Line ''            align-items: flex-end;'',
      Line ''            gap: var(--primitive-spacing-4);'',
      Line ''            height: 200px;'',
      Line ''            padding-top: var(--primitive-spacing-4);'',
      Line ''        }'',
      Line [],
      Line ''        .bar {'',
      Line ''            flex: 1;'',
      Line ''            background: var(--primitive-gradient-primary);'',
      Line ''            border-radius: var(--primitive-radius-md) var(--primitive-radius-md) 0 0;'',
      Line ''            position: relative;'',
      Line ''            min-width: 40px;'',
      Line ''        }'',
      Line [],
      Line ''        .bar-label {'',
      Line ''            position: absolute;'',
      Line ''            bottom: -30px;'',
      Line ''            left: 50%;'',
      Line ''            transform: translateX(-50%);'',
      Line ''            font-size: var(--primitive-fontSize-sm);'',
      Line ''            color: var(--color-foreground-muted);'',
      Line ''            white-space: nowrap;'',
      Line ''        }'',
      Line [],
      Line ''        .bar-value {'',
      Line ''            position: absolute;'',
      Line ''            top: -25px;'',
      Line ''            left: 50%;'',
      Line ''            transform: translateX(-50%);'',
      Line ''            font-size: var(--primitive-fontSize-sm);'',
      Line ''            color: var(--color-foreground);'',
      Line ''            font-weight: var(--primitive-fontWeight-semibold);'',
      Line ''        }'',
      Line []]"

definition css_footer_progress :: "deck_part list" where
  "css_footer_progress =
    [Line ''        /* Progress Bar */'',
      Line ''        .progress {'',
      Line ''            height: 12px;'',
      Line ''            background: var(--color-surface-elevated);'',
      Line ''            border-radius: var(--primitive-radius-full);'',
      Line ''            overflow: hidden;'',
      Line ''        }'',
      Line [],
      Line ''        .progress-fill {'',
      Line ''            height: 100%;'',
      Line ''            background: var(--primitive-gradient-primary);'',
      Line ''            border-radius: var(--primitive-radius-full);'',
      Line ''        }'',
      Line []]"

definition css_footer :: "deck_part list" where
  "css_footer =
    [Line ''        /* Footer */'',
      Line ''        .slide-footer {'',
      Line ''            margin-top: auto;'',
      Line ''            display: flex;'',
      Line ''            justify-content: space-between;'',
      Line ''            align-items: center;'',
      Line ''            padding-top: var(--primitive-spacing-6);'',
      Line ''            border-top: 1px solid var(--color-border);'',
      Line ''            color: var(--color-foreground-muted);'',
      Line ''            font-size: var(--primitive-fontSize-sm);'',
      Line ''        }'',
      Line [],
      Line ''        /* Glow Effects */'',
      Line ''        .glow-coral {'',
      Line ''            box-shadow: var(--primitive-shadow-glow-coral);'',
      Line ''        }'',
      Line [],
      Line ''        .glow-purple {'',
      Line ''            box-shadow: var(--primitive-shadow-glow-purple);'',
      Line ''        }'',
      Line [],
      Line ''        .glow-mint {'',
      Line ''            box-shadow: var(--primitive-shadow-glow-mint);'',
      Line ''        }'',
      Line ''    </style>'',
      Line ''</head>'',
      Line ''<body>'',
      Line ''    <div class=\"slide-deck\">'',
      Lit ''        '']"

definition template_end :: "deck_part list" where
  "template_end =
    [Line [],
      Line ''    </div>'',
      Line ''</body>'',
      Line ''</html>'']"

subsection \<open>Decks\<close>

definition template_css :: "deck_part list" where
  "template_css = css_reset @ css_deck @ css_type @ css_cards @ css_buttons @ css_layout @ css_metrics @ css_features @
     css_testimonial @ css_chart @ css_footer_progress @ css_footer"

definition slide_page :: "str \<Rightarrow> str \<Rightarrow> str" where
  "slide_page title slides_html =
     (let literal = fill (\<lambda>_. []) in
      literal template_top @ html_escape title @ literal template_fonts @ ''../../../assets/design-tokens.css'' @
      literal template_css @ slides_html @ literal template_end)"

text \<open>
  One slide: the HTML to append and the lines printed. A type that is not hashable raises.
\<close>

definition generate_slide :: "str \<Rightarrow> (json \<Rightarrow> str) \<Rightarrow> json \<Rightarrow> deck_error + str list \<times> str" where
  "generate_slide month py_str slide =
     (case slide of
        JObject d \<Rightarrow>
          (case get_or d ''type'' (JString ''title'') of
             JArray _ \<Rightarrow> Inl TypeError
           | JObject _ \<Rightarrow> Inl TypeError
           | slide_type \<Rightarrow>
               (case (case slide_type of JString t \<Rightarrow> get (SLIDE_GENERATORS month py_str) t | _ \<Rightarrow> None) of
                  Some generator \<Rightarrow> map_sum id (\<lambda>html. ([], html)) (generator d)
                | None \<Rightarrow> Inr ([(''Warning: Unknown slide type '' @ [CHR 0x27] @ (str_of_json py_str slide_type) @ [CHR 0x27])], [])))
      | _ \<Rightarrow> Inl AttributeError)"

text \<open>The lines printed before a slide raises stay printed.\<close>

fun slides_loop :: "str \<Rightarrow> (json \<Rightarrow> str) \<Rightarrow> json list \<Rightarrow> str list \<times> (deck_error + str)" where
  "slides_loop month py_str [] = ([], Inr [])"
| "slides_loop month py_str (slide # slides) =
     (case generate_slide month py_str slide of
        Inl e \<Rightarrow> ([], Inl e)
      | Inr (lines, html) \<Rightarrow>
          map_prod ((@) lines) (map_sum id ((@) html)) (slides_loop month py_str slides))"

definition generate_deck :: "str \<Rightarrow> (json \<Rightarrow> str) \<Rightarrow> json \<Rightarrow> str \<Rightarrow> str list \<times> (deck_error + str)" where
  "generate_deck month py_str slides_data title =
     (case elements_of slides_data of
        Inl e \<Rightarrow> ([], Inl e)
      | Inr slides \<Rightarrow> map_prod id (map_sum id (slide_page title)) (slides_loop month py_str slides))"

definition demo_slides :: json where
  "demo_slides = JArray
    [ JObject
        [(''type'', JString ''title''),
         (''badge'', JString ''Investor Deck 2024''),
         (''title'', JString ''ClaudeKit Marketing''),
         (''subtitle'', JString ''Your AI marketing team. Always on.''),
         (''cta'', JString ''Join Waitlist''),
         (''secondary_cta'', JString ''See Demo''),
         (''company'', JString ''ClaudeKit''),
         (''date'', JString ''December 2024'')],
      JObject
        [(''type'', JString ''problem''),
         (''headline'', JString ''Marketing teams are drowning''),
         (''pain_1_title'', JString ''Content Overload''),
         (''pain_1_desc'', JString ''Need to produce 10x content with same headcount''),
         (''pain_2_title'', JString ''Tool Fatigue''),
         (''pain_2_desc'', JString ''15+ tools that don't talk to each other''),
         (''pain_3_title'', JString ''No Time to Think''),
         (''pain_3_desc'', JString ''Strategy suffers when execution consumes all hours''),
         (''company'', JString ''ClaudeKit''),
         (''page'', JString ''2'')],
      JObject
        [(''type'', JString ''solution''),
         (''headline'', JString ''AI agents that actually get marketing''),
         (''feature_1_title'', JString ''Content Creation''),
         (''feature_1_desc'', JString ''Blog posts, social, email - all on brand, all on time''),
         (''feature_2_title'', JString ''Campaign Management''),
         (''feature_2_desc'', JString ''Multi-channel orchestration with one command''),
         (''feature_3_title'', JString ''Analytics & Insights''),
         (''feature_3_desc'', JString ''Real-time optimization without the spreadsheets''),
         (''company'', JString ''ClaudeKit''),
         (''page'', JString ''3'')],
      JObject
        [(''type'', JString ''metrics''),
         (''headline'', JString ''Early traction speaks volumes''),
         (''metrics'', JArray [JObject [(''value'', JString ''500+''), (''label'', JString ''Beta Users'')], JObject [(''value'', JString ''85%''), (''label'', JString ''Weekly Active'')], JObject [(''value'', JString ''4.9''), (''label'', JString ''NPS Score'')], JObject [(''value'', JString ''50hrs''), (''label'', JString ''Saved/Week'')]]),
         (''company'', JString ''ClaudeKit''),
         (''page'', JString ''4'')],
      JObject
        [(''type'', JString ''chart''),
         (''badge'', JString ''Revenue''),
         (''headline'', JString ''Growing month over month''),
         (''chart_title'', JString ''MRR Growth ($K)''),
         (''bars'', JArray [JObject [(''label'', JString ''Sep''), (''value'', JNumber ''20''), (''display'', JString ''$5K'')], JObject [(''label'', JString ''Oct''), (''value'', JNumber ''40''), (''display'', JString ''$12K'')], JObject [(''label'', JString ''Nov''), (''value'', JNumber ''70''), (''display'', JString ''$28K'')], JObject [(''label'', JString ''Dec''), (''value'', JNumber ''100''), (''display'', JString ''$45K'')]]),
         (''company'', JString ''ClaudeKit''),
         (''page'', JString ''5'')],
      JObject
        [(''type'', JString ''testimonial''),
         (''quote'', JString ''ClaudeKit replaced 3 tools and 2 contractors. Our content output tripled while costs dropped 60%.''),
         (''author'', JString ''Sarah Chen''),
         (''role'', JString ''Head of Marketing, TechStartup''),
         (''company'', JString ''ClaudeKit''),
         (''page'', JString ''6'')],
      JObject
        [(''type'', JString ''cta''),
         (''headline'', JString ''Ship campaigns while you sleep''),
         (''subheadline'', JString ''Early access available. Limited spots.''),
         (''cta'', JString ''Join the Waitlist''),
         (''contact'', JString ''hello@claudekit.ai''),
         (''website'', JString ''claudekit.ai'')]]"

subsection \<open>The command\<close>

text \<open>
  After the parsing of its arguments. The text of the help, the directory of the output and what the
  clock says in the formats used are arguments; the result holds the lines printed, the exception that
  ends the command, if any, and the files it leaves.
\<close>

record deck_args =
  dk_json :: "str option"
  dk_output :: "str option"
  dk_demo :: bool

record deck_clock =
  ck_month :: str
  ck_day :: str
  ck_minute :: str

definition save_deck :: "str \<Rightarrow> path \<Rightarrow> str \<Rightarrow> filesystem \<Rightarrow> (str list \<times> deck_error option) \<times> filesystem" where
  "save_deck label p html fs =
     (case make_dirs (parent_path p) fs of
        None \<Rightarrow> (([], Some OsFailure), fs)
      | Some fs' \<Rightarrow>
          (case write_text p html fs' of
             None \<Rightarrow> (([], Some OsFailure), fs')
           | Some fs'' \<Rightarrow> (([(label @ '': '' @ (path_str p))], None), fs'')))"

definition print_deck ::
  "str list \<times> (deck_error + str) \<Rightarrow> (str \<Rightarrow> filesystem \<Rightarrow> (str list \<times> deck_error option) \<times> filesystem) \<Rightarrow> filesystem \<Rightarrow>
   (str list \<times> deck_error option) \<times> filesystem" where
  "print_deck deck save fs =
     (case deck of
        (warnings, Inl e) \<Rightarrow> ((warnings, Some e), fs)
      | (warnings, Inr html) \<Rightarrow> map_prod (map_prod ((@) warnings) id) id (save html fs))"

definition deck_main ::
  "str \<Rightarrow> path \<Rightarrow> deck_clock \<Rightarrow> (json \<Rightarrow> str) \<Rightarrow> deck_args \<Rightarrow> filesystem \<Rightarrow> (str list \<times> deck_error option) \<times> filesystem" where
  "deck_main help_text out_dir now py_str arg fs =
     (if dk_demo arg
      then print_deck (generate_deck (ck_month now) py_str demo_slides ''ClaudeKit Marketing - Pitch Deck'')
             (save_deck ''Demo deck generated'' (sub_path out_dir [(''demo-pitch-'' @ (ck_day now) @ ''.html'')])) fs
      else case dk_json arg of
             Some (c # f) \<Rightarrow>
               (case fs_files fs (path_of (c # f)) of
                  None \<Rightarrow> (([], Some FileNotFound), fs)
                | Some content \<Rightarrow>
                    (case json_loads () plain_object content of
                       Inl _ \<Rightarrow> (([], Some BadJson), fs)
                     | Inr (JObject d) \<Rightarrow>
                         print_deck
                           (generate_deck (ck_month now) py_str (get_or d ''slides'' (JArray []))
                              (str_of_json py_str (get_or d ''title'' (JString ''Presentation''))))
                           (save_deck ''Deck generated''
                              (case dk_output arg of
                                 Some (o1 # os) \<Rightarrow> path_of (o1 # os)
                               | _ \<Rightarrow> sub_path out_dir [(''deck-'' @ (ck_minute now) @ ''.html'')])) fs
                     | Inr _ \<Rightarrow> (([], Some AttributeError), fs)))
           | _ \<Rightarrow> (([help_text], None), fs))"

subsection \<open>Markup\<close>

lemma inert_texts: "inert (esc_value py_str v)" "inert (safe_url py_str v)"
  using inert_escape by (auto simp: esc_value_def safe_url_def Let_def inert_def)

interpretation deck: inert_values "value_text py_str d" for py_str d
proof
  show "inert (value_text py_str d h)" for h by (cases h) (simp_all add: inert_texts inert_int)
qed

lemma slides_are_text:
  "text_to_text problem_parts" "text_to_text solution_parts" "text_to_text metric_parts" "text_to_text metrics_top" 
  "text_to_text metrics_bottom" "text_to_text chart_top" "text_to_text chart_bottom" "text_to_text testimonial_parts"
  "text_to_text cta_parts"
  by code_simp+

lemma title_is_text: "text_to_text (title_parts month)"
  by code_simp

lemma bar_is_text: "text_to_text (bar_parts percent n)"
  by code_simp

lemma scan_each:
  assumes "\<And>d s. f d = Inr s \<Longrightarrow> scan InText s = (InText, k)" and "each_dict f js = Inr html"
  shows "scan InText html = (InText, concat (replicate (length js) k))"
  using assms(2)
proof (induction js arbitrary: html)
  case (Cons j js)
  then obtain d s t where "j = JObject d" "f d = Inr s" "each_dict f js = Inr t" "html = s @ t"
    by (cases j) (auto simp: map_sum_def split: sum.splits)
  with Cons.IH assms(1) show ?case by (simp add: scan_append)
qed simp

lemma title_markup: "markup_of (title_parts month) = markup_of (title_parts [])"
  by (simp only: markup_of_def title_parts_def scan_parts.simps)

lemma bar_markup: "markup_of (bar_parts percent n) = markup_of (bar_parts [] 0)"
  by (simp only: markup_of_def bar_parts_def scan_parts.simps)

text \<open>The type of a slide that is generated, with the number of its cards or bars, and the markup it gives.\<close>

definition blocks :: "str \<Rightarrow> json dict \<Rightarrow> nat" where
  "blocks t d =
     (case (if t = ''chart'' then elements_of (get_or d ''bars'' default_bars)
            else first_four (get_or d ''metrics'' default_metrics)) of
        Inr js \<Rightarrow> if t \<in> {''metrics'', ''traction'', ''chart''} then length js else 0
      | Inl e \<Rightarrow> 0)"

definition slide_shape :: "json \<Rightarrow> (str \<times> nat) option" where
  "slide_shape slide =
     (case slide of
        JObject d \<Rightarrow>
          (case get_or d ''type'' (JString ''title'') of
             JString t \<Rightarrow> if has_key (SLIDE_GENERATORS [] (\<lambda>_. [])) t then Some (t, blocks t d) else None
           | _ \<Rightarrow> None)
      | _ \<Rightarrow> None)"

definition plain_parts :: "deck_part list dict" where
  "plain_parts =
     [(''title'', title_parts []), (''problem'', problem_parts), (''solution'', solution_parts),
      (''testimonial'', testimonial_parts), (''cta'', cta_parts), (''closing'', cta_parts)]"

definition shape_markup :: "(str \<times> nat) option \<Rightarrow> str" where
  "shape_markup shape =
     (case shape of
        None \<Rightarrow> []
      | Some (t, n) \<Rightarrow>
          (case get plain_parts t of
             Some ps \<Rightarrow> markup_of ps
           | None \<Rightarrow>
               if t = ''chart''
               then markup_of chart_top @ concat (replicate n (markup_of (bar_parts [] 0))) @ markup_of chart_bottom
               else markup_of metrics_top @ concat (replicate n (markup_of metric_parts)) @ markup_of metrics_bottom))"

lemma metrics_markup:
  assumes "generate_metrics_slide py_str d = Inr html" and "t = ''metrics'' \<or> t = ''traction''"
  shows "scan InText html = (InText, shape_markup (Some (t, blocks t d)))"
proof -
  from assms(1) obtain ms cards where ms: "first_four (get_or d ''metrics'' default_metrics) = Inr ms"
    and cards: "each_dict (metric_html py_str) ms = Inr cards"
    and html: "html = fill_slide py_str d metrics_top @ cards @ fill_slide py_str d metrics_bottom"
    by (auto simp: generate_metrics_slide_def map_sum_def split: sum.splits)
  have "scan InText cards = (InText, concat (replicate (length ms) (markup_of metric_parts)))"
    by (rule scan_each [OF _ cards]) (auto simp: metric_html_def deck.scan_text slides_are_text)
  moreover have "blocks t d = length ms" using assms(2) ms by (auto simp: blocks_def)
  moreover have "get plain_parts t = None" "t \<noteq> ''chart''" using assms(2) by (auto simp: plain_parts_def)
  ultimately show ?thesis
    by (simp add: html scan_append deck.scan_text slides_are_text shape_markup_def)
qed

lemma chart_markup:
  assumes "generate_chart_slide py_str d = Inr html"
  shows "scan InText html = (InText, shape_markup (Some (''chart'', blocks ''chart'' d)))"
proof -
  from assms obtain bs bars where bs: "elements_of (get_or d ''bars'' default_bars) = Inr bs"
    and bars: "each_dict (bar_html py_str) bs = Inr bars"
    and html: "html = fill_slide py_str d chart_top @ bars @ fill_slide py_str d chart_bottom"
    by (auto simp: generate_chart_slide_def map_sum_def split: sum.splits)
  have "scan InText bars = (InText, concat (replicate (length bs) (markup_of (bar_parts [] 0))))"
    by (rule scan_each [OF _ bars])
      (auto simp: bar_html_def Let_def map_sum_def deck.scan_text bar_is_text bar_markup [of "_ @ _"] split: sum.splits)
  moreover have "blocks ''chart'' d = length bs" using bs by (simp add: blocks_def)
  moreover have "get plain_parts ''chart'' = None" by (simp add: plain_parts_def)
  ultimately show ?thesis
    by (simp add: html scan_append deck.scan_text slides_are_text shape_markup_def)
qed

lemma type_cases:
  "has_key (SLIDE_GENERATORS month py_str) t \<longleftrightarrow>
   t \<in> {''title'', ''problem'', ''solution'', ''metrics'', ''traction'', ''chart'', ''testimonial'', ''cta'', ''closing''}"
  by (auto simp: SLIDE_GENERATORS_def has_key_def)

lemma plain_markup:
  assumes "get (SLIDE_GENERATORS month py_str) t = Some generator" "generator d = Inr html" "get plain_parts t = Some ps"
  shows "scan InText html = (InText, markup_of ps)"
  using assms
  by (auto simp: SLIDE_GENERATORS_def plain_parts_def deck.scan_text slides_are_text title_is_text title_markup [of month]
      split: if_splits)

lemma generator_markup:
  assumes "get (SLIDE_GENERATORS month py_str) t = Some generator" "generator d = Inr html"
  shows "scan InText html = (InText, shape_markup (Some (t, blocks t d)))"
proof (cases "get plain_parts t")
  case (Some ps)
  with plain_markup [OF assms] show ?thesis by (simp add: shape_markup_def)
next
  case None
  with assms have "t \<in> {''metrics'', ''traction''} \<and> generate_metrics_slide py_str d = Inr html \<or>
      t = ''chart'' \<and> generate_chart_slide py_str d = Inr html"
    by (auto simp: SLIDE_GENERATORS_def plain_parts_def split: if_splits)
  with metrics_markup chart_markup show ?thesis by blast
qed

lemma slide_markup:
  assumes "generate_slide month py_str slide = Inr (lines, html)"
  shows "scan InText html = (InText, shape_markup (slide_shape slide))"
proof -
  from assms obtain d where d: "slide = JObject d" by (cases slide) (simp_all add: generate_slide_def)
  show ?thesis
  proof (cases "\<exists>t. get_or d ''type'' (JString ''title'') = JString t \<and> has_key (SLIDE_GENERATORS month py_str) t")
    case True
    then obtain t generator where t: "get_or d ''type'' (JString ''title'') = JString t"
      and g: "get (SLIDE_GENERATORS month py_str) t = Some generator"
      by (auto simp: has_key_def)
    with assms d have "generator d = Inr html" by (auto simp: generate_slide_def map_sum_def split: sum.splits)
    moreover have "slide_shape slide = Some (t, blocks t d)"
      using True t d type_cases [of month py_str t] type_cases [of "[]" "\<lambda>_. []" t] by (simp add: slide_shape_def)
    ultimately show ?thesis using generator_markup [OF g] by simp
  next
    case False
    with assms d have "html = []"
      by (auto simp: generate_slide_def has_key_def split: json.splits option.splits)
    moreover have "slide_shape slide = None"
      using False d type_cases [of month py_str] type_cases [of "[]" "\<lambda>_. []"]
      by (auto simp: slide_shape_def split: json.splits)
    ultimately show ?thesis by (simp add: shape_markup_def)
  qed
qed

lemma loop_markup:
  "slides_loop month py_str slides = (lines, Inr html) \<Longrightarrow>
   scan InText html = (InText, concat (map (\<lambda>s. shape_markup (slide_shape s)) slides))"
proof (induction slides arbitrary: lines html)
  case (Cons slide slides)
  then obtain ls h ls' h' where h: "generate_slide month py_str slide = Inr (ls, h)"
      "slides_loop month py_str slides = (ls', Inr h')" "html = h @ h'"
    by (cases "slides_loop month py_str slides"; cases "generate_slide month py_str slide")
      (auto simp: map_sum_def split: sum.splits prod.splits)
  with Cons.IH slide_markup [OF h(1)] show ?case by (simp add: scan_append)
qed simp

lemma page_states:
  "case scan_parts InText template_top of Some (InText, k) \<Rightarrow> True | _ \<Rightarrow> False"
  "case scan_parts InText template_fonts of Some (InQuotes, k) \<Rightarrow> True | _ \<Rightarrow> False"
  "case scan_parts InQuotes css_reset of Some (InText, k) \<Rightarrow> True | _ \<Rightarrow> False"
  "case scan_parts InText template_end of Some (InText, k) \<Rightarrow> True | _ \<Rightarrow> False"
  by code_simp+

lemma css_is_text:
  "list_all text_to_text
     [css_deck, css_type, css_cards, css_buttons, css_layout, css_metrics, css_features, css_testimonial, css_chart,
      css_footer_progress, css_footer]"
  by code_simp

lemma page_markup:
  "\<exists>before after. \<forall>title html m. scan InText html = (InText, m) \<longrightarrow>
     scan InText (slide_page title html) = (InText, before @ m @ after)"
proof -
  obtain k1 k2 k3 k4 where k: "scan_parts InText template_top = Some (InText, k1)"
      "scan_parts InText template_fonts = Some (InQuotes, k2)" "scan_parts InQuotes css_reset = Some (InText, k3)"
      "scan_parts InText template_end = Some (InText, k4)"
    using page_states by (auto split: option.splits prod.splits html_state.splits)
  have "\<exists>k. scan InQuotes (fill (\<lambda>_. []) template_css) = (InText, k)"
    using css_is_text by (simp add: template_css_def scan_append k(3) [THEN blank.scan_fill] blank.scan_text)
  then obtain k3' where css: "scan InQuotes (fill (\<lambda>_. []) template_css) = (InText, k3')" by blast
  have "inert ''../../../assets/design-tokens.css''" by code_simp
  then have "scan InText (slide_page title html) = (InText, (k1 @ k2 @ k3') @ m @ k4)"
    if "scan InText html = (InText, m)" for title html m
    using that inert_escape [of title]
    by (simp add: slide_page_def Let_def scan_append scan_inert css k [THEN blank.scan_fill])
  then show ?thesis by blast
qed

lemma deck_markup:
  "\<exists>before after. \<forall>month py_str slides title lines html.
     generate_deck month py_str (JArray slides) title = (lines, Inr html) \<longrightarrow>
     scan InText html = (InText, before @ concat (map (\<lambda>s. shape_markup (slide_shape s)) slides) @ after)"
proof -
  obtain b a where page: "\<And>title html m. scan InText html = (InText, m) \<Longrightarrow>
      scan InText (slide_page title html) = (InText, b @ m @ a)"
    using page_markup by blast
  have "scan InText html = (InText, b @ concat (map (\<lambda>s. shape_markup (slide_shape s)) slides) @ a)"
    if deck: "generate_deck month py_str (JArray slides) title = (lines, Inr html)" for month py_str slides title lines html
  proof -
    obtain body where "slides_loop month py_str slides = (lines, Inr body)" "html = slide_page title body"
      using deck by (cases "slides_loop month py_str slides") (auto simp: generate_deck_def elements_of_def map_sum_def split: sum.splits)
    with page loop_markup show ?thesis by blast
  qed
  then show ?thesis by blast
qed

subsection \<open>Links\<close>

lemma safe_link:
  "\<exists>u. safe_url py_str v = html_escape u \<and> fst (split_scheme (url_clean u)) \<in> {[], ''http'', ''https''}"
proof (cases "\<exists>p \<in> set url_schemes. starts_with p (lower (strip (str_of_json py_str v)))")
  case True
  then obtain p where p: "p \<in> set url_schemes" "starts_with p (lower (strip (str_of_json py_str v)))" by blast
  have "\<forall>p \<in> set url_schemes. p \<noteq> [] \<and> list_all (\<lambda>c. 32 < code c \<and> \<not> is_upper c) p" by code_simp
  with p(1) have "p \<noteq> []" "\<forall>c \<in> set p. 32 < code c \<and> \<not> is_upper c" by (auto simp: list_all_iff)
  with p(2) have "starts_with p (lower (url_clean (str_of_json py_str v)))" by (intro clean_start)
  moreover have "p \<in> {''http://'', ''https://'', ''#'', ''/''}" using p(1) by (simp add: url_schemes_def)
  ultimately have "fst (split_scheme (url_clean (str_of_json py_str v))) \<in> {[], ''http'', ''https''}" by (intro web_scheme)
  with True show ?thesis by (auto simp: safe_url_def)
next
  case False
  have "html_escape ''#'' = ''#''" "split_scheme (url_clean ''#'') = ([], ''#'')" by code_simp+
  with False show ?thesis by (intro exI [of _ "''#''"]) (simp add: safe_url_def)
qed
end
