(* ===== verification/SlideSearch.thy ===== *)
theory SlideSearch
  imports Search
begin

text \<open>
  The search of the slide scripts: \<open>slide_search_core.py\<close> with its own class \<open>BM25\<close> (lines 14 to
  177), the decision tables and the contextual search (180 to 453). Tables of the model read a data
  directory at rest; \<open>Inl\<close> is the exception of a file that exists and cannot be read.
\<close>

subsection \<open>The ranking\<close>

definition simple_tokenize :: "str \<Rightarrow> str list" where
  "simple_tokenize text = filter (\<lambda>w. 2 < py_len w) (split_ws (blank_punctuation (lower text)))"

text \<open>A document counts once for each of its words, in the order they first occur.\<close>

definition simple_fit :: "str list \<Rightarrow> bm25" where
  "simple_fit texts =
     (let docs = map simple_tokenize texts; n = length docs in
      if n = 0 then bm25_new\<lparr>corpus := docs, N := n\<rparr>
      else
        let lens = map length docs;
            dfs = foldl (\<lambda>df doc. foldl (\<lambda>df word. bump word df) df (rev (remdups (rev doc)))) [] docs
        in bm25_new\<lparr>corpus := docs, N := n, doc_lengths := lens,
              avgdl := real (sum_list lens) / real n, doc_freqs := dfs,
              idf := foldl (\<lambda>d (word, freq). put word (idf_weight n freq) d) [] dfs\<rparr>)"

definition simple_token_score :: "bm25 \<Rightarrow> nat \<Rightarrow> str \<Rightarrow> real" where
  "simple_token_score idx i token =
     (case get (idf idx) token of
        None \<Rightarrow> 0
      | Some w \<Rightarrow>
          (let tf = real (get_or (term_freq (corpus idx ! i)) token 0);
               numerator = tf * (k1 idx + 1);
               denominator = tf + k1 idx * (1 - b idx + b idx * real (doc_lengths idx ! i) / avgdl idx)
           in w * numerator / denominator))"

definition simple_score :: "bm25 \<Rightarrow> str \<Rightarrow> (nat \<times> real) list" where
  "simple_score idx query =
     (let query_tokens = simple_tokenize query
      in sort_desc snd (map (\<lambda>i. (i, foldl (\<lambda>s token. s + simple_token_score idx i token) 0 query_tokens))
           [0..<length (corpus idx)]))"

subsection \<open>It keeps the promises of a ranking\<close>

definition simple_hits :: "str \<Rightarrow> str \<Rightarrow> bool" where
  "simple_hits query doc \<longleftrightarrow> set (simple_tokenize query) \<inter> set (simple_tokenize doc) \<noteq> {}"

definition simple_counts :: "nat dict \<Rightarrow> str list list \<Rightarrow> nat dict" where
  "simple_counts d docs = foldl (\<lambda>df doc. foldl (\<lambda>df word. bump word df) df (rev (remdups (rev doc)))) d docs"

lemma simple_counts_freq: "get_or (simple_counts d docs) w 0 = get_or d w 0 + doc_count docs w"
proof (induction docs arbitrary: d)
  case (Cons doc docs)
  have "count_list (rev (remdups (rev doc))) w = (if w \<in> set doc then 1 else 0)"
    by (subst count_list_distinct) auto
  with Cons show ?case by (simp add: simple_counts_def get_or_foldl_bump doc_count_def)
qed (simp add: simple_counts_def doc_count_def)

lemma keys_simple_counts: "set (keys (simple_counts d docs)) = set (keys d) \<union> \<Union> (set ` set docs)"
  by (induction docs arbitrary: d) (auto simp: simple_counts_def keys_foldl_bump)

lemma distinct_simple_counts: "distinct (keys d) \<Longrightarrow> distinct (keys (simple_counts d docs))"
  by (induction docs arbitrary: d) (simp_all add: simple_counts_def distinct_foldl_bump)

lemma simple_fit_simps [simp]:
  "corpus (simple_fit docs) = map simple_tokenize docs"
  "docs \<noteq> [] \<Longrightarrow> doc_lengths (simple_fit docs) = map length (map simple_tokenize docs)"
  "docs \<noteq> [] \<Longrightarrow> avgdl (simple_fit docs) = real (sum_list (map length (map simple_tokenize docs))) / real (length docs)"
  "k1 (simple_fit docs) = 3 / 2" "b (simple_fit docs) = 3 / 4"
  by (simp_all add: simple_fit_def bm25_new_def Let_def)

lemma idf_simple_fit:
  "get (idf (simple_fit docs)) w =
     (if \<exists>doc \<in> set docs. w \<in> set (simple_tokenize doc)
      then Some (idf_weight (length docs) (doc_count (map simple_tokenize docs) w)) else None)"
proof -
  let ?c = "simple_counts [] (map simple_tokenize docs)"
  have d: "distinct (map fst ?c)" using distinct_simple_counts [of "[]"] by (simp add: keys_def)
  have i: "idf (simple_fit docs) = foldl (\<lambda>d (word, freq). put word (idf_weight (length docs) freq) d) [] ?c"
    by (simp add: simple_fit_def bm25_new_def Let_def simple_counts_def)
  have k: "get ?c w = None \<longleftrightarrow> \<not> (\<exists>doc \<in> set docs. w \<in> set (simple_tokenize doc))"
    using keys_simple_counts [of "[]" "map simple_tokenize docs"] by (auto simp: map_of_eq_None_iff keys_def)
  have v: "get ?c w = Some f \<Longrightarrow> f = doc_count (map simple_tokenize docs) w" for f
    using simple_counts_freq [of "[]" "map simple_tokenize docs" w] by (simp add: get_or_def)
  show ?thesis unfolding i map_of_foldl_put [OF d] using k v by (auto split: option.splits)
qed

text \<open>No division by zero is reached: a token with a weight is in some document, so the mean length is positive.\<close>

lemma simple_avgdl_pos: "doc \<in> set docs \<Longrightarrow> t \<in> set (simple_tokenize doc) \<Longrightarrow> 0 < avgdl (simple_fit docs)"
proof -
  assume d: "doc \<in> set docs" "t \<in> set (simple_tokenize doc)"
  then have "0 < length (simple_tokenize doc)" by (auto simp: length_greater_0_conv)
  also have "\<dots> \<le> sum_list (map length (map simple_tokenize docs))"
    using d(1) by (intro member_le_sum_list) auto
  finally have "0 < real (sum_list (map length (map simple_tokenize docs)))" by simp
  moreover have "docs \<noteq> []" using d(1) by auto
  ultimately show ?thesis by (subst simple_fit_simps(3)) (auto intro: divide_pos_pos)
qed

lemma score_sign:
  fixes w rest :: real
  assumes "0 < w" and "0 < rest"
  shows "0 \<le> w * (real n * (3 / 2 + 1)) / (real n + rest) \<and>
    (0 < w * (real n * (3 / 2 + 1)) / (real n + rest) \<longleftrightarrow> 0 < n)"
  using assms by (cases "n = 0") (simp_all add: add_nonneg_pos)

lemma simple_token_score_fit:
  assumes "i < length docs"
  shows "0 \<le> simple_token_score (simple_fit docs) i t \<and>
    (0 < simple_token_score (simple_fit docs) i t \<longleftrightarrow> t \<in> set (simple_tokenize (docs ! i)))"
proof (cases "get (idf (simple_fit docs)) t")
  case None
  then have "t \<notin> set (simple_tokenize (docs ! i))" using assms by (auto simp: idf_simple_fit split: if_splits)
  with None show ?thesis by (simp add: simple_token_score_def)
next
  case (Some w)
  let ?doc = "simple_tokenize (docs ! i)" and ?avg = "avgdl (simple_fit docs)"
  let ?tf = "real (count_list ?doc t)"
  let ?rest = "3 / 2 * (1 - 3 / 4 + 3 / 4 * real (length ?doc) / ?avg)"
  from Some have w: "0 < w"
    using doc_count_le [of "map simple_tokenize docs" t] by (auto simp: idf_simple_fit intro!: idf_weight_pos split: if_splits)
  have "0 < ?avg" using Some simple_avgdl_pos [of _ docs t] by (auto simp: idf_simple_fit split: if_splits)
  then have "0 < ?rest" by (auto intro!: mult_pos_pos add_pos_nonneg divide_nonneg_pos)
  moreover have "docs \<noteq> []" using assms by auto
  then have "simple_token_score (simple_fit docs) i t = w * (?tf * (3 / 2 + 1)) / (?tf + ?rest)"
    using assms Some by (simp add: simple_token_score_def term_freq_count Let_def)
  moreover have "0 < count_list ?doc t \<longleftrightarrow> t \<in> set ?doc" by (simp add: count_list_0_iff flip: neq0_conv)
  ultimately show ?thesis using score_sign [OF w, of ?rest "count_list ?doc t"] by simp
qed

lemma foldl_sum: "foldl (\<lambda>s t. s + f t) (a :: real) ts = a + sum_list (map f ts)"
  by (induction ts arbitrary: a) auto

lemma simple_doc_score:
  assumes "i < length docs"
  shows "0 \<le> sum_list (map (simple_token_score (simple_fit docs) i) ts) \<and>
    (0 < sum_list (map (simple_token_score (simple_fit docs) i) ts) \<longleftrightarrow> (\<exists>t \<in> set ts. t \<in> set (simple_tokenize (docs ! i))))"
proof (induction ts)
  case (Cons t ts)
  with simple_token_score_fit [OF assms, of t] show ?case by (auto simp: add_pos_nonneg add_nonneg_pos)
qed simp

interpretation slide_rank: ranker "\<lambda>docs. simple_score (simple_fit docs)" simple_hits
proof (unfold_locales, goal_cases)
  case (1 docs q)
  have "mset (map fst (simple_score (simple_fit docs) q)) =
      image_mset fst (mset (map (\<lambda>i. (i, sum_list (map (simple_token_score (simple_fit docs) i) (simple_tokenize q)))) [0..<length docs]))"
    by (simp add: simple_score_def Let_def foldl_sum)
  then show ?case by (simp only: mset_map [symmetric] map_map o_def fst_conv map_ident)
next
  case (2 docs q)
  show ?case by (simp add: simple_score_def Let_def sort_desc_sorted)
next
  case (3 i s docs q)
  then have "i < length docs" and "s = sum_list (map (simple_token_score (simple_fit docs) i) (simple_tokenize q))"
    by (auto simp: simple_score_def Let_def foldl_sum)
  with simple_doc_score [of i docs "simple_tokenize q"] show ?case by (auto simp: simple_hits_def)
qed
subsection \<open>Tables and searches\<close>

record slide_table =
  tb_file :: str
  tb_search :: "str list"
  tb_output :: "str list"

definition SLIDE_CSV_CONFIG :: "slide_table dict" where
  "SLIDE_CSV_CONFIG =
    [(''strategy'',
      \<lparr>tb_file = ''slide-strategies.csv'',
       tb_search = [''strategy_name'', ''keywords'', ''goal'', ''audience'', ''narrative_arc''],
       tb_output = [''strategy_name'', ''keywords'', ''slide_count'', ''structure'', ''goal'', ''audience'', ''tone'',
         ''narrative_arc'', ''sources'']\<rparr>),
     (''layout'',
      \<lparr>tb_file = ''slide-layouts.csv'',
       tb_search = [''layout_name'', ''keywords'', ''use_case'', ''recommended_for''],
       tb_output = [''layout_name'', ''keywords'', ''use_case'', ''content_zones'', ''visual_weight'', ''cta_placement'',
         ''recommended_for'', ''avoid_for'', ''css_structure'']\<rparr>),
     (''copy'',
      \<lparr>tb_file = ''slide-copy.csv'',
       tb_search = [''formula_name'', ''keywords'', ''use_case'', ''emotion_trigger'', ''slide_type''],
       tb_output = [''formula_name'', ''keywords'', ''components'', ''use_case'', ''example_template'', ''emotion_trigger'',
         ''slide_type'', ''source'']\<rparr>),
     (''chart'',
      \<lparr>tb_file = ''slide-charts.csv'',
       tb_search = [''chart_type'', ''keywords'', ''best_for'', ''when_to_use'', ''slide_context''],
       tb_output = [''chart_type'', ''keywords'', ''best_for'', ''data_type'', ''when_to_use'', ''when_to_avoid'',
         ''max_categories'', ''slide_context'', ''css_implementation'', ''accessibility_notes'']\<rparr>)]"

text \<open>\<open>xs[:n]\<close> for any integer \<open>n\<close>.\<close>

definition py_prefix :: "int \<Rightarrow> 'a list \<Rightarrow> 'a list" where
  "py_prefix n xs = (if 0 \<le> n then take (nat n) xs else take (length xs - nat (- n)) xs)"

definition search_csv_rows :: "data_dir \<Rightarrow> str \<Rightarrow> str list \<Rightarrow> str list \<Rightarrow> str \<Rightarrow> int \<Rightarrow> load_error + table" where
  "search_csv_rows db filepath search_columns output_columns query max_results =
     (case db filepath of
        None \<Rightarrow> Inr []
      | Some _ \<Rightarrow>
          (case contents db filepath of
             Inl e \<Rightarrow> Inl e
           | Inr data \<Rightarrow>
               (let ranked = simple_score (simple_fit (documents search_columns data)) query
                in Inr (map (\<lambda>(idx, s). project_row (data ! idx) output_columns)
                     (filter (\<lambda>(idx, s). 0 < s) (py_prefix max_results ranked))))))"

definition slide_keywords :: "str list dict" where
  "slide_keywords =
    [(''strategy'', [''pitch'', ''deck'', ''investor'', ''yc'', ''seed'', ''series'', ''demo'', ''sales'', ''webinar'',
       ''conference'', ''board'', ''qbr'', ''all-hands'', ''duarte'', ''kawasaki'', ''structure'']),
     (''layout'', [''slide'', ''layout'', ''grid'', ''column'', ''title'', ''hero'', ''section'', ''cta'', ''screenshot'',
       ''quote'', ''timeline'', ''comparison'', ''pricing'', ''team'']),
     (''copy'', [''headline'', ''copy'', ''formula'', ''aida'', ''pas'', ''hook'', ''cta'', ''benefit'', ''objection'',
       ''proof'', ''testimonial'', ''urgency'', ''scarcity'']),
     (''chart'', [''chart'', ''graph'', ''bar'', ''line'', ''pie'', ''funnel'', ''metrics'', ''data'', ''visualization'',
       ''kpi'', ''trend'', ''comparison'', ''heatmap'', ''gauge''])]"

text \<open>\<open>max(scores, key=scores.get)\<close>: the first domain with the highest score.\<close>

fun best_key :: "(str \<times> nat) list \<Rightarrow> str \<times> nat" where
  "best_key [] = ([], 0)"
| "best_key [x] = x"
| "best_key (x # y # xs) = (if snd x < snd y then best_key (y # xs) else best_key (x # xs))"

definition keyword_hits :: "str list dict \<Rightarrow> str \<Rightarrow> (str \<times> nat) list" where
  "keyword_hits word_lists query_lower =
     map (\<lambda>(domain, kws). (domain, length (filter (\<lambda>kw. contains kw query_lower) kws))) word_lists"

definition detect_by_keywords :: "str list dict \<Rightarrow> str \<Rightarrow> str \<Rightarrow> str" where
  "detect_by_keywords word_lists fallback query =
     (let best = best_key (keyword_hits word_lists (lower query))
      in if 0 < snd best then fst best else fallback)"

definition detect_slide_domain :: "str \<Rightarrow> str" where
  "detect_slide_domain query = detect_by_keywords slide_keywords ''strategy'' query"

record slide_answer =
  sa_domain :: str
  sa_query :: str
  sa_file :: str
  sa_count :: nat
  sa_results :: table

text \<open>A search fails without its file; the message names the file.\<close>

datatype slide_reply = NoFile str str | Found slide_answer

definition slide_path :: "str \<Rightarrow> str" where
  "slide_path file = ''data/'' @ file"

definition table_search :: "(str \<Rightarrow> str) \<Rightarrow> slide_table dict \<Rightarrow> str \<Rightarrow> data_dir \<Rightarrow> str \<Rightarrow> str \<Rightarrow> int \<Rightarrow> load_error + slide_reply" where
  "table_search path_in tables fallback db query domain max_results =
     (let config = the (get tables (if has_key tables domain then domain else fallback));
          filepath = path_in (tb_file config)
      in if db filepath = None then Inr (NoFile (''File not found: '' @ filepath) domain)
         else map_sum id (\<lambda>rows. Found \<lparr>sa_domain = domain, sa_query = query, sa_file = tb_file config,
                                       sa_count = length rows, sa_results = rows\<rparr>)
                (search_csv_rows db filepath (tb_search config) (tb_output config) query max_results))"

definition slide_search :: "data_dir \<Rightarrow> str \<Rightarrow> str option \<Rightarrow> int \<Rightarrow> load_error + slide_reply" where
  "slide_search db query domain max_results =
     table_search slide_path SLIDE_CSV_CONFIG ''strategy'' db query
       (case domain of None \<Rightarrow> detect_slide_domain query | Some d \<Rightarrow> d) max_results"

text \<open>All domains in order; the first exception ends the search.\<close>

fun search_each :: "(str \<Rightarrow> load_error + slide_reply) \<Rightarrow> str list \<Rightarrow> load_error + slide_answer dict" where
  "search_each f [] = Inr []"
| "search_each f (domain # domains) =
     (case f domain of
        Inl e \<Rightarrow> Inl e
      | Inr reply \<Rightarrow>
          map_sum id (\<lambda>found. (case reply of NoFile _ _ \<Rightarrow> found
             | Found a \<Rightarrow> if 0 < sa_count a then (domain, a) # found else found)) (search_each f domains))"

definition slide_search_all :: "data_dir \<Rightarrow> str \<Rightarrow> int \<Rightarrow> load_error + slide_answer dict" where
  "slide_search_all db query max_results =
     search_each (\<lambda>domain. slide_search db query (Some domain) max_results) (keys SLIDE_CSV_CONFIG)"

subsection \<open>What a table search returns\<close>

lemma py_prefix_nat: "0 \<le> n \<Longrightarrow> py_prefix n xs = take (nat n) xs"
  by (simp add: py_prefix_def)

lemma search_csv_rows_spec:
  assumes "db filepath \<noteq> None" and "contents db filepath = Inr data" and "0 \<le> n"
  shows "search_csv_rows db filepath cols out query n =
    Inr (map (\<lambda>r. project_row r out) (pick (nat n) data (simple_score (simple_fit (documents cols data)) query)))"
  using assms by (auto simp: search_csv_rows_def pick_def py_prefix_nat Let_def o_def case_prod_beta split: option.splits)

lemma search_csv_rows_hits:
  assumes "contents db filepath = Inr data" and "db filepath \<noteq> None" and "0 \<le> n"
  shows "\<exists>hits. search_csv_rows db filepath cols out query n = Inr (map (\<lambda>r. project_row r out) hits) \<and>
    length hits \<le> nat n \<and> (\<forall>r \<in> set hits. r \<in> set data \<and> simple_hits query (row_text cols r)) \<and>
    (length hits < nat n \<longrightarrow> (\<forall>r \<in> set data. simple_hits query (row_text cols r) \<longrightarrow> r \<in> set hits))"
proof -
  let ?hits = "pick (nat n) data (simple_score (simple_fit (map (row_text cols) data)) query)"
  have "search_csv_rows db filepath cols out query n = Inr (map (\<lambda>r. project_row r out) ?hits)"
    using search_csv_rows_spec [OF assms(2,1,3)] by (simp add: documents_row_text)
  moreover have "length ?hits \<le> nat n" by (rule slide_rank.pick_length)
  moreover have "\<forall>r \<in> set ?hits. r \<in> set data \<and> simple_hits query (row_text cols r)"
    using slide_rank.pick_hits [of _ "nat n" data "row_text cols" query] by blast
  moreover have "length ?hits < nat n \<longrightarrow> (\<forall>r \<in> set data. simple_hits query (row_text cols r) \<longrightarrow> r \<in> set ?hits)"
    using slide_rank.pick_complete [of "nat n" data "row_text cols" query] by blast
  ultimately show ?thesis by (intro exI [of _ ?hits]) simp
qed

lemma best_key_max: "xs \<noteq> [] \<Longrightarrow> best_key xs \<in> set xs \<and> (\<forall>x \<in> set xs. snd x \<le> snd (best_key xs))"
proof (induction xs rule: best_key.induct)
  case (3 x y xs)
  show ?case
  proof (cases "snd x < snd y")
    case True
    let ?b = "best_key (y # xs)"
    from 3(1) [OF True] have "?b \<in> set (y # xs)" and le: "\<forall>z \<in> set (y # xs). snd z \<le> snd ?b" by simp_all
    with True show ?thesis by (auto dest: bspec [of _ _ y])
  next
    case False
    let ?b = "best_key (x # xs)"
    from 3(2) [OF False] have "?b \<in> set (x # xs)" and le: "\<forall>z \<in> set (x # xs). snd z \<le> snd ?b" by simp_all
    with False show ?thesis by (auto dest: bspec [of _ _ x])
  qed
qed simp_all

lemma detect_by_keywords_known: "detect_by_keywords ks fallback query \<in> insert fallback (set (keys ks))"
proof -
  let ?h = "keyword_hits ks (lower query)"
  have "fst x \<in> set (keys ks)" if "x \<in> set ?h" for x
    using that by (force simp: keyword_hits_def keys_def)
  then show ?thesis
    using best_key_max [of ?h] by (cases "?h = []") (simp_all add: detect_by_keywords_def Let_def)
qed
end
