(* ===== verification/SlideContext.thy ===== *)
theory SlideContext
  imports SlideSearch Json
begin

text \<open>
  Recommendations for a slide in its deck: the decision tables of \<open>slide_search_core.py\<close> (lines 195
  to 349), the search with context (352 to 453), and how \<open>search-slides.py\<close> prints results and
  contexts (27 to 115).
\<close>

subsection \<open>Decision tables\<close>

definition DECISION_CSV_CONFIG :: "(str \<times> str) dict" where
  "DECISION_CSV_CONFIG =
    [(''layout-logic'', (''slide-layout-logic.csv'', ''goal'')),
     (''typography'', (''slide-typography.csv'', ''content_type'')),
     (''color-logic'', (''slide-color-logic.csv'', ''emotion'')),
     (''backgrounds'', (''slide-backgrounds.csv'', ''slide_type''))]"

definition rows_by :: "str \<Rightarrow> table \<Rightarrow> row dict" where
  "rows_by key_col data = foldl (\<lambda>m r. if has_key r key_col then put (field r key_col) r m else m) [] data"

definition load_decision_csv :: "data_dir \<Rightarrow> str \<Rightarrow> load_error + row dict" where
  "load_decision_csv db csv_type =
     (case get DECISION_CSV_CONFIG csv_type of
        None \<Rightarrow> Inr []
      | Some (file, key_col) \<Rightarrow>
          if db (slide_path file) = None then Inr []
          else map_sum id (rows_by key_col) (contents db (slide_path file)))"

text \<open>The row of a goal, and the emotion to break with where the row asks for a break.\<close>

record layout_choice =
  ly_row :: row
  ly_contrast_with :: "str option"

definition layout_of :: "row dict \<Rightarrow> str \<Rightarrow> str option \<Rightarrow> layout_choice" where
  "layout_of layouts goal previous_emotion =
     (let row = get_or layouts goal (get_or layouts ''features'' [])
      in \<lparr>ly_row = row,
          ly_contrast_with =
            (if get row ''break_pattern'' = Some ''true'' \<and> previous_emotion \<noteq> Some [] then previous_emotion else None)\<rparr>)"

definition get_layout_for_goal :: "data_dir \<Rightarrow> str \<Rightarrow> str option \<Rightarrow> load_error + layout_choice" where
  "get_layout_for_goal db goal previous_emotion =
     map_sum id (\<lambda>layouts. layout_of layouts goal previous_emotion) (load_decision_csv db ''layout-logic'')"

definition type_map :: "str dict" where
  "type_map =
    [(''hero'', ''hero-statement''), (''hook'', ''hero-statement''), (''title'', ''title-only''),
     (''problem'', ''subtitle-heavy''), (''agitation'', ''metric-callout''), (''solution'', ''subtitle-heavy''),
     (''features'', ''feature-grid''), (''proof'', ''metric-callout''), (''traction'', ''data-insight''),
     (''social'', ''quote-block''), (''testimonial'', ''testimonial''), (''pricing'', ''pricing''), (''team'', ''team''),
     (''cta'', ''cta-action''), (''comparison'', ''comparison''), (''timeline'', ''timeline'')]"

definition typography_row :: "row dict \<Rightarrow> str \<Rightarrow> bool \<Rightarrow> bool \<Rightarrow> row" where
  "typography_row typography slide_type has_metrics has_quote =
     (if has_metrics then get_or typography ''metric-callout'' []
      else if has_quote then get_or typography ''quote-block'' []
      else get_or typography (get_or type_map slide_type ''feature-grid'') [])"

definition get_typography_for_slide :: "data_dir \<Rightarrow> str \<Rightarrow> bool \<Rightarrow> bool \<Rightarrow> load_error + row" where
  "get_typography_for_slide db slide_type has_metrics has_quote =
     map_sum id (\<lambda>t. typography_row t slide_type has_metrics has_quote) (load_decision_csv db ''typography'')"

definition get_color_for_emotion :: "data_dir \<Rightarrow> str \<Rightarrow> load_error + row" where
  "get_color_for_emotion db emotion =
     map_sum id (\<lambda>colors. get_or colors emotion (get_or colors ''clarity'' [])) (load_decision_csv db ''color-logic'')"

definition get_background_config :: "data_dir \<Rightarrow> str \<Rightarrow> load_error + row" where
  "get_background_config db slide_type =
     map_sum id (\<lambda>backgrounds. get_or backgrounds slide_type []) (load_decision_csv db ''backgrounds'')"

definition high_emotion_beats :: "str list" where
  "high_emotion_beats = [''hope'', ''urgency'', ''fear'', ''curiosity'']"

definition should_use_full_bleed :: "int \<Rightarrow> int \<Rightarrow> str \<Rightarrow> bool" where
  "should_use_full_bleed slide_index total_slides emotion =
     (if emotion \<notin> set high_emotion_beats then False
      else if total_slides < 3 then False
      else (let third = total_slides div 3
            in slide_index \<in> set [1, third, third * 2, total_slides - 1]))"

definition contrasting_emotions :: "str list dict" where
  "contrasting_emotions =
    [(''frustration'', [''hope'', ''relief'']), (''hope'', [''frustration'', ''fear'']), (''fear'', [''hope'', ''relief''])]"

definition calculate_pattern_break :: "int \<Rightarrow> int \<Rightarrow> str option \<Rightarrow> bool" where
  "calculate_pattern_break slide_index total_slides previous_emotion =
     (if total_slides < 5 then False
      else (let third = total_slides div 3 in
        if slide_index \<in> set [third, third * 2] then True
        else (case previous_emotion of None \<Rightarrow> False | Some e \<Rightarrow> has_key contrasting_emotions e)))"

subsection \<open>The search with context\<close>

definition infer_goal :: "str \<Rightarrow> str" where
  "infer_goal query =
     (let q = lower query in
      if contains ''problem'' q then ''problem''
      else if contains ''solution'' q then ''solution''
      else if contains ''cta'' q \<or> contains ''call to action'' q then ''cta''
      else if contains ''hook'' q \<or> contains ''title'' q then ''hook''
      else if contains ''traction'' q \<or> contains ''metric'' q then ''traction''
      else detect_slide_domain q)"

text \<open>The values of some columns of a row, \<open>None\<close> where a column is missing.\<close>

record layout_advice =
  la_pattern :: "str option"
  la_direction :: "str option"
  la_weight :: "str option"
  la_image :: bool

definition layout_advice_of :: "row \<Rightarrow> layout_advice option" where
  "layout_advice_of layout =
     (if layout = [] then None
      else Some \<lparr>la_pattern = get layout ''layout_pattern'', la_direction = get layout ''direction'',
                 la_weight = get layout ''visual_weight'', la_image = (get layout ''use_bg_image'' = Some ''true'')\<rparr>)"

definition columns_of :: "str list \<Rightarrow> row \<Rightarrow> (str \<times> str option) list option" where
  "columns_of cols r = (if r = [] then None else Some (map (\<lambda>c. (c, get r c)) cols))"

definition animation_map :: "str dict" where
  "animation_map =
    [(''hook'', ''animate-fade-up''), (''problem'', ''animate-fade-up''), (''agitation'', ''animate-count animate-stagger''),
     (''solution'', ''animate-scale''), (''features'', ''animate-stagger''), (''traction'', ''animate-chart animate-count''),
     (''proof'', ''animate-stagger-scale''), (''social'', ''animate-fade-up''), (''cta'', ''animate-pulse'')]"

record slide_context =
  cx_position :: int
  cx_total :: int
  cx_previous :: "str option"
  cx_goal :: str
  cx_layout :: "layout_advice option"
  cx_typography :: "(str \<times> str option) list option"
  cx_color :: "(str \<times> str option) list option"
  cx_break :: bool
  cx_bleed :: bool
  cx_background :: "(str \<times> str option) list option"
  cx_animation :: str

definition context_of :: "int \<Rightarrow> int \<Rightarrow> str option \<Rightarrow> str \<Rightarrow> row \<Rightarrow> row \<Rightarrow> row \<Rightarrow> row \<Rightarrow> slide_context" where
  "context_of position deck_size previous goal layout typography color background =
     (let advice = layout_advice_of layout; emotion = (if layout = [] then ''clarity'' else get_or layout ''emotion'' ''clarity'')
      in \<lparr>cx_position = position, cx_total = deck_size, cx_previous = previous, cx_goal = goal, cx_layout = advice,
          cx_typography = columns_of [''primary_size'', ''secondary_size'', ''weight_contrast''] typography,
          cx_color = columns_of [''background'', ''text_color'', ''accent_usage'', ''card_style''] color,
          cx_break = calculate_pattern_break position deck_size previous,
          cx_bleed = should_use_full_bleed position deck_size emotion,
          cx_background =
            (case advice of
               None \<Rightarrow> None
             | Some a \<Rightarrow> if la_image a then columns_of [''image_category'', ''overlay_style'', ''search_keywords''] background
                         else None),
          cx_animation = get_or animation_map goal ''animate-fade-up''\<rparr>)"

definition slide_emotion :: "row \<Rightarrow> str" where
  "slide_emotion layout = (if layout = [] then ''clarity'' else get_or layout ''emotion'' ''clarity'')"

text \<open>The background table is only read where the layout asks for an image.\<close>

definition background_for :: "data_dir \<Rightarrow> str \<Rightarrow> row \<Rightarrow> load_error + row" where
  "background_for db goal layout =
     (case layout_advice_of layout of
        None \<Rightarrow> Inr [] | Some a \<Rightarrow> if la_image a then get_background_config db goal else Inr [])"

definition search_with_context ::
  "data_dir \<Rightarrow> str \<Rightarrow> int \<Rightarrow> int \<Rightarrow> str option \<Rightarrow> load_error + slide_context \<times> slide_answer dict" where
  "search_with_context db query slide_position total_slides previous_emotion =
     (case slide_search_all db query 2 of
        Inl e \<Rightarrow> Inl e
      | Inr base_results \<Rightarrow>
          (let goal = infer_goal query in
           case get_layout_for_goal db goal previous_emotion of
             Inl e \<Rightarrow> Inl e
           | Inr choice \<Rightarrow>
               (let layout = ly_row choice in
                case get_typography_for_slide db goal False False of
                  Inl e \<Rightarrow> Inl e
                | Inr typography \<Rightarrow>
                    (case get_color_for_emotion db (slide_emotion layout) of
                       Inl e \<Rightarrow> Inl e
                     | Inr color \<Rightarrow>
                         map_sum id (\<lambda>background.
                           (context_of slide_position total_slides previous_emotion goal layout typography color background,
                            base_results))
                           (background_for db goal layout)))))"

subsection \<open>Printing\<close>

definition or_na :: "row \<Rightarrow> str \<Rightarrow> str" where
  "or_na r k = get_or r k ''N/A''"

text \<open>The lines of a result: the column of its title, and the labels of the others.\<close>

definition result_layout :: "(str \<times> (str \<times> str) list) dict" where
  "result_layout =
    [(''strategy'', (''strategy_name'',
       [(''Slides'', ''slide_count''), (''Structure'', ''structure''), (''Goal'', ''goal''), (''Audience'', ''audience''),
        (''Tone'', ''tone''), (''Arc'', ''narrative_arc''), (''Source'', ''sources'')])),
     (''layout'', (''layout_name'',
       [(''Use case'', ''use_case''), (''Zones'', ''content_zones''), (''Visual weight'', ''visual_weight''),
        (''CTA'', ''cta_placement''), (''Recommended'', ''recommended_for''), (''Avoid'', ''avoid_for''),
        (''CSS'', ''css_structure'')])),
     (''copy'', (''formula_name'',
       [(''Components'', ''components''), (''Use case'', ''use_case''), (''Template'', ''example_template''),
        (''Emotion'', ''emotion_trigger''), (''Slide type'', ''slide_type''), (''Source'', ''source'')])),
     (''chart'', (''chart_type'',
       [(''Best for'', ''best_for''), (''Data type'', ''data_type''), (''When to use'', ''when_to_use''),
        (''When to avoid'', ''when_to_avoid''), (''Max categories'', ''max_categories''), (''Slide context'', ''slide_context''),
        (''CSS'', ''css_implementation''), (''Accessibility'', ''accessibility_notes'')]))]"

definition format_result :: "row \<Rightarrow> str \<Rightarrow> str" where
  "format_result result domain =
     (case get result_layout domain of
        None \<Rightarrow> []
      | Some (heading, labels) \<Rightarrow>
          join [newline] ((''**'' @ (or_na result heading) @ ''**'') # map (\<lambda>(label, col). (''  '' @ label @ '': '' @ (or_na result col))) labels))"

definition str_of_option :: "str option \<Rightarrow> str" where
  "str_of_option v = (case v of None \<Rightarrow> ''None'' | Some s \<Rightarrow> s)"

definition labelled :: "str list \<Rightarrow> (str \<times> str option) list \<Rightarrow> str list" where
  "labelled labels cols = map (\<lambda>(label, (_, v)). (''   '' @ label @ '': '' @ (str_of_option v))) (zip labels cols)"

definition section_if :: "str \<Rightarrow> str list \<Rightarrow> (str \<times> str option) list option \<Rightarrow> str list" where
  "section_if heading labels cols = (case cols of None \<Rightarrow> [] | Some cs \<Rightarrow> heading # labelled labels cs)"

definition format_context :: "slide_context \<Rightarrow> str" where
  "format_context c = join [newline]
     ([([CHR 0x0A] @ ''=== CONTEXTUAL RECOMMENDATIONS ===''), (''Inferred Goal: '' @ (cx_goal c)),
       (''Position: Slide '' @ (str_of_int (cx_position c)) @ '' of '' @ (str_of_int (cx_total c)))] @
      (case cx_layout c of
         None \<Rightarrow> []
       | Some a \<Rightarrow> if la_pattern a = None \<or> la_pattern a = Some [] then []
                   else [([CHR 0x0A] @ u_ruler @ '' Layout: '' @ (str_of_option (la_pattern a))), (''   Direction: '' @ (str_of_option (la_direction a))),
                         (''   Visual Weight: '' @ (str_of_option (la_weight a)))]) @
      section_if ([CHR 0x0A] @ u_memo @ '' Typography:'') [''Primary'', ''Secondary'', ''Contrast''] (cx_typography c) @
      section_if ([CHR 0x0A] @ u_palette @ '' Color Treatment:'') [''Background'', ''Text'', ''Accent''] (cx_color c) @
      (if cx_break c then [([CHR 0x0A] @ u_bolt @ '' Pattern Break: YES (use contrasting layout)'')] else []) @
      (if cx_bleed c then [([CHR 0x0A] @ u_frame @ '' Full Bleed: Recommended for emotional impact'')] else []) @
      section_if ([CHR 0x0A] @ u_camera @ '' Background Image:'') [''Category'', ''Overlay'', ''Keywords''] (cx_background c) @
      [([CHR 0x0A] @ u_sparkles @ '' Animation: '' @ (cx_animation c))])"

text \<open>What the command prints as text, one element per call of \<open>print\<close>.\<close>

definition print_items :: "str \<Rightarrow> table \<Rightarrow> str list" where
  "print_items domain items = concat (map (\<lambda>item. [format_result item domain, []]) items)"

definition print_contextual :: "slide_context \<times> slide_answer dict \<Rightarrow> str list" where
  "print_contextual found =
     (case found of (context, base_results) \<Rightarrow>
        format_context context #
        (if base_results = [] then []
         else ([CHR 0x0A] @ [CHR 0x0A] @ ''=== RELATED SEARCH RESULTS ==='') #
           concat (map (\<lambda>(domain, data). ([CHR 0x0A] @ ''--- '' @ (upper domain) @ '' ---'') # print_items domain (sa_results data)) base_results)))"

definition print_all :: "str \<Rightarrow> slide_answer dict \<Rightarrow> str list" where
  "print_all query found =
     (if found = [] then [(''No results found for: '' @ query)]
      else concat (map (\<lambda>(domain, data).
        [([CHR 0x0A] @ ''=== '' @ (upper domain) @ '' ===''), (''File: '' @ (sa_file data)), (''Results: '' @ (str_of_nat (sa_count data))), []] @
        print_items domain (sa_results data)) found))"

definition print_search :: "slide_reply \<Rightarrow> str list" where
  "print_search reply =
     (case reply of
        NoFile e _ \<Rightarrow> [(''Error: '' @ e)]
      | Found a \<Rightarrow>
          [(''Domain: '' @ (sa_domain a)), (''Query: '' @ (sa_query a)), (''File: '' @ (sa_file a)),
           (''Results: '' @ (str_of_nat (sa_count a))), []] @
          (if sa_count a = 0 then [''No matching results found.'']
           else concat (map (\<lambda>(i, item). [(''--- Result '' @ (str_of_nat i) @ '' ---''), format_result item (sa_domain a), []])
                  (List.enumerate 1 (sa_results a)))))"

text \<open>
  The same answers as JSON, with \<open>--json\<close>: a search, a search of all domains, and a contextual search,
  whose context has the members of a recommendation only where the tables gave one.
\<close>

definition slide_answer_json :: "slide_answer \<Rightarrow> json" where
  "slide_answer_json a = JObject
     [(''domain'', JString (sa_domain a)), (''query'', JString (sa_query a)), (''file'', JString (sa_file a)),
      (''count'', json_nat (sa_count a)), (''results'', json_table (sa_results a))]"

definition slide_reply_json :: "slide_reply \<Rightarrow> json" where
  "slide_reply_json reply =
     (case reply of
        NoFile e domain \<Rightarrow> json_text_dict [(''error'', e), (''domain'', domain)]
      | Found a \<Rightarrow> slide_answer_json a)"

definition slide_answers_json :: "slide_answer dict \<Rightarrow> json" where
  "slide_answers_json found = JObject (map (\<lambda>(domain, a). (domain, slide_answer_json a)) found)"

definition columns_json :: "(str \<times> str option) list \<Rightarrow> json" where
  "columns_json cols = JObject (map (\<lambda>(c, v). (c, json_or_null JString v)) cols)"

definition context_json :: "slide_context \<Rightarrow> json" where
  "context_json c = JObject
     ([(''slide_position'', json_int (cx_position c)), (''total_slides'', json_int (cx_total c)),
       (''previous_emotion'', json_or_null JString (cx_previous c)), (''inferred_goal'', JString (cx_goal c))] @
      (case cx_layout c of
         None \<Rightarrow> []
       | Some a \<Rightarrow>
           [(''recommended_layout'', json_or_null JString (la_pattern a)), (''layout_direction'', json_or_null JString (la_direction a)),
            (''visual_weight'', json_or_null JString (la_weight a)), (''use_background_image'', JBool (la_image a))]) @
      optional_member ''typography'' columns_json (cx_typography c) @
      optional_member ''color_treatment'' columns_json (cx_color c) @
      [(''should_break_pattern'', JBool (cx_break c)), (''should_use_full_bleed'', JBool (cx_bleed c))] @
      optional_member ''background'' columns_json (cx_background c) @
      [(''animation_class'', JString (cx_animation c))])"

definition contextual_json :: "str \<Rightarrow> slide_context \<times> slide_answer dict \<Rightarrow> json" where
  "contextual_json query found = JObject
     [(''query'', JString query), (''context'', context_json (fst found)), (''base_results'', slide_answers_json (snd found))]"

record slide_args =
  sl_json :: bool
  sl_domain :: "str option"
  sl_max :: int
  sl_all :: bool
  sl_context :: bool
  sl_position :: int
  sl_total :: int
  sl_previous :: "str option"

definition slides_main :: "data_dir \<Rightarrow> str \<Rightarrow> slide_args \<Rightarrow> load_error + str list" where
  "slides_main db query args =
     (if sl_context args
      then map_sum id (\<lambda>found. if sl_json args then [json_dump 0 (contextual_json query found)] else print_contextual found)
             (search_with_context db query (sl_position args) (sl_total args) (sl_previous args))
      else if sl_all args then
        map_sum id (\<lambda>found. if sl_json args then [json_dump 0 (slide_answers_json found)] else print_all query found)
          (slide_search_all db query (sl_max args))
      else map_sum id (\<lambda>reply. if sl_json args then [json_dump 0 (slide_reply_json reply)] else print_search reply)
             (slide_search db query (sl_domain args) (sl_max args)))"

subsection \<open>Full-bleed slides\<close>

text \<open>The positions are never next to each other exactly in decks that are long enough.\<close>

lemma full_bleed_consecutive:
  assumes "emotion \<in> set high_emotion_beats"
  shows "(\<exists>i. should_use_full_bleed i n emotion \<and> should_use_full_bleed (i + 1) n emotion) \<longleftrightarrow> 3 \<le> n \<and> n \<le> 8"
proof
  assume "\<exists>i. should_use_full_bleed i n emotion \<and> should_use_full_bleed (i + 1) n emotion"
  then show "3 \<le> n \<and> n \<le> 8"
    using assms by (auto simp: should_use_full_bleed_def Let_def split: if_splits; presburger)
next
  assume n: "3 \<le> n \<and> n \<le> 8"
  have bleed: "should_use_full_bleed i n emotion \<longleftrightarrow> i \<in> {1, n div 3, n div 3 * 2, n - 1}" for i
    using assms n by (simp add: should_use_full_bleed_def Let_def)
  from n have "n div 3 = 1 \<or> n div 3 = 2" by presburger
  then show "\<exists>i. should_use_full_bleed i n emotion \<and> should_use_full_bleed (i + 1) n emotion"
    unfolding bleed by (intro exI [of _ 1]) auto
qed

lemma context_of_background:
  "cx_background (context_of p t e g layout ty co bg) \<noteq> None \<Longrightarrow>
   get layout ''use_bg_image'' = Some ''true'' \<and> bg \<noteq> []"
  by (auto simp: context_of_def Let_def layout_advice_of_def columns_of_def split: option.splits if_splits)
end
