(* ===== verification/Catalogues.thy ===== *)
theory Catalogues
  imports SlideContext
begin

text \<open>
  The catalogues for logos and corporate identities: \<open>logo/core.py\<close>, \<open>logo/search.py\<close>, \<open>cip/core.py\<close>
  and \<open>cip/search.py\<close>. Their class \<open>BM25\<close> and their functions \<open>_search_csv\<close> and \<open>search\<close> are those of
  the slide scripts (theory SlideSearch) on other tables. The commands are modelled after the parsing of
  their arguments, with what they print as text and as JSON.
\<close>

subsection \<open>Tables and keywords\<close>

definition LOGO_CSV_CONFIG :: "slide_table dict" where
  "LOGO_CSV_CONFIG =
    [(''style'',
      \<lparr>tb_file = ''styles.csv'',
       tb_search = [''Style Name'', ''Category'', ''Keywords'', ''Best For''],
       tb_output = [''Style Name'', ''Category'', ''Keywords'', ''Primary Colors'', ''Secondary Colors'', ''Typography'',
         ''Effects'', ''Best For'', ''Avoid For'', ''Complexity'', ''Era'']\<rparr>),
     (''color'',
      \<lparr>tb_file = ''colors.csv'',
       tb_search = [''Palette Name'', ''Category'', ''Keywords'', ''Psychology'', ''Best For''],
       tb_output = [''Palette Name'', ''Category'', ''Keywords'', ''Primary Hex'', ''Secondary Hex'', ''Accent Hex'',
         ''Background Hex'', ''Text Hex'', ''Psychology'', ''Best For'', ''Avoid For'']\<rparr>),
     (''industry'',
      \<lparr>tb_file = ''industries.csv'',
       tb_search = [''Industry'', ''Keywords'', ''Recommended Styles'', ''Mood''],
       tb_output = [''Industry'', ''Keywords'', ''Recommended Styles'', ''Primary Colors'', ''Typography'',
         ''Common Symbols'', ''Mood'', ''Best Practices'', ''Avoid'']\<rparr>)]"

definition logo_keywords :: "str list dict" where
  "logo_keywords =
    [(''style'', [''style'', ''minimalist'', ''vintage'', ''modern'', ''retro'', ''geometric'', ''abstract'', ''emblem'',
       ''badge'', ''wordmark'', ''mascot'', ''luxury'', ''playful'', ''corporate'']),
     (''color'', [''color'', ''palette'', ''hex'', ''#'', ''rgb'', ''blue'', ''red'', ''green'', ''gold'', ''warm'',
       ''cool'', ''vibrant'', ''pastel'']),
     (''industry'', [''tech'', ''healthcare'', ''finance'', ''legal'', ''restaurant'', ''food'', ''fashion'', ''beauty'',
       ''education'', ''sports'', ''fitness'', ''real estate'', ''crypto'', ''gaming''])]"

definition CIP_CSV_CONFIG :: "slide_table dict" where
  "CIP_CSV_CONFIG =
    [(''deliverable'',
      \<lparr>tb_file = ''deliverables.csv'',
       tb_search = [''Deliverable'', ''Category'', ''Keywords'', ''Description'', ''Mockup Context''],
       tb_output = [''Deliverable'', ''Category'', ''Keywords'', ''Description'', ''Dimensions'', ''File Format'',
         ''Logo Placement'', ''Color Usage'', ''Typography Notes'', ''Mockup Context'', ''Best Practices'',
         ''Avoid'']\<rparr>),
     (''style'',
      \<lparr>tb_file = ''styles.csv'',
       tb_search = [''Style Name'', ''Category'', ''Keywords'', ''Description'', ''Mood''],
       tb_output = [''Style Name'', ''Category'', ''Keywords'', ''Description'', ''Primary Colors'', ''Secondary Colors'',
         ''Typography'', ''Materials'', ''Finishes'', ''Mood'', ''Best For'', ''Avoid For'']\<rparr>),
     (''industry'',
      \<lparr>tb_file = ''industries.csv'',
       tb_search = [''Industry'', ''Keywords'', ''CIP Style'', ''Mood''],
       tb_output = [''Industry'', ''Keywords'', ''CIP Style'', ''Primary Colors'', ''Secondary Colors'', ''Typography'',
         ''Key Deliverables'', ''Mood'', ''Best Practices'', ''Avoid'']\<rparr>),
     (''mockup'',
      \<lparr>tb_file = ''mockup-contexts.csv'',
       tb_search = [''Context Name'', ''Category'', ''Keywords'', ''Scene Description''],
       tb_output = [''Context Name'', ''Category'', ''Keywords'', ''Scene Description'', ''Lighting'', ''Environment'',
         ''Props'', ''Camera Angle'', ''Background'', ''Style Notes'', ''Best For'', ''Prompt Modifiers'']\<rparr>)]"

definition cip_keywords :: "str list dict" where
  "cip_keywords =
    [(''deliverable'', [''card'', ''letterhead'', ''envelope'', ''folder'', ''shirt'', ''cap'', ''badge'', ''signage'',
       ''vehicle'', ''car'', ''van'', ''stationery'', ''uniform'', ''merchandise'', ''packaging'', ''banner'',
       ''booth'']),
     (''style'', [''style'', ''minimal'', ''modern'', ''luxury'', ''vintage'', ''industrial'', ''elegant'', ''bold'',
       ''corporate'', ''organic'', ''playful'']),
     (''industry'', [''tech'', ''finance'', ''legal'', ''healthcare'', ''hospitality'', ''food'', ''fashion'', ''retail'',
       ''construction'', ''logistics'']),
     (''mockup'', [''mockup'', ''scene'', ''context'', ''photo'', ''shot'', ''lighting'', ''background'', ''studio'',
       ''lifestyle''])]"

subsection \<open>Searches\<close>

text \<open>The rankings of the two classes \<open>BM25\<close>.\<close>

definition logo_ranking :: "str list \<Rightarrow> str \<Rightarrow> (nat \<times> real) list" where
  "logo_ranking texts query = simple_score (simple_fit texts) query"

definition cip_ranking :: "str list \<Rightarrow> str \<Rightarrow> (nat \<times> real) list" where
  "cip_ranking texts query = simple_score (simple_fit texts) query"

text \<open>They keep the promises of a ranking, as the class of the slide scripts does.\<close>

interpretation logo_rank: ranker logo_ranking simple_hits
  using slide_rank.ranker_axioms by (simp add: logo_ranking_def [abs_def])

interpretation cip_rank: ranker cip_ranking simple_hits
  using slide_rank.ranker_axioms by (simp add: cip_ranking_def [abs_def])

definition logo_path :: "str \<Rightarrow> str" where
  "logo_path file = ''data/logo/'' @ file"

definition cip_path :: "str \<Rightarrow> str" where
  "cip_path file = ''data/cip/'' @ file"

definition detect_logo_domain :: "str \<Rightarrow> str" where
  "detect_logo_domain query = detect_by_keywords logo_keywords ''style'' query"

definition detect_cip_domain :: "str \<Rightarrow> str" where
  "detect_cip_domain query = detect_by_keywords cip_keywords ''deliverable'' query"

definition logo_search :: "data_dir \<Rightarrow> str \<Rightarrow> str option \<Rightarrow> int \<Rightarrow> load_error + slide_reply" where
  "logo_search db query domain max_results =
     table_search logo_path LOGO_CSV_CONFIG ''style'' db query
       (case domain of None \<Rightarrow> detect_logo_domain query | Some d \<Rightarrow> d) max_results"

definition cip_search :: "data_dir \<Rightarrow> str \<Rightarrow> str option \<Rightarrow> int \<Rightarrow> load_error + slide_reply" where
  "cip_search db query domain max_results =
     table_search cip_path CIP_CSV_CONFIG ''deliverable'' db query
       (case domain of None \<Rightarrow> detect_cip_domain query | Some d \<Rightarrow> d) max_results"

definition rows_found :: "slide_answer dict \<Rightarrow> table dict" where
  "rows_found found = map (\<lambda>(domain, a). (domain, sa_results a)) found"

definition logo_search_all :: "data_dir \<Rightarrow> str \<Rightarrow> int \<Rightarrow> load_error + table dict" where
  "logo_search_all db query max_results =
     map_sum id rows_found (search_each (\<lambda>domain. logo_search db query (Some domain) max_results) (keys LOGO_CSV_CONFIG))"

definition cip_search_all :: "data_dir \<Rightarrow> str \<Rightarrow> int \<Rightarrow> load_error + table dict" where
  "cip_search_all db query max_results =
     map_sum id rows_found (search_each (\<lambda>domain. cip_search db query (Some domain) max_results) (keys CIP_CSV_CONFIG))"

subsection \<open>The brief of a corporate identity\<close>

record cip_brief =
  cb_brand :: str
  cb_industry :: row
  cb_style :: row
  cb_deliverables :: table
  cb_primary :: str
  cb_secondary :: str
  cb_typography :: str
  cb_materials :: str
  cb_finishes :: str

definition first_hit :: "slide_reply \<Rightarrow> row option" where
  "first_hit reply =
     (case reply of NoFile _ _ \<Rightarrow> None
      | Found a \<Rightarrow> (case sa_results a of [] \<Rightarrow> None | r # _ \<Rightarrow> Some r))"

definition row_or_empty :: "row option \<Rightarrow> row" where
  "row_or_empty hit = (case hit of None \<Rightarrow> [] | Some r \<Rightarrow> r)"

fun first_hits :: "(str \<Rightarrow> load_error + slide_reply) \<Rightarrow> str list \<Rightarrow> load_error + table" where
  "first_hits f [] = Inr []"
| "first_hits f (d # ds) =
     (case f d of
        Inl e \<Rightarrow> Inl e
      | Inr reply \<Rightarrow>
          map_sum id (\<lambda>rs. case first_hit reply of None \<Rightarrow> rs | Some r \<Rightarrow> r # rs) (first_hits f ds))"

definition brief_of :: "str \<Rightarrow> row \<Rightarrow> row \<Rightarrow> table \<Rightarrow> cip_brief" where
  "brief_of brand_name industry style deliverables =
     \<lparr>cb_brand = brand_name, cb_industry = industry, cb_style = style, cb_deliverables = deliverables,
      cb_primary = get_or style ''Primary Colors'' (get_or industry ''Primary Colors'' []),
      cb_secondary = get_or style ''Secondary Colors'' (get_or industry ''Secondary Colors'' []),
      cb_typography = get_or style ''Typography'' (get_or industry ''Typography'' []),
      cb_materials = get_or style ''Materials'' [], cb_finishes = get_or style ''Finishes'' []\<rparr>"

definition key_deliverables :: "row \<Rightarrow> str list" where
  "key_deliverables industry = split_ws (get_or industry ''Key Deliverables'' [])"

definition wanted_style :: "str option \<Rightarrow> row \<Rightarrow> str" where
  "wanted_style style_query industry =
     (case style_query of
        Some q \<Rightarrow> if q \<noteq> [] then q else get_or industry ''CIP Style'' ''corporate minimal''
      | None \<Rightarrow> get_or industry ''CIP Style'' ''corporate minimal'')"

definition get_cip_brief :: "data_dir \<Rightarrow> str \<Rightarrow> str \<Rightarrow> str option \<Rightarrow> load_error + cip_brief" where
  "get_cip_brief db brand_name industry_query style_query =
     (case cip_search db industry_query (Some ''industry'') 1 of
        Inl e \<Rightarrow> Inl e
      | Inr industries \<Rightarrow>
          (let industry = row_or_empty (first_hit industries) in
           case cip_search db (wanted_style style_query industry) (Some ''style'') 1 of
             Inl e \<Rightarrow> Inl e
           | Inr styles \<Rightarrow>
               map_sum id (brief_of brand_name industry (row_or_empty (first_hit styles)))
                 (first_hits (\<lambda>d. cip_search db d (Some ''deliverable'') 1) (take 5 (key_deliverables industry)))))"

subsection \<open>Printing\<close>

abbreviation u_chart :: str where
  "u_chart \<equiv> [CHR 0xF0, CHR 0x9F, CHR 0x93, CHR 0x8A]"

abbreviation u_target :: str where
  "u_target \<equiv> [CHR 0xF0, CHR 0x9F, CHR 0x8E, CHR 0xAF]"

abbreviation u_pencil :: str where
  "u_pencil \<equiv> [CHR 0xE2, CHR 0x9C, CHR 0x8F, CHR 0xEF, CHR 0xB8, CHR 0x8F]"

abbreviation u_box :: str where
  "u_box \<equiv> [CHR 0xF0, CHR 0x9F, CHR 0x93, CHR 0xA6]"

abbreviation u_bullet :: str where
  "u_bullet \<equiv> [CHR 0xE2, CHR 0x80, CHR 0xA2]"

definition cip_result :: "nat \<times> row \<Rightarrow> str list" where
  "cip_result entry =
     [newline # replicate 60 CHR ''='', (''Result '' @ (str_of_nat (fst entry)) @ '':'')] @
     map (\<lambda>(key, v). (''  '' @ key @ '': '' @ v)) (filter (\<lambda>(key, v). v \<noteq> []) (snd entry))"

definition cip_format_results :: "table \<Rightarrow> str" where
  "cip_format_results rs =
     (if rs = [] then ''No results found.''
      else join [newline] (concat (map cip_result (zip [1..<Suc (length rs)] rs))))"

definition brief_deliverable :: "row \<Rightarrow> str" where
  "brief_deliverable d = (''   '' @ u_bullet @ '' '' @ (or_na d ''Deliverable'') @ '': '' @ (py_take 60 (get_or d ''Description'' [])) @ ''...'')"

definition format_brief :: "cip_brief \<Rightarrow> str" where
  "format_brief brief = join [newline]
     ([newline # replicate 60 CHR ''='', (''CIP DESIGN BRIEF: '' @ (cb_brand brief)), replicate 60 CHR ''=''] @
      (if cb_industry brief = [] then []
       else [([CHR 0x0A] @ u_chart @ '' INDUSTRY: '' @ (or_na (cb_industry brief) ''Industry'')),
             (''   Style: '' @ (or_na (cb_industry brief) ''CIP Style'')),
             (''   Mood: '' @ (or_na (cb_industry brief) ''Mood''))]) @
      (if cb_style brief = [] then []
       else [([CHR 0x0A] @ u_palette @ '' DESIGN STYLE: '' @ (or_na (cb_style brief) ''Style Name'')),
             (''   Description: '' @ (or_na (cb_style brief) ''Description'')),
             (''   Materials: '' @ (or_na (cb_style brief) ''Materials'')),
             (''   Finishes: '' @ (or_na (cb_style brief) ''Finishes''))]) @
      [([CHR 0x0A] @ u_target @ '' COLOR SYSTEM:''), (''   Primary: '' @ (cb_primary brief)), (''   Secondary: '' @ (cb_secondary brief)),
       ([CHR 0x0A] @ u_pencil @ '' TYPOGRAPHY: '' @ (cb_typography brief))] @
      (if cb_deliverables brief = [] then []
       else ([CHR 0x0A] @ u_box @ '' RECOMMENDED DELIVERABLES:'') # map brief_deliverable (cb_deliverables brief)))"

definition logo_value_line :: "str \<times> str \<Rightarrow> str" where
  "logo_value_line entry =
     (case entry of (key, v) \<Rightarrow>
        (''- **'' @ key @ '':** '' @ (if 300 < py_len v then py_take 300 v @ ''...'' else v)))"

definition logo_format_output :: "slide_reply \<Rightarrow> str" where
  "logo_format_output reply =
     (case reply of
        NoFile msg _ \<Rightarrow> (''Error: '' @ msg)
      | Found a \<Rightarrow> join [newline]
          ([''## Logo Design Search Results'',
            (''**Domain:** '' @ (sa_domain a) @ '' | **Query:** '' @ (sa_query a)),
            (''**Source:** '' @ (sa_file a) @ '' | **Found:** '' @ (str_of_nat (sa_count a)) @ '' results'' @ [CHR 0x0A])] @
           concat (map (\<lambda>(i, r). (''### Result '' @ (str_of_nat i)) # map logo_value_line r @ [[]])
             (zip [1..<Suc (length (sa_results a))] (sa_results a)))))"

definition industry_lines :: "row \<Rightarrow> str list" where
  "industry_lines r =
     [(''**Industry:** '' @ (or_na r ''Industry'')), (''- Recommended Styles: '' @ (or_na r ''Recommended Styles'')),
      (''- Colors: '' @ (or_na r ''Primary Colors'')), (''- Typography: '' @ (or_na r ''Typography'')),
      (''- Symbols: '' @ (or_na r ''Common Symbols'')), (''- Mood: '' @ (or_na r ''Mood'')),
      (''- Best Practices: '' @ (or_na r ''Best Practices'')), (''- Avoid: '' @ (or_na r ''Avoid'')), []]"

definition style_lines :: "row \<Rightarrow> str list" where
  "style_lines r =
     [(''**'' @ (or_na r ''Style Name'') @ ''** ('' @ (or_na r ''Category'') @ '')''),
      (''- Colors: '' @ (or_na r ''Primary Colors'') @ '' | '' @ (or_na r ''Secondary Colors'')),
      (''- Typography: '' @ (or_na r ''Typography'')), (''- Effects: '' @ (or_na r ''Effects'')),
      (''- Best For: '' @ (or_na r ''Best For'')), (''- Complexity: '' @ (or_na r ''Complexity'')), []]"

definition color_lines :: "row \<Rightarrow> str list" where
  "color_lines r =
     [(''**'' @ (or_na r ''Palette Name'') @ ''**''), (''- Primary: '' @ (or_na r ''Primary Hex'')),
      (''- Secondary: '' @ (or_na r ''Secondary Hex'')), (''- Accent: '' @ (or_na r ''Accent Hex'')),
      (''- Background: '' @ (or_na r ''Background Hex'')), (''- Psychology: '' @ (or_na r ''Psychology'')), []]"

definition brief_section :: "table dict \<Rightarrow> str \<Rightarrow> str \<Rightarrow> (row \<Rightarrow> str list) \<Rightarrow> str list" where
  "brief_section found domain heading row_lines =
     (case get found domain of None \<Rightarrow> [] | Some rs \<Rightarrow> heading # concat (map row_lines rs))"

definition generate_design_brief :: "data_dir \<Rightarrow> str \<Rightarrow> str option \<Rightarrow> load_error + str" where
  "generate_design_brief db query brand_name =
     map_sum id (\<lambda>found. join [newline]
       ([replicate 60 CHR ''='',
         (case brand_name of
            Some n \<Rightarrow> if n \<noteq> [] then (''  LOGO DESIGN BRIEF: '' @ (upper n)) else ''  LOGO DESIGN BRIEF''
          | None \<Rightarrow> ''  LOGO DESIGN BRIEF''),
         replicate 60 CHR ''='', (''  Query: '' @ query), replicate 60 CHR ''='', []] @
        brief_section found ''industry'' ''## INDUSTRY ANALYSIS'' industry_lines @
        brief_section found ''style'' ''## STYLE RECOMMENDATIONS'' style_lines @
        brief_section found ''color'' ''## COLOR PALETTE OPTIONS'' color_lines @
        [replicate 60 CHR ''=''])) (logo_search_all db query 2)"

subsection \<open>The commands\<close>

record catalogue_args =
  ca_json :: bool
  ca_query :: str
  ca_domain :: "str option"
  ca_max :: int
  ca_all :: bool
  ca_brief :: bool
  ca_brand :: "str option"
  ca_style :: "str option"

definition logo_main :: "data_dir \<Rightarrow> catalogue_args \<Rightarrow> load_error + str" where
  "logo_main db args =
     (if ca_brief args then generate_design_brief db (ca_query args) (ca_brand args)
      else map_sum id
        (\<lambda>reply. if ca_json args then json_write json_quote_utf8 0 (slide_reply_json reply) else logo_format_output reply)
        (logo_search db (ca_query args) (ca_domain args) (ca_max args)))"

text \<open>The lines printed, and the exception that then ends the command, if any.\<close>

datatype catalogue_fault = Unreadable load_error | KeyError str

definition print_reply :: "slide_reply \<Rightarrow> str list \<times> catalogue_fault option" where
  "print_reply reply =
     (case reply of
        NoFile _ domain \<Rightarrow> ([([CHR 0x0A] @ ''Domain: '' @ domain)], Some (KeyError ''query''))
      | Found a \<Rightarrow>
          ([([CHR 0x0A] @ ''Domain: '' @ (sa_domain a)), (''Query: '' @ (sa_query a)), (''Results: '' @ (str_of_nat (sa_count a))),
            cip_format_results (sa_results a)], None))"

text \<open>The brief and the rows of all domains as JSON; with \<open>--json\<close> a missing table is an answer, not an exception.\<close>

definition brief_json :: "cip_brief \<Rightarrow> json" where
  "brief_json brief = JObject
     [(''brand_name'', JString (cb_brand brief)), (''industry'', json_text_dict (cb_industry brief)),
      (''style'', json_text_dict (cb_style brief)), (''recommended_deliverables'', json_table (cb_deliverables brief)),
      (''color_system'', json_text_dict [(''primary'', cb_primary brief), (''secondary'', cb_secondary brief)]),
      (''typography'', JString (cb_typography brief)), (''materials'', JString (cb_materials brief)),
      (''finishes'', JString (cb_finishes brief))]"

definition tables_json :: "table dict \<Rightarrow> json" where
  "tables_json found = JObject (map (\<lambda>(domain, rs). (domain, json_table rs)) found)"

definition cip_main :: "data_dir \<Rightarrow> catalogue_args \<Rightarrow> str list \<times> catalogue_fault option" where
  "cip_main db args =
     (if ca_brief args
      then (case get_cip_brief db (case ca_brand args of None \<Rightarrow> ''BrandName'' | Some n \<Rightarrow> n) (ca_query args) (ca_style args) of
              Inl e \<Rightarrow> ([], Some (Unreadable e))
            | Inr brief \<Rightarrow> ([if ca_json args then json_dump 0 (brief_json brief) else format_brief brief], None))
      else if ca_all args
      then (case cip_search_all db (ca_query args) (ca_max args) of
              Inl e \<Rightarrow> ([], Some (Unreadable e))
            | Inr found \<Rightarrow>
                (if ca_json args then [json_dump 0 (tables_json found)]
                 else concat (map (\<lambda>(domain, rs). [newline # replicate 60 CHR ''#'', (''# '' @ (upper domain)), cip_format_results rs])
                   found), None))
      else (case cip_search db (ca_query args) (ca_domain args) (ca_max args) of
              Inl e \<Rightarrow> ([], Some (Unreadable e))
            | Inr reply \<Rightarrow> if ca_json args then ([json_dump 0 (slide_reply_json reply)], None) else print_reply reply))"

subsection \<open>What the brief recommends\<close>

lemma first_hits_members:
  "first_hits f ds = Inr rs \<Longrightarrow>
   length rs \<le> length ds \<and> (\<forall>r \<in> set rs. \<exists>d \<in> set ds. \<exists>reply. f d = Inr reply \<and> first_hit reply = Some r)"
proof (induction ds arbitrary: rs)
  case (Cons d ds)
  then obtain reply rs' where f: "f d = Inr reply" "first_hits f ds = Inr rs'"
    and rs: "rs = (case first_hit reply of None \<Rightarrow> rs' | Some r \<Rightarrow> r # rs')"
    by (auto simp: map_sum_def split: sum.splits)
  from Cons.IH [OF f(2)] f(1) show ?case unfolding rs by (cases "first_hit reply") auto
qed simp

lemma table_search_first:
  assumes "table_search path_in tables fallback db query domain 1 = Inr reply" and "first_hit reply = Some r"
    and "get tables domain = Some config" and "contents db (path_in (tb_file config)) = Inr data"
  shows "\<exists>row \<in> set data. r = project_row row (tb_output config) \<and> simple_hits query (row_text (tb_search config) row)"
proof -
  let ?file = "path_in (tb_file config)"
  from assms(1-3) have there: "db ?file \<noteq> None" by (auto simp: table_search_def has_key_def first_hit_def Let_def split: if_splits)
  obtain hits where hits: "search_csv_rows db ?file (tb_search config) (tb_output config) query 1 =
      Inr (map (\<lambda>r. project_row r (tb_output config)) hits)"
    and all: "\<forall>r \<in> set hits. r \<in> set data \<and> simple_hits query (row_text (tb_search config) r)"
    using search_csv_rows_hits [OF assms(4) there, of 1 "tb_search config" "tb_output config" query] by auto
  from assms(1,3) there hits have "reply = Found \<lparr>sa_domain = domain, sa_query = query, sa_file = tb_file config,
      sa_count = length hits, sa_results = map (\<lambda>r. project_row r (tb_output config)) hits\<rparr>"
    by (simp add: table_search_def has_key_def Let_def)
  with assms(2) all show ?thesis by (cases hits) (auto simp: first_hit_def)
qed

lemma brief_deliverables:
  assumes "get_cip_brief db brand_name industry_query style_query = Inr brief"
    and "get CIP_CSV_CONFIG ''deliverable'' = Some config" and "contents db (cip_path (tb_file config)) = Inr data"
  shows "length (cb_deliverables brief) \<le> 5 \<and>
    (\<forall>r \<in> set (cb_deliverables brief). \<exists>d \<in> set (key_deliverables (cb_industry brief)). \<exists>row \<in> set data.
       r = project_row row (tb_output config) \<and> simple_hits d (row_text (tb_search config) row))"
proof -
  let ?f = "\<lambda>d. cip_search db d (Some ''deliverable'') 1"
  from assms(1) obtain industry style rs where brief: "brief = brief_of brand_name industry style rs"
    and rs: "first_hits ?f (take 5 (key_deliverables industry)) = Inr rs"
    by (auto simp: get_cip_brief_def Let_def map_sum_def split: sum.splits)
  note members = first_hits_members [OF rs]
  have "\<exists>d \<in> set (key_deliverables industry). \<exists>row \<in> set data.
      r = project_row row (tb_output config) \<and> simple_hits d (row_text (tb_search config) row)" if r: "r \<in> set rs" for r
  proof -
    from members r obtain d reply where d: "d \<in> set (take 5 (key_deliverables industry))"
      and s: "?f d = Inr reply" "first_hit reply = Some r" by blast
    from s(1) have "table_search cip_path CIP_CSV_CONFIG ''deliverable'' db d ''deliverable'' 1 = Inr reply"
      by (simp add: cip_search_def)
    from table_search_first [OF this s(2) assms(2,3)] d show ?thesis by (meson in_set_takeD)
  qed
  moreover have "length rs \<le> 5" using members by simp
  ultimately show ?thesis by (simp add: brief brief_of_def)
qed

subsection \<open>What is printed as JSON\<close>

lemma table_search_sound:
  assumes "table_search path_in tables fallback db query domain n = Inr (Found a)"
    and "\<forall>c \<in> set (map snd tables). distinct (tb_output c)" and "has_key tables fallback" and "r \<in> set (sa_results a)"
  shows "distinct (keys r)"
proof -
  let ?d = "if has_key tables domain then domain else fallback"
  have "has_key tables ?d" using assms(3) by simp
  then obtain c where c: "get tables ?d = Some c" by (auto simp: has_key_def)
  then have distinct: "distinct (tb_output c)" using assms(2) by (force dest: map_of_SomeD)
  have "a = \<lparr>sa_domain = domain, sa_query = query, sa_file = tb_file c, sa_count = length rs, sa_results = rs\<rparr>"
    if "search_csv_rows db (path_in (tb_file c)) (tb_search c) (tb_output c) query n = Inr rs" for rs
    using assms(1) c that by (auto simp: table_search_def Let_def split: if_splits)
  moreover obtain rs where rs: "search_csv_rows db (path_in (tb_file c)) (tb_search c) (tb_output c) query n = Inr rs"
    using assms(1) c
    by (cases "search_csv_rows db (path_in (tb_file c)) (tb_search c) (tb_output c) query n")
      (auto simp: table_search_def Let_def split: if_splits)
  ultimately have "r \<in> set rs" using assms(4) by simp
  then obtain row where "r = project_row row (tb_output c)"
    using rs by (auto simp: search_csv_rows_def Let_def split: option.splits sum.splits)
  then show ?thesis using distinct by (simp add: project_row_keys)
qed

lemma readable_reply:
  assumes "\<forall>a. reply = Found a \<longrightarrow> (\<forall>r \<in> set (sa_results a). distinct (keys r))"
  shows "readable (\<lambda>_. True) (slide_reply_json reply)"
  using assms
  by (cases reply) (auto simp: slide_reply_json_def slide_answer_json_def readable_values list_all_iff keys_def)

text \<open>The logo search prints one document, which reads back as the answer.\<close>

lemma logo_json_reads_back:
  assumes "ca_json args" "\<not> ca_brief args" and "logo_main db args = Inr document"
  shows "\<exists>reply. logo_search db (ca_query args) (ca_domain args) (ca_max args) = Inr reply \<and>
    json_loads () plain_object document = Inr (slide_reply_json reply)"
proof -
  from assms obtain reply where reply: "logo_search db (ca_query args) (ca_domain args) (ca_max args) = Inr reply"
    and document: "document = json_write json_quote_utf8 0 (slide_reply_json reply)"
    by (cases "logo_search db (ca_query args) (ca_domain args) (ca_max args)") (auto simp: logo_main_def)
  have "\<forall>c \<in> set (map snd LOGO_CSV_CONFIG). distinct (tb_output c)" "has_key LOGO_CSV_CONFIG ''style''" by code_simp+
  then have "\<forall>a. reply = Found a \<longrightarrow> (\<forall>r \<in> set (sa_results a). distinct (keys r))"
    using table_search_sound reply unfolding logo_search_def by blast
  then have "readable (\<lambda>_. True) (slide_reply_json reply)" by (rule readable_reply)
  with reply document show ?thesis by (auto intro: unescaped.loads_write)
qed

subsection \<open>When the command fails\<close>

lemma cip_main_missing:
  assumes "\<not> ca_brief args" "\<not> ca_all args" "\<not> ca_json args"
  shows "snd (cip_main db args) = Some (KeyError ''query'') \<longleftrightarrow>
    (\<exists>msg domain. cip_search db (ca_query args) (ca_domain args) (ca_max args) = Inr (NoFile msg domain))"
  using assms by (auto simp: cip_main_def print_reply_def split: sum.splits slide_reply.splits)
end
