(* ===== verification/CipPage.thy ===== *)
theory CipPage
  imports Runs Html Files PyNumbers Catalogues
begin

text \<open>
  \<open>cip/render-html.py\<close>: a presentation in HTML of the images of a corporate identity. The listing of a
  directory, the date and the text of an \<open>OSError\<close> are arguments. Values are not escaped: the markup of
  the page is fixed where the values are inert, and a brand name can add to it.
\<close>

abbreviation u_done :: str where
  "u_done \<equiv> [CHR 0xE2, CHR 0x9C, CHR 0x85]"

subsection \<open>Deliverables\<close>

datatype deliverable_info = Info (info_title: str) (info_concept: str) (info_purpose: str) (info_specs: str)

definition DELIVERABLE_INFO :: "deliverable_info dict" where
  "DELIVERABLE_INFO =
    [(''business card'', Info ''Business Card'' ''First impression touchpoint for professional networking''
        ''Creates memorable brand recall during business exchanges''
        ''Standard 3.5 x 2 inches, premium paper stock''),
     (''letterhead'', Info ''Letterhead'' ''Official correspondence identity''
        ''Establishes credibility and professionalism in written communications''
        ''A4/Letter size, digital and print versions''),
     (''document template'', Info ''Document Template'' ''Branded document system for internal and external use''
        ''Ensures consistent brand representation across all documents''
        ''Multiple formats: Word, PDF, Google Docs compatible''),
     (''reception signage'', Info ''Reception Signage'' ''Brand presence in physical office environment''
        ''Creates strong first impression for visitors and reinforces brand identity''
        ''3D dimensional letters, backlit LED options, premium materials''),
     (''office signage'', Info ''Office Signage'' ''Wayfinding and brand presence system''
        ''Guides visitors while maintaining consistent brand experience''
        ''Modular system with directional and informational signs''),
     (''polo shirt'', Info ''Polo Shirt'' ''Professional team apparel''
        ''Creates unified team identity and brand ambassadorship''
        ''Premium pique cotton, embroidered logo on left chest''),
     (''t-shirt'', Info ''T-Shirt'' ''Casual brand apparel''
        ''Extends brand reach through everyday wear and promotional events''
        ''High-quality cotton, screen print or embroidery options''),
     (''vehicle'', Info ''Vehicle Branding'' ''Mobile brand advertising''
        ''Transforms fleet into moving billboards for maximum visibility''
        ''Partial or full wrap, vinyl graphics, weather-resistant''),
     (''van'', Info ''Van Branding'' ''Commercial vehicle identity''
        ''Professional fleet presence for service and delivery operations''
        ''Full wrap design, high-visibility contact information''),
     (''car'', Info ''Car Branding'' ''Executive vehicle identity''
        ''Professional presence for corporate and sales teams''
        ''Subtle branding, door panels and rear window''),
     (''envelope'', Info ''Envelope'' ''Branded mail correspondence''
        ''Extends brand identity to all outgoing mail''
        ''DL, C4, C5 sizes with logo placement''),
     (''folder'', Info ''Presentation Folder'' ''Document organization with brand identity''
        ''Professional presentation of proposals and materials''
        ''A4/Letter pocket folder with die-cut design'')]"

definition get_deliverable_info :: "str \<Rightarrow> deliverable_info" where
  "get_deliverable_info filename =
     (let filename_lower = lower filename in
      case find (\<lambda>(key, _). contains (replace_all '' '' ''-'' key) filename_lower \<or>
          contains (replace_all '' '' ''_'' key) filename_lower) DELIVERABLE_INFO of
        Some (_, info) \<Rightarrow> info
      | None \<Rightarrow>
          Info (title_from False (map (\<lambda>c. if c = CHR ''-'' \<or> c = CHR ''_'' then CHR '' '' else c) filename))
            ''Brand identity application'' ''Extends brand presence across touchpoints'' ''Custom specifications'')"

subsection \<open>Images\<close>

definition base64_alphabet :: str where
  "base64_alphabet = ''ABCDEFGHIJKLMNOPQRSTUVWXYZabcdefghijklmnopqrstuvwxyz0123456789+/''"

definition sextet :: "nat \<Rightarrow> char" where
  "sextet n = base64_alphabet ! (n mod 64)"

fun b64encode :: "str \<Rightarrow> str" where
  "b64encode (x # y # z # s) =
     (let n = code x * 65536 + code y * 256 + code z in
      sextet (n div 262144) # sextet (n div 4096) # sextet (n div 64) # sextet n # b64encode s)"
| "b64encode [x, y] =
     (let n = code x * 1024 + code y * 4 in [sextet (n div 4096), sextet (n div 64), sextet n, CHR ''=''])"
| "b64encode [x] = (let n = code x * 16 in [sextet (n div 64), sextet n, CHR ''='', CHR ''=''])"
| "b64encode [] = []"

text \<open>The line printed, if any, and the encoded image.\<close>

definition get_image_base64 :: "(path \<Rightarrow> str) \<Rightarrow> filesystem \<Rightarrow> path \<Rightarrow> str list \<times> str option" where
  "get_image_base64 error_text fs p =
     (case fs_files fs p of
        Some bytes \<Rightarrow> ([], Some (b64encode bytes))
      | None \<Rightarrow> ([(''Warning: Could not load image '' @ (path_str p) @ '': '' @ (error_text p))], None))"

definition image_source :: "path \<Rightarrow> str option \<Rightarrow> str" where
  "image_source p img_base64 =
     (case img_base64 of
        Some (c # s) \<Rightarrow> ''data:image/png;base64,'' @ c # s
      | _ \<Rightarrow> path_str p)"

text \<open>The name of a file without its last suffix.\<close>

definition png_stem :: "str \<Rightarrow> str" where
  "png_stem name = (if name = ''.png'' then name else take (length name - 4) name)"

subsection \<open>The page\<close>

datatype page_hole =
    BrandName | Industry | StyleName | Mood | Count | Source | InfoTitle | Concept | Purpose | Specs | Today

type_synonym page_part = "page_hole part"

definition page_head :: "page_part list" where
  "page_head =
    [Line ''<!DOCTYPE html>'',
     Line ''<html lang=\"en\">'',
     Line ''<head>'',
     Line ''    <meta charset=\"UTF-8\">'',
     Line ''    <meta name=\"viewport\" content=\"width=device-width, initial-scale=1.0\">'',
     Lit ''    <title>'',
     Hole BrandName,
     Line '' - Corporate Identity Program</title>'']"

definition page_css_hero :: "page_part list" where
  "page_css_hero =
    [Line ''    <style>'',
     Line ''        * {'',
     Line ''            margin: 0;'',
     Line ''            padding: 0;'',
     Line ''            box-sizing: border-box;'',
     Line ''        }'',
     Line ''        body {'',
     Line (''            font-family: -apple-system, BlinkMacSystemFont, '' @ [CHR 0x27] @ ''Segoe UI'' @ [CHR 0x27] @ '', Roboto, Oxygen, Ubuntu, sans-serif;''),
     Line ''            background: #0a0a0a;'',
     Line ''            color: #ffffff;'',
     Line ''            line-height: 1.6;'',
     Line ''        }'',
     Line ''        .hero {'',
     Line ''            min-height: 100vh;'',
     Line ''            display: flex;'',
     Line ''            flex-direction: column;'',
     Line ''            justify-content: center;'',
     Line ''            align-items: center;'',
     Line ''            text-align: center;'',
     Line ''            padding: 4rem 2rem;'',
     Line ''            background: linear-gradient(135deg, #1a1a2e 0%, #0a0a0a 100%);'',
     Line ''        }'',
     Line ''        .hero h1 {'',
     Line ''            font-size: 4rem;'',
     Line ''            font-weight: 700;'',
     Line ''            letter-spacing: -0.02em;'',
     Line ''            margin-bottom: 1rem;'',
     Line ''            background: linear-gradient(135deg, #ffffff 0%, #888888 100%);'',
     Line ''            -webkit-background-clip: text;'',
     Line ''            -webkit-text-fill-color: transparent;'',
     Line ''        }'',
     Line ''        .hero .subtitle {'',
     Line ''            font-size: 1.5rem;'',
     Line ''            color: #888;'',
     Line ''            margin-bottom: 3rem;'',
     Line ''        }'',
     Line ''        .hero .meta {'',
     Line ''            display: flex;'',
     Line ''            gap: 3rem;'',
     Line ''            flex-wrap: wrap;'',
     Line ''            justify-content: center;'',
     Line ''        }'',
     Line ''        .hero .meta-item {'',
     Line ''            text-align: center;'',
     Line ''        }'',
     Line ''        .hero .meta-label {'',
     Line ''            font-size: 0.75rem;'',
     Line ''            text-transform: uppercase;'',
     Line ''            letter-spacing: 0.1em;'',
     Line ''            color: #666;'',
     Line ''            margin-bottom: 0.5rem;'',
     Line ''        }'',
     Line ''        .hero .meta-value {'',
     Line ''            font-size: 1rem;'',
     Line ''            color: #ccc;'',
     Line ''        }'']"

definition page_css_sections :: "page_part list" where
  "page_css_sections =
    [Line ''        .section {'',
     Line ''            padding: 6rem 2rem;'',
     Line ''            max-width: 1400px;'',
     Line ''            margin: 0 auto;'',
     Line ''        }'',
     Line ''        .section-title {'',
     Line ''            font-size: 2.5rem;'',
     Line ''            font-weight: 600;'',
     Line ''            margin-bottom: 1rem;'',
     Line ''            color: #fff;'',
     Line ''        }'',
     Line ''        .section-subtitle {'',
     Line ''            font-size: 1.1rem;'',
     Line ''            color: #888;'',
     Line ''            margin-bottom: 4rem;'',
     Line ''            max-width: 600px;'',
     Line ''        }'',
     Line ''        .deliverable {'',
     Line ''            display: grid;'',
     Line ''            grid-template-columns: 1fr 1fr;'',
     Line ''            gap: 4rem;'',
     Line ''            margin-bottom: 8rem;'',
     Line ''            align-items: center;'',
     Line ''        }'',
     Line ''        .deliverable:nth-child(even) {'',
     Line ''            direction: rtl;'',
     Line ''        }'',
     Line ''        .deliverable:nth-child(even) > * {'',
     Line ''            direction: ltr;'',
     Line ''        }'',
     Line ''        .deliverable-image {'',
     Line ''            position: relative;'',
     Line ''            border-radius: 16px;'',
     Line ''            overflow: hidden;'',
     Line ''            box-shadow: 0 25px 50px -12px rgba(0, 0, 0, 0.5);'',
     Line ''        }'',
     Line ''        .deliverable-image img {'',
     Line ''            width: 100%;'',
     Line ''            height: auto;'',
     Line ''            display: block;'',
     Line ''        }'',
     Line ''        .deliverable-content {'',
     Line ''            padding: 2rem 0;'',
     Line ''        }'']"

definition page_css_deliverables :: "page_part list" where
  "page_css_deliverables =
    [Line ''        .deliverable-title {'',
     Line ''            font-size: 2rem;'',
     Line ''            font-weight: 600;'',
     Line ''            margin-bottom: 1rem;'',
     Line ''            color: #fff;'',
     Line ''        }'',
     Line ''        .deliverable-concept {'',
     Line ''            font-size: 1.1rem;'',
     Line ''            color: #aaa;'',
     Line ''            margin-bottom: 1.5rem;'',
     Line ''            font-style: italic;'',
     Line ''        }'',
     Line ''        .deliverable-purpose {'',
     Line ''            font-size: 1rem;'',
     Line ''            color: #888;'',
     Line ''            margin-bottom: 1.5rem;'',
     Line ''            line-height: 1.8;'',
     Line ''        }'',
     Line ''        .deliverable-specs {'',
     Line ''            display: inline-block;'',
     Line ''            padding: 0.5rem 1rem;'',
     Line ''            background: rgba(255, 255, 255, 0.05);'',
     Line ''            border-radius: 8px;'',
     Line ''            font-size: 0.85rem;'',
     Line ''            color: #666;'',
     Line ''        }'',
     Line ''        .color-palette {'',
     Line ''            display: flex;'',
     Line ''            gap: 1rem;'',
     Line ''            margin-top: 2rem;'',
     Line ''        }'',
     Line ''        .color-swatch {'',
     Line ''            width: 60px;'',
     Line ''            height: 60px;'',
     Line ''            border-radius: 12px;'',
     Line ''            box-shadow: 0 4px 12px rgba(0, 0, 0, 0.3);'',
     Line ''        }'']"

definition page_css_footer :: "page_part list" where
  "page_css_footer =
    [Line ''        .footer {'',
     Line ''            text-align: center;'',
     Line ''            padding: 4rem 2rem;'',
     Line ''            border-top: 1px solid #222;'',
     Line ''            color: #666;'',
     Line ''        }'',
     Line ''        .footer p {'',
     Line ''            margin-bottom: 0.5rem;'',
     Line ''        }'',
     Line ''        @media (max-width: 900px) {'',
     Line ''            .hero h1 {'',
     Line ''                font-size: 2.5rem;'',
     Line ''            }'',
     Line ''            .deliverable {'',
     Line ''                grid-template-columns: 1fr;'',
     Line ''                gap: 2rem;'',
     Line ''            }'',
     Line ''            .deliverable:nth-child(even) {'',
     Line ''                direction: ltr;'',
     Line ''            }'',
     Line ''        }'']"

definition page_hero :: "page_part list" where
  "page_hero =
    [Line ''    </style>'',
     Line ''</head>'',
     Line ''<body>'',
     Line ''    <section class=\"hero\">'',
     Lit ''        <h1>'',
     Hole BrandName,
     Line ''</h1>'',
     Line ''        <p class=\"subtitle\">Corporate Identity Program</p>'',
     Line ''        <div class=\"meta\">'',
     Line ''            <div class=\"meta-item\">'',
     Line ''                <div class=\"meta-label\">Industry</div>'',
     Lit ''                <div class=\"meta-value\">'',
     Hole Industry,
     Line ''</div>'',
     Line ''            </div>'',
     Line ''            <div class=\"meta-item\">'',
     Line ''                <div class=\"meta-label\">Style</div>'',
     Lit ''                <div class=\"meta-value\">'',
     Hole StyleName,
     Line ''</div>'',
     Line ''            </div>'',
     Line ''            <div class=\"meta-item\">'',
     Line ''                <div class=\"meta-label\">Mood</div>'',
     Lit ''                <div class=\"meta-value\">'',
     Hole Mood,
     Line ''</div>'',
     Line ''            </div>'',
     Line ''            <div class=\"meta-item\">'',
     Line ''                <div class=\"meta-label\">Deliverables</div>'',
     Lit ''                <div class=\"meta-value\">'',
     Hole Count,
     Line '' Items</div>'',
     Line ''            </div>'',
     Line ''        </div>'',
     Line ''    </section>'',
     Line [],
     Line ''    <section class=\"section\">'',
     Line ''        <h2 class=\"section-title\">Brand Applications</h2>'',
     Line ''        <p class=\"section-subtitle\">'',
     Line ''            Comprehensive identity system designed to maintain consistency'',
     Line ''            across all brand touchpoints and communications.'',
     Line ''        </p>'']"

definition deliverable_block :: "page_part list" where
  "deliverable_block =
    [Line [],
     Line ''        <div class=\"deliverable\">'',
     Line ''            <div class=\"deliverable-image\">'',
     Lit ''                <img src=\"'',
     Hole Source,
     Lit ''\" alt=\"'',
     Hole InfoTitle,
     Line ''\" loading=\"lazy\">'',
     Line ''            </div>'',
     Line ''            <div class=\"deliverable-content\">'',
     Lit ''                <h3 class=\"deliverable-title\">'',
     Hole InfoTitle,
     Line ''</h3>'',
     Lit ''                <p class=\"deliverable-concept\">'',
     Hole Concept,
     Line ''</p>'',
     Lit ''                <p class=\"deliverable-purpose\">'',
     Hole Purpose,
     Line ''</p>'',
     Lit ''                <span class=\"deliverable-specs\">'',
     Hole Specs,
     Line ''</span>'',
     Line ''            </div>'',
     Line ''        </div>'']"

definition page_end :: "page_part list" where
  "page_end =
    [Line [],
     Line ''    </section>'',
     Line [],
     Line ''    <footer class=\"footer\">'',
     Lit ''        <p><strong>'',
     Hole BrandName,
     Line ''</strong> Corporate Identity Program</p>'',
     Lit ''        <p>Generated on '',
     Hole Today,
     Line ''</p>'',
     Line ''        <p style=\"margin-top: 1rem; font-size: 0.8rem;\">Powered by CIP Design Skill</p>'',
     Line ''    </footer>'',
     Line ''</body>'',
     Line ''</html>'']"

text \<open>The values of the page, and those of one of its blocks.\<close>

definition page_value :: "str \<Rightarrow> str \<Rightarrow> str \<Rightarrow> cip_brief \<Rightarrow> nat \<Rightarrow> page_hole \<Rightarrow> str" where
  "page_value brand_name industry today brief n hole =
     (case hole of
        BrandName \<Rightarrow> brand_name
      | Industry \<Rightarrow> get_or (cb_industry brief) ''Industry'' (title_from False industry)
      | StyleName \<Rightarrow> get_or (cb_style brief) ''Style Name'' ''Corporate''
      | Mood \<Rightarrow> get_or (cb_style brief) ''Mood'' ''Professional''
      | Count \<Rightarrow> str_of_nat n
      | Today \<Rightarrow> today
      | _ \<Rightarrow> [])"

definition block_value :: "deliverable_info \<Rightarrow> str \<Rightarrow> page_hole \<Rightarrow> str" where
  "block_value info img_src hole =
     (case hole of
        Source \<Rightarrow> img_src
      | InfoTitle \<Rightarrow> info_title info
      | Concept \<Rightarrow> info_concept info
      | Purpose \<Rightarrow> info_purpose info
      | Specs \<Rightarrow> info_specs info
      | _ \<Rightarrow> [])"

definition image_block :: "(path \<Rightarrow> str) \<Rightarrow> filesystem \<Rightarrow> path \<Rightarrow> str \<Rightarrow> str list \<times> str" where
  "image_block error_text fs dir name =
     (case get_image_base64 error_text fs (sub_path dir [name]) of
        (warnings, img) \<Rightarrow>
          (warnings, fill (block_value (get_deliverable_info (png_stem name)) (image_source (sub_path dir [name]) img))
             deliverable_block))"

definition page_top :: "page_part list" where
  "page_top = page_head @ page_css_hero @ page_css_sections @ page_css_deliverables @ page_css_footer @ page_hero"

definition page_html :: "(page_hole \<Rightarrow> str) \<Rightarrow> str list \<Rightarrow> str" where
  "page_html val sections = fill val page_top @ concat sections @ fill val page_end"

definition png_images :: "str list \<Rightarrow> str list" where
  "png_images names = sort (filter (\<lambda>n. 4 \<le> length n \<and> drop (length n - 4) n = ''.png'') names)"

text \<open>\<open>dir / name\<close> for a name that may be a path itself.\<close>

datatype render_fault = BriefFailed load_error | WriteFailed

record render_args =
  ra_brand :: str
  ra_industry :: str
  ra_style :: "str option"
  ra_images :: str
  ra_output :: "str option"

definition page_target :: "render_args \<Rightarrow> path" where
  "page_target arg =
     (case ra_output arg of
        Some (c # s) \<Rightarrow> path_of (c # s)
      | _ \<Rightarrow> join_path (path_of (ra_images arg))
               (replace_all '' '' ''-'' (lower (ra_brand arg)) @ ''-cip-presentation.html''))"

definition rendered :: "(path \<Rightarrow> str) \<Rightarrow> str \<Rightarrow> cip_brief \<Rightarrow> filesystem \<Rightarrow> render_args \<Rightarrow> str list \<Rightarrow> str list \<times> str" where
  "rendered error_text today brief fs arg images =
     (let sections = map (image_block error_text fs (path_of (ra_images arg))) images in
      (concat (map fst sections),
       page_html (page_value (ra_brand arg) (ra_industry arg) today brief (length images)) (map snd sections)))"

text \<open>What is printed, the fault or the path that is returned, and the files left.\<close>

definition generate_html ::
  "(path \<Rightarrow> str) \<Rightarrow> str \<Rightarrow> (path \<Rightarrow> str list) \<Rightarrow> data_dir \<Rightarrow> render_args \<Rightarrow> filesystem \<Rightarrow>
   (str list \<times> (render_fault + path option)) \<times> filesystem" where
  "generate_html error_text today names db arg fs =
     (let dir = path_of (ra_images arg); images = png_images (names dir) in
      if fs_files fs dir = None \<and> \<not> fs_dirs fs dir
      then (([(''Error: Directory not found: '' @ (path_str dir))], Inr None), fs)
      else if images = [] then (([(''Error: No PNG images found in '' @ (path_str dir))], Inr None), fs)
      else case get_cip_brief db (ra_brand arg) (ra_industry arg) (ra_style arg) of
             Inl e \<Rightarrow> (([], Inl (BriefFailed e)), fs)
           | Inr brief \<Rightarrow>
               (case rendered error_text today brief fs arg images of
                  (warnings, html) \<Rightarrow>
                    (case write_text (page_target arg) html fs of
                       None \<Rightarrow> ((warnings, Inl WriteFailed), fs)
                     | Some fs' \<Rightarrow>
                         ((warnings @ [(u_done @ '' HTML presentation generated: '' @ (path_str (page_target arg)))],
                           Inr (Some (page_target arg))), fs'))))"

subsection \<open>Markup\<close>

lemma inert_sextets: "inert (b64encode s)"
proof -
  have "list_all (\<lambda>c. c \<noteq> CHR ''<'' \<and> c \<noteq> CHR 0x22) base64_alphabet" "length base64_alphabet = 64" by code_simp+
  then have "sextet n \<noteq> CHR ''<'' \<and> sextet n \<noteq> CHR 0x22" for n
    unfolding sextet_def list_all_length by simp
  then have sextet: "CHR ''<'' \<noteq> sextet n \<and> CHR 0x22 \<noteq> sextet n" for n by metis
  show ?thesis by (induction s rule: b64encode.induct) (auto simp: inert_def Let_def sextet)
qed

lemma page_is_text:
  "list_all text_to_text [page_head, page_css_hero, page_css_sections, page_css_deliverables, page_css_footer, page_hero,
     deliverable_block, page_end]"
  by code_simp

lemma inert_infos: "list_all (\<lambda>(k, i). list_all inert [info_title i, info_concept i, info_purpose i, info_specs i]) DELIVERABLE_INFO"
  by code_simp

lemma inert_title_from: "inert s \<Longrightarrow> inert (title_from w s)"
proof (induction w s rule: title_from.induct)
  case (2 w c s)
  have codes: "code CHR ''<'' = 60" "code CHR 0x22 = 34" by code_simp+
  have "CHR ''<'' \<noteq> lower_char c \<and> CHR 0x22 \<noteq> lower_char c \<and> CHR ''<'' \<noteq> upper_char c \<and> CHR 0x22 \<noteq> upper_char c"
    if "is_upper c \<or> is_lower c"
    using that codes
    by (auto simp: lower_char_def upper_char_def is_upper_def is_lower_def simp flip: code_inject)
  with 2 show ?case by (auto simp: inert_def)
qed (simp add: inert_def)

lemma inert_info:
  assumes "inert stem"
  shows "inert (block_value (get_deliverable_info stem) src h) \<or> h = Source"
proof -
  let ?info = "get_deliverable_info stem"
  have title: "inert (title_from False (map (\<lambda>c. if c = CHR ''-'' \<or> c = CHR ''_'' then CHR '' '' else c) stem))"
    using assms by (intro inert_title_from) (auto simp: inert_def)
  have texts: "inert ''Brand identity application''" "inert ''Extends brand presence across touchpoints''"
    "inert ''Custom specifications''"
    by code_simp+
  have "list_all inert [info_title ?info, info_concept ?info, info_purpose ?info, info_specs ?info]"
  proof (cases "find (\<lambda>(key, _). contains (replace_all '' '' ''-'' key) (lower stem) \<or>
      contains (replace_all '' '' ''_'' key) (lower stem)) DELIVERABLE_INFO")
    case None
    with title texts show ?thesis by (simp add: get_deliverable_info_def)
  next
    case (Some entry)
    then have "entry \<in> set DELIVERABLE_INFO" by (rule find_SomeD [THEN conjunct2])
    with inert_infos Some show ?thesis by (cases entry) (auto simp: get_deliverable_info_def list_all_iff)
  qed
  then show ?thesis by (cases h) (simp_all add: block_value_def inert_def)
qed

lemma inert_path:
  assumes "inert s" and "inert name"
  shows "inert (path_str (sub_path (path_of s) [name]))"
proof -
  let ?parts = "filter (\<lambda>p. p \<noteq> [] \<and> p \<noteq> ''.'') (split_on (\<lambda>c. c = CHR ''/'') s) @ [name]"
  have inert_join: "(\<forall>x \<in> set xs. inert x) \<Longrightarrow> inert (join ''/'' xs)" for xs
    by (induction "''/''" xs rule: join.induct) (auto simp: inert_def)
  have "inert p" if "p \<in> set ?parts" for p
    using that assms split_on_parts [of p "\<lambda>c. c = CHR ''/''" s] by (auto simp: inert_def)
  with inert_join have "inert (join ''/'' ?parts)" by blast
  then show ?thesis by (simp add: path_str_def sub_path_def path_of_def inert_def)
qed

lemma block_markup:
  assumes "inert s" and "inert name"
  shows "scan InText (snd (image_block error_text fs (path_of s) name)) = (InText, markup_of deliverable_block)"
proof -
  let ?src = "image_source (sub_path (path_of s) [name]) (snd (get_image_base64 error_text fs (sub_path (path_of s) [name])))"
  have prefix: "inert ''data:image/png;base64,''" by code_simp
  have src: "inert ?src"
    using inert_path [OF assms] inert_append [THEN iffD2, OF conjI [OF prefix inert_sextets]]
    by (auto simp: image_source_def get_image_base64_def split: option.splits list.splits) metis
  have "inert (png_stem name)"
    using assms(2) by (auto simp: png_stem_def inert_def dest: in_set_takeD)
  then have "inert (block_value (get_deliverable_info (png_stem name)) ?src h)" for h
    using inert_info [of "png_stem name" ?src h] src by (cases "h = Source") (auto simp: block_value_def)
  then have "inert_values (block_value (get_deliverable_info (png_stem name)) ?src)" by (rule inert_values.intro)
  moreover have "text_to_text deliverable_block" using page_is_text by simp
  ultimately show ?thesis
    using inert_values.scan_text by (fastforce simp: image_block_def split: prod.splits)
qed

definition page_markup :: "nat \<Rightarrow> str" where
  "page_markup n = markup_of page_top @ concat (replicate n (markup_of deliverable_block)) @ markup_of page_end"

lemma top_is_text: "text_to_text page_top"
  using page_is_text by (simp add: page_top_def text_to_text_append)

lemma page_html_markup:
  assumes "inert_values val" and "list_all (\<lambda>s. scan InText s = (InText, markup_of deliverable_block)) sections"
  shows "scan InText (page_html val sections) = (InText, page_markup (length sections))"
proof -
  have "scan InText (concat sections) = (InText, concat (replicate (length sections) (markup_of deliverable_block)))"
    using assms(2) by (induction sections) (simp_all add: scan_append)
  with inert_values.scan_text [OF assms(1)] top_is_text page_is_text show ?thesis
    by (simp add: page_html_def page_markup_def scan_append)
qed

lemma written_page:
  assumes "generate_html error_text today names db arg fs = ((lines, Inr (Some p)), fs')"
  shows "\<exists>brief html. get_cip_brief db (ra_brand arg) (ra_industry arg) (ra_style arg) = Inr brief \<and>
    html = snd (rendered error_text today brief fs arg (png_images (names (path_of (ra_images arg))))) \<and>
    p = page_target arg \<and> fs' = fs\<lparr>fs_files := (fs_files fs)(p \<mapsto> html)\<rparr>"
  using assms
  by (auto simp: generate_html_def write_text_def Let_def split: if_splits sum.splits prod.splits)

lemma page_is_written:
  assumes "fs_dirs fs (path_of (ra_images arg))" and "png_images (names (path_of (ra_images arg))) \<noteq> []"
    and "get_cip_brief db (ra_brand arg) (ra_industry arg) (ra_style arg) = Inr brief"
    and "\<And>html. write_text (page_target arg) html fs \<noteq> None"
  shows "\<exists>lines fs'. generate_html error_text today names db arg fs = ((lines, Inr (Some (page_target arg))), fs')"
  using assms
  by (cases "rendered error_text today brief fs arg (png_images (names (path_of (ra_images arg))))")
    (auto simp: generate_html_def Let_def split: option.splits)

lemma page_value_inert:
  assumes "inert (ra_brand arg)" "inert (ra_industry arg)" "inert today"
    and "inert (field (cb_industry brief) ''Industry'')" "inert (field (cb_style brief) ''Style Name'')"
    and "inert (field (cb_style brief) ''Mood'')"
  shows "inert_values (page_value (ra_brand arg) (ra_industry arg) today brief n)"
proof
  have "inert ''Corporate''" "inert ''Professional''" by code_simp+
  then show "inert (page_value (ra_brand arg) (ra_industry arg) today brief n h)" for h
    using assms inert_title_from [OF assms(2)] inert_digits [of n]
    by (cases h) (auto simp: page_value_def get_or_def inert_def split: option.splits)
qed

text \<open>What a brand name with a tag in it does to the page.\<close>

lemma brand_adds_markup:
  "snd (scan InText (fill (page_value ''<i>'' industry [] brief n) page_end)) \<noteq> markup_of page_end"
  by code_simp

end
