(* ===== verification/Web.thy ===== *)
theory Web
  imports Urls Files PyJson
begin

text \<open>
  Requests over the network as \<open>logo/generate.py\<close> makes them: what a public address is, redirects, and
  JSON requests. A server is a function of the requests it has seen and the one it gets; the session
  keeps the requests sent, the seconds slept, the lines printed and the files. Whether a host in brackets is an IPv6
  address, and whether it is a global one, is an argument.
\<close>

subsection \<open>Public addresses\<close>

definition octet :: "str \<Rightarrow> nat option" where
  "octet s =
     (if s \<noteq> [] \<and> length s \<le> 3 \<and> list_all is_digit s \<and> (length s = 1 \<or> hd s \<noteq> CHR ''0'') \<and> nat_of_digits s < 256
      then Some (nat_of_digits s) else None)"

definition ipv4_address :: "str \<Rightarrow> nat option" where
  "ipv4_address s =
     (case map octet (split_on (\<lambda>c. c = CHR ''.'') s) of
        [Some a1, Some a2, Some a3, Some a4] \<Rightarrow> Some (((a1 * 256 + a2) * 256 + a3) * 256 + a4)
      | _ \<Rightarrow> None)"

definition in_network :: "nat \<Rightarrow> nat list \<times> nat \<Rightarrow> bool" where
  "in_network a net =
     (case net of
        ([n1, n2, n3, n4], len) \<Rightarrow> a div 2 ^ (32 - len) = (((n1 * 256 + n2) * 256 + n3) * 256 + n4) div 2 ^ (32 - len)
      | _ \<Rightarrow> False)"

text \<open>The tables of \<open>ipaddress\<close> since Python 3.12.4.\<close>

definition private_networks :: "(nat list \<times> nat) list" where
  "private_networks =
     [([0, 0, 0, 0], 8), ([10, 0, 0, 0], 8), ([127, 0, 0, 0], 8), ([169, 254, 0, 0], 16), ([172, 16, 0, 0], 12),
      ([192, 0, 0, 0], 24), ([192, 0, 0, 170], 31), ([192, 0, 2, 0], 24), ([192, 168, 0, 0], 16), ([198, 18, 0, 0], 15),
      ([198, 51, 100, 0], 24), ([203, 0, 113, 0], 24), ([240, 0, 0, 0], 4), ([255, 255, 255, 255], 32)]"

definition private_exceptions :: "(nat list \<times> nat) list" where
  "private_exceptions = [([192, 0, 0, 9], 32), ([192, 0, 0, 10], 32)]"

definition ipv4_global :: "nat \<Rightarrow> bool" where
  "ipv4_global a \<longleftrightarrow>
     \<not> in_network a ([100, 64, 0, 0], 10) \<and>
     \<not> (list_ex (in_network a) private_networks \<and> \<not> list_ex (in_network a) private_exceptions)"

text \<open>\<open>ip_address(host).is_global\<close>; \<open>None\<close> where the host is not an address.\<close>

definition address_global :: "(str \<Rightarrow> bool option) \<Rightarrow> str \<Rightarrow> bool option" where
  "address_global ipv6 host =
     (case ipv4_address host of Some a \<Rightarrow> Some (ipv4_global a) | None \<Rightarrow> ipv6 host)"

definition rstrip_dots :: "str \<Rightarrow> str" where
  "rstrip_dots s = rev (dropWhile (\<lambda>c. c = CHR ''.'') (rev s))"

definition local_host :: "str \<Rightarrow> bool" where
  "local_host host \<longleftrightarrow>
     host = ''localhost'' \<or> (\<exists>suffix \<in> set [''.localhost'', ''.local'', ''.internal'']. ends_with suffix host)"

definition given :: "str option \<Rightarrow> bool" where
  "given s \<longleftrightarrow> s \<noteq> None \<and> s \<noteq> Some []"

text \<open>The text of the \<open>ValueError\<close>, if there is one.\<close>

definition validate_public_https_url :: "(str \<Rightarrow> bool option) \<Rightarrow> str \<Rightarrow> str option" where
  "validate_public_https_url ipv6 url =
     (case url_split (\<lambda>h. ipv6 h \<noteq> None) url of
        None \<Rightarrow> Some ''Invalid IPv6 URL''
      | Some parsed \<Rightarrow>
          if su_scheme parsed \<noteq> ''https'' \<or> \<not> given (url_hostname parsed) \<or> given (url_username parsed) \<or>
             given (url_password parsed)
          then Some ''Provider returned an invalid media URL''
          else
            let hostname = rstrip_dots (lower (the (url_hostname parsed))) in
            if local_host hostname then Some ''Provider media URL used a local hostname''
            else if address_global ipv6 hostname = Some False then Some ''Provider media URL used a non-public address''
            else None)"

subsection \<open>Sessions\<close>

datatype fault = RuntimeFault str | ValueFault str | TypeFault str | HttpFault nat str str | NetFault str | FileFault str
  | AttributeFault str

record http_request =
  rq_url :: str
  rq_method :: str
  rq_headers :: "str dict"
  rq_body :: "str option"

text \<open>
  A redirect comes with the address joined with that of the request, a failure with the text of its
  body and of the exception.
\<close>

datatype http_reply =
    Redirect nat str
  | Content str str
  | Failure nat str str
  | Broken str

record session =
  se_sent :: "http_request list"
  se_slept :: nat
  se_lines :: "str list"
  se_files :: filesystem

type_synonym server = "http_request list \<Rightarrow> http_request \<Rightarrow> http_reply"

type_synonym 'a act = "session \<Rightarrow> (fault + 'a) \<times> session"

definition ok :: "'a \<Rightarrow> 'a act" where
  "ok x = (\<lambda>s. (Inr x, s))"

definition raise_fault :: "fault \<Rightarrow> 'a act" where
  "raise_fault e = (\<lambda>s. (Inl e, s))"

definition and_then :: "'a act \<Rightarrow> ('a \<Rightarrow> 'b act) \<Rightarrow> 'b act" where
  "and_then m f = (\<lambda>s. case m s of (Inl e, s') \<Rightarrow> (Inl e, s') | (Inr x, s') \<Rightarrow> f x s')"

text \<open>An \<open>except\<close> clause that turns some faults into others.\<close>

definition recast :: "(fault \<Rightarrow> fault) \<Rightarrow> 'a act \<Rightarrow> 'a act" where
  "recast f m = (\<lambda>s. map_prod (map_sum f id) id (m s))"

definition sleep_for :: "nat \<Rightarrow> unit act" where
  "sleep_for n = (\<lambda>s. (Inr (), s\<lparr>se_slept := se_slept s + n\<rparr>))"

definition print_lines :: "str list \<Rightarrow> unit act" where
  "print_lines ls = (\<lambda>s. (Inr (), s\<lparr>se_lines := se_lines s @ ls\<rparr>))"

definition send :: "server \<Rightarrow> http_request \<Rightarrow> http_reply act" where
  "send net req = (\<lambda>s. (Inr (net (se_sent s) req), s\<lparr>se_sent := se_sent s @ [req]\<rparr>))"

definition save_bytes :: "path \<Rightarrow> str \<Rightarrow> unit act" where
  "save_bytes p bytes = (\<lambda>s.
     case write_text p bytes (se_files s) of
       None \<Rightarrow> (Inl (FileFault (path_str p)), s)
     | Some fs \<Rightarrow> (Inr (), s\<lparr>se_files := fs\<rparr>))"

subsection \<open>Redirects\<close>

definition may_redirect :: "nat \<Rightarrow> str \<Rightarrow> bool" where
  "may_redirect c how \<longleftrightarrow>
     c \<in> {301, 302, 303, 307, 308} \<and> how \<in> {''GET'', ''HEAD''} \<or> c \<in> {301, 302, 303} \<and> how = ''POST''"

text \<open>The request that follows a redirect keeps the headers of the first one, but for those of its body.\<close>

definition redirected :: "http_request \<Rightarrow> str \<Rightarrow> http_request" where
  "redirected req url =
     \<lparr>rq_url = url, rq_method = (if rq_method req = ''HEAD'' then ''HEAD'' else ''GET''),
      rq_headers = filter (\<lambda>(k, v). lower k \<notin> {''content-length'', ''content-type''}) (rq_headers req), rq_body = None\<rparr>"

definition max_repeats :: nat where
  "max_repeats = 4"

definition max_redirections :: nat where
  "max_redirections = 10"

text \<open>
  \<open>build_opener(_SafeRedirectHandler()).open(request)\<close>: the addresses visited are counted as in
  \<open>HTTPRedirectHandler\<close>, which also refuses other schemes, and the handler of the script checks each
  address before the request that follows it.
\<close>

definition redirect_fault :: "(str \<Rightarrow> bool option) \<Rightarrow> str list \<Rightarrow> http_request \<Rightarrow> nat \<Rightarrow> str \<Rightarrow> fault option" where
  "redirect_fault ipv6 visited req c url =
     (if fst (split_scheme url) \<notin> {''http'', ''https'', ''ftp'', []} then Some (HttpFault c [] [])
      else case validate_public_https_url ipv6 url of
             Some msg \<Rightarrow> Some (ValueFault msg)
           | None \<Rightarrow>
               if \<not> may_redirect c (rq_method req) then Some (HttpFault c [] [])
               else if visited \<noteq> [] \<and> (max_repeats \<le> count_list visited url \<or> max_redirections \<le> card (set visited))
               then Some (HttpFault c [] ''The HTTP server returned a redirect error that would lead to an infinite loop.'')
               else None)"

lemma redirect_fault_None:
  "redirect_fault ipv6 visited req c url = None \<Longrightarrow>
   validate_public_https_url ipv6 url = None \<and> (visited = [] \<or> count_list visited url < 4 \<and> card (set visited) < 10)"
  by (auto simp: redirect_fault_def max_repeats_def max_redirections_def split: if_splits option.splits)

text \<open>How many redirects can still follow.\<close>

definition allowance :: "str list \<Rightarrow> nat" where
  "allowance visited = (\<Sum>u \<in> set visited. 4 - count_list visited u) + 4 * (10 - card (set visited))"

lemma allowance_Nil: "allowance [] = 40"
  by (simp add: allowance_def)

lemma allowance_less:
  assumes "visited = [] \<or> count_list visited url < 4 \<and> card (set visited) < 10"
  shows "allowance (url # visited) < allowance visited"
proof (cases "url \<in> set visited")
  case True
  with assms have "count_list visited url < 4" by auto
  with True have "(\<Sum>u \<in> set visited. 4 - count_list (url # visited) u) < (\<Sum>u \<in> set visited. 4 - count_list visited u)"
    by (intro sum_strict_mono_ex1) auto
  with True show ?thesis by (simp add: allowance_def insert_absorb)
next
  case False
  then have "(\<Sum>u \<in> set visited. 4 - count_list (url # visited) u) = (\<Sum>u \<in> set visited. 4 - count_list visited u)"
    by (intro sum.cong) auto
  moreover have "count_list visited url = 0" using False by (simp add: count_list_0_iff)
  ultimately show ?thesis using False assms by (auto simp: allowance_def)
qed

function open_url :: "server \<Rightarrow> (str \<Rightarrow> bool option) \<Rightarrow> str list \<Rightarrow> http_request \<Rightarrow> (str \<times> str) act" where
  "open_url net ipv6 visited req = (\<lambda>s.
     case send net req s of
       (Inr (Content content_type body), s') \<Rightarrow> (Inr (content_type, body), s')
     | (Inr (Failure c detail msg), s') \<Rightarrow> (Inl (HttpFault c detail msg), s')
     | (Inr (Broken msg), s') \<Rightarrow> (Inl (NetFault msg), s')
     | (Inr (Redirect c url), s') \<Rightarrow>
         (case redirect_fault ipv6 visited req c url of
            Some e \<Rightarrow> (Inl e, s')
          | None \<Rightarrow> open_url net ipv6 (url # visited) (redirected req url) s'))"
  by pat_completeness auto
termination
  by (relation "measure (\<lambda>(net, ipv6, visited, req). allowance visited)")
    (auto intro!: allowance_less dest: redirect_fault_None)

declare open_url.simps [simp del]

lemma open_url_step:
  "open_url net ipv6 visited req s =
     (let s' = s\<lparr>se_sent := se_sent s @ [req]\<rparr> in
      case net (se_sent s) req of
        Content content_type body \<Rightarrow> (Inr (content_type, body), s')
      | Failure c detail msg \<Rightarrow> (Inl (HttpFault c detail msg), s')
      | Broken msg \<Rightarrow> (Inl (NetFault msg), s')
      | Redirect c url \<Rightarrow>
          (case redirect_fault ipv6 visited req c url of
             Some e \<Rightarrow> (Inl e, s')
           | None \<Rightarrow> open_url net ipv6 (url # visited) (redirected req url) s'))"
  by (subst open_url.simps) (simp add: send_def Let_def split: http_reply.splits)

text \<open>What every request, and every redirect that is followed, preserves holds after the whole exchange.\<close>

lemma open_url_invariant:
  assumes "I visited req s"
    and sent: "\<And>visited req s. I visited req s \<Longrightarrow> Q (s\<lparr>se_sent := se_sent s @ [req]\<rparr>)"
    and redirect: "\<And>visited req s url. I visited req s \<Longrightarrow> validate_public_https_url ipv6 url = None \<Longrightarrow>
      allowance (url # visited) < allowance visited \<Longrightarrow> I (url # visited) (redirected req url) (s\<lparr>se_sent := se_sent s @ [req]\<rparr>)"
  shows "Q (snd (open_url net ipv6 visited req s))"
  using assms(1)
proof (induction "allowance visited" arbitrary: visited req s rule: less_induct)
  case less
  let ?s = "s\<lparr>se_sent := se_sent s @ [req]\<rparr>"
  have "Q ?s" using less.prems by (rule sent)
  moreover have "Q (snd (open_url net ipv6 (url # visited) (redirected req url) ?s))"
    if none: "redirect_fault ipv6 visited req c url = None" for c url
  proof -
    from redirect_fault_None [OF none] have "validate_public_https_url ipv6 url = None"
      and fewer: "allowance (url # visited) < allowance visited"
      by (auto intro: allowance_less)
    with redirect [OF less.prems] have "I (url # visited) (redirected req url) ?s" by blast
    with less.hyps [OF fewer] show ?thesis .
  qed
  ultimately show ?case
    by (subst open_url_step) (auto simp: Let_def split: http_reply.splits option.splits)
qed

subsection \<open>JSON requests and downloads\<close>

definition HTTP_USER_AGENT :: str where
  "HTTP_USER_AGENT = ''ui-ux-pro-max/2.5 (logo generation)''"

definition payload_text :: "str dict \<Rightarrow> str" where
  "payload_text payload = ''{'' @ join '', '' (map (\<lambda>(k, v). json_quote k @ '': '' @ json_quote v) payload) @ ''}''"

definition provider_fault :: "fault \<Rightarrow> fault" where
  "provider_fault e =
     (case e of
        HttpFault c detail msg \<Rightarrow> RuntimeFault ((''Provider request failed ('' @ (str_of_nat c) @ ''): '' @ (py_take 300 detail)))
      | NetFault msg \<Rightarrow> RuntimeFault ((''Provider request failed: '' @ msg))
      | _ \<Rightarrow> e)"

definition json_headers :: "str \<Rightarrow> str \<Rightarrow> bool \<Rightarrow> str dict" where
  "json_headers api_key_header auth_value with_body =
     [(api_key_header, auth_value), (''Accept'', ''application/json''), (''User-Agent'', HTTP_USER_AGENT)] @
     (if with_body then [(''Content-Type'', ''application/json'')] else [])"

text \<open>The text of a \<open>JSONDecodeError\<close> is an argument.\<close>

definition json_request ::
  "server \<Rightarrow> (str \<Rightarrow> bool option) \<Rightarrow> (str \<Rightarrow> str) \<Rightarrow> str \<Rightarrow> str \<Rightarrow> str \<Rightarrow> str dict option \<Rightarrow> str \<Rightarrow> json act" where
  "json_request net ipv6 json_error url api_key how payload api_key_header =
     (if api_key_header \<notin> {''Authorization'', ''x-api-key''} then raise_fault (ValueFault ''Unsupported API key header'')
      else
        let auth_value = (if api_key_header = ''Authorization'' then ''Bearer '' @ api_key else api_key);
            body = map_option payload_text payload;
            request = \<lparr>rq_url = url, rq_method = how,
              rq_headers = json_headers api_key_header auth_value (body \<noteq> None), rq_body = body\<rparr>
        in and_then (recast provider_fault (open_url net ipv6 [] request)) (\<lambda>(content_type, reply).
             case json_loads () plain_object reply of
               Inr j \<Rightarrow> ok j
             | Inl _ \<Rightarrow> raise_fault (RuntimeFault ((''Provider request failed: '' @ (json_error reply))))))"

definition download_fault :: "str \<Rightarrow> fault \<Rightarrow> fault" where
  "download_fault provider_name e =
     (case e of
        HttpFault c detail msg \<Rightarrow> RuntimeFault ((''Unable to download '' @ provider_name @ '' image: '' @ msg))
      | NetFault msg \<Rightarrow> RuntimeFault ((''Unable to download '' @ provider_name @ '' image: '' @ msg))
      | _ \<Rightarrow> e)"

definition download_image ::
  "server \<Rightarrow> (str \<Rightarrow> bool option) \<Rightarrow> str \<Rightarrow> path \<Rightarrow> str \<Rightarrow> unit act" where
  "download_image net ipv6 url output_path provider_name =
     (case validate_public_https_url ipv6 url of
        Some msg \<Rightarrow> raise_fault (ValueFault msg)
      | None \<Rightarrow>
          let request = \<lparr>rq_url = url, rq_method = ''GET'',
            rq_headers = [(''Accept'', ''image/*''), (''User-Agent'', HTTP_USER_AGENT)], rq_body = None\<rparr>
          in and_then (recast (download_fault provider_name) (open_url net ipv6 [] request)) (\<lambda>(content_type, image_data).
               if \<not> starts_with ''image/'' content_type
               then raise_fault (RuntimeFault ((provider_name @ '' output is not an image ('' @ content_type @ '')'')))
               else if image_data = [] then raise_fault (RuntimeFault ((provider_name @ '' returned an empty image'')))
               else save_bytes output_path image_data))"

subsection \<open>What a session may do\<close>

text \<open>
  An activity is confined if it only adds requests for which \<open>may\<close> holds, at most \<open>n\<close> of them, and
  sleeps at most \<open>t\<close> seconds; it is quiet if it leaves the files alone unless it succeeds.
\<close>

definition confined :: "(http_request \<Rightarrow> bool) \<Rightarrow> nat \<Rightarrow> nat \<Rightarrow> 'a act \<Rightarrow> bool" where
  "confined may n t m \<longleftrightarrow> (\<forall>s. \<exists>rqs. se_sent (snd (m s)) = se_sent s @ rqs \<and> length rqs \<le> n \<and> list_all may rqs \<and>
     se_slept (snd (m s)) \<le> se_slept s + t)"

definition quiet :: "'a act \<Rightarrow> bool" where
  "quiet m \<longleftrightarrow> (\<forall>s. se_files (snd (m s)) = se_files s)"

lemma confined_mono: "confined may n t m \<Longrightarrow> n \<le> n' \<Longrightarrow> t \<le> t' \<Longrightarrow> confined may n' t' m"
  unfolding confined_def by (meson add_left_mono le_trans)

lemma confined_ok [intro]: "confined may n t (ok x)" "confined may n t (raise_fault e)"
  by (auto simp: confined_def ok_def raise_fault_def)

lemma confined_recast [intro]: "confined may n t m \<Longrightarrow> confined may n t (recast f m)"
  by (simp add: confined_def recast_def)

lemma confined_sleep [intro]: "t \<le> t' \<Longrightarrow> confined may n t' (sleep_for t)"
  by (auto simp: confined_def sleep_for_def)

lemma confined_save [intro]: "confined may n t (save_bytes p bytes)"
  by (auto simp: confined_def save_bytes_def split: option.splits)

lemma confined_then:
  assumes "confined may n t m" and "\<And>x. confined may n' t' (f x)"
  shows "confined may (n + n') (t + t') (and_then m f)"
  unfolding confined_def
proof
  fix s
  obtain r s1 where m: "m s = (r, s1)" by fastforce
  with assms(1) obtain rqs where rqs: "se_sent s1 = se_sent s @ rqs" "length rqs \<le> n" "list_all may rqs"
      "se_slept s1 \<le> se_slept s + t"
    by (auto simp: confined_def dest!: spec [of _ s])
  show "\<exists>rqs. se_sent (snd (and_then m f s)) = se_sent s @ rqs \<and> length rqs \<le> n + n' \<and> list_all may rqs \<and>
      se_slept (snd (and_then m f s)) \<le> se_slept s + (t + t')"
  proof (cases r)
    case (Inl e)
    with m rqs show ?thesis by (auto simp: and_then_def)
  next
    case (Inr x)
    from assms(2) obtain rqs' where "se_sent (snd (f x s1)) = se_sent s1 @ rqs'" "length rqs' \<le> n'" "list_all may rqs'"
        "se_slept (snd (f x s1)) \<le> se_slept s1 + t'"
      unfolding confined_def by meson
    with m rqs Inr show ?thesis by (intro exI [of _ "rqs @ rqs'"]) (auto simp: and_then_def)
  qed
qed

lemma quiet_ok [intro]: "quiet (ok x)" "quiet (raise_fault e)" "quiet (sleep_for t)" "quiet (print_lines ls)"
  by (simp_all add: quiet_def ok_def raise_fault_def sleep_for_def print_lines_def)

lemma quiet_recast [intro]: "quiet m \<Longrightarrow> quiet (recast f m)"
  by (simp add: quiet_def recast_def)

lemma quiet_then [intro]: "quiet m \<Longrightarrow> (\<And>x. quiet (f x)) \<Longrightarrow> quiet (and_then m f)"
  by (auto simp: quiet_def and_then_def split: prod.splits sum.splits) (metis snd_conv)+

lemma open_url_quiet [intro]: "quiet (open_url net ipv6 visited req)"
  unfolding quiet_def
proof
  show "se_files (snd (open_url net ipv6 visited req s)) = se_files s" for s
    by (rule open_url_invariant [where I = "\<lambda>_ _ s'. se_files s' = se_files s"]) simp_all
qed

text \<open>
  A set of requests that is closed under the redirects that the script follows confines what it sends.
\<close>

locale confinement =
  fixes ipv6 :: "str \<Rightarrow> bool option" and may :: "http_request \<Rightarrow> bool"
  assumes redirect_may: "may req \<Longrightarrow> validate_public_https_url ipv6 url = None \<Longrightarrow> may (redirected req url)"
begin

lemma open_url_confined:
  assumes "may req"
  shows "confined may 41 0 (open_url net ipv6 [] req)"
  unfolding confined_def
proof
  fix s :: session
  let ?I = "\<lambda>visited req (s' :: session). may req \<and> (\<exists>rqs. se_sent s' = se_sent s @ rqs \<and> length rqs + allowance visited \<le> 40 \<and> list_all may rqs) \<and>
      se_slept s' = se_slept s"
  show "\<exists>rqs. se_sent (snd (open_url net ipv6 [] req s)) = se_sent s @ rqs \<and> length rqs \<le> 41 \<and> list_all may rqs \<and>
      se_slept (snd (open_url net ipv6 [] req s)) \<le> se_slept s + 0"
  proof (rule open_url_invariant [where I = ?I])
    show "?I [] req s" using assms by (auto simp: allowance_Nil)
  next
    fix visited req and s' :: session
    assume "?I visited req s'"
    then obtain rqs where "se_sent s' = se_sent s @ rqs" "length rqs + allowance visited \<le> 40" "list_all may rqs" "may req"
        "se_slept s' = se_slept s"
      by blast
    then show "\<exists>rqs. se_sent (s'\<lparr>se_sent := se_sent s' @ [req]\<rparr>) = se_sent s @ rqs \<and> length rqs \<le> 41 \<and> list_all may rqs \<and>
        se_slept (s'\<lparr>se_sent := se_sent s' @ [req]\<rparr>) \<le> se_slept s + 0"
      by (intro exI [of _ "rqs @ [req]"]) simp
  next
    fix visited req url and s' :: session
    assume "?I visited req s'" "validate_public_https_url ipv6 url = None" "allowance (url # visited) < allowance visited"
    moreover from this obtain rqs where "se_sent s' = se_sent s @ rqs" "length rqs + allowance visited \<le> 40" "list_all may rqs"
      by blast
    ultimately show "?I (url # visited) (redirected req url) (s'\<lparr>se_sent := se_sent s' @ [req]\<rparr>)"
      using redirect_may [of req url] by (intro conjI exI [of _ "rqs @ [req]"]) simp_all
  qed
qed

lemma json_request_confined:
  assumes "\<And>v w body. api_key_header \<in> {''Authorization'', ''x-api-key''} \<Longrightarrow>
      may \<lparr>rq_url = url, rq_method = how, rq_headers = json_headers api_key_header v w, rq_body = body\<rparr>"
  shows "confined may 41 0 (json_request net ipv6 json_error url api_key how payload api_key_header)"
proof (cases "api_key_header \<in> {''Authorization'', ''x-api-key''}")
  case True
  let ?auth = "if api_key_header = ''Authorization'' then ''Bearer '' @ api_key else api_key"
  let ?req = "\<lparr>rq_url = url, rq_method = how,
    rq_headers = json_headers api_key_header ?auth (map_option payload_text payload \<noteq> None), rq_body = map_option payload_text payload\<rparr>"
  have first: "confined may 41 0 (recast provider_fault (open_url net ipv6 [] ?req))"
    using assms True by (intro confined_recast open_url_confined)
  have rest: "confined may 0 0 (case json_loads () plain_object (snd r) of
      Inr j \<Rightarrow> ok j | Inl _ \<Rightarrow> raise_fault (RuntimeFault ((''Provider request failed: '' @ (json_error (snd r))))))"
    for r :: "str \<times> str"
    by (auto split: sum.splits)
  have "json_request net ipv6 json_error url api_key how payload api_key_header =
      and_then (recast provider_fault (open_url net ipv6 [] ?req)) (\<lambda>r. case json_loads () plain_object (snd r) of
        Inr j \<Rightarrow> ok j | Inl _ \<Rightarrow> raise_fault (RuntimeFault ((''Provider request failed: '' @ (json_error (snd r))))))"
    using True by (simp only: json_request_def Let_def simp_thms if_False case_prod_unfold)
  with confined_then [OF first rest] show ?thesis by simp
next
  case False
  then show ?thesis by (auto simp: json_request_def)
qed

lemma download_confined:
  assumes "validate_public_https_url ipv6 url = None \<Longrightarrow> may \<lparr>rq_url = url, rq_method = ''GET'',
      rq_headers = [(''Accept'', ''image/*''), (''User-Agent'', HTTP_USER_AGENT)], rq_body = None\<rparr>"
  shows "confined may 41 0 (download_image net ipv6 url p provider_name)"
proof (cases "validate_public_https_url ipv6 url")
  case None
  let ?req = "\<lparr>rq_url = url, rq_method = ''GET'', rq_headers = [(''Accept'', ''image/*''), (''User-Agent'', HTTP_USER_AGENT)],
    rq_body = None\<rparr>"
  have first: "confined may 41 0 (recast (download_fault provider_name) (open_url net ipv6 [] ?req))"
    using assms None by (intro confined_recast open_url_confined)
  have rest: "confined may 0 0
      (if \<not> starts_with ''image/'' (fst r) then raise_fault (RuntimeFault ((provider_name @ '' output is not an image ('' @ (fst r) @ '')'')))
       else if snd r = [] then raise_fault (RuntimeFault ((provider_name @ '' returned an empty image'')))
       else save_bytes p (snd r))" for r :: "str \<times> str"
    by auto
  from None confined_then [OF first rest] show ?thesis
    by (simp add: download_image_def Let_def case_prod_unfold)
qed (auto simp: download_image_def)

end

end
