(* ===== verification/LogoGen.thy ===== *)
theory LogoGen
  imports Web
begin

text \<open>
  \<open>logo/generate.py\<close>: logos from Gemini, Atlas Cloud or MuAPI. The two services that poll are modelled on
  the sessions of the theory Web; the SDK of Gemini is an argument, as are the clock and the keys. What
  a run sends, sleeps and writes is bounded and confined, and a logo is reported exactly if it was
  written.
\<close>

subsection \<open>The environment\<close>

definition strip_quotes :: "str \<Rightarrow> str" where
  "strip_quotes s = strip_by (\<lambda>c. c = CHR 0x22 \<or> c = CHR 0x27) s"

text \<open>A line of an \<open>.env\<close> file sets a variable that is not set yet.\<close>

definition env_line :: "str dict \<Rightarrow> str \<Rightarrow> str dict" where
  "env_line env raw =
     (let line = strip raw in
      if line = [] \<or> starts_with ''#'' line then env
      else case split_once CHR ''='' line of
             (key, Some v) \<Rightarrow> if has_key env key then env else put key (strip_quotes v) env
           | _ \<Rightarrow> env)"

text \<open>The files in the order of their priority, \<open>None\<close> where there is none.\<close>

definition load_env :: "str option list \<Rightarrow> str dict \<Rightarrow> str dict" where
  "load_env contents env =
     foldl (\<lambda>e c. case c of None \<Rightarrow> e | Some t \<Rightarrow> foldl env_line e (split_on (\<lambda>x. x = newline) t)) env contents"

subsection \<open>Configuration\<close>

definition GEMINI_FLASH :: str where
  "GEMINI_FLASH = ''gemini-2.5-flash-image''"

definition GEMINI_PRO :: str where
  "GEMINI_PRO = ''gemini-3-pro-image-preview''"

definition ATLAS_MODEL :: str where
  "ATLAS_MODEL = ''google/nano-banana-2-lite/text-to-image''"

definition ATLAS_API_BASE :: str where
  "ATLAS_API_BASE = ''https://api.atlascloud.ai/api/v1''"

definition MUAPI_MODELS :: "str list" where
  "MUAPI_MODELS = [''nano-banana'', ''nano-banana-pro'']"

definition MUAPI_API_BASE :: str where
  "MUAPI_API_BASE = ''https://api.muapi.ai/api/v1''"

definition POLL_INTERVAL :: nat where
  "POLL_INTERVAL = 2"

definition MAX_POLLS :: nat where
  "MAX_POLLS = 90"

definition ASPECT_RATIOS :: "str list" where
  "ASPECT_RATIOS = [''1:1'', ''16:9'', ''9:16'', ''4:3'', ''3:4'']"

definition STYLE_MODIFIERS :: "str dict" where
  "STYLE_MODIFIERS =
    [(''minimalist'', ''minimalist, simple geometric shapes, clean lines, lots of white space, single color or limited palette''),
     (''vintage'', ''vintage, retro, badge style, distressed texture, heritage feel, warm earth tones''),
     (''modern'', ''modern, sleek, gradient colors, tech-forward, innovative feel''),
     (''luxury'', ''luxury, elegant, gold accents, refined, premium feel, serif typography''),
     (''playful'', ''playful, fun, colorful, friendly, approachable, rounded shapes''),
     (''corporate'', ''corporate, professional, trustworthy, stable, conservative colors''),
     (''organic'', ''organic, natural, flowing lines, earth tones, sustainable feel''),
     (''geometric'', ''geometric, abstract, mathematical precision, symmetrical''),
     (''hand-drawn'', ''hand-drawn, artisan, sketch-like, authentic, imperfect lines''),
     (''3d'', ''3D, dimensional, depth, shadows, isometric perspective''),
     (''abstract'', ''abstract mark, conceptual, symbolic, non-literal representation, artistic interpretation''),
     (''lettermark'', ''lettermark, single letter or initials, typographic, monogram style, distinctive character''),
     (''wordmark'', ''wordmark, logotype, custom typography, brand name as logo, distinctive lettering''),
     (''emblem'', ''emblem, badge, crest style, enclosed design, traditional, authoritative feel''),
     (''mascot'', ''mascot, character, friendly face, personified, memorable figure''),
     (''gradient'', ''gradient, color transition, vibrant, modern digital feel, smooth color flow''),
     (''lineart'', ''line art, single stroke, continuous line, elegant simplicity, wire-frame style''),
     (''negative-space'', ''negative space, clever use of white space, hidden meaning, dual imagery, optical illusion'')]"

definition INDUSTRY_PROMPTS :: "str dict" where
  "INDUSTRY_PROMPTS =
    [(''tech'', ''technology company, digital, innovative, modern, circuit-like elements''),
     (''healthcare'', ''healthcare, medical, caring, trust, cross or heart symbol''),
     (''finance'', ''financial services, stable, trustworthy, growth, upward elements''),
     (''food'', ''food and beverage, appetizing, warm colors, welcoming''),
     (''fashion'', ''fashion brand, elegant, stylish, refined, artistic''),
     (''fitness'', ''fitness and sports, dynamic, energetic, powerful, movement''),
     (''eco'', ''eco-friendly, sustainable, natural, green, leaf or earth elements''),
     (''education'', ''education, knowledge, growth, learning, book or cap symbol''),
     (''real-estate'', ''real estate, property, home, roof or building silhouette''),
     (''creative'', ''creative agency, artistic, unique, expressive, colorful'')]"

definition logo_prompt :: "str \<Rightarrow> str" where
  "logo_prompt prompt = join [newline]
    [(''Generate a professional logo image: '' @ prompt),
     [],
     ''Style requirements:'',
     ''- Clean vector-style illustration suitable for a logo'',
     ''- Simple, scalable design that works at any size'',
     ''- Clear silhouette and recognizable shape'',
     ''- Professional quality suitable for business use'',
     ''- Centered composition on plain white or transparent background'',
     ''- No text unless specifically requested'',
     ''- High contrast and clear edges'',
     ''- Square format, perfectly centered'',
     ''- Output as a clean, high-quality logo image'',
     []]"

definition enhance_prompt :: "str \<Rightarrow> str option \<Rightarrow> str option \<Rightarrow> str option \<Rightarrow> str" where
  "enhance_prompt base_prompt style industry brand_name =
     logo_prompt (join '', ''
       ((if given brand_name then [(''Logo for '' @ [CHR 0x27] @ (the brand_name) @ [CHR 0x27] @ '':'')] else []) @ [base_prompt] @
        (if given style \<and> has_key STYLE_MODIFIERS (the style) then [field STYLE_MODIFIERS (the style)] else []) @
        (if given industry \<and> has_key INDUSTRY_PROMPTS (the industry) then [field INDUSTRY_PROMPTS (the industry)] else [])))"

subsection \<open>Atlas Cloud\<close>

text \<open>The surroundings of a run: the server, what is known of IPv6 hosts, the texts of JSON errors and of values.\<close>

record web_env =
  we_net :: server
  we_ipv6 :: "str \<Rightarrow> bool option"
  we_json_error :: "str \<Rightarrow> str"
  we_py_str :: "json \<Rightarrow> str"

definition ask :: "web_env \<Rightarrow> str \<Rightarrow> str \<Rightarrow> str \<Rightarrow> str dict option \<Rightarrow> str \<Rightarrow> json act" where
  "ask env url api_key how payload api_key_header =
     json_request (we_net env) (we_ipv6 env) (we_json_error env) url api_key how payload api_key_header"

definition value_or :: "web_env \<Rightarrow> json \<Rightarrow> str \<Rightarrow> str" where
  "value_or env j msg = (if truthy j then str_of_json (we_py_str env) j else msg)"

definition atlas_prediction_data :: "web_env \<Rightarrow> json \<Rightarrow> fault + json dict" where
  "atlas_prediction_data env response =
     (case response of
        JObject d \<Rightarrow>
          if py_get d ''code'' \<noteq> JNull \<and> \<not> equals_int (py_get d ''code'') 0 \<and> \<not> equals_int (py_get d ''code'') 200
          then Inl (RuntimeFault (value_or env (py_get d ''message'') ''Atlas Cloud request failed''))
          else (case py_get d ''data'' of
                  JObject r \<Rightarrow> Inr r
                | _ \<Rightarrow> Inl (TypeFault ''Atlas Cloud response did not include prediction data''))
      | _ \<Rightarrow> Inl (TypeFault ''Atlas Cloud returned an invalid response''))"

definition or_raise :: "fault + 'a \<Rightarrow> 'a act" where
  "or_raise r = (case r of Inl e \<Rightarrow> raise_fault e | Inr x \<Rightarrow> ok x)"

definition atlas_output :: "json dict \<Rightarrow> fault + str" where
  "atlas_output data =
     (case py_get data ''outputs'' of
        JArray (JString url # _) \<Rightarrow> Inr url
      | _ \<Rightarrow> Inl (RuntimeFault ''Atlas Cloud completed without an image URL''))"

definition download_atlas_image :: "web_env \<Rightarrow> path \<Rightarrow> str \<Rightarrow> unit act" where
  "download_atlas_image env p url = download_image (we_net env) (we_ipv6 env) url p ''image provider''"

text \<open>The polls that remain are an argument.\<close>

fun atlas_poll :: "web_env \<Rightarrow> str \<Rightarrow> str \<Rightarrow> path \<Rightarrow> nat \<Rightarrow> json dict \<Rightarrow> unit act" where
  "atlas_poll env prediction_id api_key p polls data =
     (let state = lower (str_of_json (we_py_str env) (get_or data ''status'' (JString []))) in
      if state = ''completed'' then and_then (or_raise (atlas_output data)) (download_atlas_image env p)
      else if state \<in> {''failed'', ''timeout'', ''canceled'', ''cancelled''}
      then raise_fault (RuntimeFault (value_or env (py_get data ''error'') (''Atlas Cloud prediction '' @ state)))
      else case polls of
             0 \<Rightarrow> raise_fault (RuntimeFault ''Atlas Cloud prediction timed out while polling'')
           | Suc n \<Rightarrow>
               and_then (sleep_for POLL_INTERVAL) (\<lambda>_.
               and_then (ask env (ATLAS_API_BASE @ ''/model/prediction/'' @ prediction_id) api_key ''GET'' None ''Authorization'')
                 (\<lambda>response. and_then (or_raise (atlas_prediction_data env response))
                   (atlas_poll env prediction_id api_key p n))))"

declare atlas_poll.simps [simp del]

definition generate_with_atlas :: "web_env \<Rightarrow> str \<Rightarrow> path \<Rightarrow> str \<Rightarrow> str option \<Rightarrow> str \<Rightarrow> unit act" where
  "generate_with_atlas env prompt p aspect_ratio api_key model =
     (if \<not> given api_key then raise_fault (RuntimeFault ''ATLASCLOUD_API_KEY not set'')
      else
        let payload = [(''model'', model), (''prompt'', prompt), (''aspect_ratio'', aspect_ratio)] in
        and_then (ask env (ATLAS_API_BASE @ ''/model/generateImage'') (the api_key) ''POST'' (Some payload) ''Authorization'')
          (\<lambda>response. and_then (or_raise (atlas_prediction_data env response)) (\<lambda>data.
             if \<not> truthy (py_get data ''id'')
             then raise_fault (RuntimeFault ''Atlas Cloud did not return a prediction ID'')
             else atlas_poll env (str_of_json (we_py_str env) (py_get data ''id'')) (the api_key) p MAX_POLLS data)))"

subsection \<open>MuAPI\<close>

text \<open>
  The response and the objects in it. The source leaves out an object that equals an earlier one; where
  the first object with a property is sought, it makes no difference.
\<close>

definition muapi_objects :: "json \<Rightarrow> fault + json dict list" where
  "muapi_objects response =
     (case response of
        JObject d \<Rightarrow>
          Inr (d # concat (map (\<lambda>key. case py_get d key of JObject v \<Rightarrow> [v] | _ \<Rightarrow> []) [''data'', ''output'', ''result'']))
      | _ \<Rightarrow> Inl (TypeFault ''MuAPI returned an invalid response''))"

definition muapi_value :: "json \<Rightarrow> str list \<Rightarrow> fault + json" where
  "muapi_value response names =
     map_sum id (\<lambda>objects.
       case find (\<lambda>v. v \<noteq> JNull \<and> v \<noteq> JString []) (concat (map (\<lambda>d. map (py_get d) names) objects)) of
         Some v \<Rightarrow> v
       | None \<Rightarrow> JNull) (muapi_objects response)"

definition muapi_error :: "json \<Rightarrow> fault + str" where
  "muapi_error response =
     map_sum id (\<lambda>v. case v of JString s \<Rightarrow> py_take 300 s | _ \<Rightarrow> ''MuAPI request failed'')
       (muapi_value response [''error'', ''message'', ''detail''])"

definition no_result_url :: fault where
  "no_result_url = RuntimeFault ''MuAPI creation response did not include a valid HTTPS result URL''"

definition muapi_result_url :: "web_env \<Rightarrow> json \<Rightarrow> fault + str" where
  "muapi_result_url env response =
     (case muapi_objects response of
        Inl e \<Rightarrow> Inl e
      | Inr objects \<Rightarrow>
          (case concat (map (\<lambda>d. case py_get d ''urls'' of
                   JObject urls \<Rightarrow> if has_key urls ''get'' then [py_get urls ''get''] else []
                 | _ \<Rightarrow> []) objects) of
             JString url # _ \<Rightarrow>
               if url = [] \<or> validate_public_https_url (we_ipv6 env) url \<noteq> None then Inl no_result_url else Inr url
           | _ \<Rightarrow> Inl no_result_url))"

definition https_text :: "json \<Rightarrow> str option" where
  "https_text j = (case j of JString s \<Rightarrow> if starts_with ''https://'' s then Some s else None | _ \<Rightarrow> None)"

definition output_urls :: "json \<Rightarrow> str list" where
  "output_urls output =
     List.map_filter https_text
       (case output of JObject d \<Rightarrow> [py_get d ''url'', py_get d ''image_url''] | _ \<Rightarrow> [output])"

definition muapi_output_url :: "json \<Rightarrow> fault + str" where
  "muapi_output_url response =
     (case muapi_objects response of
        Inl e \<Rightarrow> Inl e
      | Inr objects \<Rightarrow>
          (case concat (map (\<lambda>d. case py_get d ''outputs'' of
                   JArray outputs \<Rightarrow> concat (map output_urls outputs)
                 | _ \<Rightarrow> []) objects) of
             url # _ \<Rightarrow> Inr url
           | [] \<Rightarrow> Inl (RuntimeFault ''MuAPI completed without an HTTPS image URL'')))"

definition download_muapi_image :: "web_env \<Rightarrow> path \<Rightarrow> str \<Rightarrow> unit act" where
  "download_muapi_image env p url = download_image (we_net env) (we_ipv6 env) url p ''MuAPI''"

fun muapi_poll :: "web_env \<Rightarrow> str \<Rightarrow> str \<Rightarrow> path \<Rightarrow> nat \<Rightarrow> json \<Rightarrow> unit act" where
  "muapi_poll env result_url api_key p polls data =
     and_then (or_raise (muapi_value data [''status''])) (\<lambda>status.
       let state = (if truthy status then lower (str_of_json (we_py_str env) status) else []) in
       if state \<in> {''completed'', ''succeeded'', ''success''}
       then and_then (or_raise (muapi_output_url data)) (download_muapi_image env p)
       else if state \<in> {''failed'', ''error'', ''timeout'', ''canceled'', ''cancelled''}
       then and_then (or_raise (muapi_error data)) (\<lambda>msg.
              raise_fault (RuntimeFault ((''MuAPI generation '' @ state @ '': '' @ msg))))
       else case polls of
              0 \<Rightarrow> raise_fault (RuntimeFault ''MuAPI prediction timed out while polling'')
            | Suc n \<Rightarrow>
                and_then (sleep_for POLL_INTERVAL) (\<lambda>_.
                and_then (ask env result_url api_key ''GET'' None ''x-api-key'')
                  (muapi_poll env result_url api_key p n)))"

declare muapi_poll.simps [simp del]

definition generate_with_muapi :: "web_env \<Rightarrow> str \<Rightarrow> path \<Rightarrow> str \<Rightarrow> str option \<Rightarrow> str \<Rightarrow> unit act" where
  "generate_with_muapi env prompt p aspect_ratio api_key model =
     (if \<not> given api_key then raise_fault (RuntimeFault ''MUAPI_API_KEY not set'')
      else if model \<notin> set MUAPI_MODELS
      then raise_fault (RuntimeFault
        ((''Unsupported MuAPI logo model: '' @ model @ ''. Choose one of: '' @ (join '', '' MUAPI_MODELS))))
      else
        and_then (ask env (MUAPI_API_BASE @ ''/'' @ model) (the api_key) ''POST''
            (Some [(''prompt'', prompt), (''aspect_ratio'', aspect_ratio)]) ''x-api-key'') (\<lambda>response.
        and_then (or_raise (muapi_value response [''request_id'', ''id''])) (\<lambda>request_id.
          case request_id of
            JString (c # s) \<Rightarrow>
              and_then (or_raise (muapi_result_url env response)) (\<lambda>result_url.
                muapi_poll env result_url (the api_key) p MAX_POLLS response)
          | _ \<Rightarrow> raise_fault (RuntimeFault ''MuAPI did not return a request ID''))))"

subsection \<open>Gemini\<close>

text \<open>
  What the SDK does with a model, a prompt and an aspect ratio is an argument: the text of an exception,
  or for each part of the answer its inline data with their type.
\<close>

type_synonym gemini = "str \<Rightarrow> str \<Rightarrow> str \<Rightarrow> str + (str \<times> str) option list"

definition generate_with_gemini :: "gemini \<Rightarrow> str option \<Rightarrow> str \<Rightarrow> path \<Rightarrow> str \<Rightarrow> bool \<Rightarrow> unit act" where
  "generate_with_gemini sdk api_key prompt p aspect_ratio use_pro =
     (if \<not> given api_key then raise_fault (RuntimeFault ''GEMINI_API_KEY not set'')
      else case sdk (if use_pro then GEMINI_PRO else GEMINI_FLASH) prompt aspect_ratio of
             Inl msg \<Rightarrow> raise_fault (RuntimeFault msg)
           | Inr parts \<Rightarrow>
               (case filter (\<lambda>(mime_type, _). starts_with ''image/'' mime_type) (List.map_filter id parts) of
                  (_, bytes) # _ \<Rightarrow> save_bytes p bytes
                | [] \<Rightarrow> raise_fault (RuntimeFault ''Gemini did not return an image'')))"

subsection \<open>One logo\<close>

record logo_keys =
  lk_gemini :: "str option"
  lk_atlas :: "str option"
  lk_muapi :: "str option"

record logo_job =
  lj_prompt :: str
  lj_style :: "str option"
  lj_industry :: "str option"
  lj_brand :: "str option"
  lj_output :: "str option"
  lj_pro :: bool
  lj_ratio :: "str option"
  lj_provider :: str
  lj_atlas_model :: str
  lj_muapi_model :: str

definition ratio_of :: "str option \<Rightarrow> str" where
  "ratio_of aspect_ratio =
     (case aspect_ratio of Some r \<Rightarrow> if r \<in> set ASPECT_RATIOS then r else ''1:1'' | None \<Rightarrow> ''1:1'')"

definition brand_slug :: "str \<Rightarrow> str" where
  "brand_slug brand = replace_all '' '' ''_'' (lower brand)"

definition logo_path_for :: "str \<Rightarrow> logo_job \<Rightarrow> str" where
  "logo_path_for timestamp job =
     (case lj_output job of
        Some p \<Rightarrow> p
      | None \<Rightarrow> ((if given (lj_brand job) then brand_slug (the (lj_brand job)) else ''logo'') @ ''_'' @ timestamp @ ''.png''))"

definition fault_text :: "fault \<Rightarrow> str" where
  "fault_text e =
     (case e of
        RuntimeFault m \<Rightarrow> m | ValueFault m \<Rightarrow> m | TypeFault m \<Rightarrow> m | HttpFault _ _ m \<Rightarrow> m | NetFault m \<Rightarrow> m
      | FileFault m \<Rightarrow> m | AttributeFault m \<Rightarrow> m)"

definition run_provider :: "web_env \<Rightarrow> gemini \<Rightarrow> logo_keys \<Rightarrow> logo_job \<Rightarrow> str \<Rightarrow> path \<Rightarrow> unit act" where
  "run_provider env sdk api_keys job full_prompt p =
     (let ratio = ratio_of (lj_ratio job) in
      if lj_provider job = ''atlas'' then generate_with_atlas env full_prompt p ratio (lk_atlas api_keys) (lj_atlas_model job)
      else if lj_provider job = ''muapi'' then generate_with_muapi env full_prompt p ratio (lk_muapi api_keys) (lj_muapi_model job)
      else generate_with_gemini sdk (lk_gemini api_keys) full_prompt p ratio (lj_pro job))"

definition model_label :: "logo_job \<Rightarrow> str" where
  "model_label job =
     (if lj_provider job = ''atlas'' then (''Atlas Cloud ('' @ (lj_atlas_model job) @ '')'')
      else if lj_provider job = ''muapi'' then (''MuAPI ('' @ (lj_muapi_model job) @ '')'')
      else if lj_pro job then ''Nano Banana Pro (gemini-3-pro-image-preview)''
      else ''Nano Banana (gemini-2.5-flash-image)'')"

text \<open>The result is the path of the logo, or \<open>None\<close> after an exception, whose text is printed.\<close>

definition report_logo :: "str \<Rightarrow> fault + unit \<Rightarrow> str option act" where
  "report_logo output_path r =
     (case r of
        Inr _ \<Rightarrow> and_then (print_lines [(''Logo saved to: '' @ output_path)]) (\<lambda>_. ok (Some output_path))
      | Inl e \<Rightarrow> and_then (print_lines [(''Error generating logo: '' @ (fault_text e))]) (\<lambda>_. ok None))"

definition caught :: "'a act \<Rightarrow> (fault + 'a \<Rightarrow> 'b act) \<Rightarrow> 'b act" where
  "caught m f = (\<lambda>s. case m s of (r, s') \<Rightarrow> f r s')"

definition generate_logo :: "web_env \<Rightarrow> gemini \<Rightarrow> logo_keys \<Rightarrow> str \<Rightarrow> logo_job \<Rightarrow> str option act" where
  "generate_logo env sdk api_keys timestamp job =
     (let full_prompt = enhance_prompt (lj_prompt job) (lj_style job) (lj_industry job) (lj_brand job);
          output_path = logo_path_for timestamp job
      in and_then
           (print_lines [(''Generating logo with '' @ (model_label job) @ ''...''), (''Aspect ratio: '' @ (ratio_of (lj_ratio job))),
              (''Prompt: '' @ (py_take 150 full_prompt) @ ''...''), []])
           (\<lambda>_. caught (run_provider env sdk api_keys job full_prompt (path_of output_path)) (report_logo output_path)))"

subsection \<open>Batches\<close>

definition batch_styles :: "(str \<times> str) list" where
  "batch_styles =
    [(''minimalist'', ''Clean, simple geometric shape with minimal details''),
     (''modern'', ''Sleek gradient with tech-forward aesthetic''),
     (''geometric'', ''Abstract geometric patterns, mathematical precision''),
     (''gradient'', ''Vibrant color transitions, modern digital feel''),
     (''abstract'', ''Conceptual symbolic representation''),
     (''lettermark'', (''Stylized letter '' @ [CHR 0x27] @ ''U'' @ [CHR 0x27] @ '' as monogram'')),
     (''negative-space'', ''Clever use of negative space, hidden meaning''),
     (''lineart'', ''Single stroke continuous line design''),
     (''3d'', ''Dimensional design with depth and shadows'')]"

text \<open>\<open>os.path.join\<close> of two parts.\<close>

definition os_join :: "str \<Rightarrow> str \<Rightarrow> str" where
  "os_join dir name =
     (if starts_with ''/'' name then name
      else if dir = [] \<or> ends_with ''/'' dir then dir @ name
      else dir @ ''/'' @ name)"

record batch_job =
  bj_prompt :: str
  bj_brand :: str
  bj_count :: int
  bj_dir :: str
  bj_pro :: bool
  bj_context :: "str option"
  bj_ratio :: "str option"
  bj_provider :: str
  bj_atlas_model :: str
  bj_muapi_model :: str

definition variant_file :: "batch_job \<Rightarrow> nat \<Rightarrow> str" where
  "variant_file job i = ((brand_slug (bj_brand job)) @ ''_'' @ (fst (batch_styles ! i)) @ ''_'' @ (two_digits (i + 1)) @ ''.png'')"

definition variant_job :: "batch_job \<Rightarrow> nat \<Rightarrow> logo_job" where
  "variant_job job i =
     (let enhanced_prompt = ((bj_prompt job) @ '', '' @ (snd (batch_styles ! i))) in
      \<lparr>lj_prompt = (if given (bj_context job) then ((the (bj_context job)) @ '', '' @ enhanced_prompt) else enhanced_prompt),
       lj_style = Some (fst (batch_styles ! i)), lj_industry = Some ''tech'', lj_brand = Some (bj_brand job),
       lj_output = Some (os_join (bj_dir job) (variant_file job i)), lj_pro = bj_pro job, lj_ratio = bj_ratio job,
       lj_provider = bj_provider job, lj_atlas_model = bj_atlas_model job, lj_muapi_model = bj_muapi_model job\<rparr>)"

fun batch_loop :: "web_env \<Rightarrow> gemini \<Rightarrow> logo_keys \<Rightarrow> str \<Rightarrow> batch_job \<Rightarrow> nat list \<Rightarrow> str list act" where
  "batch_loop env sdk api_keys timestamp job [] = ok []"
| "batch_loop env sdk api_keys timestamp job (i # is) =
     and_then (print_lines [(''['' @ (str_of_nat (i + 1)) @ ''/'' @ (str_of_int (bj_count job)) @ ''] Generating '' @ (fst (batch_styles ! i)) @ '' variant...'')]) (\<lambda>_.
     and_then (generate_logo env sdk api_keys timestamp (variant_job job i)) (\<lambda>r.
     and_then (print_lines
       [if given r then (''  '' @ u_check @ '' Saved: '' @ (variant_file job i) @ [CHR 0x0A]) else (''  '' @ u_ballot @ '' Failed: '' @ (fst (batch_styles ! i)) @ [CHR 0x0A])]) (\<lambda>_.
     and_then (if int i < bj_count job - 1 then sleep_for 2 else ok ()) (\<lambda>_.
     and_then (batch_loop env sdk api_keys timestamp job is) (\<lambda>rs.
       ok (if given r then the r # rs else rs))))))"

definition batch_header :: "batch_job \<Rightarrow> str list" where
  "batch_header job =
     (let bar = replicate 60 CHR ''='';
          label = (if bj_provider job = ''atlas'' then (''Atlas Cloud ('' @ (bj_atlas_model job) @ '')'')
                   else if bj_provider job = ''muapi'' then (''MuAPI ('' @ (bj_muapi_model job) @ '')'')
                   else (''Nano Banana '' @ (if bj_pro job then ''Pro'' else ''Flash'')))
      in [([CHR 0x0A] @ bar), (''  BATCH LOGO GENERATION: '' @ (bj_brand job)), (''  Model: '' @ label),
          (''  Aspect Ratio: '' @ (ratio_of (bj_ratio job))), (''  Variants: '' @ (str_of_int (bj_count job))),
          (''  Output: '' @ (bj_dir job)), (bar @ [CHR 0x0A])])"

definition generate_logo_batch :: "web_env \<Rightarrow> gemini \<Rightarrow> logo_keys \<Rightarrow> str \<Rightarrow> batch_job \<Rightarrow> str list act" where
  "generate_logo_batch env sdk api_keys timestamp job = (\<lambda>s.
     case make_dirs (path_of (bj_dir job)) (se_files s) of
       None \<Rightarrow> (Inl (FileFault (bj_dir job)), s)
     | Some fs \<Rightarrow>
         and_then (print_lines (batch_header job)) (\<lambda>_.
         and_then (batch_loop env sdk api_keys timestamp job [0..<nat (min (bj_count job) (int (length batch_styles)))]) (\<lambda>results.
         and_then (print_lines
           [([CHR 0x0A] @ (replicate 60 CHR ''='')), (''  BATCH COMPLETE: '' @ (str_of_nat (length results)) @ ''/'' @ (str_of_int (bj_count job)) @ '' logos generated''),
            ((replicate 60 CHR ''='') @ [CHR 0x0A])]) (\<lambda>_. ok results)))
         (s\<lparr>se_files := fs\<rparr>))"

subsection \<open>The command\<close>

record logo_args =
  la_prompt :: "str option"
  la_brand :: "str option"
  la_style :: "str option"
  la_industry :: "str option"
  la_output :: "str option"
  la_dir :: "str option"
  la_batch :: "int option"
  la_context :: "str option"
  la_pro :: bool
  la_provider :: str
  la_atlas_model :: str
  la_muapi_model :: str
  la_ratio :: str
  la_list_styles :: bool
  la_list_industries :: bool

definition listing :: "str \<Rightarrow> str dict \<Rightarrow> str list" where
  "listing title entries = title # map (\<lambda>(name, desc). (''  '' @ name @ '': '' @ (py_take 60 desc) @ ''...'')) entries"

text \<open>The exit code; \<open>2\<close> is an error of the arguments.\<close>

definition logo_generate_main :: "web_env \<Rightarrow> gemini \<Rightarrow> logo_keys \<Rightarrow> str \<Rightarrow> logo_args \<Rightarrow> nat act" where
  "logo_generate_main env sdk api_keys timestamp arg =
     (if la_provider arg \<noteq> ''gemini'' \<and> la_pro arg then ok 2
      else if la_list_styles arg then and_then (print_lines (listing ''Available styles:'' STYLE_MODIFIERS)) (\<lambda>_. ok 0)
      else if la_list_industries arg then and_then (print_lines (listing ''Available industries:'' INDUSTRY_PROMPTS)) (\<lambda>_. ok 0)
      else if \<not> given (la_prompt arg) \<and> \<not> given (la_brand arg) then ok 2
      else
        let prompt = (if given (la_prompt arg) then the (la_prompt arg) else ''professional logo'') in
        if la_batch arg \<noteq> None \<and> la_batch arg \<noteq> Some 0
        then (if \<not> given (la_dir arg) \<and> la_brand arg = None then raise_fault (AttributeFault ''lower'')
              else and_then (generate_logo_batch env sdk api_keys timestamp
                \<lparr>bj_prompt = prompt, bj_brand = (if given (la_brand arg) then the (la_brand arg) else ''Logo''),
                 bj_count = the (la_batch arg),
                 bj_dir = (if given (la_dir arg) then the (la_dir arg) else (''./'' @ (brand_slug (the (la_brand arg))) @ ''_logos'')),
                 bj_pro = la_pro arg, bj_context = la_context arg, bj_ratio = Some (la_ratio arg), bj_provider = la_provider arg,
                 bj_atlas_model = la_atlas_model arg, bj_muapi_model = la_muapi_model arg\<rparr>) (\<lambda>_. ok 0))
        else and_then (generate_logo env sdk api_keys timestamp
               \<lparr>lj_prompt = prompt, lj_style = la_style arg, lj_industry = la_industry arg, lj_brand = la_brand arg,
                lj_output = la_output arg, lj_pro = la_pro arg, lj_ratio = Some (la_ratio arg), lj_provider = la_provider arg,
                lj_atlas_model = la_atlas_model arg, lj_muapi_model = la_muapi_model arg\<rparr>) (\<lambda>_. ok 0))"

subsection \<open>What a run sends\<close>

lemma confined_thenI:
  "confined may n t m \<Longrightarrow> (\<And>x. confined may n' t' (f x)) \<Longrightarrow> n + n' \<le> N \<Longrightarrow> t + t' \<le> T \<Longrightarrow> confined may N T (and_then m f)"
  by (rule confined_mono [OF confined_then])

definition keyless :: "http_request \<Rightarrow> bool" where
  "keyless req \<longleftrightarrow> list_all (\<lambda>(k, v). k \<noteq> ''Authorization'' \<and> k \<noteq> ''x-api-key'') (rq_headers req)"

definition may_send :: "(str \<Rightarrow> bool option) \<Rightarrow> http_request \<Rightarrow> bool" where
  "may_send ipv6 req \<longleftrightarrow>
     (starts_with ATLAS_API_BASE (rq_url req) \<or> starts_with MUAPI_API_BASE (rq_url req) \<or>
      validate_public_https_url ipv6 (rq_url req) = None) \<and>
     ((''Accept'', ''image/*'') \<in> set (rq_headers req) \<longrightarrow> keyless req)"

interpretation logo: confinement ipv6 "may_send ipv6" for ipv6
  by unfold_locales (auto simp: may_send_def keyless_def redirected_def list_all_iff)

lemma json_headers_plain:
  "k \<in> {''Authorization'', ''x-api-key''} \<Longrightarrow> (''Accept'', ''image/*'') \<notin> set (json_headers k v w)"
  by (auto simp: json_headers_def)

lemma image_request_keyless:
  "validate_public_https_url ipv6 url = None \<Longrightarrow> may_send ipv6 \<lparr>rq_url = url, rq_method = ''GET'',
     rq_headers = [(''Accept'', ''image/*''), (''User-Agent'', HTTP_USER_AGENT)], rq_body = None\<rparr>"
  by (simp add: may_send_def keyless_def)

lemma confined_download:
  "confined (may_send (we_ipv6 env)) 41 0 (download_atlas_image env p url)"
  "confined (may_send (we_ipv6 env)) 41 0 (download_muapi_image env p url)"
  unfolding download_atlas_image_def download_muapi_image_def
  by (rule logo.download_confined, erule image_request_keyless)+

lemma confined_ask:
  assumes "starts_with ATLAS_API_BASE url \<or> starts_with MUAPI_API_BASE url \<or> validate_public_https_url (we_ipv6 env) url = None"
  shows "confined (may_send (we_ipv6 env)) 41 0 (ask env url api_key how payload k)"
  unfolding ask_def
  by (rule logo.json_request_confined) (use assms json_headers_plain in \<open>auto simp: may_send_def\<close>)

lemma confined_or_raise [intro]: "confined may n t (or_raise r)"
  by (auto simp: or_raise_def split: sum.splits)

lemma atlas_poll_confined: "confined (may_send (we_ipv6 env)) (41 * n + 41) (2 * n) (atlas_poll env i k p n data)"
proof (induction n arbitrary: data)
  case 0
  show ?case
    by (subst atlas_poll.simps) (auto simp: Let_def intro!: confined_thenI [OF confined_or_raise [of _ 0 0] confined_download(1)])
next
  case (Suc n)
  have base: "starts_with ATLAS_API_BASE (ATLAS_API_BASE @ s)" for s by (simp add: starts_with_iff)
  show ?case
    by (subst atlas_poll.simps)
      (auto simp: Let_def POLL_INTERVAL_def base intro!: confined_thenI [OF confined_or_raise [of _ 0 0] confined_download(1)]
        confined_thenI [OF confined_sleep [of 2 2 _ 0]] confined_thenI [OF confined_ask]
        confined_thenI [OF confined_or_raise [of _ 0 0] Suc.IH])
qed

lemma muapi_poll_confined:
  assumes "validate_public_https_url (we_ipv6 env) url = None"
  shows "confined (may_send (we_ipv6 env)) (41 * n + 41) (2 * n) (muapi_poll env url k p n data)"
proof (induction n arbitrary: data)
  case 0
  show ?case
    by (subst muapi_poll.simps)
      (auto simp: Let_def intro!: confined_thenI [OF confined_or_raise [of _ 0 0]]
        confined_thenI [OF confined_or_raise [of _ 0 0] confined_download(2)])
next
  case (Suc n)
  have rest: "confined (may_send (we_ipv6 env)) (41 * n + 82) (2 * n + 2)
      (and_then (sleep_for POLL_INTERVAL) (\<lambda>_.
        and_then (ask env url k ''GET'' None ''x-api-key'') (muapi_poll env url k p n)))"
    using assms
    by (auto simp: POLL_INTERVAL_def intro!: confined_thenI [OF confined_sleep [of 2 2 _ 0]]
        confined_thenI [OF confined_ask Suc.IH])
  show ?case
    by (subst muapi_poll.simps)
      (auto simp: Let_def intro!: confined_thenI [OF confined_or_raise [of _ 0 0]] rest [THEN confined_mono]
        confined_thenI [OF confined_or_raise [of _ 0 0] confined_download(2)])
qed

lemma result_url_public: "muapi_result_url env response = Inr url \<Longrightarrow> validate_public_https_url (we_ipv6 env) url = None"
  by (auto simp: muapi_result_url_def no_result_url_def split: sum.splits list.splits json.splits if_splits)

lemma confined_or_raise_then:
  "(\<And>x. r = Inr x \<Longrightarrow> confined may n t (f x)) \<Longrightarrow> confined may n t (and_then (or_raise r) f)"
  by (cases r) (simp_all add: or_raise_def confined_def and_then_def ok_def raise_fault_def)

lemma atlas_confined: "confined (may_send (we_ipv6 env)) 3772 180 (generate_with_atlas env prompt p r k model)"
proof -
  have base: "starts_with ATLAS_API_BASE (ATLAS_API_BASE @ s)" for s by (simp add: starts_with_iff)
  have poll: "confined (may_send (we_ipv6 env)) 3731 180 (atlas_poll env i k' p MAX_POLLS data)" for i k' data
    using atlas_poll_confined [of env MAX_POLLS] by (simp add: MAX_POLLS_def)
  show ?thesis
    by (auto simp: generate_with_atlas_def Let_def base
        intro!: confined_thenI [OF confined_ask, where n' = 3731 and t' = 180] confined_or_raise_then poll)
qed

lemma muapi_confined: "confined (may_send (we_ipv6 env)) 3772 180 (generate_with_muapi env prompt p r k model)"
proof -
  have base: "starts_with MUAPI_API_BASE (MUAPI_API_BASE @ s)" for s by (simp add: starts_with_iff)
  have poll: "confined (may_send (we_ipv6 env)) 3731 180 (muapi_poll env url k' p MAX_POLLS data)"
    if "validate_public_https_url (we_ipv6 env) url = None" for url k' data
    using muapi_poll_confined [OF that, of MAX_POLLS] by (simp add: MAX_POLLS_def)
  show ?thesis
    by (auto simp: generate_with_muapi_def Let_def base split: json.splits list.splits
        intro!: confined_thenI [OF confined_ask, where n' = 3731 and t' = 180] confined_or_raise_then poll result_url_public)
qed

lemma gemini_confined: "confined may n t (generate_with_gemini sdk k prompt p r pro)"
  by (auto simp: generate_with_gemini_def split: sum.splits list.splits)

lemma provider_confined: "confined (may_send (we_ipv6 env)) 3772 180 (run_provider env sdk api_keys job prompt p)"
  by (simp add: run_provider_def Let_def atlas_confined muapi_confined gemini_confined)

lemma confined_print [intro]: "confined may n t (print_lines ls)"
  by (auto simp: confined_def print_lines_def)

lemma confined_if: "confined may n t x \<Longrightarrow> confined may n t y \<Longrightarrow> confined may n t (if c then x else y)"
  by simp

lemma confined_caught:
  assumes "confined may n t m" and "\<And>r. confined may 0 0 (f r)"
  shows "confined may n t (caught m f)"
  unfolding confined_def
proof
  fix s
  obtain r s' where m: "m s = (r, s')" by fastforce
  with assms(1) obtain rqs where rqs: "se_sent s' = se_sent s @ rqs" "length rqs \<le> n" "list_all may rqs"
      "se_slept s' \<le> se_slept s + t"
    by (auto simp: confined_def dest!: spec [of _ s])
  from assms(2) [of r] have "se_sent (snd (f r s')) = se_sent s'" "se_slept (snd (f r s')) \<le> se_slept s'"
    by (auto simp: confined_def)
  with m rqs show "\<exists>rqs. se_sent (snd (caught m f s)) = se_sent s @ rqs \<and> length rqs \<le> n \<and> list_all may rqs \<and>
      se_slept (snd (caught m f s)) \<le> se_slept s + t"
    by (auto simp: caught_def)
qed

lemma confined_printed: "confined may n t m \<Longrightarrow> confined may n t (and_then (print_lines ls) (\<lambda>_. m))"
  using confined_then [OF confined_print [of may 0 0]] by fastforce

lemma generate_logo_confined: "confined (may_send (we_ipv6 env)) 3772 180 (generate_logo env sdk api_keys ts job)"
proof -
  have "confined may 0 0 (report_logo target r)" for may target r
    by (cases r) (auto simp: report_logo_def intro!: confined_printed)
  then show ?thesis
    unfolding generate_logo_def Let_def by (intro confined_printed confined_caught provider_confined)
qed

lemma batch_loop_confined:
  "confined (may_send (we_ipv6 env)) (3772 * length is) (182 * length is) (batch_loop env sdk api_keys ts job is)"
proof (induction "is")
  case (Cons i "is")
  have pause: "confined may 0 2 (if c then sleep_for 2 else ok ())" for may c by (auto intro: confined_sleep)
  have loop: "confined (may_send (we_ipv6 env)) (3772 * length is) (182 * length is)
      (and_then (batch_loop env sdk api_keys ts job is) (\<lambda>rs. ok (g rs)))" for g :: "str list \<Rightarrow> str list"
    by (rule confined_thenI [OF Cons.IH confined_ok(1) [of _ 0 0]]) simp_all
  have "confined (may_send (we_ipv6 env)) (3772 * length is) (182 * length is + 2)
      (and_then (if c then sleep_for 2 else ok ()) (\<lambda>_.
       and_then (batch_loop env sdk api_keys ts job is) (\<lambda>rs. ok (g rs))))" for c and g :: "str list \<Rightarrow> str list"
    by (rule confined_thenI [OF pause loop]) simp_all
  then have after: "confined (may_send (we_ipv6 env)) (3772 * length is) (182 * length is + 2)
      (and_then (print_lines ls) (\<lambda>_. and_then (if c then sleep_for 2 else ok ()) (\<lambda>_.
       and_then (batch_loop env sdk api_keys ts job is) (\<lambda>rs. ok (g rs)))))" for ls c and g :: "str list \<Rightarrow> str list"
    by (rule confined_printed)
  show ?case
    unfolding batch_loop.simps
    by (intro confined_printed, rule confined_thenI [OF generate_logo_confined after]) simp_all
qed auto

lemma batch_confined: "confined (may_send (we_ipv6 env)) 33948 1638 (generate_logo_batch env sdk api_keys ts job)"
proof -
  let ?is = "[0..<nat (min (bj_count job) (int (length batch_styles)))]"
  have "length batch_styles = 9" by code_simp
  then have few: "length ?is \<le> 9" by simp
  have loop: "confined (may_send (we_ipv6 env)) 33948 1638 (batch_loop env sdk api_keys ts job ?is)"
    by (rule confined_mono [OF batch_loop_confined]) (use few in linarith)+
  have "confined (may_send (we_ipv6 env)) 33948 1638
      (and_then (batch_loop env sdk api_keys ts job ?is) (\<lambda>rs. and_then (print_lines (ls rs)) (\<lambda>_. ok rs)))" for ls
    by (rule confined_thenI [OF loop, where n' = 0 and t' = 0]) (auto intro: confined_printed)
  then have rest: "confined (may_send (we_ipv6 env)) 33948 1638
      (and_then (print_lines (batch_header job)) (\<lambda>_.
        and_then (batch_loop env sdk api_keys ts job ?is) (\<lambda>rs. and_then (print_lines (ls rs)) (\<lambda>_. ok rs))))" for ls
    by (intro confined_printed)
  show ?thesis
    unfolding confined_def
  proof
    fix s :: session
    show "\<exists>rqs. se_sent (snd (generate_logo_batch env sdk api_keys ts job s)) = se_sent s @ rqs \<and> length rqs \<le> 33948 \<and>
        list_all (may_send (we_ipv6 env)) rqs \<and> se_slept (snd (generate_logo_batch env sdk api_keys ts job s)) \<le> se_slept s + 1638"
    proof (cases "make_dirs (path_of (bj_dir job)) (se_files s)")
      case (Some fs)
      with rest [unfolded confined_def, rule_format, of _ "s\<lparr>se_files := fs\<rparr>"] show ?thesis
        by (simp add: generate_logo_batch_def)
    qed (simp add: generate_logo_batch_def)
  qed
qed

lemma logo_main_confined: "confined (may_send (we_ipv6 env)) 33948 1638 (logo_generate_main env sdk api_keys ts arg)"
proof -
  have one: "confined (may_send (we_ipv6 env)) 33948 1638 (and_then (generate_logo env sdk api_keys ts job) (\<lambda>_. ok (0 :: nat)))" for job
    by (rule confined_thenI [OF generate_logo_confined confined_ok(1) [of _ 0 0]]) simp_all
  have batch: "confined (may_send (we_ipv6 env)) 33948 1638 (and_then (generate_logo_batch env sdk api_keys ts job) (\<lambda>_. ok (0 :: nat)))" for job
    by (rule confined_thenI [OF batch_confined confined_ok(1) [of _ 0 0]]) simp_all
  show ?thesis
    unfolding logo_generate_main_def Let_def by (intro confined_if confined_printed one batch confined_ok)
qed

subsection \<open>What a run writes\<close>

text \<open>An activity saves to a path if it writes the file when it succeeds and leaves the files alone when it fails.\<close>

definition saves :: "path \<Rightarrow> 'a act \<Rightarrow> bool" where
  "saves p m \<longleftrightarrow> (\<forall>s. case m s of
     (Inl e, s') \<Rightarrow> se_files s' = se_files s
   | (Inr x, s') \<Rightarrow> \<exists>bytes. write_text p bytes (se_files s) = Some (se_files s'))"

lemma saves_raise [intro]: "saves p (raise_fault e)"
  by (simp add: saves_def raise_fault_def)

lemma saves_bytes [intro]: "saves p (save_bytes p bytes)"
  by (auto simp: saves_def save_bytes_def split: option.splits)

lemma saves_then:
  assumes "quiet m" and "\<And>x. saves p (f x)"
  shows "saves p (and_then m f)"
  unfolding saves_def
proof
  fix s
  obtain r s1 where m: "m s = (r, s1)" by fastforce
  with assms(1) have same: "se_files s1 = se_files s" by (auto simp: quiet_def dest: spec [of _ s])
  have "\<forall>x. case f x s1 of (Inl e, s') \<Rightarrow> se_files s' = se_files s1
      | (Inr x, s') \<Rightarrow> \<exists>bytes. write_text p bytes (se_files s1) = Some (se_files s')"
    using assms(2) by (simp add: saves_def)
  note rest = this [unfolded same]
  show "case and_then m f s of (Inl e, s') \<Rightarrow> se_files s' = se_files s
      | (Inr x, s') \<Rightarrow> \<exists>bytes. write_text p bytes (se_files s) = Some (se_files s')"
    using rest m same by (cases r) (simp_all add: and_then_def)
qed

lemma saves_if: "saves p x \<Longrightarrow> saves p y \<Longrightarrow> saves p (if c then x else y)"
  by simp

lemma quiet_or_raise [intro]: "quiet (or_raise r)"
  by (auto simp: or_raise_def split: sum.splits)

lemma quiet_ask [intro]: "quiet (ask env url k how payload h)"
  unfolding ask_def json_request_def Let_def case_prod_unfold
  by (auto split: sum.splits intro!: quiet_then quiet_recast open_url_quiet)

lemma saves_download: "saves p (download_image net ipv6 url p name)"
  unfolding download_image_def Let_def case_prod_unfold
  by (auto split: option.splits intro!: saves_then quiet_recast open_url_quiet)

lemma saves_atlas_poll: "saves p (atlas_poll env i k p n data)"
proof (induction n arbitrary: data)
  case 0
  show ?case by (subst atlas_poll.simps) (auto simp: Let_def download_atlas_image_def intro!: saves_then saves_download)
next
  case (Suc n)
  then show ?case
    by (subst atlas_poll.simps) (auto simp: Let_def download_atlas_image_def intro!: saves_then saves_download)
qed

lemma saves_muapi_poll: "saves p (muapi_poll env url k p n data)"
proof (induction n arbitrary: data)
  case 0
  show ?case by (subst muapi_poll.simps) (auto simp: Let_def download_muapi_image_def intro!: saves_then saves_download)
next
  case (Suc n)
  then show ?case
    by (subst muapi_poll.simps) (auto simp: Let_def download_muapi_image_def intro!: saves_then saves_download)
qed

lemma saves_atlas: "saves p (generate_with_atlas env prompt p r k model)"
  unfolding generate_with_atlas_def Let_def
  by (intro saves_if saves_raise saves_then quiet_ask quiet_or_raise saves_atlas_poll)

lemma saves_muapi: "saves p (generate_with_muapi env prompt p r k model)"
proof -
  have "saves p (case request_id of
      JString (c # s) \<Rightarrow> and_then (or_raise (muapi_result_url env response)) (\<lambda>result_url. muapi_poll env result_url k' p MAX_POLLS response)
    | _ \<Rightarrow> raise_fault e)" for request_id response k' e
    by (auto split: json.split list.split intro!: saves_then quiet_or_raise saves_muapi_poll)
  then show ?thesis
    unfolding generate_with_muapi_def by (intro saves_if saves_raise saves_then quiet_ask quiet_or_raise)
qed

lemma saves_gemini: "saves p (generate_with_gemini sdk k prompt p r pro)"
  by (auto simp: generate_with_gemini_def split: sum.split list.split)

lemma provider_saves: "saves p (run_provider env sdk api_keys job prompt p)"
  unfolding run_provider_def Let_def by (intro saves_if saves_atlas saves_muapi saves_gemini)

lemma reported_saves:
  assumes "saves p m"
    and "and_then (print_lines ls) (\<lambda>_. caught m (report_logo shown)) s = (r, s')"
  shows "r = Inr None \<and> se_files s' = se_files s \<or>
    r = Inr (Some shown) \<and> (\<exists>bytes. write_text p bytes (se_files s) = Some (se_files s'))"
proof -
  let ?s = "s\<lparr>se_lines := se_lines s @ ls\<rparr>"
  obtain x s1 where run: "m ?s = (x, s1)" by fastforce
  have "case m ?s of (Inl e, s') \<Rightarrow> se_files s' = se_files ?s
      | (Inr x, s') \<Rightarrow> \<exists>bytes. write_text p bytes (se_files ?s) = Some (se_files s')"
    using assms(1) unfolding saves_def by (rule spec)
  then have "case x of Inl e \<Rightarrow> se_files s1 = se_files s
      | Inr _ \<Rightarrow> \<exists>bytes. write_text p bytes (se_files s) = Some (se_files s1)"
    by (simp add: run split: sum.splits)
  with assms(2) run show ?thesis
    by (cases x) (auto simp: and_then_def print_lines_def caught_def report_logo_def ok_def)
qed

lemma generate_logo_saves:
  assumes "generate_logo env sdk api_keys ts job s = (r, s')"
  shows "r = Inr None \<and> se_files s' = se_files s \<or>
    r = Inr (Some (logo_path_for ts job)) \<and>
      (\<exists>bytes. write_text (path_of (logo_path_for ts job)) bytes (se_files s) = Some (se_files s'))"
  by (rule reported_saves [OF provider_saves assms [unfolded generate_logo_def Let_def]])

text \<open>The files of a session after some logos have been reported: those exist, and no other file has changed.\<close>

definition accounted :: "str list \<Rightarrow> filesystem \<Rightarrow> filesystem \<Rightarrow> bool" where
  "accounted ps fs fs' \<longleftrightarrow>
     (\<forall>q. if q \<in> path_of ` set ps then fs_files fs' q \<noteq> None else fs_files fs' q = fs_files fs q)"

lemma accounted_Nil: "accounted [] fs fs' \<longleftrightarrow> fs_files fs' = fs_files fs"
  by (auto simp: accounted_def)

lemma accounted_trans:
  assumes "accounted ps fs fs'" and "accounted ps' fs' fs''"
  shows "accounted (ps @ ps') fs fs''"
  unfolding accounted_def
proof
  fix q
  from assms [unfolded accounted_def] have "if q \<in> path_of ` set ps then fs_files fs' q \<noteq> None else fs_files fs' q = fs_files fs q"
    and "if q \<in> path_of ` set ps' then fs_files fs'' q \<noteq> None else fs_files fs'' q = fs_files fs' q"
    by blast+
  then show "if q \<in> path_of ` set (ps @ ps') then fs_files fs'' q \<noteq> None else fs_files fs'' q = fs_files fs q"
    unfolding set_append image_Un Un_iff
    by (cases "q \<in> path_of ` set ps"; cases "q \<in> path_of ` set ps'") simp_all
qed

lemma write_text_files: "write_text p c fs = Some fs' \<Longrightarrow> fs_files fs' = (fs_files fs)(p \<mapsto> c) \<and> snd p \<noteq> []"
  by (auto simp: write_text_def split: if_splits)

definition reported :: "str option \<Rightarrow> str list" where
  "reported r = (if given r then [the r] else [])"

lemma accounted_write:
  assumes "write_text (path_of p) c fs = Some fs'"
  shows "accounted (reported (Some p)) fs fs'"
proof -
  have "snd (path_of []) = []" by code_simp
  with write_text_files [OF assms] show ?thesis
    by (cases p) (auto simp: reported_def given_def accounted_def)
qed

lemma generate_logo_accounted:
  "case generate_logo env sdk api_keys ts job s of (r, s') \<Rightarrow>
     \<exists>p. r = Inr p \<and> accounted (reported p) (se_files s) (se_files s')"
proof -
  obtain r s' where run: "generate_logo env sdk api_keys ts job s = (r, s')" by fastforce
  from generate_logo_saves [OF run] show ?thesis
  proof (elim disjE conjE exE)
    assume "r = Inr None" "se_files s' = se_files s"
    with run show ?thesis by (auto simp: reported_def given_def accounted_Nil)
  next
    fix bytes
    assume "r = Inr (Some (logo_path_for ts job))"
      and "write_text (path_of (logo_path_for ts job)) bytes (se_files s) = Some (se_files s')"
    with run show ?thesis by (auto intro: accounted_write)
  qed
qed

lemma then_run: "m s = (Inr x, s') \<Longrightarrow> and_then m f s = f x s'"
  by (simp add: and_then_def)

lemma printed: "print_lines ls s = (Inr (), s\<lparr>se_lines := se_lines s @ ls\<rparr>)"
  by (simp add: print_lines_def)

lemma paused: "\<exists>s'. (if c then sleep_for n else ok ()) s = (Inr (), s') \<and> se_files s' = se_files s"
  by (simp add: sleep_for_def ok_def)

text \<open>One round of the batch, whatever it prints.\<close>

lemma round_accounted:
  assumes logo: "\<And>s. case m s of (r, s') \<Rightarrow> \<exists>p. r = Inr p \<and> accounted (reported p) (se_files s) (se_files s')"
    and rest: "\<And>s. case l s of (r, s') \<Rightarrow> \<exists>ps. r = Inr ps \<and> accounted ps (se_files s) (se_files s')"
  shows "case and_then (print_lines ls) (\<lambda>_. and_then m (\<lambda>p. and_then (print_lines (ls' p)) (\<lambda>_.
      and_then (if c then sleep_for n else ok ()) (\<lambda>_. and_then l (\<lambda>rs. ok (if given p then the p # rs else rs)))))) s
    of (r, s') \<Rightarrow> \<exists>ps. r = Inr ps \<and> accounted ps (se_files s) (se_files s')"
proof -
  let ?s = "s\<lparr>se_lines := se_lines s @ ls\<rparr>"
  from logo [of ?s] obtain p s1 where m: "m ?s = (Inr p, s1)" and one: "accounted (reported p) (se_files s) (se_files s1)"
    by (auto split: prod.splits)
  let ?s1 = "s1\<lparr>se_lines := se_lines s1 @ ls' p\<rparr>"
  from paused [of c n ?s1] obtain s2 where s2: "(if c then sleep_for n else ok ()) ?s1 = (Inr (), s2)" "se_files s2 = se_files s1"
    by auto
  from rest [of s2] obtain ps s3 where l: "l s2 = (Inr ps, s3)" and "accounted ps (se_files s2) (se_files s3)"
    by (auto split: prod.splits)
  with accounted_trans [OF one] s2 have "accounted (reported p @ ps) (se_files s) (se_files s3)" by simp
  then show ?thesis
    unfolding then_run [OF printed] then_run [where m = m, OF m] then_run [where m = "if c then sleep_for n else ok ()", OF s2(1)] then_run [where m = l, OF l]
    by (simp add: ok_def reported_def split: if_splits)
qed

lemma batch_loop_accounted:
  "case batch_loop env sdk api_keys ts job is s of (r, s') \<Rightarrow>
     \<exists>ps. r = Inr ps \<and> accounted ps (se_files s) (se_files s')"
proof (induction "is" arbitrary: s)
  case Nil
  show ?case by (simp add: ok_def accounted_Nil)
next
  case (Cons i "is")
  show ?case
    unfolding batch_loop.simps by (rule round_accounted [OF generate_logo_accounted Cons.IH])
qed

lemma batch_accounted:
  "case generate_logo_batch env sdk api_keys ts job s of
     (Inl e, s') \<Rightarrow> se_files s' = se_files s
   | (Inr ps, s') \<Rightarrow> accounted ps (se_files s) (se_files s')"
proof (cases "make_dirs (path_of (bj_dir job)) (se_files s)")
  case (Some fs)
  let ?is = "[0..<nat (min (bj_count job) (int (length batch_styles)))]"
  let ?s = "s\<lparr>se_files := fs\<rparr>"
  let ?s1 = "?s\<lparr>se_lines := se_lines ?s @ batch_header job\<rparr>"
  from Some have "fs_files fs = fs_files (se_files s)" by (auto simp: make_dirs_def split: if_splits)
  moreover from batch_loop_accounted [of ?s1 env sdk api_keys ts job ?is] obtain ps s2
    where loop: "batch_loop env sdk api_keys ts job ?is ?s1 = (Inr ps, s2)" and "accounted ps fs (se_files s2)"
    by (auto split: prod.splits)
  ultimately have "accounted ps (se_files s) (se_files s2)" by (simp add: accounted_def)
  then show ?thesis
    unfolding generate_logo_batch_def Some option.case then_run [OF printed] then_run [where m = "batch_loop env sdk api_keys ts job ?is", OF loop] by (simp add: ok_def)
qed (simp add: generate_logo_batch_def)
end
