(* ===== verification/CipGen.thy ===== *)
theory CipGen
  imports Catalogues LogoGen "HOL-Library.Sublist"
begin

text \<open>
  \<open>cip/generate.py\<close>: mockups of a corporate identity, from prompts that are composed of the catalogue. The SDK,
  the library for pictures, the clock and the keyboard are arguments; the sessions are those of the
  theory Web.
\<close>

abbreviation u_bulb :: str where
  "u_bulb \<equiv> [CHR 0xF0, CHR 0x9F, CHR 0x92, CHR 0xA1]"

subsection \<open>The surroundings\<close>

definition CIP_MODELS :: "str dict" where
  "CIP_MODELS = [(''flash'', ''gemini-2.5-flash-image''), (''pro'', ''gemini-3-pro-image-preview'')]"

definition DEFAULT_MODEL :: str where
  "DEFAULT_MODEL = ''flash''"

text \<open>
  The library for pictures: how a picture is opened, its mode and size, and its conversions, each with the text
  of an exception. The argument of \<open>pl_on_white\<close> says whether the alpha channel is the mask.
\<close>

record 'i pictures =
  pl_open :: "str \<Rightarrow> str + 'i"
  pl_mode :: "'i \<Rightarrow> str"
  pl_size :: "'i \<Rightarrow> nat \<times> nat"
  pl_on_white :: "bool \<Rightarrow> 'i \<Rightarrow> str + 'i"
  pl_to_rgb :: "'i \<Rightarrow> str + 'i"

text \<open>
  What the SDK answers for a model, a prompt, a picture and an aspect ratio: the text of an exception, or the data of
  the parts of the first candidate.
\<close>

type_synonym 'i mockup_sdk = "str \<Rightarrow> str \<Rightarrow> 'i option \<Rightarrow> str \<Rightarrow> str + str option list"

record 'i cip_env =
  ce_db :: data_dir
  ce_load_text :: "load_error \<Rightarrow> str"
  ce_pictures :: "'i pictures option"
  ce_sdk :: "'i mockup_sdk option"
  ce_vars :: "str dict"
  ce_clock :: "session \<Rightarrow> str"
  ce_cwd :: path
  ce_choice :: "str option"
  ce_logo_script :: str

definition rgb_image :: "'i pictures \<Rightarrow> str \<Rightarrow> str + 'i" where
  "rgb_image lib logo =
     chain (pl_open lib logo) (\<lambda>img.
       if pl_mode lib img = ''RGBA'' then pl_on_white lib True img
       else if pl_mode lib img = ''P'' then pl_on_white lib False img
       else if pl_mode lib img \<noteq> ''RGB'' then pl_to_rgb lib img
       else Inr img)"

definition load_logo_image :: "'i cip_env \<Rightarrow> str \<Rightarrow> 'i option act" where
  "load_logo_image env logo = (\<lambda>s.
     case ce_pictures env of
       None \<Rightarrow>
         and_then (print_lines [''Error: pillow package not installed.'', ''Install with: pip install pillow'']) (\<lambda>_. ok None) s
     | Some lib \<Rightarrow>
         if \<not> on_disk (se_files s) (path_of logo)
         then and_then (print_lines [(''Error: Logo file not found: '' @ (path_str (path_of logo)))]) (\<lambda>_. ok None) s
         else (case rgb_image lib logo of
                 Inl e \<Rightarrow> and_then (print_lines [(''Error loading logo: '' @ e)]) (\<lambda>_. ok None) s
               | Inr img \<Rightarrow> ok (Some img) s))"

subsection \<open>Prompts\<close>

record cip_prompt =
  cp_prompt :: str
  cp_deliverable :: str
  cp_style :: str
  cp_brand :: str
  cp_colors :: str
  cp_context :: str
  cp_placement :: str

text \<open>The first row that a search finds, or an empty one.\<close>

definition first_row :: "data_dir \<Rightarrow> str \<Rightarrow> str \<Rightarrow> load_error + row option" where
  "first_row db query domain = map_sum id first_hit (cip_search db query (Some domain) 1)"

definition row_for :: "data_dir \<Rightarrow> str option \<Rightarrow> str \<Rightarrow> load_error + row" where
  "row_for db query domain =
     (if given query then map_sum id row_or_empty (first_row db (the query) domain) else Inr [])"

definition edit_parts :: "str \<Rightarrow> str \<Rightarrow> str \<Rightarrow> str \<Rightarrow> str \<Rightarrow> str \<Rightarrow> str \<Rightarrow> str \<Rightarrow> str \<Rightarrow> str list" where
  "edit_parts deliverable_name brand_name logo_placement description style_name materials finishes mockup_context mood =
     [(''Create a professional corporate identity mockup photograph of a '' @ deliverable_name),
      ''Use the EXACT logo from the provided image - do NOT modify or recreate the logo'',
      ''The logo MUST appear exactly as shown in the input image'',
      (''Place the logo on the '' @ deliverable_name @ '' at: '' @ logo_placement),
      (''Brand name: '' @ [CHR 0x27] @ brand_name @ [CHR 0x27]),
      description,
      (''Design style: '' @ style_name),
      ''Color scheme matching the logo colors'',
      (''Materials: '' @ materials @ '' with '' @ finishes @ '' finish''),
      (''Setting: '' @ mockup_context),
      (''Mood: '' @ mood),
      ''Photorealistic product photography'',
      ''Soft natural lighting, professional studio quality'',
      ''8K resolution, sharp details'']"

definition text_parts :: "str \<Rightarrow> str \<Rightarrow> str \<Rightarrow> str \<Rightarrow> str \<Rightarrow> str \<Rightarrow> str \<Rightarrow> str \<Rightarrow> str \<Rightarrow> str \<Rightarrow> str \<Rightarrow> str list" where
  "text_parts deliverable_name brand_name logo_placement description style_name materials finishes mockup_context mood
     primary_colors typography =
     [''Professional corporate identity mockup photograph'',
      (''showing '' @ deliverable_name @ '' for brand '' @ [CHR 0x27] @ brand_name @ [CHR 0x27]),
      description,
      (style_name @ '' design style''),
      (''using colors '' @ primary_colors),
      (typography @ '' typography''),
      (''logo placement: '' @ logo_placement),
      (materials @ '' materials with '' @ finishes @ '' finish''),
      (mockup_context @ '' setting''),
      (mood @ '' mood''),
      ''photorealistic product photography'',
      ''soft natural lighting'',
      ''high quality professional shot'',
      ''8k resolution detailed'']"

definition compose_prompt :: "str \<Rightarrow> str \<Rightarrow> str option \<Rightarrow> row \<Rightarrow> row \<Rightarrow> row \<Rightarrow> str \<Rightarrow> bool \<Rightarrow> cip_prompt" where
  "compose_prompt deliverable brand_name style deliverable_data style_data industry_data mockup_context use_logo_image =
     (let deliverable_name = get_or deliverable_data ''Deliverable'' deliverable;
          description = get_or deliverable_data ''Description'' [];
          logo_placement = get_or deliverable_data ''Logo Placement'' ''center'';
          style_name = get_or style_data ''Style Name'' (if given style then the style else ''corporate'');
          primary_colors = get_or style_data ''Primary Colors'' (get_or industry_data ''Primary Colors'' ''#0F172A #FFFFFF'');
          typography = get_or style_data ''Typography'' (get_or industry_data ''Typography'' ''clean sans-serif'');
          materials = get_or style_data ''Materials'' ''premium quality'';
          finishes = get_or style_data ''Finishes'' ''professional'';
          mood = get_or style_data ''Mood'' (get_or industry_data ''Mood'' ''professional'');
          parts = (if use_logo_image
                   then edit_parts deliverable_name brand_name logo_placement description style_name materials finishes
                     mockup_context mood
                   else text_parts deliverable_name brand_name logo_placement description style_name materials finishes
                     mockup_context mood primary_colors typography)
      in \<lparr>cp_prompt = join '', '' (filter (\<lambda>p. p \<noteq> []) parts), cp_deliverable = deliverable_name, cp_style = style_name,
          cp_brand = brand_name, cp_colors = primary_colors, cp_context = mockup_context, cp_placement = logo_placement\<rparr>)"

definition mockup_scene :: "data_dir \<Rightarrow> str option \<Rightarrow> row \<Rightarrow> load_error + str" where
  "mockup_scene db mockup deliverable_data =
     (let mockup_context = get_or deliverable_data ''Mockup Context'' ''clean professional'' in
      if given mockup
      then map_sum id (\<lambda>hit. case hit of None \<Rightarrow> mockup_context | Some r \<Rightarrow> get_or r ''Scene Description'' mockup_context)
             (first_row db (the mockup) ''mockup'')
      else Inr mockup_context)"

definition build_cip_prompt ::
  "data_dir \<Rightarrow> str \<Rightarrow> str \<Rightarrow> str option \<Rightarrow> str option \<Rightarrow> str option \<Rightarrow> bool \<Rightarrow> load_error + cip_prompt" where
  "build_cip_prompt db deliverable brand_name style industry mockup use_logo_image =
     chain (map_sum id row_or_empty (first_row db deliverable ''deliverable'')) (\<lambda>deliverable_data.
     chain (row_for db style ''style'') (\<lambda>style_data.
     chain (row_for db industry ''industry'') (\<lambda>industry_data.
     chain (mockup_scene db mockup deliverable_data) (\<lambda>mockup_context.
       Inr (compose_prompt deliverable brand_name style deliverable_data style_data industry_data mockup_context
              use_logo_image)))))"

subsection \<open>One mockup\<close>

definition dashed :: "str \<Rightarrow> str" where
  "dashed name = replace_all '' '' ''-'' (lower name)"

definition mockup_dir :: "'i cip_env \<Rightarrow> str option \<Rightarrow> path" where
  "mockup_dir env output_dir = (if given output_dir then path_of (the output_dir) else ce_cwd env)"

definition mockup_name :: "cip_prompt \<Rightarrow> str \<Rightarrow> str" where
  "mockup_name data timestamp = ((dashed (cp_brand data)) @ ''-'' @ (dashed (cp_deliverable data)) @ ''-'' @ timestamp @ ''.png'')"

definition save_mockup :: "'i cip_env \<Rightarrow> cip_prompt \<Rightarrow> str option \<Rightarrow> str \<Rightarrow> path option act" where
  "save_mockup env data output_dir bytes = (\<lambda>s.
     let dir = mockup_dir env output_dir; p = join_path dir (mockup_name data (ce_clock env s)) in
     case make_dirs dir (se_files s) of
       None \<Rightarrow> (Inl (FileFault (path_str dir)), s)
     | Some fs \<Rightarrow>
         and_then (save_bytes p bytes) (\<lambda>_.
         and_then (print_lines [([CHR 0x0A] @ u_tick @ '' Generated: '' @ (path_str p))]) (\<lambda>_. ok (Some p))) (s\<lparr>se_files := fs\<rparr>))"

definition first_image :: "'i cip_env \<Rightarrow> cip_prompt \<Rightarrow> str option \<Rightarrow> str option list \<Rightarrow> path option act" where
  "first_image env data output_dir parts =
     (case List.map_filter id parts of
        bytes # _ \<Rightarrow> save_mockup env data output_dir bytes
      | [] \<Rightarrow> and_then (print_lines [''No image generated in response'']) (\<lambda>_. ok None))"

definition api_key_of :: "str dict \<Rightarrow> str option" where
  "api_key_of vars = (if given (get vars ''GEMINI_API_KEY'') then get vars ''GEMINI_API_KEY'' else get vars ''GOOGLE_API_KEY'')"

definition mockup_report :: "'i cip_env \<Rightarrow> cip_prompt \<Rightarrow> str \<Rightarrow> 'i option \<Rightarrow> str list" where
  "mockup_report env data model_name logo_image =
     [([CHR 0x0A] @ u_palette @ '' Generating CIP mockup...''),
      (''   Mode: '' @ (if logo_image = None then ''text-to-image'' else ''image-editing'')),
      (''   Deliverable: '' @ (cp_deliverable data)), (''   Brand: '' @ (cp_brand data)), (''   Style: '' @ (cp_style data)),
      (''   Model: '' @ model_name), (''   Context: '' @ (cp_context data))] @
     (case (logo_image, ce_pictures env) of
        (Some img, Some lib) \<Rightarrow>
          [(''   Logo: Using provided image ('' @ (str_of_nat (fst (pl_size lib img))) @ ''x'' @ (str_of_nat (snd (pl_size lib img))) @ '')'')]
      | _ \<Rightarrow> [])"

definition generate_with_nano_banana ::
  "'i cip_env \<Rightarrow> cip_prompt \<Rightarrow> str option \<Rightarrow> str \<Rightarrow> str \<Rightarrow> 'i option \<Rightarrow> path option act" where
  "generate_with_nano_banana env data output_dir model_key aspect_ratio logo_image =
     (case ce_sdk env of
        None \<Rightarrow>
          and_then (print_lines [''Error: google-genai package not installed.'', ''Install with: pip install google-genai''])
            (\<lambda>_. ok None)
      | Some sdk \<Rightarrow>
          if \<not> given (api_key_of (ce_vars env))
          then and_then (print_lines [''Error: GEMINI_API_KEY or GOOGLE_API_KEY not set'']) (\<lambda>_. ok None)
          else
            let model_name = get_or CIP_MODELS model_key (field CIP_MODELS DEFAULT_MODEL) in
            and_then (print_lines (mockup_report env data model_name logo_image)) (\<lambda>_.
              caught
                (and_then (or_raise (map_sum RuntimeFault id (sdk model_name (cp_prompt data) logo_image aspect_ratio)))
                  (first_image env data output_dir))
                (\<lambda>r. case r of
                   Inr p \<Rightarrow> ok p
                 | Inl e \<Rightarrow> and_then (print_lines [(''Error generating image: '' @ (fault_text e))]) (\<lambda>_. ok None))))"

subsection \<open>Sets\<close>

definition core_deliverables :: "str list" where
  "core_deliverables = [''business card'', ''letterhead'', ''office signage'', ''vehicle'', ''polo shirt'']"

record mockup_result =
  mr_deliverable :: str
  mr_path :: path
  mr_prompt :: str

record mockup_job =
  mj_brand :: str
  mj_industry :: str
  mj_style :: "str option"
  mj_deliverables :: "str list"
  mj_dir :: "str option"
  mj_model :: str
  mj_logo :: "str option"
  mj_ratio :: str

definition load_raise :: "'i cip_env \<Rightarrow> load_error + 'a \<Rightarrow> 'a act" where
  "load_raise env r = or_raise (map_sum (\<lambda>e. RuntimeFault (ce_load_text env e)) id r)"

fun mockup_loop :: "'i cip_env \<Rightarrow> mockup_job \<Rightarrow> str option \<Rightarrow> 'i option \<Rightarrow> str list \<Rightarrow> mockup_result list act" where
  "mockup_loop env job style logo_image [] = ok []"
| "mockup_loop env job style logo_image (d # ds) =
     and_then (load_raise env
         (build_cip_prompt (ce_db env) d (mj_brand job) style (Some (mj_industry job)) None (logo_image \<noteq> None))) (\<lambda>data.
     and_then (generate_with_nano_banana env data (mj_dir job) (mj_model job) (mj_ratio job) logo_image) (\<lambda>r.
     and_then (mockup_loop env job style logo_image ds) (\<lambda>rs.
       ok (case r of
             None \<Rightarrow> rs
           | Some p \<Rightarrow> \<lparr>mr_deliverable = d, mr_path = p, mr_prompt = cp_prompt data\<rparr> # rs))))"

definition set_logo :: "'i cip_env \<Rightarrow> str option \<Rightarrow> 'i option act" where
  "set_logo env logo =
     (if given logo
      then and_then (load_logo_image env (the logo)) (\<lambda>img.
           and_then (print_lines (if img = None then [''Warning: Could not load logo, falling back to text-to-image mode''] else []))
             (\<lambda>_. ok img))
      else ok None)"

definition generate_cip_set :: "'i cip_env \<Rightarrow> mockup_job \<Rightarrow> mockup_result list act" where
  "generate_cip_set env job =
     and_then (set_logo env (mj_logo job)) (\<lambda>logo_image.
     and_then (load_raise env (get_cip_brief (ce_db env) (mj_brand job) (mj_industry job) (mj_style job))) (\<lambda>brief.
       mockup_loop env job (get (cb_style brief) ''Style Name'') logo_image
         (if mj_deliverables job = [] then core_deliverables else mj_deliverables job)))"

subsection \<open>The command\<close>

text \<open>Whether to go on without a logo; \<open>None\<close> for the answer is the end of the input or an interrupt.\<close>

definition check_logo_required :: "str option \<Rightarrow> str \<Rightarrow> bool \<Rightarrow> str act" where
  "check_logo_required answer brand_name skip_prompt =
     (if skip_prompt then ok ''continue''
      else and_then (print_lines
             [([CHR 0x0A] @ u_warn @ ''  No logo image provided for '' @ [CHR 0x27] @ brand_name @ [CHR 0x27]),
              ''   Without a logo, AI will generate its own interpretation of the brand logo.'',
              [],
              ''   Options:'',
              ''   1. Continue without logo (AI-generated logo interpretation)'',
              (''   2. Generate a logo first using '' @ [CHR 0x27] @ ''logo-design'' @ [CHR 0x27] @ '' skill''),
              ''   3. Exit and provide a logo path with --logo'',
              [],
              ''   Enter choice [1/2/3] (default: 1): ''])
           (\<lambda>_. ok (case map_option strip answer of
                      Some choice \<Rightarrow> if choice = ''2'' then ''generate'' else if choice = ''3'' then ''exit'' else ''continue''
                    | None \<Rightarrow> ''continue'')))"

record cip_args =
  cx_brand :: str
  cx_logo :: "str option"
  cx_deliverable :: "str option"
  cx_deliverables :: "str option"
  cx_industry :: str
  cx_style :: "str option"
  cx_mockup :: "str option"
  cx_set :: bool
  cx_output :: "str option"
  cx_model :: str
  cx_ratio :: str
  cx_prompt_only :: bool
  cx_json :: bool
  cx_no_logo_prompt :: bool

definition prompt_entries :: "cip_prompt \<Rightarrow> json dict" where
  "prompt_entries data =
     [(''prompt'', JString (cp_prompt data)), (''deliverable'', JString (cp_deliverable data)), (''style'', JString (cp_style data)),
      (''brand'', JString (cp_brand data)), (''colors'', JString (cp_colors data)),
      (''mockup_context'', JString (cp_context data)), (''logo_placement'', JString (cp_placement data))]"

definition result_json :: "mockup_result \<Rightarrow> json" where
  "result_json r =
     JObject [(''deliverable'', JString (mr_deliverable r)), (''filepath'', JString (path_str (mr_path r))),
       (''prompt'', JString (mr_prompt r))]"

definition filepath_json :: "path option \<Rightarrow> json" where
  "filepath_json r = (case r of None \<Rightarrow> JNull | Some p \<Rightarrow> JString (path_str p))"

definition job_of :: "cip_args \<Rightarrow> mockup_job" where
  "job_of arg =
     \<lparr>mj_brand = cx_brand arg, mj_industry = cx_industry arg, mj_style = cx_style arg,
      mj_deliverables = (if given (cx_deliverables arg) then split_on (\<lambda>c. c = CHR '','') (the (cx_deliverables arg)) else []),
      mj_dir = cx_output arg, mj_model = cx_model arg, mj_logo = cx_logo arg, mj_ratio = cx_ratio arg\<rparr>"

definition prompt_for :: "'i cip_env \<Rightarrow> cip_args \<Rightarrow> bool \<Rightarrow> str \<Rightarrow> load_error + cip_prompt" where
  "prompt_for env arg use_logo d =
     build_cip_prompt (ce_db env) d (cx_brand arg) (cx_style arg) (Some (cx_industry arg)) (cx_mockup arg) use_logo"

fun prompts_for :: "'i cip_env \<Rightarrow> cip_args \<Rightarrow> bool \<Rightarrow> str list \<Rightarrow> load_error + cip_prompt list" where
  "prompts_for env arg use_logo [] = Inr []"
| "prompts_for env arg use_logo (d # ds) =
     chain (prompt_for env arg use_logo d) (\<lambda>data. map_sum id ((#) data) (prompts_for env arg use_logo ds))"

definition show_set :: "'i cip_env \<Rightarrow> cip_args \<Rightarrow> bool \<Rightarrow> unit act" where
  "show_set env arg use_logo =
     (if cx_prompt_only arg
      then and_then (load_raise env (prompts_for env arg use_logo
             (if mj_deliverables (job_of arg) = [] then core_deliverables else mj_deliverables (job_of arg)))) (\<lambda>results.
           print_lines (if cx_json arg then [json_dump 0 (JArray (map (\<lambda>data. JObject (prompt_entries data)) results))]
             else map (\<lambda>data. ([CHR 0x0A] @ (cp_deliverable data) @ '':'' @ [CHR 0x0A] @ (cp_prompt data) @ [CHR 0x0A])) results))
      else and_then (generate_cip_set env (job_of arg)) (\<lambda>results.
           print_lines (if cx_json arg then [json_dump 0 (JArray (map result_json results))]
             else [([CHR 0x0A] @ u_tick @ '' Generated '' @ (str_of_nat (length results)) @ '' CIP mockups'')])))"

definition show_one :: "'i cip_env \<Rightarrow> cip_args \<Rightarrow> 'i option \<Rightarrow> unit act" where
  "show_one env arg logo_image =
     and_then (load_raise env (prompt_for env arg (logo_image \<noteq> None)
       (if given (cx_deliverable arg) then the (cx_deliverable arg) else ''business card''))) (\<lambda>data.
     if cx_prompt_only arg
     then print_lines (if cx_json arg then [json_dump 0 (JObject (prompt_entries data))] else [([CHR 0x0A] @ ''Prompt:'' @ [CHR 0x0A] @ (cp_prompt data))])
     else and_then (generate_with_nano_banana env data (cx_output arg) (cx_model arg) (cx_ratio arg) logo_image) (\<lambda>r.
          print_lines (if cx_json arg
            then [json_dump 0 (JObject ((''filepath'', filepath_json r) # prompt_entries data))] else [])))"

definition logo_hint :: "'i cip_env \<Rightarrow> cip_args \<Rightarrow> str list" where
  "logo_hint env arg =
     [([CHR 0x0A] @ u_bulb @ '' To generate a logo, use the logo-design skill:''),
      (''   python \"'' @ (ce_logo_script env) @ ''\" --brand \"'' @ (cx_brand arg) @ ''\" --industry \"'' @ (cx_industry arg) @ ''\"''),
      ([CHR 0x0A] @ ''   Then re-run this command with --logo <generated_logo.png>'')]"

text \<open>The exit code. The empty path is no logo, as for the source.\<close>

definition cip_generate_main :: "'i cip_env \<Rightarrow> cip_args \<Rightarrow> nat act" where
  "cip_generate_main env arg =
     (let run = (\<lambda>logo_image. and_then
            (if cx_set arg \<or> given (cx_deliverables arg) then show_set env arg (logo_image \<noteq> None) else show_one env arg logo_image)
            (\<lambda>_. ok 0))
      in if given (cx_logo arg)
         then and_then (load_logo_image env (the (cx_logo arg))) (\<lambda>logo_image.
              if logo_image = None then and_then (print_lines [''Error: Could not load logo image'']) (\<lambda>_. ok 1) else run logo_image)
         else if \<not> cx_prompt_only arg
         then and_then (check_logo_required (ce_choice env) (cx_brand arg) (cx_no_logo_prompt arg)) (\<lambda>action.
              if action = ''generate'' then and_then (print_lines (logo_hint env arg)) (\<lambda>_. ok 0)
              else if action = ''exit'' then and_then (print_lines [([CHR 0x0A] @ ''   Provide logo with: --logo /path/to/your/logo.png'')]) (\<lambda>_. ok 0)
              else run None)
         else run None)"

subsection \<open>What is written\<close>

text \<open>The files at these paths exist, and no other file has changed.\<close>

definition written_at :: "path set \<Rightarrow> filesystem \<Rightarrow> filesystem \<Rightarrow> bool" where
  "written_at Q fs fs' \<longleftrightarrow> (\<forall>q. if q \<in> Q then fs_files fs' q \<noteq> None else fs_files fs' q = fs_files fs q)"

lemma written_at_none: "fs_files fs' = fs_files fs \<Longrightarrow> written_at {} fs fs'"
  by (simp add: written_at_def)

lemma written_at_one: "fs_files fs' = (fs_files fs)(p \<mapsto> bytes) \<Longrightarrow> written_at {p} fs fs'"
  by (simp add: written_at_def)

lemma written_at_trans:
  assumes "written_at Q fs fs1" and "written_at Q' fs1 fs2"
  shows "written_at (Q \<union> Q') fs fs2"
  unfolding written_at_def
proof
  fix q
  from assms have "if q \<in> Q then fs_files fs1 q \<noteq> None else fs_files fs1 q = fs_files fs q"
    "if q \<in> Q' then fs_files fs2 q \<noteq> None else fs_files fs2 q = fs_files fs1 q"
    unfolding written_at_def by blast+
  then show "if q \<in> Q \<union> Q' then fs_files fs2 q \<noteq> None else fs_files fs2 q = fs_files fs q"
    by (auto split: if_splits)
qed

lemma save_mockup_files:
  "case save_mockup env data dir bytes s of
     (Inl e, s') \<Rightarrow> fs_files (se_files s') = fs_files (se_files s)
   | (Inr r, s') \<Rightarrow> \<exists>p. r = Some p \<and> fs_files (se_files s') = (fs_files (se_files s))(p \<mapsto> bytes)"
  by (auto simp: save_mockup_def save_bytes_def make_dirs_def and_then_def print_lines_def ok_def Let_def
      dest!: write_text_files split: option.splits if_splits)

lemma first_image_files:
  "case first_image env data dir parts s of
     (Inl e, s') \<Rightarrow> fs_files (se_files s') = fs_files (se_files s)
   | (Inr p, s') \<Rightarrow> written_at (set_option p) (se_files s) (se_files s')"
proof (cases "List.map_filter id parts")
  case Nil
  then show ?thesis by (simp add: first_image_def and_then_def print_lines_def ok_def written_at_none)
next
  case (Cons bytes rest)
  note saved = save_mockup_files [where env = env and data = data and dir = dir and bytes = bytes and s = s]
  obtain r s' where run: "save_mockup env data dir bytes s = (r, s')" by fastforce
  show ?thesis
  proof (cases r)
    case (Inl e)
    with saved run Cons show ?thesis by (simp add: first_image_def)
  next
    case (Inr v)
    with saved run obtain p where p: "v = Some p" "fs_files (se_files s') = (fs_files (se_files s))(p \<mapsto> bytes)" by auto
    with written_at_one [OF p(2)] run Inr Cons show ?thesis by (simp add: first_image_def)
  qed
qed

lemma mockup_files:
  "case generate_with_nano_banana env data dir model asp img s of (r, s') \<Rightarrow>
     \<exists>p. r = Inr p \<and> written_at (set_option p) (se_files s) (se_files s')"
proof -
  have shown: "case and_then (print_lines ls) (\<lambda>_. ok None) s of (r, s') \<Rightarrow>
      \<exists>p. r = Inr p \<and> written_at (set_option p) (se_files s) (se_files s')" for ls
    by (simp add: and_then_def print_lines_def ok_def written_at_none)
  have attempt: "case and_then (print_lines ls) (\<lambda>_. caught (and_then (or_raise x) (first_image env data dir))
      (\<lambda>r. case r of Inr p \<Rightarrow> ok p | Inl e \<Rightarrow> and_then (print_lines (ls' e)) (\<lambda>_. ok None))) s of (r, s') \<Rightarrow>
      \<exists>p. r = Inr p \<and> written_at (set_option p) (se_files s) (se_files s')" for ls x ls'
  proof (cases x)
    case (Inl e)
    then show ?thesis
      by (simp add: and_then_def print_lines_def caught_def or_raise_def raise_fault_def ok_def written_at_none)
  next
    case (Inr parts)
    let ?s = "s\<lparr>se_lines := se_lines s @ ls\<rparr>"
    obtain r s' where run: "first_image env data dir parts ?s = (r, s')" by fastforce
    with first_image_files [where env = env and data = data and dir = dir and parts = parts and s = ?s] show ?thesis
      by (cases r) (auto simp: and_then_def print_lines_def caught_def or_raise_def Inr ok_def written_at_none)
  qed
  show ?thesis
    unfolding generate_with_nano_banana_def Let_def by (auto simp only: shown attempt split: option.split if_split)
qed

text \<open>The results of a set: exactly their files are written, for some of the deliverables in their order.\<close>

definition set_result :: "str list \<Rightarrow> filesystem \<Rightarrow> (fault + mockup_result list) \<times> session \<Rightarrow> bool" where
  "set_result ds fs out \<longleftrightarrow>
     (case out of
        (Inl e, s') \<Rightarrow> \<exists>Q. written_at Q fs (se_files s')
      | (Inr rs, s') \<Rightarrow> written_at (set (map mr_path rs)) fs (se_files s') \<and> subseq (map mr_deliverable rs) ds)"

lemma mockup_loop_result: "set_result ds (se_files s) (mockup_loop env job style img ds s)"
proof (induction ds arbitrary: s)
  case Nil
  show ?case by (simp add: set_result_def ok_def written_at_none)
next
  case (Cons d ds)
  show ?case
  proof (cases "build_cip_prompt (ce_db env) d (mj_brand job) style (Some (mj_industry job)) None (img \<noteq> None)")
    case (Inl e)
    then show ?thesis
      by (auto simp: set_result_def load_raise_def or_raise_def raise_fault_def and_then_def intro: written_at_none)
  next
    case (Inr data)
    let ?one = "generate_with_nano_banana env data (mj_dir job) (mj_model job) (mj_ratio job) img"
    obtain r s1 where "?one s = (r, s1)" by fastforce
    with mockup_files [where env = env and data = data and dir = "mj_dir job" and model = "mj_model job" and asp = "mj_ratio job" and img = img and s = s] obtain p where
      one: "?one s = (Inr p, s1)" and first: "written_at (set_option p) (se_files s) (se_files s1)" by auto
    obtain r' s2 where rest: "mockup_loop env job style img ds s1 = (r', s2)" by fastforce
    have loop: "mockup_loop env job style img (d # ds) s =
        (case r' of Inl e \<Rightarrow> (Inl e, s2)
         | Inr rs \<Rightarrow> (Inr (case p of None \<Rightarrow> rs
              | Some q \<Rightarrow> \<lparr>mr_deliverable = d, mr_path = q, mr_prompt = cp_prompt data\<rparr> # rs), s2))"
      unfolding mockup_loop.simps load_raise_def Inr map_sum.simps
      by (simp add: or_raise_def and_then_def ok_def one rest split: sum.split)
    from Cons.IH [of s1] rest have IH: "set_result ds (se_files s1) (r', s2)" by simp
    show ?thesis
    proof (cases r')
      case (Inl e)
      with IH obtain Q where "written_at Q (se_files s1) (se_files s2)" by (auto simp: set_result_def)
      from written_at_trans [OF first this] show ?thesis unfolding loop by (auto simp: set_result_def Inl)
    next
      case (Inr rs)
      with IH have "written_at (set (map mr_path rs)) (se_files s1) (se_files s2)" "subseq (map mr_deliverable rs) ds"
        by (auto simp: set_result_def)
      with written_at_trans [OF first this(1)] show ?thesis
        unfolding loop by (cases p) (auto simp: set_result_def Inr insert_is_Un [symmetric])
    qed
  qed
qed

lemma set_logo_files:
  "case set_logo env logo s of (r, s') \<Rightarrow> \<exists>img. r = Inr img \<and> se_files s' = se_files s"
  by (auto simp: set_logo_def load_logo_image_def and_then_def print_lines_def ok_def split: option.splits sum.splits)

lemma cip_set_result:
  "set_result (if mj_deliverables job = [] then core_deliverables else mj_deliverables job) (se_files s) (generate_cip_set env job s)"
proof -
  let ?ds = "if mj_deliverables job = [] then core_deliverables else mj_deliverables job"
  obtain r s1 where "set_logo env (mj_logo job) s = (r, s1)" by fastforce
  with set_logo_files [where env = env and logo = "mj_logo job" and s = s] obtain img where
    logo: "set_logo env (mj_logo job) s = (Inr img, s1)" and same: "se_files s1 = se_files s" by auto
  show ?thesis
  proof (cases "get_cip_brief (ce_db env) (mj_brand job) (mj_industry job) (mj_style job)")
    case (Inl e)
    with logo same show ?thesis
      by (auto simp: generate_cip_set_def and_then_def load_raise_def or_raise_def raise_fault_def set_result_def intro: written_at_none)
  next
    case (Inr brief)
    then have "generate_cip_set env job s = mockup_loop env job (get (cb_style brief) ''Style Name'') img ?ds s1"
      by (simp add: generate_cip_set_def and_then_def logo load_raise_def or_raise_def ok_def)
    with mockup_loop_result [of ?ds s1] same show ?thesis by metis
  qed
qed

text \<open>With a logo, the prompt asks for the exact logo and takes no colours and no typography from the catalogue.\<close>

lemma edit_prompt_colours:
  assumes "\<And>k. k \<noteq> ''Primary Colors'' \<Longrightarrow> k \<noteq> ''Typography'' \<Longrightarrow> get style_data k = get style_data' k"
    and "get industry_data ''Mood'' = get industry_data' ''Mood''"
  shows "cp_prompt (compose_prompt d brand style deliverable_data style_data industry_data scene True) =
    cp_prompt (compose_prompt d brand style deliverable_data style_data' industry_data' scene True)"
proof -
  have "get_or style_data k x = get_or style_data' k x" if "k \<noteq> ''Primary Colors''" "k \<noteq> ''Typography''" for k x
    using assms(1) [OF that] by (simp add: get_or_def)
  moreover have "get_or industry_data ''Mood'' x = get_or industry_data' ''Mood'' x" for x
    using assms(2) by (simp add: get_or_def)
  ultimately show ?thesis by (simp add: compose_prompt_def Let_def)
qed

text \<open>A brand name with a slash leads out of the output directory.\<close>

lemma brand_leaves_directory:
  "join_path (path_of ''out'')
     (mockup_name \<lparr>cp_prompt = [], cp_deliverable = ''Cap'', cp_style = [], cp_brand = ''../../x'', cp_colors = [], cp_context = [],
        cp_placement = []\<rparr> ''20260813_120000'') = (False, [''out'', ''..'', ''..'', ''x-cap-20260813_120000.png''])"
  by code_simp

end
