(* ===== verification/IconGen.thy ===== *)
theory IconGen
  imports LogoGen
begin

text \<open>
  \<open>icon/generate.py\<close>: icons as SVG texts from the answers of a model. The SDK is an argument, as are the
  key and the clock; the sessions are those of the theory Web. Whatever a model answers, only elements
  of SVG reach a file.
\<close>

subsection \<open>Configuration\<close>

definition ICON_MODEL :: str where
  "ICON_MODEL = ''gemini-3.1-pro-preview''"

definition ICON_STYLES :: "str dict" where
  "ICON_STYLES =
    [(''outlined'', ''outlined stroke icons, 2px stroke width, no fill, clean open paths''),
     (''filled'', ''solid filled icons, no stroke, flat color fills, bold shapes''),
     (''duotone'', ''duotone style with primary color at full opacity and secondary color at 30% opacity, layered shapes''),
     (''thin'', ''thin line icons, 1px or 1.5px stroke width, delicate minimalist lines''),
     (''bold'', ''bold thick line icons, 3px stroke width, heavy weight, impactful''),
     (''rounded'', ''rounded icons with round line caps and joins, soft corners, friendly feel''),
     (''sharp'', ''sharp angular icons, square line caps and mitered joins, precise edges''),
     (''flat'', ''flat design icons, solid fills, no gradients or shadows, geometric simplicity''),
     (''gradient'', ''linear or radial gradient fills, modern vibrant color transitions''),
     (''glassmorphism'', ''glassmorphism style with semi-transparent fills, blur backdrop effect simulation, frosted glass''),
     (''pixel'', ''pixel art style icons on a grid, retro 8-bit aesthetic, crisp edges''),
     (''hand-drawn'', ''hand-drawn sketch style, slightly irregular strokes, organic feel, imperfect lines''),
     (''isometric'', ''isometric 3D projection, 30-degree angles, dimensional depth''),
     (''glyph'', ''simple glyph style, single solid shape, minimal detail, pictogram''),
     (''animated-ready'', ''animated-ready SVG with named groups and IDs for CSS/JS animation targets'')]"

definition ICON_CATEGORIES :: "str dict" where
  "ICON_CATEGORIES =
    [(''navigation'', ''arrows, menus, hamburger, chevrons, home, back, forward, breadcrumb''),
     (''action'', ''edit, delete, save, download, upload, share, copy, paste, print, search''),
     (''communication'', ''email, chat, phone, video call, notification, bell, message bubble''),
     (''media'', ''play, pause, stop, skip, volume, microphone, camera, image, gallery''),
     (''file'', ''document, folder, archive, attachment, cloud, database, storage''),
     (''user'', ''person, group, avatar, profile, settings, lock, key, shield''),
     (''commerce'', ''cart, bag, wallet, credit card, receipt, tag, gift, store''),
     (''data'', ''chart, graph, analytics, dashboard, table, filter, sort, calendar''),
     (''development'', ''code, terminal, bug, git, API, server, database, deploy''),
     (''social'', ''heart, star, thumbs up, bookmark, flag, trophy, badge, crown''),
     (''weather'', ''sun, moon, cloud, rain, snow, wind, thunder, temperature''),
     (''map'', ''pin, location, compass, globe, route, directions, map marker'')]"

definition svg_prompt :: "str \<Rightarrow> int \<Rightarrow> str \<Rightarrow> str \<Rightarrow> str \<Rightarrow> str" where
  "svg_prompt prompt viewbox style_instructions color_instructions size_instructions = join [newline]
    [''Generate a clean, production-ready SVG icon.'',
     [],
     ''Requirements:'',
     ''- Output ONLY valid SVG code, nothing else'',
     (''- ViewBox: \"0 0 '' @ (str_of_int viewbox) @ '' '' @ (str_of_int viewbox) @ ''\"''),
     ''- Use currentColor for strokes/fills (inherits CSS color)'',
     ''- No embedded fonts or text elements unless specifically requested'',
     ''- No raster images or external references'',
     ''- Optimized paths with minimal nodes'',
     ''- Accessible: include <title> element with icon description'',
     style_instructions,
     color_instructions,
     size_instructions,
     [],
     (''Icon to generate: '' @ prompt),
     [],
     ''Output the SVG code only, wrapped in ```svg``` code block.'']"

definition svg_batch_prompt :: "str \<Rightarrow> int \<Rightarrow> int \<Rightarrow> str \<Rightarrow> str \<Rightarrow> str" where
  "svg_batch_prompt prompt variants viewbox style_instructions color_instructions = join [newline]
    [(''Generate '' @ (str_of_int variants) @ '' distinct SVG icon variations for: '' @ prompt),
     [],
     ''Requirements for EACH icon:'',
     ''- Output ONLY valid SVG code'',
     (''- ViewBox: \"0 0 '' @ (str_of_int viewbox) @ '' '' @ (str_of_int viewbox) @ ''\"''),
     ''- Use currentColor for strokes/fills (inherits CSS color)'',
     ''- No embedded fonts, raster images, or external references'',
     ''- Optimized paths with minimal nodes'',
     ''- Include <title> element with icon description'',
     style_instructions,
     color_instructions,
     [],
     (''Generate '' @ (str_of_int variants) @ '' different visual interpretations. Output each SVG in a separate ```svg``` code block.''),
     ''Label each variation (e.g., \"Variation 1: [brief description]\").'']"

subsection \<open>Elements of SVG in an answer\<close>

text \<open>
  The patterns are literals around a lazy \<open>.*?\<close> that also matches line breaks; they match up to the first
  occurrence of the literal that ends them.
\<close>

fun upto_first :: "str \<Rightarrow> str \<Rightarrow> (str \<times> str) option" where
  "upto_first mark [] = (if mark = [] then Some ([], []) else None)"
| "upto_first mark (c # cs) =
     (if starts_with mark (c # cs) then Some ([], drop (length mark) (c # cs))
      else map_option (\<lambda>(u, v). (c # u, v)) (upto_first mark cs))"

text \<open>The body of a code block whose text starts here, after white space with a line break, and the text after it.\<close>

definition fence_body :: "str \<Rightarrow> str \<Rightarrow> (str \<times> str) option" where
  "fence_body tag s =
     (if starts_with tag s
      then let rest = drop (length tag) s; space = takeWhile is_space rest
           in if newline \<in> set space
              then upto_first ''```'' (rev (takeWhile (\<lambda>c. c \<noteq> newline) (rev space)) @ dropWhile is_space rest)
              else None
      else None)"

text \<open>An element \<open>svg\<close> that starts here, and the text after it.\<close>

definition svg_element :: "str \<Rightarrow> (str \<times> str) option" where
  "svg_element s =
     (if starts_with ''<svg'' s
      then case upto_first ''>'' (drop 4 s) of
             None \<Rightarrow> None
           | Some (attributes, rest) \<Rightarrow>
               map_option (\<lambda>(body, after). ((''<svg'' @ attributes @ ''>'' @ body @ ''</svg>''), after)) (upto_first ''</svg>'' rest)
      else None)"

text \<open>\<open>re.findall\<close> for a pattern that consumes something: what it matches at a position is an argument.\<close>

function find_each :: "(str \<Rightarrow> (str \<times> str) option) \<Rightarrow> str \<Rightarrow> str list" where
  "find_each m [] = []"
| "find_each m (c # cs) =
     (case m (c # cs) of
        Some (found, rest) \<Rightarrow> if length rest < length (c # cs) then found # find_each m rest else []
      | None \<Rightarrow> find_each m cs)"
  by pat_completeness auto
termination
  by (relation "measure (\<lambda>(m, s). length s)") auto

definition clean_svg :: "str \<Rightarrow> str list" where
  "clean_svg raw =
     (let svg = strip raw in
      if starts_with ''<svg'' svg then [svg] else take 1 (find_each svg_element svg))"

definition extract_svgs :: "str \<Rightarrow> str list" where
  "extract_svgs t =
     (let svgs = find_each (fence_body ''```svg'') t;
          svgs = (if svgs = [] then find_each (fence_body ''```xml'') t else svgs);
          svgs = (if svgs = [] then find_each svg_element t else svgs)
      in concat (map clean_svg svgs))"

fun replace_first :: "str \<Rightarrow> str \<Rightarrow> str \<Rightarrow> str" where
  "replace_first old new [] = (if old = [] then new else [])"
| "replace_first old new (c # cs) =
     (if starts_with old (c # cs) then new @ drop (length old) (c # cs) else c # replace_first old new cs)"

definition apply_color :: "str \<Rightarrow> str option \<Rightarrow> str" where
  "apply_color svg_code color =
     (if given color
      then let colored = replace_all ''currentColor'' (the color) svg_code
           in if contains (the color) colored then colored
              else replace_first ''<svg'' ((''<svg color=\"'' @ (the color) @ ''\"'')) colored
      else svg_code)"

definition attribute_rx :: "str \<Rightarrow> rx" where
  "attribute_rx name = seqs [lit (name @ ''=\"''), Star (Cls (\<lambda>c. c \<noteq> CHR 0x22)), lit ''\"'']"

definition apply_viewbox_size :: "str \<Rightarrow> int \<Rightarrow> str" where
  "apply_viewbox_size svg_code px =
     (if px = 0 then svg_code
      else
        let wide = rx_sub (attribute_rx ''width'') ((''width=\"'' @ (str_of_int px) @ ''\"'')) svg_code;
            sized = rx_sub (attribute_rx ''height'') ((''height=\"'' @ (str_of_int px) @ ''\"'')) wide
        in if contains ''width='' sized then sized
           else replace_first ''<svg'' ((''<svg width=\"'' @ (str_of_int px) @ ''\" height=\"'' @ (str_of_int px) @ ''\"'')) sized)"

subsection \<open>One icon\<close>

text \<open>
  What the SDK answers: its attribute \<open>text\<close> (absent, a failure, \<open>None\<close> or a text) and the texts of the parts of
  the first candidate, or the text of the exception that they raise.
\<close>

record icon_answer =
  ia_text :: "(str + str option) option"
  ia_parts :: "str + str option list"

type_synonym icon_sdk = "bool \<Rightarrow> str \<Rightarrow> str + icon_answer"

text \<open>With the attribute \<open>None\<close>, both the sum with a text and the search in it raise.\<close>

definition answer_text :: "icon_answer \<Rightarrow> fault + str" where
  "answer_text a =
     (case ia_text a of
        Some (Inl msg) \<Rightarrow> Inl (RuntimeFault msg)
      | attribute \<Rightarrow>
          let t = (case attribute of Some (Inr (Some t)) \<Rightarrow> t | _ \<Rightarrow> []) in
          if t \<noteq> [] then Inr t
          else case ia_parts a of
                 Inl msg \<Rightarrow> Inl (RuntimeFault msg)
               | Inr parts \<Rightarrow>
                   let texts = map the (filter given parts) in
                   if attribute \<noteq> Some (Inr None) then Inr (concat texts)
                   else Inl (TypeFault (if texts \<noteq> []
                     then (''unsupported operand type(s) for +=: '' @ [CHR 0x27] @ ''NoneType'' @ [CHR 0x27] @ '' and '' @ [CHR 0x27] @ ''str'' @ [CHR 0x27])
                     else (''expected string or bytes-like object, got '' @ [CHR 0x27] @ ''NoneType'' @ [CHR 0x27]))))"

definition ask_model :: "icon_sdk \<Rightarrow> bool \<Rightarrow> str \<Rightarrow> str act" where
  "ask_model sdk batch prompt =
     or_raise (case sdk batch prompt of Inl msg \<Rightarrow> Inl (RuntimeFault msg) | Inr a \<Rightarrow> answer_text a)"

text \<open>\<open>re.sub(r'[^a-zA-Z0-9_-]', '_', s)\<close>: one underscore for each character, of however many bytes.\<close>

definition file_chars :: "str \<Rightarrow> str" where
  "file_chars s =
     concat (map (\<lambda>c. if is_alnum c \<or> c = CHR ''_'' \<or> c = CHR ''-'' then [c] else if is_cont_byte c then [] else ''_'') s)"

definition first_word :: "str \<Rightarrow> fault + str" where
  "first_word prompt =
     (case split_ws prompt of [] \<Rightarrow> Inl (RuntimeFault ''list index out of range'') | w # _ \<Rightarrow> Inr w)"

definition style_suffix :: "str option \<Rightarrow> str" where
  "style_suffix style = (if given style then ''_'' @ the style else [])"

definition style_instructions :: "str option \<Rightarrow> str" where
  "style_instructions style =
     (if given style \<and> has_key ICON_STYLES (the style) then ''- Style: '' @ field ICON_STYLES (the style) else [])"

record icon_job =
  ij_prompt :: str
  ij_style :: "str option"
  ij_category :: "str option"
  ij_name :: "str option"
  ij_color :: "str option"
  ij_size :: int
  ij_output :: "str option"
  ij_viewbox :: int

definition icon_full_prompt :: "icon_job \<Rightarrow> str" where
  "icon_full_prompt job =
     (let base = (if given (ij_category job) \<and> has_key ICON_CATEGORIES (the (ij_category job))
                  then ((ij_prompt job) @ '' (category: '' @ (field ICON_CATEGORIES (the (ij_category job))) @ '')'') else ij_prompt job);
          icon_prompt = (if given (ij_name job) then ([CHR 0x27] @ (the (ij_name job)) @ [CHR 0x27] @ '' icon: '' @ base) else base);
          color_instructions =
            (if given (ij_color job) then (''- Use color: '' @ (the (ij_color job)) @ '' for primary elements, currentColor for secondary'')
             else ''- Use currentColor for all strokes and fills'')
      in svg_prompt icon_prompt (ij_viewbox job) (style_instructions (ij_style job)) color_instructions
           ((''- Design for '' @ (str_of_int (ij_size job)) @ ''px display size, optimize detail level accordingly'')))"

definition icon_path :: "str \<Rightarrow> icon_job \<Rightarrow> fault + str" where
  "icon_path timestamp job =
     (case ij_output job of
        Some p \<Rightarrow> Inr p
      | None \<Rightarrow>
          map_sum id (\<lambda>slug. ((file_chars (lower slug)) @ (style_suffix (ij_style job)) @ ''_'' @ timestamp @ ''.svg''))
            (if ij_prompt job = [] then Inr ''icon''
             else if given (ij_name job) then Inr (the (ij_name job)) else first_word (ij_prompt job)))"

definition draw_icon :: "icon_sdk \<Rightarrow> str \<Rightarrow> icon_job \<Rightarrow> str option act" where
  "draw_icon sdk timestamp job =
     and_then (ask_model sdk False (icon_full_prompt job)) (\<lambda>t.
       case extract_svgs t of
         [] \<Rightarrow> and_then (print_lines [''No valid SVG generated. Model response:'', py_take 500 t]) (\<lambda>_. ok None)
       | svg # _ \<Rightarrow>
           and_then (or_raise (icon_path timestamp job)) (\<lambda>p.
           and_then (save_bytes (path_of p) (apply_viewbox_size (apply_color svg (ij_color job)) (ij_size job))) (\<lambda>_.
           and_then (print_lines [(''Icon saved to: '' @ p)]) (\<lambda>_. ok (Some p)))))"

text \<open>An \<open>except Exception\<close> clause that prints the exception and gives a value instead.\<close>

definition or_print :: "str \<Rightarrow> 'a \<Rightarrow> 'a act \<Rightarrow> 'a act" where
  "or_print label v m =
     caught m (\<lambda>r. case r of Inr x \<Rightarrow> ok x | Inl e \<Rightarrow> and_then (print_lines [(label @ '': '' @ (fault_text e))]) (\<lambda>_. ok v))"

definition generate_icon :: "icon_sdk \<Rightarrow> str option \<Rightarrow> str \<Rightarrow> icon_job \<Rightarrow> str option act" where
  "generate_icon sdk api_key timestamp job =
     (if \<not> given api_key
      then and_then (print_lines [''Error: GEMINI_API_KEY not set'', (''Set it with: export GEMINI_API_KEY='' @ [CHR 0x27] @ ''your-key'' @ [CHR 0x27])]) (\<lambda>_. ok None)
      else and_then (print_lines
             ([(''Generating icon with '' @ ICON_MODEL @ ''...''), (''Prompt: '' @ (ij_prompt job))] @
              (if given (ij_style job) then [(''Style: '' @ (the (ij_style job)))] else []) @ [[]]))
             (\<lambda>_. or_print ''Error generating icon'' None (draw_icon sdk timestamp job)))"

subsection \<open>Batches and sizes\<close>

text \<open>\<open>xs[:n]\<close> for any integer.\<close>

definition slice_to :: "int \<Rightarrow> 'a list \<Rightarrow> 'a list" where
  "slice_to n xs = take (nat (if n < 0 then n + int (length xs) else n)) xs"

record icon_batch =
  ib_prompt :: str
  ib_count :: int
  ib_dir :: str
  ib_style :: "str option"
  ib_color :: "str option"
  ib_viewbox :: int
  ib_name :: "str option"

definition slug_of :: "str option \<Rightarrow> str \<Rightarrow> fault + str" where
  "slug_of name prompt =
     (if given name then Inr (the name) else map_sum id (\<lambda>w. file_chars (lower w)) (first_word prompt))"

definition make_directory :: "str \<Rightarrow> unit act" where
  "make_directory dir = (\<lambda>s.
     case make_dirs (path_of dir) (se_files s) of
       None \<Rightarrow> (Inl (FileFault dir), s)
     | Some fs \<Rightarrow> (Inr (), s\<lparr>se_files := fs\<rparr>))"

fun save_icons :: "icon_batch \<Rightarrow> str \<Rightarrow> nat \<Rightarrow> (nat \<times> str) list \<Rightarrow> str list act" where
  "save_icons job slug total_icons [] = ok []"
| "save_icons job slug total_icons ((i, svg) # icons) =
     (let filename = (slug @ (style_suffix (ib_style job)) @ ''_'' @ (two_digits (i + 1)) @ ''.svg''); p = os_join (ib_dir job) filename in
      and_then (save_bytes (path_of p) (apply_color svg (ib_color job))) (\<lambda>_.
      and_then (print_lines [(''  ['' @ (str_of_nat (i + 1)) @ ''/'' @ (str_of_nat total_icons) @ ''] Saved: '' @ filename)]) (\<lambda>_.
      and_then (save_icons job slug total_icons icons) (\<lambda>rs. ok (p # rs)))))"

definition batch_prompt :: "icon_batch \<Rightarrow> str" where
  "batch_prompt job =
     svg_batch_prompt (ib_prompt job) (ib_count job) (ib_viewbox job) (style_instructions (ib_style job))
       (if given (ib_color job) then (''- Use color: '' @ (the (ib_color job)) @ '' for primary elements'')
        else ''- Use currentColor for all strokes and fills'')"

definition draw_batch :: "icon_sdk \<Rightarrow> icon_batch \<Rightarrow> str list act" where
  "draw_batch sdk job =
     and_then (ask_model sdk True (batch_prompt job)) (\<lambda>t.
       if extract_svgs t = [] then and_then (print_lines [''No valid SVGs generated.'', py_take 500 t]) (\<lambda>_. ok [])
       else
         let svgs = slice_to (ib_count job) (extract_svgs t) in
         and_then (or_raise (slug_of (ib_name job) (ib_prompt job))) (\<lambda>slug.
         and_then (save_icons job slug (length svgs) (enumerate 0 svgs)) (\<lambda>results.
         and_then (print_lines [([CHR 0x0A] @ (replicate 60 CHR ''='')),
             (''  BATCH COMPLETE: '' @ (str_of_nat (length results)) @ ''/'' @ (str_of_int (ib_count job)) @ '' icons generated''),
             ((replicate 60 CHR ''='') @ [CHR 0x0A])]) (\<lambda>_. ok results))))"

definition generate_batch :: "icon_sdk \<Rightarrow> str option \<Rightarrow> icon_batch \<Rightarrow> str list act" where
  "generate_batch sdk api_key job =
     (if \<not> given api_key then and_then (print_lines [''Error: GEMINI_API_KEY not set'']) (\<lambda>_. ok [])
      else and_then (make_directory (ib_dir job)) (\<lambda>_.
           and_then (print_lines [([CHR 0x0A] @ (replicate 60 CHR ''='')), ''  BATCH ICON GENERATION'', (''  Model: '' @ ICON_MODEL),
             (''  Prompt: '' @ (ib_prompt job)), (''  Variants: '' @ (str_of_int (ib_count job))), (''  Output: '' @ (ib_dir job)),
             ((replicate 60 CHR ''='') @ [CHR 0x0A])]) (\<lambda>_.
           or_print ''Error generating icons'' [] (draw_batch sdk job))))"

definition sized_job :: "str \<Rightarrow> str option \<Rightarrow> str option \<Rightarrow> str \<Rightarrow> int \<Rightarrow> icon_job" where
  "sized_job prompt style color p px =
     \<lparr>ij_prompt = prompt, ij_style = style, ij_category = None, ij_name = None, ij_color = color, ij_size = px,
      ij_output = Some p, ij_viewbox = px\<rparr>"

fun size_loop :: "icon_sdk \<Rightarrow> str option \<Rightarrow> str \<Rightarrow> (int \<Rightarrow> icon_job) \<Rightarrow> int list \<Rightarrow> str list act" where
  "size_loop sdk api_key timestamp job [] = ok []"
| "size_loop sdk api_key timestamp job (px # sizes) =
     and_then (print_lines [(''Generating '' @ (str_of_int px) @ ''px variant...'')]) (\<lambda>_.
     and_then (generate_icon sdk api_key timestamp (job px)) (\<lambda>r.
     and_then (sleep_for 1) (\<lambda>_.
     and_then (size_loop sdk api_key timestamp job sizes) (\<lambda>rs. ok (if given r then the r # rs else rs)))))"

definition generate_sizes ::
  "icon_sdk \<Rightarrow> str option \<Rightarrow> str \<Rightarrow> str \<Rightarrow> int list \<Rightarrow> str option \<Rightarrow> str option \<Rightarrow> str option \<Rightarrow> str option \<Rightarrow> str list act" where
  "generate_sizes sdk api_key timestamp prompt sizes style color output_dir name =
     (let dir = (case output_dir of None \<Rightarrow> ''.'' | Some d \<Rightarrow> d) in
      and_then (make_directory dir) (\<lambda>_.
      and_then (or_raise (slug_of name prompt)) (\<lambda>slug.
        size_loop sdk api_key timestamp
          (\<lambda>px. sized_job prompt style color (os_join dir ((slug @ (style_suffix style) @ ''_'' @ (str_of_int px) @ ''px.svg''))) px) sizes)))"

subsection \<open>The command\<close>

record icon_args =
  ic_prompt :: "str option"
  ic_name :: "str option"
  ic_style :: "str option"
  ic_category :: "str option"
  ic_color :: "str option"
  ic_size :: int
  ic_viewbox :: int
  ic_output :: "str option"
  ic_dir :: "str option"
  ic_batch :: "int option"
  ic_sizes :: "str option"
  ic_list_styles :: bool
  ic_list_categories :: bool

definition icon_sizes :: "str \<Rightarrow> fault + int list" where
  "icon_sizes t =
     (case those (map (\<lambda>part. int_text (strip part)) (split_on (\<lambda>c. c = CHR '','') t)) of
        Some sizes \<Rightarrow> Inr sizes
      | None \<Rightarrow> Inl (ValueFault ''invalid literal for int() with base 10''))"

text \<open>The exit code; \<open>2\<close> is an error of the arguments.\<close>

definition icon_main :: "icon_sdk \<Rightarrow> str option \<Rightarrow> str \<Rightarrow> icon_args \<Rightarrow> nat act" where
  "icon_main sdk api_key timestamp arg =
     (let dir = (if given (ic_dir arg) then the (ic_dir arg) else ''./icons'') in
      if ic_list_styles arg
      then and_then (print_lines (''Available icon styles:'' #
             map (\<lambda>(style, desc). (''  '' @ style @ '': '' @ (py_take 70 desc) @ ''...'')) ICON_STYLES)) (\<lambda>_. ok 0)
      else if ic_list_categories arg
      then and_then (print_lines (''Available icon categories:'' #
             map (\<lambda>(category, desc). (''  '' @ category @ '': '' @ desc)) ICON_CATEGORIES)) (\<lambda>_. ok 0)
      else if \<not> given (ic_prompt arg) \<and> \<not> given (ic_name arg) then ok 2
      else
        let prompt = (if given (ic_prompt arg) then the (ic_prompt arg) else the (ic_name arg)) in
        if given (ic_sizes arg)
        then and_then (or_raise (icon_sizes (the (ic_sizes arg)))) (\<lambda>sizes.
             and_then (generate_sizes sdk api_key timestamp prompt sizes (ic_style arg) (ic_color arg) (Some dir) (ic_name arg))
               (\<lambda>_. ok 0))
        else if ic_batch arg \<noteq> None \<and> ic_batch arg \<noteq> Some 0
        then and_then (generate_batch sdk api_key
               \<lparr>ib_prompt = prompt, ib_count = the (ic_batch arg), ib_dir = dir, ib_style = ic_style arg, ib_color = ic_color arg,
                ib_viewbox = ic_viewbox arg, ib_name = ic_name arg\<rparr>) (\<lambda>_. ok 0)
        else and_then (generate_icon sdk api_key timestamp
               \<lparr>ij_prompt = prompt, ij_style = ic_style arg, ij_category = ic_category arg, ij_name = ic_name arg,
                ij_color = ic_color arg, ij_size = ic_size arg, ij_output = ic_output arg, ij_viewbox = ic_viewbox arg\<rparr>)
               (\<lambda>_. ok 0))"

subsection \<open>What is extracted\<close>

lemma upto_first_Some: "upto_first mark s = Some (u, v) \<Longrightarrow> s = u @ mark @ v"
  by (induction mark s arbitrary: u v rule: upto_first.induct) (auto simp: starts_with_iff split: if_splits)

lemma upto_first_here: "upto_first (m # mark) ((m # mark) @ v) = Some ([], v)"
  by (simp add: starts_with_iff)

lemma upto_first_past: "m \<notin> set u \<Longrightarrow> upto_first (m # mark) (u @ (m # mark) @ v) = Some (u, v)"
  by (induction u) (use upto_first_here in \<open>auto\<close>)

lemma svg_element_Some:
  assumes "svg_element s = Some (e, rest)"
  shows "s = e @ rest" and "starts_with ''<svg'' e"
proof -
  from assms have s: "s = ''<svg'' @ drop 4 s" by (auto simp: svg_element_def starts_with_iff split: if_splits)
  from assms show "s = e @ rest"
    by (subst s) (auto simp: svg_element_def split: if_splits option.splits dest!: upto_first_Some)
  from assms show "starts_with ''<svg'' e"
    by (auto simp: svg_element_def split: if_splits option.splits)
qed

text \<open>What is found was matched at some position, so it is a part of the text.\<close>

lemma find_each_found:
  assumes "\<And>s x rest. m s = Some (x, rest) \<Longrightarrow> \<exists>u v. s = u @ x @ v \<and> (\<exists>w. v = w @ rest)"
    and "x \<in> set (find_each m s)"
  shows "contains x s \<and> (\<exists>s' rest. m s' = Some (x, rest))"
  using assms
proof (induction m s rule: find_each.induct)
  case (2 m c cs)
  show ?case
  proof (cases "m (c # cs)")
    case None
    with "2.prems"(2) "2.IH"(1) [OF None "2.prems"(1)] show ?thesis by auto
  next
    case (Some a)
    then obtain y rest where y: "m (c # cs) = Some (y, rest)" by (cases a) auto
    from "2.prems"(1) [OF y] obtain u v w where parts: "c # cs = u @ y @ v" "v = w @ rest" by blast
    from "2.prems"(2) y consider "x = y" | "x \<in> set (find_each m rest)" "length rest < length (c # cs)"
      by (auto split: if_splits)
    then show ?thesis
    proof cases
      case 1
      with y parts(1) show ?thesis unfolding contains_iff by blast
    next
      case 2
      with "2.IH"(2) [OF y refl _ "2.prems"(1)] have "contains x rest" "\<exists>s' rest. m s' = Some (x, rest)" by auto
      moreover from this(1) parts have "contains x (c # cs)" unfolding contains_iff by (metis append.assoc)
      ultimately show ?thesis by blast
    qed
  qed
qed simp

lemma svg_elements: "x \<in> set (find_each svg_element s) \<Longrightarrow> contains x s \<and> starts_with ''<svg'' x"
  using find_each_found [of svg_element x s] svg_element_Some by (metis append_Nil append.right_neutral)

lemma strip_part: "\<exists>u v. s = u @ strip_by P s @ v"
proof -
  have "\<exists>u. t = u @ dropWhile P t" for t :: str by (metis takeWhile_dropWhile_id)
  then have "\<exists>u. s = u @ dropWhile P s" "\<exists>v. rev (dropWhile P s) = v @ dropWhile P (rev (dropWhile P s))" by blast+
  then obtain u v where "s = u @ dropWhile P s" "rev (dropWhile P s) = v @ dropWhile P (rev (dropWhile P s))" by blast
  moreover from this(2) have "dropWhile P s = strip_by P s @ rev v" unfolding strip_by_def by (metis rev_append rev_rev_ident)
  ultimately show ?thesis by metis
qed

lemma contains_trans: "contains x y \<Longrightarrow> contains y z \<Longrightarrow> contains x z"
  unfolding contains_iff by (metis append.assoc)

lemma contains_strip: "contains (strip_by P s) s"
  unfolding contains_iff using strip_part .

lemma clean_svg_sound: "x \<in> set (clean_svg raw) \<Longrightarrow> contains x raw \<and> starts_with ''<svg'' x"
  by (auto simp: clean_svg_def Let_def contains_strip dest!: in_set_takeD svg_elements
      intro: contains_trans [OF _ contains_strip] split: if_splits)

lemma fence_body_Some:
  assumes "fence_body tag s = Some (x, rest)"
  shows "\<exists>u v. s = u @ x @ v \<and> (\<exists>w. v = w @ rest)"
proof -
  let ?rest = "drop (length tag) s"
  let ?space = "takeWhile is_space ?rest"
  let ?tail = "rev (takeWhile (\<lambda>c. c \<noteq> newline) (rev ?space))"
  from assms have body: "upto_first ''```'' (?tail @ dropWhile is_space ?rest) = Some (x, rest)"
    by (auto simp: fence_body_def Let_def split: if_splits)
  have "rev ?space = takeWhile (\<lambda>c. c \<noteq> newline) (rev ?space) @ dropWhile (\<lambda>c. c \<noteq> newline) (rev ?space)" by simp
  then have "?space = rev (dropWhile (\<lambda>c. c \<noteq> newline) (rev ?space)) @ ?tail" by (metis rev_append rev_rev_ident)
  then obtain u where "?space = u @ ?tail" by blast
  then have "s = take (length tag) s @ u @ ?tail @ dropWhile is_space ?rest"
    by (metis append.assoc append_take_drop_id takeWhile_dropWhile_id)
  with upto_first_Some [OF body] have "s = (take (length tag) s @ u) @ x @ ''```'' @ rest" by (metis append.assoc)
  then show ?thesis by blast
qed

lemma extract_svgs_sound: "x \<in> set (extract_svgs t) \<Longrightarrow> contains x t \<and> starts_with ''<svg'' x"
proof -
  have parts: "contains y t" if "y \<in> set (find_each (fence_body tag) t)" for y tag
    using find_each_found [of "fence_body tag" y t] fence_body_Some [of tag] that by blast
  assume "x \<in> set (extract_svgs t)"
  then obtain raw where "x \<in> set (clean_svg raw)" "contains raw t"
    using parts svg_elements by (auto simp: extract_svgs_def Let_def split: if_splits)
  with clean_svg_sound contains_trans show ?thesis by blast
qed

text \<open>An answer in the form that the prompt asks for is read as it was meant.\<close>

definition fenced :: "str \<times> str \<Rightarrow> str" where
  "fenced item = (case item of (label, svg) \<Rightarrow> label @ ''```svg'' @ newline # svg @ newline # ''```'')"

lemma find_each_skip:
  assumes "\<And>c s. c \<in> set u \<Longrightarrow> m (c # s) = None"
  shows "find_each m (u @ s) = find_each m s"
  using assms by (induction u) auto

lemma fence_body_other: "c \<noteq> CHR ''`'' \<Longrightarrow> fence_body (CHR ''`'' # tag) (c # s) = None"
  by (simp add: fence_body_def)

lemma fence_read:
  assumes "starts_with ''<svg'' svg" and "CHR ''`'' \<notin> set svg"
  shows "fence_body ''```svg'' (''```svg'' @ newline # svg @ newline # ''```'' @ rest) = Some (svg @ [newline], rest)"
proof -
  from assms(1) obtain t where svg: "svg = ''<svg'' @ t" by (auto simp: starts_with_iff)
  have spaces: "is_space newline" "\<not> is_space CHR ''<''" by code_simp+
  have "upto_first ''```'' ((svg @ [newline]) @ ''```'' @ rest) = Some (svg @ [newline], rest)"
    using assms(2) by (intro upto_first_past) auto
  then show ?thesis
    by (simp add: fence_body_def Let_def svg spaces)
qed

lemma clean_read:
  assumes "starts_with ''<svg'' svg" and "strip svg = svg"
  shows "clean_svg (svg @ [newline]) = [svg]"
proof -
  from assms(1) obtain t where svg: "svg = ''<svg'' @ t" by (auto simp: starts_with_iff)
  have spaces: "is_space newline" "\<not> is_space CHR ''<''" by code_simp+
  have "strip (svg @ [newline]) = strip svg"
    by (simp add: strip_by_def svg spaces)
  with assms show ?thesis by (simp add: clean_svg_def Let_def)
qed

lemma fences_read:
  assumes "\<forall>(label, svg) \<in> set items. CHR ''`'' \<notin> set label \<and> CHR ''`'' \<notin> set svg \<and> starts_with ''<svg'' svg"
    and "CHR ''`'' \<notin> set rest"
  shows "find_each (fence_body ''```svg'') (concat (map fenced items) @ rest) = map (\<lambda>(label, svg). svg @ [newline]) items"
  using assms(1)
proof (induction items)
  case Nil
  have "find_each (fence_body ''```svg'') (rest @ []) = find_each (fence_body ''```svg'') []"
    using assms(2) by (intro find_each_skip fence_body_other) auto
  then show ?case by simp
next
  case (Cons item items)
  obtain label svg where item: "item = (label, svg)" by (cases item)
  let ?rest = "concat (map fenced items) @ rest"
  have "find_each (fence_body ''```svg'') (label @ ''```svg'' @ newline # svg @ newline # ''```'' @ ?rest) =
      find_each (fence_body ''```svg'') (''```svg'' @ newline # svg @ newline # ''```'' @ ?rest)"
    using Cons.prems item by (intro find_each_skip fence_body_other) auto
  also have "\<dots> = (svg @ [newline]) # find_each (fence_body ''```svg'') ?rest"
    using fence_read [of svg ?rest] Cons.prems item by simp
  also have "find_each (fence_body ''```svg'') ?rest = map (\<lambda>(label, svg). svg @ [newline]) items"
    using Cons by simp
  moreover have "concat (map fenced (item # items)) @ rest = label @ ''```svg'' @ newline # svg @ newline # ''```'' @ ?rest"
    by (simp add: fenced_def item)
  ultimately show ?case unfolding item by (simp only: list.map prod.case)
qed

lemma fenced_answer_read:
  assumes "\<forall>(label, svg) \<in> set items. CHR ''`'' \<notin> set label \<and> CHR ''`'' \<notin> set svg \<and> starts_with ''<svg'' svg \<and> strip svg = svg"
    and "items \<noteq> []" and "CHR ''`'' \<notin> set rest"
  shows "extract_svgs (concat (map fenced items) @ rest) = map snd items"
proof -
  have "find_each (fence_body ''```svg'') (concat (map fenced items) @ rest) = map (\<lambda>(label, svg). svg @ [newline]) items"
    using assms by (intro fences_read) auto
  then have "extract_svgs (concat (map fenced items) @ rest) = concat (map clean_svg (map (\<lambda>(label, svg). svg @ [newline]) items))"
    using assms(2) by (simp add: extract_svgs_def)
  also have "map clean_svg (map (\<lambda>(label, svg). svg @ [newline]) items) = map (\<lambda>(label, svg). [svg]) items"
    using assms(1) clean_read by auto
  also have "concat \<dots> = map snd items"
    by (induction items) auto
  finally show ?thesis .
qed

subsection \<open>What is done to an element\<close>

lemma replace_all_svg: "starts_with ''<svg'' s \<Longrightarrow> starts_with ''<svg'' (replace_all ''currentColor'' new s)"
  by (auto simp: starts_with_iff)

lemma replace_first_svg: "starts_with ''<svg'' s \<Longrightarrow> starts_with ''<svg'' (replace_first ''<svg'' (''<svg'' @ new) s)"
  by (auto simp: starts_with_iff)

lemma color_svg: "starts_with ''<svg'' s \<Longrightarrow> starts_with ''<svg'' (apply_color s color)"
  using replace_first_svg replace_all_svg by (simp add: apply_color_def Let_def)

text \<open>A pattern that consumes something; a character at which it cannot match is kept by a substitution.\<close>

definition consumes :: "rx \<Rightarrow> bool" where
  "consumes r \<longleftrightarrow> (\<forall>b a q. q \<in> set (mt r (b, a, [])) \<longrightarrow> length (after q) < length a)"

lemma search_consumes: "consumes r \<Longrightarrow> search_from r b a = Some m \<Longrightarrow> length (m_post m) < length a"
proof (induction r b a rule: search_from.induct)
  case (1 r b a)
  show ?case
  proof (cases "mt r (b, a, [])")
    case Nil
    with "1.prems"(2) obtain c cs where "a = c # cs" "search_from r (c # b) cs = Some m"
      by (subst (asm) search_from.simps) (auto split: list.splits)
    with "1.IH" [OF Nil] "1.prems"(1) show ?thesis by force
  next
    case (Cons q qs)
    with "1.prems"(2) have "m = mk_match b a q" by (simp add: search_from.simps [of r b a])
    moreover have "q \<in> set (mt r (b, a, []))" by (simp add: Cons)
    with "1.prems"(1) have "length (after q) < length a" unfolding consumes_def by blast
    ultimately show ?thesis by (simp add: mk_match_def)
  qed
qed

lemma sub_from_skip:
  assumes "consumes r" and "mt r (b, c # cs, []) = []"
  shows "sub_from r new b (c # cs) = c # sub_from r new (c # b) cs"
proof -
  have same: "search_from r b (c # cs) = search_from r (c # b) cs"
    using assms(2) by (subst search_from.simps) simp
  show ?thesis
  proof (cases "search_from r (c # b) cs")
    case None
    with same show ?thesis by (simp add: sub_from_None)
  next
    case (Some m)
    from search_consumes [OF assms(1) Some] have "length (m_post m) < length cs" .
    moreover from search_from_text [OF Some] obtain u where "m_pre m = rev (c # b) @ u" by blast
    ultimately show ?thesis
      using Some same by (simp add: sub_from.simps [of r new b] sub_from.simps [of r new "c # b"])
  qed
qed

lemma attribute_starts: "q \<in> set (mt (attribute_rx (n # ns)) (b, a, g)) \<Longrightarrow> \<exists>t. a = n # t \<and> length (after q) < length a"
proof -
  assume q: "q \<in> set (mt (attribute_rx (n # ns)) (b, a, g))"
  then have head: "starts_with (n # ns @ ''=\"'') a"
    and "\<exists>p. after p = drop (length (n # ns @ ''=\"'')) a \<and> q \<in> set (mt (Seq (Star (Cls (\<lambda>c. c \<noteq> CHR 0x22))) (lit [CHR 0x22])) p)"
    by (auto simp: attribute_rx_def mt_lit split: if_splits simp del: mt.simps(2,5) lit.simps starts_with.simps)
  then obtain p where p: "after p = drop (length (n # ns @ ''=\"'')) a"
    "q \<in> set (mt (Seq (Star (Cls (\<lambda>c. c \<noteq> CHR 0x22))) (lit [CHR 0x22])) p)" by blast
  from head obtain t where a: "a = n # t" by (cases a) auto
  with p(1) have "length (after p) \<le> length t" by simp
  moreover from mt_moves [OF p(2)] have "length (after q) \<le> length (after p)" by (auto simp: moves_def)
  ultimately show ?thesis using a by auto
qed

lemma attribute_sub_svg:
  assumes "n \<notin> set ''<svg''" and "starts_with ''<svg'' s"
  shows "starts_with ''<svg'' (rx_sub (attribute_rx (n # ns)) new s)"
proof -
  from assms(2) obtain t where s: "s = ''<svg'' @ t" by (auto simp: starts_with_iff)
  have "consumes (attribute_rx (n # ns))"
    unfolding consumes_def using attribute_starts by blast
  moreover have "mt (attribute_rx (n # ns)) (b, c # cs, []) = []" if "c \<in> set ''<svg''" for b c cs
  proof (rule ccontr)
    assume "mt (attribute_rx (n # ns)) (b, c # cs, []) \<noteq> []"
    then obtain q where "q \<in> set (mt (attribute_rx (n # ns)) (b, c # cs, []))" using hd_in_set by blast
    from attribute_starts [OF this] assms(1) that show False by auto
  qed
  ultimately have skip: "sub_from (attribute_rx (n # ns)) new b (c # cs) = c # sub_from (attribute_rx (n # ns)) new (c # b) cs"
    if "c \<in> set ''<svg''" for b c cs
    using that by (intro sub_from_skip)
  show ?thesis by (simp add: rx_sub_def s skip)
qed

lemma size_svg: "starts_with ''<svg'' s \<Longrightarrow> starts_with ''<svg'' (apply_viewbox_size s px)"
  using replace_first_svg attribute_sub_svg by (simp add: apply_viewbox_size_def Let_def)

text \<open>The pattern of the attribute \<open>width\<close> also matches the end of \<open>stroke-width\<close>.\<close>

lemma stroke_width_overwritten:
  "apply_viewbox_size ''<svg viewBox=\"0 0 24 24\" stroke-width=\"2\"></svg>'' 24 = ''<svg viewBox=\"0 0 24 24\" stroke-width=\"24\"></svg>''"
  by code_simp

subsection \<open>What is written\<close>

text \<open>An activity writes only such texts if every file is as before or holds one of them.\<close>

named_theorems writing

definition writes_only :: "(str \<Rightarrow> bool) \<Rightarrow> 'a act \<Rightarrow> bool" where
  "writes_only P m \<longleftrightarrow>
     (\<forall>s p. fs_files (se_files (snd (m s))) p = fs_files (se_files s) p \<or>
        (\<exists>t. fs_files (se_files (snd (m s))) p = Some t \<and> P t))"

lemma writes_quiet: "quiet m \<Longrightarrow> writes_only P m"
  by (simp add: writes_only_def quiet_def)

lemma writes_basic [writing]: "writes_only P (ok x)" "writes_only P (raise_fault e)" "writes_only P (print_lines ls)"
  "writes_only P (sleep_for n)" "writes_only P (or_raise r)"
  by (rule writes_quiet, blast intro: quiet_or_raise)+

lemma writes_then [writing]:
  assumes "writes_only P m" and "\<And>x. writes_only P (f x)"
  shows "writes_only P (and_then m f)"
  unfolding writes_only_def
proof (intro allI)
  fix s p
  obtain r s1 where m: "m s = (r, s1)" by fastforce
  with assms(1) have one: "fs_files (se_files s1) p = fs_files (se_files s) p \<or> (\<exists>t. fs_files (se_files s1) p = Some t \<and> P t)"
    unfolding writes_only_def by (metis snd_conv)
  show "fs_files (se_files (snd (and_then m f s))) p = fs_files (se_files s) p \<or>
      (\<exists>t. fs_files (se_files (snd (and_then m f s))) p = Some t \<and> P t)"
  proof (cases r)
    case (Inr x)
    from assms(2) [of x] have "fs_files (se_files (snd (f x s1))) p = fs_files (se_files s1) p \<or>
        (\<exists>t. fs_files (se_files (snd (f x s1))) p = Some t \<and> P t)"
      unfolding writes_only_def by blast
    with one show ?thesis by (auto simp: and_then_def m Inr)
  qed (use one in \<open>simp add: and_then_def m\<close>)
qed

lemma writes_caught:
  assumes "writes_only P m" and "\<And>r. quiet (f r)"
  shows "writes_only P (caught m f)"
  unfolding writes_only_def
proof (intro allI)
  fix s p
  obtain r s1 where m: "m s = (r, s1)" by fastforce
  with assms(1) have "fs_files (se_files s1) p = fs_files (se_files s) p \<or> (\<exists>t. fs_files (se_files s1) p = Some t \<and> P t)"
    unfolding writes_only_def by (metis snd_conv)
  with assms(2) [of r] m show "fs_files (se_files (snd (caught m f s))) p = fs_files (se_files s) p \<or>
      (\<exists>t. fs_files (se_files (snd (caught m f s))) p = Some t \<and> P t)"
    by (simp add: quiet_def caught_def)
qed

lemma writes_or_print [writing]: "writes_only P m \<Longrightarrow> writes_only P (or_print label v m)"
  unfolding or_print_def by (rule writes_caught) (auto split: sum.split)

lemma writes_save [writing]: "P t \<Longrightarrow> writes_only P (save_bytes p t)"
  by (auto simp: writes_only_def save_bytes_def dest!: write_text_files split: option.splits)

lemma writes_directory [writing]: "writes_only P (make_directory dir)"
  by (auto simp: writes_only_def make_directory_def make_dirs_def split: option.splits if_splits)

lemma writes_if [writing]: "writes_only P x \<Longrightarrow> writes_only P y \<Longrightarrow> writes_only P (if c then x else y)"
  by simp

abbreviation svg_text :: "str \<Rightarrow> bool" where
  "svg_text \<equiv> starts_with ''<svg''"

lemma ask_model_quiet [writing]: "writes_only P (ask_model sdk batch prompt)"
  unfolding ask_model_def by (rule writing)

lemma draw_icon_writes [writing]: "writes_only svg_text (draw_icon sdk ts job)"
proof -
  have "writes_only svg_text (case extract_svgs t of
      [] \<Rightarrow> and_then (print_lines (ls t)) (\<lambda>_. ok None)
    | svg # _ \<Rightarrow> and_then (or_raise path) (\<lambda>p.
        and_then (save_bytes (path_of p) (apply_viewbox_size (apply_color svg color) px)) (\<lambda>_. and_then (print_lines (said p)) (\<lambda>_. ok (Some p)))))"
    for t ls path color px said
    using extract_svgs_sound [of "hd (extract_svgs t)" t]
    by (auto split: list.split intro!: writing size_svg color_svg)
  then show ?thesis unfolding draw_icon_def by (intro writing)
qed

lemma generate_icon_writes [writing]: "writes_only svg_text (generate_icon sdk key ts job)"
  unfolding generate_icon_def by (intro writing)

lemma save_icons_writes:
  "\<forall>(i, svg) \<in> set icons. svg_text svg \<Longrightarrow> writes_only svg_text (save_icons job slug n icons)"
  by (induction icons) (auto simp: Let_def intro!: writing color_svg)

lemma slice_to_subset: "set (slice_to n xs) \<subseteq> set xs"
  by (simp add: slice_to_def set_take_subset)

lemma draw_batch_writes [writing]: "writes_only svg_text (draw_batch sdk job)"
proof -
  have icons: "writes_only svg_text (save_icons job slug n (enumerate 0 (slice_to m (extract_svgs t))))" for slug n m t
    using slice_to_subset [of m "extract_svgs t"] extract_svgs_sound [of _ t]
    by (intro save_icons_writes) (force dest: in_set_enumerate_eq [THEN iffD1] nth_mem)
  show ?thesis unfolding draw_batch_def Let_def by (intro writing icons)
qed

lemma generate_batch_writes [writing]: "writes_only svg_text (generate_batch sdk key job)"
  unfolding generate_batch_def by (intro writing)

lemma size_loop_writes [writing]: "writes_only svg_text (size_loop sdk key ts job sizes)"
  by (induction sizes) (auto intro!: writing)

lemma generate_sizes_writes [writing]: "writes_only svg_text (generate_sizes sdk key ts prompt sizes style color dir name)"
  unfolding generate_sizes_def Let_def by (intro writing)

lemma icon_main_writes: "writes_only svg_text (icon_main sdk key ts arg)"
  unfolding icon_main_def Let_def by (intro writing)


end
