(* ===== verification/Backgrounds.thy ===== *)
theory Backgrounds
  imports PyJson Files Urls Search
begin

text \<open>
  \<open>fetch-background.py\<close>: images for slides and overlays in the colours of a brand, which are read from
  the design tokens of a project. Token files are values of JSON, with what every access raises.
\<close>

subsection \<open>The project\<close>

definition markers :: "str list list" where
  "markers = [[''assets'', ''design-tokens.json''], [''assets'', ''design-tokens.css''], [''package.json''], [''.git'']]"

text \<open>The override is a resolved path, as is the working directory.\<close>

definition find_project_root :: "path option \<Rightarrow> path \<Rightarrow> filesystem \<Rightarrow> path" where
  "find_project_root override start fs =
     (case override of
        Some p \<Rightarrow> p
      | None \<Rightarrow>
          (case find (\<lambda>candidate. \<exists>marker \<in> set markers. on_disk fs (sub_path candidate marker)) (rev (ancestors start)) of
             Some candidate \<Rightarrow> candidate
           | None \<Rightarrow> start))"

definition tokens_path :: "path \<Rightarrow> path" where
  "tokens_path project = sub_path project [''assets'', ''design-tokens.json'']"

subsection \<open>Tokens\<close>

datatype token_fault = NoFile_fault | Syntax_fault | Type_fault | Attribute_fault | Key_fault str | Csv_fault load_error

text \<open>\<open>value.get(key, default)\<close>, \<open>key in value\<close> and \<open>value[key]\<close> on any value.\<close>

definition get_of :: "json \<Rightarrow> str \<Rightarrow> json \<Rightarrow> token_fault + json" where
  "get_of j key otherwise = (case j of JObject d \<Rightarrow> Inr (get_or d key otherwise) | _ \<Rightarrow> Inl Attribute_fault)"

definition member_of :: "json \<Rightarrow> str \<Rightarrow> token_fault + bool" where
  "member_of j key =
     (case j of
        JObject d \<Rightarrow> Inr (has_key d key)
      | JString s \<Rightarrow> Inr (contains key s)
      | JArray js \<Rightarrow> Inr (JString key \<in> set js)
      | _ \<Rightarrow> Inl Type_fault)"

definition item_of :: "json \<Rightarrow> str \<Rightarrow> token_fault + json" where
  "item_of j key =
     (case j of
        JObject d \<Rightarrow> (case get d key of Some v \<Rightarrow> Inr v | None \<Rightarrow> Inl (Key_fault key))
      | _ \<Rightarrow> Inl Type_fault)"

text \<open>A step through the tokens; outside of a dict the path is invalid.\<close>

fun walk :: "str list \<Rightarrow> json \<Rightarrow> json option" where
  "walk [] current = Some current"
| "walk (key # path) current = (case current of JObject d \<Rightarrow> walk path (py_get d key) | _ \<Rightarrow> None)"

definition token_value :: "json \<Rightarrow> json" where
  "token_value current =
     (case current of JObject d \<Rightarrow> if has_key d ''$value'' then py_get d ''$value'' else current | _ \<Rightarrow> current)"

definition is_reference :: "str \<Rightarrow> bool" where
  "is_reference s \<longleftrightarrow> starts_with ''{'' s \<and> starts_with ''}'' (rev s)"

definition resolve_token_reference :: "json \<Rightarrow> json \<Rightarrow> token_fault + json" where
  "resolve_token_reference ref tokens =
     (if \<not> truthy ref then Inr ref
      else case ref of
             JString s \<Rightarrow>
               if is_reference s
               then Inr (case walk (split_on (\<lambda>c. c = CHR ''.'') (butlast (tl s))) tokens of
                           Some j \<Rightarrow> token_value j
                         | None \<Rightarrow> JNull)
               else Inr ref
           | _ \<Rightarrow> Inl Attribute_fault)"

record brand_colors =
  bc_primary :: json
  bc_secondary :: json
  bc_accent :: json
  bc_background :: json

definition or_default :: "json \<Rightarrow> json \<Rightarrow> json" where
  "or_default j otherwise = (if truthy j then j else otherwise)"

definition default_colors :: brand_colors where
  "default_colors =
     \<lparr>bc_primary = JString ''#3B82F6'', bc_secondary = JString ''#F59E0B'', bc_accent = JString ''#10B981'',
      bc_background = JString ''#0D0D0D''\<rparr>"

definition semantic_ref :: "json \<Rightarrow> str \<Rightarrow> token_fault + json" where
  "semantic_ref semantic name = chain (get_of semantic name (JObject [])) (\<lambda>j. get_of j ''$value'' JNull)"

text \<open>The colours of the semantic tokens, if the first two resolve.\<close>

definition semantic_colors :: "json \<Rightarrow> json \<Rightarrow> token_fault + brand_colors option" where
  "semantic_colors semantic tokens =
     (if \<not> truthy semantic then Inr None
      else
        chain (semantic_ref semantic ''primary'') (\<lambda>primary_ref.
        chain (semantic_ref semantic ''secondary'') (\<lambda>secondary_ref.
        chain (semantic_ref semantic ''accent'') (\<lambda>accent_ref.
        chain (semantic_ref semantic ''background'') (\<lambda>background_ref.
        chain (resolve_token_reference primary_ref tokens) (\<lambda>primary.
        chain (resolve_token_reference secondary_ref tokens) (\<lambda>secondary.
        chain (resolve_token_reference accent_ref tokens) (\<lambda>accent.
        chain (resolve_token_reference background_ref tokens) (\<lambda>background.
          Inr (if truthy primary \<and> truthy secondary
               then Some \<lparr>bc_primary = primary, bc_secondary = secondary, bc_accent = or_default accent primary,
                 bc_background = or_default background (JString ''#0D0D0D'')\<rparr>
               else None))))))))))"

text \<open>The first palette of some names with a colour at 500; \<open>current\<close> is the last one looked at.\<close>

fun first_color :: "json \<Rightarrow> str list \<Rightarrow> json \<Rightarrow> token_fault + json" where
  "first_color colors [] current = Inr current"
| "first_color colors (key # names) current =
     chain (member_of colors key) (\<lambda>there.
       if \<not> there then first_color colors names current
       else chain (item_of colors key) (\<lambda>palette.
         case palette of
           JObject d \<Rightarrow>
             chain (get_of (get_or d ''500'' (JObject [])) ''$value'' JNull) (\<lambda>color.
               if truthy color then Inr color else first_color colors names color)
         | _ \<Rightarrow> first_color colors names current))"

definition primitive_colors :: "json \<Rightarrow> token_fault + brand_colors" where
  "primitive_colors colors =
     chain (first_color colors [''ocean-blue'', ''coral'', ''blue'', ''primary''] JNull) (\<lambda>primary.
     chain (first_color colors [''golden-amber'', ''purple'', ''amber'', ''secondary''] JNull) (\<lambda>secondary.
     chain (first_color colors [''emerald'', ''mint'', ''green'', ''accent''] JNull) (\<lambda>accent.
     chain (get_of colors ''dark'' (JObject [])) (\<lambda>dark.
     chain (get_of dark ''800'' (JObject [])) (\<lambda>shade.
     chain (get_of shade ''$value'' (JString ''#0D0D0D'')) (\<lambda>background.
       Inr \<lparr>bc_primary = or_default primary (bc_primary default_colors),
         bc_secondary = or_default secondary (bc_secondary default_colors),
         bc_accent = or_default accent (bc_accent default_colors), bc_background = background\<rparr>))))))"

definition colors_from :: "json \<Rightarrow> token_fault + brand_colors" where
  "colors_from tokens =
     chain (chain (get_of tokens ''primitive'' (JObject [])) (\<lambda>j. get_of j ''color'' (JObject []))) (\<lambda>colors.
     chain (chain (get_of tokens ''semantic'' (JObject [])) (\<lambda>j. get_of j ''color'' (JObject []))) (\<lambda>semantic.
     chain (semantic_colors semantic tokens) (\<lambda>found.
       case found of Some bc \<Rightarrow> Inr bc | None \<Rightarrow> primitive_colors colors)))"

definition read_tokens :: "str option \<Rightarrow> token_fault + json" where
  "read_tokens file_text =
     (case file_text of
        None \<Rightarrow> Inl NoFile_fault
      | Some t \<Rightarrow> (case json_loads () plain_object t of Inl _ \<Rightarrow> Inl Syntax_fault | Inr j \<Rightarrow> Inr j))"

text \<open>A missing file, a missing key and a wrong type give the defaults; the other exceptions go on.\<close>

definition load_brand_colors :: "str option \<Rightarrow> token_fault + brand_colors" where
  "load_brand_colors file_text =
     (case chain (read_tokens file_text) colors_from of
        Inr bc \<Rightarrow> Inr bc
      | Inl NoFile_fault \<Rightarrow> Inr default_colors
      | Inl (Key_fault k) \<Rightarrow> Inr default_colors
      | Inl Type_fault \<Rightarrow> Inr default_colors
      | Inl e \<Rightarrow> Inl e)"

subsection \<open>Backgrounds\<close>

definition backgrounds_csv :: str where
  "backgrounds_csv = ''data/slide-backgrounds.csv''"

fun config_rows :: "table \<Rightarrow> row dict \<Rightarrow> token_fault + row dict" where
  "config_rows [] config = Inr config"
| "config_rows (r # rs) config =
     (case get r ''slide_type'' of
        None \<Rightarrow> Inl (Key_fault ''slide_type'')
      | Some slide_type \<Rightarrow> config_rows rs (put slide_type r config))"

text \<open>The rows of the file, \<open>None\<close> where there is none.\<close>

definition load_backgrounds_config :: "(load_error + table) option \<Rightarrow> str list \<times> (token_fault + row dict)" where
  "load_backgrounds_config csv =
     (case csv of
        None \<Rightarrow> ([(''Warning: '' @ backgrounds_csv @ '' not found'')], Inr [])
      | Some (Inl e) \<Rightarrow> ([], Inl (Csv_fault e))
      | Some (Inr rs) \<Rightarrow> ([], config_rows rs []))"

definition overlays :: "(json \<Rightarrow> str) \<Rightarrow> brand_colors \<Rightarrow> str dict" where
  "overlays py_str bc =
     (let shown = str_of_json py_str in
      [(''gradient-dark'', (''linear-gradient(135deg, '' @ (shown (bc_background bc)) @ ''E6, '' @ (shown (bc_background bc)) @ ''B3)'')),
       (''gradient-brand'', (''linear-gradient(135deg, '' @ (shown (bc_primary bc)) @ ''CC, '' @ (shown (bc_secondary bc)) @ ''99)'')),
       (''gradient-accent'', (''linear-gradient(135deg, '' @ (shown (bc_accent bc)) @ ''99, transparent)'')),
       (''blur-dark'', ''rgba(13,13,13,0.8)''),
       (''desaturate-dark'', ''rgba(13,13,13,0.7)'')])"

definition get_overlay_css :: "(json \<Rightarrow> str) \<Rightarrow> str \<Rightarrow> brand_colors \<Rightarrow> str" where
  "get_overlay_css py_str style bc = get_or (overlays py_str bc) style (field (overlays py_str bc) ''gradient-dark'')"

definition pexels :: "str \<Rightarrow> str" where
  "pexels photo = (''https://images.pexels.com/photos/'' @ photo @ ''/pexels-photo-'' @ photo @ ''.jpeg?auto=compress&cs=tinysrgb&w=1920'')"

definition CURATED_IMAGES :: "str list dict" where
  "CURATED_IMAGES =
    [(''hero'', [pexels ''3861969'', pexels ''2582937'', pexels ''1089438'']),
     (''vision'', [pexels ''3183150'', pexels ''3182812'', pexels ''3184291'']),
     (''team'', [pexels ''3184418'', pexels ''3184338'', pexels ''3182773'']),
     (''testimonial'', [pexels ''3184465'', pexels ''1181622'']),
     (''cta'', [pexels ''3184339'', pexels ''3184298'']),
     (''problem'', [pexels ''3760529'', pexels ''897817'']),
     (''solution'', [pexels ''3184292'', pexels ''3184644'']),
     (''hook'', [pexels ''2582937'', pexels ''1089438'']),
     (''social'', [pexels ''3184360'', pexels ''3184287'']),
     (''demo'', [pexels ''1181675'', pexels ''3861958''])]"

definition get_curated_images :: "str \<Rightarrow> str list" where
  "get_curated_images slide_type = get_or CURATED_IMAGES slide_type (get_or CURATED_IMAGES ''hero'' [])"

definition get_pexels_search_url :: "str \<Rightarrow> str" where
  "get_pexels_search_url keywords = (''https://www.pexels.com/search/'' @ (url_quote keywords) @ ''/'')"

definition image_result :: "str \<Rightarrow> str list \<Rightarrow> str \<Rightarrow> str \<Rightarrow> json dict" where
  "image_result url urls overlay keywords =
     [(''url'', JString url), (''all_urls'', JArray (map JString urls)), (''overlay'', JString overlay),
      (''attribution'', JString ''Photo from Pexels (free to use)''), (''source'', JString ''pexels-curated''),
      (''search_url'', JString (get_pexels_search_url keywords))]"

definition manual_result :: "str \<Rightarrow> str \<Rightarrow> json dict" where
  "manual_result overlay keywords =
     [(''url'', JNull), (''overlay'', JString overlay), (''keywords'', JString keywords),
      (''search_url'', JString (get_pexels_search_url keywords)), (''available_types'', JArray (map JString (keys CURATED_IMAGES)))]"

definition get_background_image ::
  "(json \<Rightarrow> str) \<Rightarrow> str option \<Rightarrow> (load_error + table) option \<Rightarrow> str \<Rightarrow> str list \<times> (token_fault + json dict)" where
  "get_background_image py_str token_text csv slide_type =
     (case load_brand_colors token_text of
        Inl e \<Rightarrow> ([], Inl e)
      | Inr bc \<Rightarrow>
          (case load_backgrounds_config csv of (lines, r) \<Rightarrow>
             (lines, map_sum id (\<lambda>config.
                let (keywords, overlay_style) =
                      (case get config slide_type of
                         Some (x # xs) \<Rightarrow>
                           (get_or (x # xs) ''search_keywords'' (get_or (x # xs) ''image_category'' slide_type),
                            get_or (x # xs) ''overlay_style'' ''gradient-dark'')
                       | _ \<Rightarrow> (slide_type, ''gradient-dark''));
                    overlay = get_overlay_css py_str overlay_style bc
                in case get_curated_images slide_type of
                     url # urls \<Rightarrow> image_result url (url # urls) overlay keywords
                   | [] \<Rightarrow> manual_result overlay keywords) r)))"

definition shown_or :: "(json \<Rightarrow> str) \<Rightarrow> json dict \<Rightarrow> str \<Rightarrow> str \<Rightarrow> str" where
  "shown_or py_str d key otherwise = str_of_json py_str (get_or d key (JString otherwise))"

definition generate_css_for_background :: "(json \<Rightarrow> str) \<Rightarrow> json dict \<Rightarrow> str \<Rightarrow> str" where
  "generate_css_for_background py_str found slide_class =
     (if \<not> truthy (py_get found ''url'') then join [newline]
        [(''/* No image scraped. Search manually: '' @ (shown_or py_str found ''search_url'' []) @ '' */''),
         (''/* Overlay ready: '' @ (shown_or py_str found ''overlay'' ''gradient-dark'') @ '' */''), []]
      else join [newline]
        [(slide_class @ '' {''),
         (''    background-image: url('' @ [CHR 0x27] @ (str_of_json py_str (py_get found ''url'')) @ [CHR 0x27] @ '');''),
         ''    background-size: cover;'', ''    background-position: center;'', ''    position: relative;'', ''}'', [],
         (slide_class @ ''::before {''),
         (''    content: '' @ [CHR 0x27] @ [CHR 0x27] @ '';''), ''    position: absolute;'', ''    inset: 0;'',
         (''    background: '' @ (str_of_json py_str (py_get found ''overlay'')) @ '';''),
         ''}'', [],
         (slide_class @ '' .content {''), ''    position: relative;'', ''    z-index: 1;'', ''}'', [],
         (''/* '' @ (shown_or py_str found ''attribution'' ''Pexels'') @ '' - '' @ (shown_or py_str found ''search_url'' []) @ '' */''), []])"

subsection \<open>The command\<close>

record background_args =
  ba_type :: "str option"
  ba_list :: bool
  ba_css :: bool
  ba_json :: bool
  ba_colors :: bool
  ba_all :: bool

definition color_report :: "(json \<Rightarrow> str) \<Rightarrow> brand_colors \<Rightarrow> str list" where
  "color_report py_str bc =
     ([CHR 0x0A] @ ''Brand Colors (from design-tokens.json):'') #
     map (\<lambda>(name, color). (''  '' @ name @ '': '' @ (str_of_json py_str color)))
       [(''primary'', bc_primary bc), (''secondary'', bc_secondary bc), (''accent'', bc_accent bc), (''background'', bc_background bc)]"

definition list_report :: "str list" where
  "list_report =
     ([CHR 0x0A] @ ''Available slide types (curated images):'') #
     map (\<lambda>(slide_type, urls). (''  '' @ slide_type @ '': '' @ (str_of_nat (length urls)) @ '' images'')) CURATED_IMAGES"

definition urls_of :: "json dict \<Rightarrow> json list" where
  "urls_of found = (case get_or found ''all_urls'' (JArray []) of JArray us \<Rightarrow> us | _ \<Rightarrow> [])"

definition image_report :: "(json \<Rightarrow> str) \<Rightarrow> background_args \<Rightarrow> str \<Rightarrow> json dict \<Rightarrow> str list" where
  "image_report py_str arg slide_type found =
     (if ba_json arg then [json_dump 0 (JObject found)]
      else if ba_css arg then [generate_css_for_background py_str found ''.slide-with-bg'']
      else if ba_all arg then
        ([CHR 0x0A] @ ''All images for '' @ [CHR 0x27] @ slide_type @ [CHR 0x27] @ '':'') #
        map (\<lambda>(i, url). (''  '' @ (str_of_nat i) @ ''. '' @ (str_of_json py_str url))) (enumerate 1 (urls_of found))
      else
        [([CHR 0x0A] @ ''Image URL: '' @ (str_of_json py_str (py_get found ''url''))),
         (''Alternatives: '' @ (str_of_nat (length (urls_of found))) @ '' available (use --all)''),
         (''Overlay: '' @ (str_of_json py_str (py_get found ''overlay'')))])"

text \<open>The help of the parser is an argument.\<close>

definition background_main ::
  "(json \<Rightarrow> str) \<Rightarrow> str list \<Rightarrow> str option \<Rightarrow> (load_error + table) option \<Rightarrow> background_args \<Rightarrow>
   str list \<times> token_fault option" where
  "background_main py_str help token_text csv arg =
     (if ba_colors arg then
        (case load_brand_colors token_text of Inl e \<Rightarrow> ([], Some e) | Inr bc \<Rightarrow> (color_report py_str bc, None))
      else if ba_list arg then (list_report, None)
      else case ba_type arg of
             Some (c # cs) \<Rightarrow>
               (case get_background_image py_str token_text csv (c # cs) of
                  (lines, Inl e) \<Rightarrow> (lines, Some e)
                | (lines, Inr found) \<Rightarrow> (lines @ image_report py_str arg (c # cs) found, None))
           | _ \<Rightarrow> (help, None))"

subsection \<open>Colours of a tree of tokens\<close>

text \<open>
  What a file of design tokens should be: groups in groups, whose entries without a \<open>$\<close> are groups or
  tokens, and whose values are texts.
\<close>

fun token_tree :: "json \<Rightarrow> bool" where
  "token_tree (JObject d) = (\<forall>(k, v) \<in> set d.
     if k = ''$value'' then (\<exists>s. v = JString s) else starts_with ''$'' k \<or> token_tree v)"
| "token_tree j = False"

definition value_at :: "json \<Rightarrow> str list \<Rightarrow> str option" where
  "value_at tokens path =
     (case walk path tokens of
        Some (JObject d) \<Rightarrow> (case get d ''$value'' of Some (JString s) \<Rightarrow> Some s | _ \<Rightarrow> None)
      | _ \<Rightarrow> None)"

definition reference_to :: "str list \<Rightarrow> str" where
  "reference_to path = ''{'' @ join ''.'' path @ ''}''"

lemma reference_resolves:
  assumes "path \<noteq> []" and "\<forall>key \<in> set path. CHR ''.'' \<notin> set key" and "value_at tokens path = Some v"
  shows "resolve_token_reference (JString (reference_to path)) tokens = Inr (JString v)"
proof -
  have "split_on (\<lambda>c. c = CHR ''.'') (join ''.'' path) = path"
    using assms(1,2) by (intro split_on_join) auto
  moreover from assms(3) obtain d where "walk path tokens = Some (JObject d)" "get d ''$value'' = Some (JString v)"
    by (auto simp: value_at_def split: option.splits json.splits)
  ultimately show ?thesis
    by (simp add: resolve_token_reference_def reference_to_def is_reference_def truthy_def token_value_def
        has_key_def py_get_def get_or_def butlast_append)
qed

lemma empty_tree: "token_tree (JObject [])"
  by simp

lemma token_tree_entry:
  assumes "token_tree (JObject d)" and "get d k = Some v" and "\<not> starts_with ''$'' k"
  shows "token_tree v"
proof -
  from assms(2) have "(k, v) \<in> set d" by (rule map_of_SomeD)
  with assms(1) have "if k = ''$value'' then \<exists>s. v = JString s else starts_with ''$'' k \<or> token_tree v"
    by (simp only: token_tree.simps) blast
  with assms(3) show ?thesis by (auto split: if_splits)
qed

lemma get_of_tree: "token_tree j \<Longrightarrow> \<not> starts_with ''$'' key \<Longrightarrow> \<exists>j'. get_of j key (JObject []) = Inr j' \<and> token_tree j'"
  by (cases j) (auto simp: get_of_def get_or_def simp del: token_tree.simps(1) split: option.splits
      intro: token_tree_entry empty_tree)

lemma value_of_tree:
  "token_tree j \<Longrightarrow> get_of j ''$value'' otherwise = Inr otherwise \<or> (\<exists>s. get_of j ''$value'' otherwise = Inr (JString s))"
  by (cases j) (auto simp: get_of_def get_or_def split: option.splits dest!: map_of_SomeD)

lemma resolve_text: "\<exists>j. resolve_token_reference (JString s) tokens = Inr j" "resolve_token_reference JNull tokens = Inr JNull"
  by (auto simp: resolve_token_reference_def truthy_def)

lemma semantic_ref_tree:
  assumes "token_tree semantic" and "\<not> starts_with ''$'' name"
  shows "semantic_ref semantic name = Inr JNull \<or> (\<exists>s. semantic_ref semantic name = Inr (JString s))"
  using get_of_tree [OF assms] by (auto simp: semantic_ref_def dest!: value_of_tree [where otherwise = JNull])

lemma semantic_resolved:
  assumes "token_tree semantic" and "\<not> starts_with ''$'' name"
  shows "\<exists>j. semantic_ref semantic name = Inr j \<and> (\<exists>j'. resolve_token_reference j tokens = Inr j')"
  using semantic_ref_tree [OF assms] resolve_text by auto

lemma first_color_tree: "token_tree colors \<Longrightarrow> list_all (\<lambda>n. \<not> starts_with ''$'' n) names \<Longrightarrow> \<exists>j. first_color colors names current = Inr j"
proof (induction names arbitrary: current)
  case (Cons key names)
  from Cons.prems obtain d where d: "colors = JObject d" by (cases colors) auto
  show ?case
  proof (cases "get d key")
    case None
    with Cons d show ?thesis by (simp add: member_of_def has_key_def)
  next
    case (Some palette)
    with Cons.prems d have tree: "token_tree palette" using token_tree_entry [of d key palette] by simp
    then obtain e where e: "palette = JObject e" by (cases palette) auto
    from get_of_tree [OF tree, of "''500''"] obtain shade where "get_or e ''500'' (JObject []) = shade" "token_tree shade"
      by (auto simp: e get_of_def)
    with value_of_tree [of shade JNull] Cons d Some e show ?thesis
      by (auto simp: member_of_def item_of_def has_key_def)
  qed
qed simp

lemma primitive_tree:
  assumes "token_tree colors"
  shows "\<exists>bc. primitive_colors colors = Inr bc"
proof -
  obtain c1 c2 c3 where
    "first_color colors [''ocean-blue'', ''coral'', ''blue'', ''primary''] JNull = Inr c1"
    "first_color colors [''golden-amber'', ''purple'', ''amber'', ''secondary''] JNull = Inr c2"
    "first_color colors [''emerald'', ''mint'', ''green'', ''accent''] JNull = Inr c3"
    using first_color_tree [OF assms, of "[''ocean-blue'', ''coral'', ''blue'', ''primary'']" JNull]
      first_color_tree [OF assms, of "[''golden-amber'', ''purple'', ''amber'', ''secondary'']" JNull]
      first_color_tree [OF assms, of "[''emerald'', ''mint'', ''green'', ''accent'']" JNull] by auto
  moreover obtain dark where dark: "get_of colors ''dark'' (JObject []) = Inr dark" "token_tree dark"
    using get_of_tree [OF assms, of "''dark''"] by auto
  moreover obtain shade where "get_of dark ''800'' (JObject []) = Inr shade" "token_tree shade"
    using get_of_tree [OF dark(2), of "''800''"] by auto
  ultimately show ?thesis
    using value_of_tree [of shade "JString ''#0D0D0D''"] by (auto simp: primitive_colors_def)
qed

lemma semantic_tree:
  assumes "token_tree semantic"
  shows "\<exists>found. semantic_colors semantic tokens = Inr found"
  using semantic_resolved [OF assms, of "''primary''" tokens] semantic_resolved [OF assms, of "''secondary''" tokens]
    semantic_resolved [OF assms, of "''accent''" tokens] semantic_resolved [OF assms, of "''background''" tokens]
  by (auto simp: semantic_colors_def)

lemma color_group:
  assumes "token_tree tokens" and "\<not> starts_with ''$'' key"
  shows "\<exists>j. chain (get_of tokens key (JObject [])) (\<lambda>j. get_of j ''color'' (JObject [])) = Inr j \<and> token_tree j"
  using get_of_tree [OF assms] get_of_tree [where key = "''color''"] by fastforce

lemma colors_of_tree:
  assumes "token_tree tokens"
  shows "\<exists>bc. colors_from tokens = Inr bc"
proof -
  from color_group [OF assms, of "''primitive''"] obtain colors where
    1: "chain (get_of tokens ''primitive'' (JObject [])) (\<lambda>j. get_of j ''color'' (JObject [])) = Inr colors" "token_tree colors"
    by auto
  from color_group [OF assms, of "''semantic''"] obtain semantic where
    2: "chain (get_of tokens ''semantic'' (JObject [])) (\<lambda>j. get_of j ''color'' (JObject [])) = Inr semantic" "token_tree semantic"
    by auto
  from semantic_tree [OF 2(2), of tokens] obtain found where 3: "semantic_colors semantic tokens = Inr found" by auto
  from primitive_tree [OF 1(2)] show ?thesis
    by (auto simp: colors_from_def 1 2 3 split: option.split)
qed

lemma value_at_step:
  "value_at tokens (key # path) = (case tokens of JObject d \<Rightarrow> value_at (py_get d key) path | _ \<Rightarrow> None)"
  by (cases tokens) (simp_all add: value_at_def)

text \<open>The reference of a semantic token is what the code reads.\<close>

lemma semantic_ref_value:
  assumes "chain (get_of tokens ''semantic'' (JObject [])) (\<lambda>j. get_of j ''color'' (JObject [])) = Inr semantic"
    and "value_at tokens [''semantic'', ''color'', name] = Some s"
  shows "semantic_ref semantic name = Inr (JString s) \<and> truthy semantic"
  using assms
  by (auto simp: value_at_step value_at_def py_get_def get_of_def semantic_ref_def get_or_def truthy_def split: json.splits option.splits)

subsection \<open>Images\<close>

lemma curated_images: "\<exists>url urls. get_curated_images slide_type = url # urls \<and> list_all (starts_with ''https://images.pexels.com/photos/'') (url # urls)"
proof -
  have all: "list_all (\<lambda>(k, us). case us of [] \<Rightarrow> False | u # _ \<Rightarrow> list_all (starts_with ''https://images.pexels.com/photos/'') us) CURATED_IMAGES"
    by (simp add: CURATED_IMAGES_def pexels_def)
  have hero: "\<exists>us. get CURATED_IMAGES ''hero'' = Some us" by (simp add: CURATED_IMAGES_def)
  have "\<exists>k us. get_curated_images slide_type = us \<and> get CURATED_IMAGES k = Some us"
  proof (cases "get CURATED_IMAGES slide_type")
    case None
    with hero show ?thesis by (auto simp: get_curated_images_def get_or_def)
  next
    case (Some us)
    then show ?thesis by (auto simp: get_curated_images_def get_or_def)
  qed
  then obtain k us where "get_curated_images slide_type = us" "get CURATED_IMAGES k = Some us" by blast
  with all show ?thesis
    by (cases us) (auto simp: list_all_iff dest!: map_of_SomeD)
qed

lemma background_found:
  assumes "get_background_image py_str token_text csv slide_type = (lines, Inr found)"
  shows "\<exists>url urls overlay keywords. get_curated_images slide_type = url # urls \<and> found = image_result url (url # urls) overlay keywords"
  using assms curated_images [of slide_type]
  by (cases "snd (load_backgrounds_config csv)")
    (auto simp: get_background_image_def Let_def case_prod_unfold split: sum.splits prod.splits)

text \<open>The address in the comment at the end of the style sheet cannot close it.\<close>

lemma search_url_stays_in_comment: "\<not> contains ''*/'' (get_pexels_search_url keywords)"
proof -
  have "\<not> plain_byte CHR ''*''" by code_simp
  then have "CHR ''*'' \<notin> set (url_quote keywords)" using url_quote_plain by fastforce
  then have "CHR ''*'' \<notin> set (get_pexels_search_url keywords)"
    by (simp add: get_pexels_search_url_def)
  then show ?thesis by (auto simp: contains_iff)
qed
end
