(* ===== verification/StyleContract.thy ===== *)
theory StyleContract
  imports Runs Generator
begin

text \<open>
  The contract of the style catalogue that \<open>validate_data.py\<close> checks before data is published
  (\<open>_check_style_contract\<close>), and what it buys the generator: where it reports no problem, every style
  that the product and reasoning tables refer to resolves to a style that is not deprecated. Problems
  are collected in the order of the source; a set is a list, since only membership counts.
\<close>

subsection \<open>Helpers\<close>

definition split_trim :: "str \<Rightarrow> char \<Rightarrow> str list" where
  "split_trim v delimiter = filter (\<lambda>p. p \<noteq> []) (map strip (split_on (\<lambda>c. c = delimiter) v))"

definition STYLE_STATUSES :: "str list" where
  "STYLE_STATUSES = [''active'', ''supplemental'', ''deprecated'']"

definition slug_part :: rx where
  "slug_part = plus1 (Cls (\<lambda>c. is_lower c \<or> is_digit c))"

definition STYLE_ID :: rx where
  "STYLE_ID = Seq slug_part (Star (Seq (lit ''-'') slug_part))"

text \<open>Any character but a line break, with the bytes that continue it.\<close>

definition dot :: rx where
  "dot = Seq (Cls (\<lambda>c. c \<noteq> newline \<and> \<not> is_cont_byte c)) (Star (Cls is_cont_byte))"

definition WCAG_CONFORMANCE :: rx where
  "WCAG_CONFORMANCE = ci (Alt
     (seqs [WordB, lit ''WCAG'', plus1 (Cls is_space), rep 2 3 (lit ''A''), opt (lit ''+''), WordB])
     (seqs [WordB, lit ''WCAG'', WordB, rep 0 40 dot, WordB, Alt (lit ''compliant'') (lit ''compliance''), WordB]))"

definition framework_score :: rx where
  "framework_score = Seq (plus1 (Cls is_digit)) (lit ''/10'')"

subsection \<open>Rows and identities\<close>

record style_state =
  ss_ids :: "str list"
  ss_lookup :: "str dict"
  ss_parents :: "str dict"
  ss_by_id :: "row dict"
  ss_problems :: "str list"

definition style_start :: style_state where
  "style_start = \<lparr>ss_ids = [], ss_lookup = [], ss_parents = [], ss_by_id = [], ss_problems = []\<rparr>"

definition when_bad :: "bool \<Rightarrow> str \<Rightarrow> str list" where
  "when_bad bad msg = (if bad then [msg] else [])"

definition sid :: "row \<Rightarrow> str" where
  "sid r = field r ''Style ID''"

definition style_note :: "row \<Rightarrow> str \<Rightarrow> str" where
  "style_note r msg = (''[style:'' @ (sid r) @ ''] '' @ msg)"

definition style_identities :: "row \<Rightarrow> str list" where
  "style_identities r = [sid r, field r ''Style Category''] @ split_trim (field r ''Aliases'') CHR ''|''"

definition redirect_problems :: "str list dict \<Rightarrow> row \<Rightarrow> str list" where
  "redirect_problems targets r =
     (let replacement_domain = field r ''Replacement Domain''; replacement_id = field r ''Replacement ID'';
          has_redirect = (replacement_domain \<noteq> [] \<and> replacement_id \<noteq> [])
      in if field r ''Status'' = ''deprecated''
         then when_bad ((field r ''Parent Style ID'' \<noteq> []) = has_redirect)
                (style_note r ''deprecated rows require exactly one parent or redirect'') @
              when_bad (has_redirect \<and> replacement_id \<notin> set (get_or targets replacement_domain []))
                (style_note r ((''invalid '' @ replacement_domain @ '' redirect '' @ [CHR 0x27] @ replacement_id @ [CHR 0x27])))
         else when_bad (replacement_domain \<noteq> [] \<or> replacement_id \<noteq> [])
                (style_note r ''only deprecated rows may redirect''))"

definition row_problems :: "str list dict \<Rightarrow> str list \<Rightarrow> row \<Rightarrow> str list" where
  "row_problems targets ids r =
     when_bad (rx_fullmatch STYLE_ID (sid r) = None) ((''[style] invalid Style ID '' @ [CHR 0x27] @ (sid r) @ [CHR 0x27])) @
     when_bad (sid r \<in> set ids) ((''[style] duplicate Style ID '' @ [CHR 0x27] @ (sid r) @ [CHR 0x27])) @
     when_bad (field r ''Status'' \<notin> set STYLE_STATUSES) (style_note r ((''invalid Status '' @ [CHR 0x27] @ (field r ''Status'') @ [CHR 0x27]))) @
     when_bad (field r ''Status'' = ''supplemental'' \<and> field r ''Parent Style ID'' = [])
       (style_note r ''supplemental rows require Parent Style ID'') @
     redirect_problems targets r"

text \<open>A name that another style has already taken is reported, and then goes to the later style.\<close>

definition add_identity :: "row \<Rightarrow> str dict \<times> str list \<Rightarrow> str \<Rightarrow> str dict \<times> str list" where
  "add_identity r acc key =
     (case acc of (lookup, problems) \<Rightarrow>
        (put (lower key) (sid r) lookup,
         problems @
         (case get lookup (lower key) of
            Some other \<Rightarrow> when_bad (other \<noteq> sid r) ((''[style] ambiguous identity '' @ [CHR 0x27] @ key @ [CHR 0x27] @ '' -> '' @ other @ '', '' @ (sid r)))
          | None \<Rightarrow> [])))"

definition style_row_step :: "str list dict \<Rightarrow> style_state \<Rightarrow> row \<Rightarrow> style_state" where
  "style_row_step targets s r =
     (case foldl (add_identity r) (ss_lookup s, ss_problems s @ row_problems targets (ss_ids s) r) (style_identities r) of
        (lookup, problems) \<Rightarrow>
          \<lparr>ss_ids = sid r # ss_ids s, ss_lookup = lookup,
           ss_parents = put (sid r) (field r ''Parent Style ID'') (ss_parents s),
           ss_by_id = put (sid r) r (ss_by_id s), ss_problems = problems\<rparr>)"

subsection \<open>Parents\<close>

text \<open>The walk up the parents, which ends because every turn visits a new style that has one.\<close>

function parent_walk :: "str dict \<Rightarrow> str list \<Rightarrow> str \<Rightarrow> str option" where
  "parent_walk parents seen current =
     (if current = [] then None
      else if current \<in> set seen then Some current
      else case get parents current of
             None \<Rightarrow> None
           | Some parent \<Rightarrow> parent_walk parents (current # seen) parent)"
  by pat_completeness auto
termination
proof (relation "measure (\<lambda>(parents, seen, current). card (set (keys parents) - set seen))", goal_cases)
  case (2 parents seen current parent)
  then have "current \<in> set (keys parents)" by (force simp: keys_def dest: map_of_SomeD)
  with 2 have "set (keys parents) - set (current # seen) \<subset> set (keys parents) - set seen" by auto
  then show ?case by (simp add: psubset_card_mono)
qed simp

declare parent_walk.simps [simp del]

definition parent_problems :: "style_state \<Rightarrow> str \<times> str \<Rightarrow> str list" where
  "parent_problems s entry =
     (case entry of (style_id, parent) \<Rightarrow>
        when_bad (parent \<noteq> [] \<and> (parent \<notin> set (ss_ids s) \<or> parent = style_id))
          ((''[style:'' @ style_id @ ''] invalid parent '' @ [CHR 0x27] @ parent @ [CHR 0x27])) @
        (case parent_walk (ss_parents s) [style_id] parent of
           None \<Rightarrow> []
         | Some current \<Rightarrow> [(''[style:'' @ style_id @ ''] parent cycle through '' @ [CHR 0x27] @ current @ [CHR 0x27])]) @
        when_bad (parent \<noteq> [] \<and> get (get_or (ss_by_id s) parent []) ''Status'' \<noteq> Some ''active'')
          ((''[style:'' @ style_id @ ''] parent must target an active style'')))"

subsection \<open>References\<close>

definition style_references :: "table \<Rightarrow> table \<Rightarrow> str list" where
  "style_references products reasoning =
     concat (map (\<lambda>r. split_trim (field r ''Primary Style Recommendation'') CHR ''+'' @
                      split_trim (field r ''Secondary Styles'') CHR '','') products) @
     concat (map (\<lambda>r. split_trim (field r ''Style_Priority'') CHR ''+'') reasoning)"

definition style_with_id :: "table \<Rightarrow> str \<Rightarrow> row" where
  "style_with_id styles style_id =
     (case find (\<lambda>r. get r ''Style ID'' = Some style_id) styles of None \<Rightarrow> [] | Some r \<Rightarrow> r)"

definition reference_problems :: "table \<Rightarrow> str dict \<Rightarrow> str \<Rightarrow> str list" where
  "reference_problems styles lookup reference =
     (let resolved_id = get_or lookup (lower reference) [] in
      if resolved_id = [] then [(''[style] unresolved reference '' @ [CHR 0x27] @ reference @ [CHR 0x27])]
      else when_bad (get (style_with_id styles resolved_id) ''Status'' = Some ''deprecated'')
             ((''[style] reference targets deprecated style '' @ [CHR 0x27] @ reference @ [CHR 0x27])))"

subsection \<open>Vocabulary\<close>

definition first_part :: "row \<Rightarrow> str \<Rightarrow> str" where
  "first_part r col = fst (split_once CHR ''|'' (field r col))"

definition prompt_length :: "row \<Rightarrow> nat" where
  "prompt_length r = length (split_ws (field r ''AI Prompt Keywords''))"

definition framework_words :: "str list" where
  "framework_words = [''all frameworks'', ''excellent'', ''performant'', ''lightweight'']"

definition mode_fields :: "str list" where
  "mode_fields = [''Light Mode '' @ u_check, ''Dark Mode '' @ u_check]"

definition vocabulary_problems :: "row \<Rightarrow> str list" where
  "vocabulary_problems r =
     when_bad (first_part r ''Performance'' \<notin> set [''cost:low'', ''cost:moderate'', ''cost:high''])
       (style_note r ''invalid Performance vocabulary'') @
     when_bad (first_part r ''Accessibility'' \<notin> set [''risk:low'', ''risk:conditional'', ''risk:high''])
       (style_note r ''invalid Accessibility vocabulary'') @
     when_bad (rx_found WCAG_CONFORMANCE (join '' '' (map snd r)))
       (style_note r ''accessibility conformance guarantee'') @
     when_bad (rx_found framework_score (field r ''Framework Compatibility''))
       (style_note r ''framework score is unsupported'') @
     when_bad (\<exists>term \<in> set framework_words. contains term (lower (field r ''Framework Compatibility'')))
       (style_note r ''unsupported framework guarantee'') @
     concat (map (\<lambda>col. when_bad (get r col \<notin> set (map Some [''supported'', ''conditional'', ''not-recommended'']))
       (style_note r ((''invalid '' @ col @ '' vocabulary'')))) mode_fields) @
     when_bad (get r ''Preferred Mode'' \<notin> set (map Some [''auto'', ''light'', ''dark'']))
       (style_note r ''invalid Preferred Mode'') @
     when_bad (40 < prompt_length r) (style_note r ''AI prompt exceeds 40 words'')"

definition median :: "nat list \<Rightarrow> real" where
  "median xs =
     (let ys = sort xs; n = length ys in
      if odd n then real (ys ! (n div 2)) else real (ys ! (n div 2 - 1) + ys ! (n div 2)) / 2)"

definition prompt_lengths :: "table \<Rightarrow> str \<Rightarrow> nat list" where
  "prompt_lengths styles kind = map prompt_length (filter (\<lambda>r. field r ''Type'' = kind) styles)"

definition median_problems :: "table \<Rightarrow> str list" where
  "median_problems styles =
     (let general = prompt_lengths styles ''General''; mobile = prompt_lengths styles ''Mobile'' in
      when_bad (general \<noteq> [] \<and> mobile \<noteq> [] \<and> median general * (125 / 100) < median mobile)
        ''[style] mobile prompt median exceeds 1.25x general median'')"

subsection \<open>The contract\<close>

definition check_style_contract ::
  "table \<Rightarrow> table \<Rightarrow> table \<Rightarrow> str list dict \<Rightarrow> str list \<times> str list" where
  "check_style_contract styles products reasoning targets =
     (let s = foldl (style_row_step targets) style_start styles in
      (ss_ids s,
       ss_problems s @
       concat (map (parent_problems s) (ss_parents s)) @
       concat (map (reference_problems styles (ss_lookup s)) (sorted_set (style_references products reasoning))) @
       concat (map vocabulary_problems styles) @
       median_problems styles))"

subsection \<open>A catalogue without problems\<close>

lemma when_bad_Nil [simp]: "when_bad bad msg = [] \<longleftrightarrow> \<not> bad"
  by (simp add: when_bad_def)

text \<open>What the loop over the rows has established about the rows so far, while there is no problem.\<close>

definition catalogue_ok :: "table \<Rightarrow> style_state \<Rightarrow> bool" where
  "catalogue_ok rows s \<longleftrightarrow>
     set (ss_ids s) = sid ` set rows \<and> distinct (map sid rows) \<and>
     (\<forall>r \<in> set rows. rx_fullmatch STYLE_ID (sid r) \<noteq> None \<and> field r ''Status'' \<in> set STYLE_STATUSES) \<and>
     (\<forall>key x. get (ss_lookup s) key = Some x \<longleftrightarrow>
        (\<exists>r \<in> set rows. x = sid r \<and> key \<in> lower ` set (style_identities r)))"

lemma add_identity_problems:
  "snd (foldl (add_identity r) (lookup, ps) is) = [] \<Longrightarrow> ps = []"
  by (induction "is" arbitrary: lookup ps) (auto simp: add_identity_def)

lemma add_identities:
  "snd (foldl (add_identity r) (lookup, []) is) = [] \<Longrightarrow>
   (\<forall>i \<in> set is. get lookup (lower i) = None \<or> get lookup (lower i) = Some (sid r)) \<and>
   (\<forall>key. get (fst (foldl (add_identity r) (lookup, []) is)) key =
      (if key \<in> lower ` set is then Some (sid r) else get lookup key))"
proof (induction "is" arbitrary: lookup)
  case (Cons i "is")
  let ?lookup = "put (lower i) (sid r) lookup"
  have fresh: "get lookup (lower i) = None \<or> get lookup (lower i) = Some (sid r)"
    and step: "add_identity r (lookup, []) i = (?lookup, [])"
  proof -
    obtain ps where "add_identity r (lookup, []) i = (?lookup, ps)" by (simp add: add_identity_def)
    with Cons.prems have "ps = []" using add_identity_problems by force
    with \<open>add_identity r (lookup, []) i = (?lookup, ps)\<close>
    show "get lookup (lower i) = None \<or> get lookup (lower i) = Some (sid r)" "add_identity r (lookup, []) i = (?lookup, [])"
      by (auto simp: add_identity_def split: option.splits)
  qed
  from Cons.prems step have "snd (foldl (add_identity r) (?lookup, []) is) = []" by simp
  from Cons.IH [OF this] fresh step show ?case by (auto split: if_splits)
qed simp

lemma style_row_step_ok:
  assumes "catalogue_ok rows s" and "ss_problems s = []" and "ss_problems (style_row_step targets s r) = []"
  shows "catalogue_ok (rows @ [r]) (style_row_step targets s r)"
proof -
  let ?acc = "(ss_lookup s, ss_problems s @ row_problems targets (ss_ids s) r)"
  obtain lookup ps where fold: "foldl (add_identity r) ?acc (style_identities r) = (lookup, ps)" by fastforce
  with assms(3) have "ps = []" by (simp add: style_row_step_def)
  with fold add_identity_problems [of r "fst ?acc" "snd ?acc" "style_identities r"] assms(2)
  have none: "row_problems targets (ss_ids s) r = []" by simp
  from none have new: "rx_fullmatch STYLE_ID (sid r) \<noteq> None" "sid r \<notin> set (ss_ids s)"
      "field r ''Status'' \<in> set STYLE_STATUSES"
    by (simp_all add: row_problems_def)
  have "snd (foldl (add_identity r) (ss_lookup s, []) (style_identities r)) = []"
    using fold \<open>ps = []\<close> none assms(2) by simp
  note added = add_identities [OF this]
  have "fst (foldl (add_identity r) (ss_lookup s, []) (style_identities r)) = lookup"
    using fold none assms(2) by simp
  with added have lookup: "get lookup key = (if key \<in> lower ` set (style_identities r) then Some (sid r) else get (ss_lookup s) key)" for key
    by simp
  have free: "get (ss_lookup s) key = None" if "key \<in> lower ` set (style_identities r)" for key
  proof -
    have "get (ss_lookup s) key \<noteq> Some (sid r)" using assms(1) new(2) by (auto simp: catalogue_ok_def)
    with added that show ?thesis by auto
  qed
  have "get lookup key = Some x \<longleftrightarrow> (\<exists>r' \<in> set (rows @ [r]). x = sid r' \<and> key \<in> lower ` set (style_identities r'))" for key x
  proof (cases "key \<in> lower ` set (style_identities r)")
    case True
    with free have "\<not> (\<exists>r' \<in> set rows. key \<in> lower ` set (style_identities r'))"
      using assms(1) unfolding catalogue_ok_def by (metis option.distinct(1))
    with True lookup show ?thesis by auto
  next
    case False
    with lookup assms(1) show ?thesis by (auto simp: catalogue_ok_def)
  qed
  with fold assms(1) new show ?thesis by (simp add: catalogue_ok_def style_row_step_def)
qed

lemma style_row_step_problems: "ss_problems (style_row_step targets s r) = [] \<Longrightarrow> ss_problems s = []"
  using add_identity_problems [of r "ss_lookup s" "ss_problems s @ row_problems targets (ss_ids s) r" "style_identities r"]
  by (auto simp: style_row_step_def split: prod.splits)

lemma style_rows_ok:
  "ss_problems (foldl (style_row_step targets) style_start styles) = [] \<Longrightarrow>
   catalogue_ok styles (foldl (style_row_step targets) style_start styles)"
proof (induction styles rule: rev_induct)
  case Nil
  show ?case by (simp add: catalogue_ok_def style_start_def)
next
  case (snoc r rows)
  then have "ss_problems (foldl (style_row_step targets) style_start rows) = []"
    using style_row_step_problems by auto
  with snoc style_row_step_ok show ?case by simp
qed

subsection \<open>What the generator makes of it\<close>

lemma style_id_chars:
  assumes "rx_fullmatch STYLE_ID s = Some m"
  shows "s \<noteq> [] \<and> strip s = s"
proof -
  have "rx_fullmatch STYLE_ID [] = None" by code_simp
  with assms have "s \<noteq> []" by auto
  from assms obtain q qs where "filter (\<lambda>q. after q = []) (mt STYLE_ID ([], s, [])) = q # qs"
    by (auto simp: rx_fullmatch_def split: list.splits)
  then have "q \<in> set (filter (\<lambda>q. after q = []) (mt STYLE_ID ([], s, [])))" by simp
  then have q: "q \<in> set (mt STYLE_ID ([], s, []))" "after q = []" by simp_all
  have "cls_in (\<lambda>c. is_lower c \<or> is_digit c \<or> c = CHR ''-'') STYLE_ID"
    by (simp add: STYLE_ID_def slug_part_def plus1_def)
  from mt_moves_in [OF this q(1)] q(2) have chars: "\<forall>c \<in> set s. is_lower c \<or> is_digit c \<or> c = CHR ''-''"
    by (auto simp: moves_in_def)
  then have "\<forall>c \<in> set s. \<not> is_space c"
    by (auto simp: is_lower_def is_digit_def is_space_def code_def)
  with \<open>s \<noteq> []\<close> show ?thesis by (auto intro: strip_by_id)
qed

text \<open>The keys under which the generator files a row.\<close>

definition row_keys :: "(row \<Rightarrow> str list) \<Rightarrow> row \<Rightarrow> str set" where
  "row_keys ids r = {lower (strip i) | i. i \<in> set (ids r) \<and> strip i \<noteq> []}"

lemma filed_keys:
  "get (foldl (\<lambda>m i. if strip i \<noteq> [] then put (lower (strip i)) r m else m) m is) key =
   (if \<exists>i \<in> set is. strip i \<noteq> [] \<and> lower (strip i) = key then Some r else get m key)"
  by (induction "is" arbitrary: m) auto

lemma lookup_by_last:
  "get (lookup_by ids (rows @ [r])) key = (if key \<in> row_keys ids r then Some r else get (lookup_by ids rows) key)"
  by (auto simp: lookup_by_def filed_keys row_keys_def)

lemma lookup_by_unique:
  assumes "r \<in> set rows" "key \<in> row_keys ids r" "\<And>r'. r' \<in> set rows \<Longrightarrow> key \<in> row_keys ids r' \<Longrightarrow> r' = r"
  shows "get (lookup_by ids rows) key = Some r"
  using assms
proof (induction rows rule: rev_induct)
  case (snoc x xs)
  show ?case
  proof (cases "key \<in> row_keys ids x")
    case True
    with snoc.prems(3) [of x] show ?thesis by (simp add: lookup_by_last)
  next
    case False
    with snoc.prems(1,2) have "r \<in> set xs" by auto
    moreover have "r' = r" if "r' \<in> set xs" "key \<in> row_keys ids r'" for r' using snoc.prems(3) that by simp
    ultimately have "get (lookup_by ids xs) key = Some r" using snoc.prems(2) by (intro snoc.IH)
    with False show ?thesis by (simp only: lookup_by_last if_False)
  qed
qed simp

lemma generator_keys:
  assumes "rx_fullmatch STYLE_ID (sid r) \<noteq> None" and "strip (field r ''Style Category'') = field r ''Style Category''"
  shows "row_keys style_ids_of r = lower ` set (style_identities r) - {[]}"
proof -
  have "strip (sid r) = sid r" using assms(1) style_id_chars by blast
  then have "strip ` set (style_ids_of r) - {[]} = set (style_identities r) - {[]}"
    using assms(2) by (auto simp: style_ids_of_def style_identities_def split_trim_def sid_def)
  moreover have "row_keys style_ids_of r = lower ` (strip ` set (style_ids_of r) - {[]})"
    by (auto simp: row_keys_def)
  moreover have "lower ` (A - {[]}) = lower ` A - {[]}" for A
    by (auto simp: lower_def)
  ultimately show ?thesis by simp
qed

lemma reference_stripped: "reference \<in> set (style_references products reasoning) \<Longrightarrow> reference \<noteq> [] \<and> strip reference = reference"
  by (auto simp: style_references_def split_trim_def strip_strip)

lemma catalogue_unique:
  assumes "catalogue_ok styles s" "r \<in> set styles" "r' \<in> set styles"
    and "key \<in> lower ` set (style_identities r)" "key \<in> lower ` set (style_identities r')"
  shows "r' = r"
proof -
  from assms have "get (ss_lookup s) key = Some (sid r)" "get (ss_lookup s) key = Some (sid r')"
    unfolding catalogue_ok_def by blast+
  then have "sid r = sid r'" by simp
  moreover have "inj_on sid (set styles)" using assms(1) by (simp add: catalogue_ok_def distinct_map)
  ultimately show ?thesis using assms(2,3) by (auto dest: inj_onD)
qed

lemma validated_style:
  assumes "check_style_contract styles products reasoning targets = (ids, [])"
    and "\<forall>r \<in> set styles. strip (field r ''Style Category'') = field r ''Style Category''"
    and "reference \<in> set (style_references products reasoning)"
    and "style_lookup g = build_style_lookup styles"
  shows "\<exists>r \<in> set styles. resolve_style g reference = r \<and> field r ''Status'' \<in> {''active'', ''supplemental''}"
proof -
  let ?s = "foldl (style_row_step targets) style_start styles"
  from assms(1) have none: "ss_problems ?s = []"
    and refs: "\<forall>x \<in> set (style_references products reasoning). reference_problems styles (ss_lookup ?s) x = []"
    and parts: "\<forall>r \<in> set styles. vocabulary_problems r = []"
    by (simp_all add: check_style_contract_def Let_def)
  note ok = style_rows_ok [OF none]
  note ref = reference_stripped [OF assms(3)]
  let ?key = "lower reference"
  from refs assms(3) have r0: "reference_problems styles (ss_lookup ?s) reference = []" by blast
  then obtain x where x: "get (ss_lookup ?s) ?key = Some x" "x \<noteq> []"
    by (cases "get (ss_lookup ?s) ?key") (auto simp: reference_problems_def get_or_def Let_def split: if_splits)
  from ok x(1) obtain r where r: "r \<in> set styles" "x = sid r" "?key \<in> lower ` set (style_identities r)"
    unfolding catalogue_ok_def by blast
  have id: "rx_fullmatch STYLE_ID (sid r') \<noteq> None" if "r' \<in> set styles" for r'
    using ok that by (simp add: catalogue_ok_def)
  have keys: "row_keys style_ids_of r' = lower ` set (style_identities r') - {[]}" if "r' \<in> set styles" for r'
    using generator_keys id assms(2) that by blast
  have "?key \<noteq> []" using ref by (simp add: lower_def)
  have filed: "get (build_style_lookup styles) ?key = Some r"
    unfolding build_style_lookup_def
    by (rule lookup_by_unique [OF r(1)])
      (use keys r \<open>?key \<noteq> []\<close> catalogue_unique [OF ok r(1)] in blast)+
  have status: "field r ''Status'' \<noteq> ''deprecated''"
  proof -
    have found: "get r ''Style ID'' = Some x"
      using x(2) r(2) by (auto simp: sid_def get_or_def split: option.splits)
    then obtain r' where f: "find (\<lambda>r. get r ''Style ID'' = Some x) styles = Some r'"
      using r(1) by (cases "find (\<lambda>r. get r ''Style ID'' = Some x) styles") (auto simp: find_None_iff)
    then have "r' \<in> set styles" "sid r' = sid r"
      using r(2) by (auto simp: find_Some_iff sid_def get_or_def)
    moreover have "inj_on sid (set styles)" using ok by (simp add: catalogue_ok_def distinct_map)
    ultimately have "r' = r" using r(1) by (auto dest: inj_onD)
    with f have "style_with_id styles x = r" by (simp add: style_with_id_def)
    with r0 x have "get r ''Status'' \<noteq> Some ''deprecated''" by (simp add: reference_problems_def get_or_def Let_def)
    then show ?thesis by (auto simp: get_or_def split: option.splits)
  qed
  have "field r ''Status'' \<in> set STYLE_STATUSES" using ok r(1) by (simp add: catalogue_ok_def)
  with status have "field r ''Status'' \<in> {''active'', ''supplemental''}" by (auto simp: STYLE_STATUSES_def)
  moreover from this have "get_or r ''Status'' ''active'' \<noteq> ''deprecated''" by (auto simp: get_or_def split: option.splits)
  moreover have "resolve_style g reference = follow_parents (build_style_lookup styles) [] ?key"
    using ref assms(4) by (simp add: resolve_style_def)
  ultimately show ?thesis using filed r(1)
    by (auto simp: follow_parents.simps)
qed

text \<open>A text without a W makes no claim about WCAG.\<close>

lemma code_w: "code CHR ''W'' = 87" "code CHR ''w'' = 119"
  by code_simp+

lemma is_w: "lower_char c = CHR ''W'' \<or> upper_char c = CHR ''W'' \<Longrightarrow> c = CHR ''W'' \<or> c = CHR ''w''"
  by (auto simp: lower_char_def upper_char_def is_upper_def is_lower_def code_w simp flip: code_inject split: if_splits)

lemma no_wcag: "CHR ''w'' \<notin> set s \<Longrightarrow> CHR ''W'' \<notin> set s \<Longrightarrow> \<not> rx_found WCAG_CONFORMANCE s"
proof -
  assume "CHR ''w'' \<notin> set s" "CHR ''W'' \<notin> set s"
  then have none: "\<not> (lower_char c = CHR ''W'' \<or> upper_char c = CHR ''W'')" if "c \<in> set s" for c using is_w that by blast
  have "mt WCAG_CONFORMANCE (rev u, v, []) = []" if "s = u @ v" for u v
    using none [of "hd v"] that by (cases v) (simp_all add: WCAG_CONFORMANCE_def)
  then show ?thesis by (simp add: rx_found_iff)
qed

end
