(* ===== verification/DataContracts.thy ===== *)
theory DataContracts
  imports PyNumbers StyleContract
begin

text \<open>
  The other contracts that \<open>validate_data.py\<close> checks on the rows it has read: reasoning, colours, charts,
  typography, icons, guidelines, motion, interfaces, React and landing pages, and what the command
  prints. A check maps rows to its problems in the order of the source. The checks of files, dates,
  URLs of sources, catalogues in JSON and provenance are not modelled.
\<close>

subsection \<open>Reasoning rows\<close>

definition repeated :: "str list \<Rightarrow> str list" where
  "repeated xs = sorted_set (filter (\<lambda>x. 1 < count_list xs x) xs)"

definition label_problems :: "str \<Rightarrow> table \<Rightarrow> str \<Rightarrow> str list" where
  "label_problems label rows key =
     when_bad (length rows \<noteq> 192) ((''[reasoning] '' @ label @ '' must contain exactly 192 rows; got '' @ (str_of_nat (length rows)))) @
     (let duplicates = repeated (map (\<lambda>r. field r key) rows) in
      when_bad (duplicates \<noteq> []) ((''[reasoning] duplicate '' @ label @ '' labels: '' @ (join '', '' duplicates))))"

definition difference_problems :: "table \<Rightarrow> table \<Rightarrow> table \<Rightarrow> str list" where
  "difference_problems products colors reasoning =
     (let product_names = map (\<lambda>r. field r ''Product Type'') products;
          color_names = map (\<lambda>r. field r ''Product Type'') colors;
          reasoning_names = map (\<lambda>r. field r ''UI_Category'') reasoning;
          missing = sorted_set (filter (\<lambda>n. n \<notin> set reasoning_names) product_names);
          extra = sorted_set (filter (\<lambda>n. n \<notin> set product_names) reasoning_names)
      in when_bad (set product_names \<noteq> set color_names) ''[reasoning] products/colors product labels differ'' @
         when_bad (missing \<noteq> []) ((''[reasoning] missing exact product rows: '' @ (join '', '' missing))) @
         when_bad (extra \<noteq> []) ((''[reasoning] unknown product rows: '' @ (join '', '' extra))))"

definition confidence_problems :: "row \<Rightarrow> str list" where
  "confidence_problems r =
     (let confidence = field r ''Confidence'' in
      when_bad (confidence \<noteq> [] \<and>
          (case float_of confidence of None \<Rightarrow> True | Some x \<Rightarrow> \<not> (0 \<le> x \<and> x \<le> 1)))
        ((''[reasoning:'' @ (field r ''UI_Category'') @ ''] invalid Confidence '' @ [CHR 0x27] @ confidence @ [CHR 0x27])))"

definition action_problems :: "str list \<Rightarrow> str list \<Rightarrow> str \<Rightarrow> str \<Rightarrow> str list" where
  "action_problems known_ids patterns category action =
     (case split_action action of
        None \<Rightarrow> []
      | Some (prefix, v) \<Rightarrow>
          when_bad (prefix = ''style'' \<and> v \<notin> set known_ids) ((''[reasoning:'' @ category @ ''] unknown style action '' @ [CHR 0x27] @ v @ [CHR 0x27])) @
          when_bad (prefix = ''pattern'' \<and> v \<notin> set patterns) ((''[reasoning:'' @ category @ ''] unknown pattern action '' @ [CHR 0x27] @ v @ [CHR 0x27])))"

text \<open>A row whose rules do not parse is reported and not looked at further; the text of the error is an argument.\<close>

definition reasoning_row_problems ::
  "(str \<Rightarrow> rule_error \<Rightarrow> str) \<Rightarrow> str list \<Rightarrow> str list \<Rightarrow> row \<Rightarrow> str list" where
  "reasoning_row_problems error_text known_ids patterns r =
     (let category = field r ''UI_Category''; raw = field r ''Decision_Rules'' in
      case parse_decision_rules raw of
        Inl e \<Rightarrow> [(''[reasoning:'' @ category @ ''] '' @ (error_text raw e))]
      | Inr rules \<Rightarrow>
          concat (map (\<lambda>(condition, actions). concat (map (action_problems known_ids patterns category) actions)) rules) @
          when_bad (field r ''Recommended_Pattern'' \<notin> set patterns)
            ((''[reasoning:'' @ category @ ''] unknown Recommended_Pattern '' @ [CHR 0x27] @ (field r ''Recommended_Pattern'') @ [CHR 0x27])) @
          confidence_problems r)"

definition check_reasoning_contract ::
  "(str \<Rightarrow> rule_error \<Rightarrow> str) \<Rightarrow> table \<Rightarrow> table \<Rightarrow> table \<Rightarrow> str list \<Rightarrow> str list \<Rightarrow> str list" where
  "check_reasoning_contract error_text products colors reasoning known_ids patterns =
     label_problems ''products'' products ''Product Type'' @ label_problems ''colors'' colors ''Product Type'' @
     label_problems ''reasoning'' reasoning ''UI_Category'' @
     difference_problems products colors reasoning @
     concat (map (reasoning_row_problems error_text known_ids patterns) reasoning)"

subsection \<open>Colours\<close>

text \<open>The luminance of a colour with exactly six digits, or the text of the \<open>ValueError\<close>.\<close>

definition opaque_luminance :: "str \<Rightarrow> str + real" where
  "opaque_luminance v =
     (case v of
        [h, a, a', c, c', d, d'] \<Rightarrow>
          (case (hex_digit a, hex_digit a', hex_digit c, hex_digit c', hex_digit d, hex_digit d') of
             (Some x, Some x', Some y, Some y', Some z, Some z') \<Rightarrow>
               if h = CHR ''#'' then Inr (luminance_of (16 * x + x') (16 * y + y') (16 * z + z'))
               else Inl ((''invalid hex color '' @ [CHR 0x27] @ v @ [CHR 0x27]))
           | _ \<Rightarrow> Inl ((''invalid hex color '' @ [CHR 0x27] @ v @ [CHR 0x27])))
      | _ \<Rightarrow> Inl ((''invalid hex color '' @ [CHR 0x27] @ v @ [CHR 0x27])))"

definition opaque_contrast :: "str \<Rightarrow> str \<Rightarrow> str + real" where
  "opaque_contrast foreground background =
     (case opaque_luminance foreground of
        Inl e \<Rightarrow> Inl e
      | Inr l \<Rightarrow> map_sum id (\<lambda>l'. (max l l' + 5 / 100) / (min l l' + 5 / 100)) (opaque_luminance background))"

definition COLOR_CONTRAST_PAIRS :: "(str \<times> str \<times> str \<times> real) list" where
  "COLOR_CONTRAST_PAIRS =
     [(''On Primary'', ''Primary'', ''normal-text'', 45 / 10), (''On Secondary'', ''Secondary'', ''normal-text'', 45 / 10),
      (''On Accent'', ''Accent'', ''normal-text'', 45 / 10), (''Foreground'', ''Background'', ''normal-text'', 45 / 10),
      (''Card Foreground'', ''Card'', ''normal-text'', 45 / 10), (''Muted Foreground'', ''Muted'', ''normal-text'', 45 / 10),
      (''On Destructive'', ''Destructive'', ''normal-text'', 45 / 10),
      (''Ring'', ''Background'', ''non-text-focus-indicator'', 3)]"

definition tolerance :: real where
  "tolerance = 1 / 10 ^ 9"

definition pair_problems :: "row \<Rightarrow> str \<times> str \<times> str \<times> real \<Rightarrow> str list" where
  "pair_problems r pair =
     (case pair of (foreground, background, role, minimum) \<Rightarrow>
        let product = field r ''Product Type'' in
        case opaque_contrast (field r foreground) (field r background) of
          Inl e \<Rightarrow> [(''[color:'' @ product @ ''] '' @ e)]
        | Inr ratio' \<Rightarrow>
            when_bad (ratio' + tolerance < minimum)
              ((''[color:'' @ product @ ''] '' @ role @ '' '' @ foreground @ ''/'' @ background @ '' contrast '' @ (fixed 2 ratio') @ '':1 is below '' @ (fixed 1 minimum) @ '':1'')))"

definition pair_ratio :: "row \<Rightarrow> str \<Rightarrow> real option" where
  "pair_ratio r foreground =
     (case get COLOR_CONTRAST_PAIRS foreground of
        None \<Rightarrow> None
      | Some (background, _, _) \<Rightarrow>
          (case opaque_contrast (field r foreground) (field r background) of Inl _ \<Rightarrow> None | Inr x \<Rightarrow> Some x))"

definition muted_problems :: "row \<Rightarrow> str list" where
  "muted_problems r =
     (case (pair_ratio r ''Muted Foreground'', pair_ratio r ''Foreground'') of
        (Some muted, Some primary) \<Rightarrow>
          when_bad (primary + tolerance < muted)
            ((''[color:'' @ (field r ''Product Type'') @ ''] muted text contrast exceeds primary text contrast''))
      | _ \<Rightarrow> [])"

text \<open>\<open>int(s, 16)\<close> for at most two characters.\<close>

definition int_slice :: "str \<Rightarrow> int option" where
  "int_slice s = (case s of [a] \<Rightarrow> hex_digit a | [a, c] \<Rightarrow> int16 a c | _ \<Rightarrow> None)"

definition destructive_problems :: "row \<Rightarrow> str list" where
  "destructive_problems r =
     (let v = dropWhile (\<lambda>c. c = CHR ''#'') (field r ''Destructive'') in
      case (int_slice (take 2 v), int_slice (take 2 (drop 2 v)), int_slice (take 2 (drop 4 v))) of
        (Some red, Some green, Some blue) \<Rightarrow>
          when_bad (real_of_int red * (11 / 10) < real_of_int green \<and> real_of_int blue * (11 / 10) < real_of_int green)
            ((''[color:'' @ (field r ''Product Type'') @ ''] Destructive token is success green''))
      | _ \<Rightarrow> [])"

definition check_color_contract :: "table \<Rightarrow> str list" where
  "check_color_contract rows =
     concat (map (\<lambda>r. concat (map (pair_problems r) COLOR_CONTRAST_PAIRS) @ muted_problems r @ destructive_problems r) rows)"

subsection \<open>Charts\<close>

definition words_rx :: "str list \<Rightarrow> rx" where
  "words_rx ws = foldr (\<lambda>w r. Alt (lit w) r) ws (Cls (\<lambda>_. False))"

definition CHART_TEXT_FALLBACK :: rx where
  "CHART_TEXT_FALLBACK = words_rx [''table'', ''list'', ''summary'', ''text'']"

definition CHART_NON_COLOR_GUIDANCE :: rx where
  "CHART_NON_COLOR_GUIDANCE =
     Alt (words_rx [''color alone'', ''hue alone'', ''alone is insufficient'', ''only distinction'', ''only carrier'',
            ''supplementary'', ''pattern'', ''symbol'', ''outline''])
       (Alt (seqs [lit ''direct '', opt (words_rx [''series '', ''group '']), lit ''label''])
            (words_rx [''marker shape'', ''label every'']))"

definition WCAG_GRADE :: rx where
  "WCAG_GRADE = ci (seqs [WordB, lit ''WCAG'', plus1 (Cls is_space), rep 1 3 (lit ''A''), WordB])"

definition chart_problems :: "row \<Rightarrow> str list" where
  "chart_problems r =
     (let note = (\<lambda>msg. (''[chart:'' @ (field r ''Data Type'') @ ''] '' @ msg));
          fallback = lower (field r ''Accessibility Notes'' @ '' '' @ field r ''A11y Fallback'')
      in when_bad (get r ''Accessibility Grade'' \<noteq> Some ''deprecated: use Accessibility Risk'')
           (note ''invalid deprecated Accessibility Grade'') @
         when_bad (get r ''Accessibility Risk'' \<notin> set (map Some [''risk:low'', ''risk:conditional'', ''risk:high'']))
           (note ''invalid Accessibility Risk'') @
         when_bad (\<not> rx_found CHART_TEXT_FALLBACK fallback) (note ''missing text/table/list fallback'') @
         when_bad (\<not> rx_found CHART_NON_COLOR_GUIDANCE fallback) (note ''missing non-color distinction guidance'') @
         when_bad (strip (field r ''Interactive Level'') \<noteq> [] \<and> \<not> contains ''keyboard'' fallback)
           (note ''missing keyboard interaction equivalent'') @
         when_bad (rx_found WCAG_GRADE fallback) (note ''fallback claims WCAG conformance''))"

definition check_chart_contract :: "table \<Rightarrow> str list" where
  "check_chart_contract rows = concat (map chart_problems rows)"

subsection \<open>Typography\<close>

text \<open>Percent signs with two hexadecimal digits stand for a byte.\<close>

fun unquote :: "str \<Rightarrow> str" where
  "unquote (p # a # d # s) =
     (case (hex_digit a, hex_digit d) of
        (Some x, Some y) \<Rightarrow>
          if p = CHR ''%'' then char_of (nat (16 * x + y)) # unquote s else p # unquote (a # d # s)
      | _ \<Rightarrow> p # unquote (a # d # s))"
| "unquote (p # s) = p # unquote s"
| "unquote [] = []"

definition plus_to_space :: "str \<Rightarrow> str" where
  "plus_to_space s = map (\<lambda>c. if c = CHR ''+'' then CHR '' '' else c) s"

text \<open>\<open>urlsplit(url).query\<close>; host names in brackets, for which urllib can raise, are not modelled.\<close>

definition url_query :: "str \<Rightarrow> str" where
  "url_query url =
     (case snd (split_once CHR ''?'' (fst (split_once CHR ''#'' url))) of None \<Rightarrow> [] | Some q \<Rightarrow> q)"

definition font_families :: "str \<Rightarrow> str list" where
  "font_families url =
     concat (map (\<lambda>part.
       case split_once CHR ''='' part of
         (name, Some v) \<Rightarrow>
           if v \<noteq> [] \<and> unquote (plus_to_space name) = ''family'' then [unquote (plus_to_space v)] else []
       | _ \<Rightarrow> []) (split_on (\<lambda>c. c = CHR ''&'') (url_query url)))"

definition font_name :: "str \<Rightarrow> str" where
  "font_name declaration = plus_to_space (fst (split_once CHR '':'' declaration))"

definition configured_font_names :: "str \<Rightarrow> str list" where
  "configured_font_names config =
     map (\<lambda>m. get_or (m_groups m) 1 [])
       (rx_finditer (seqs [lit [CHR 0x27], Grp 1 (plus1 (Cls (\<lambda>c. c \<noteq> CHR 0x27))), lit [CHR 0x27]]) config)"

definition FONT_WEIGHT :: rx where
  "FONT_WEIGHT = seqs
     [NotBehind is_digit, Cls (\<lambda>c. is_digit c \<and> c \<noteq> CHR ''0''), lit ''00'', NotAhead is_digit]"

text \<open>\<open>None\<close> is the \<open>ValueError\<close> of a declaration whose only at sign stands before its colon.\<close>

fun imported_weights :: "str list \<Rightarrow> str list option" where
  "imported_weights [] = Some []"
| "imported_weights (declaration # declarations) =
     (case split_once CHR '':'' declaration of
        (_, None) \<Rightarrow> imported_weights declarations
      | (_, Some axis_values) \<Rightarrow>
          if CHR ''@'' \<notin> set declaration then imported_weights declarations
          else (case split_once CHR ''@'' axis_values of
                  (_, None) \<Rightarrow> None
                | (axes, Some values) \<Rightarrow>
                    map_option ((@) (if contains ''wght'' axes then rx_findall FONT_WEIGHT values else []))
                      (imported_weights declarations)))"

definition weight_phrase :: rx where
  "weight_phrase = ci (Seq (Alt (Seq (lit ''weight'') (opt (lit ''s''))) (lit ''strictly''))
     (rep 0 100 (Seq (Cls (\<lambda>c. c \<noteq> CHR ''.'' \<and> c \<noteq> CHR '';'' \<and> \<not> is_cont_byte c)) (Star (Cls is_cont_byte)))))"

definition declared_weights :: "str \<Rightarrow> str list" where
  "declared_weights notes = concat (map (\<lambda>m. rx_findall FONT_WEIGHT (m_text m)) (rx_finditer weight_phrase notes))"

definition CSS_IMPORT :: rx where
  "CSS_IMPORT =
     (let quoted = (\<lambda>q. seqs
        [lit [q], Grp 2 (Seq (ci (lit ''https://fonts.googleapis.com/css2?''))
           (plus1 (Cls (\<lambda>c. c \<noteq> CHR 0x27 \<and> c \<noteq> CHR 0x22)))), lit [q]])
      in seqs [Star (Cls is_space), ci (lit ''@import''), plus1 (Cls is_space), ci (lit ''url(''),
           Alt (quoted CHR 0x27) (quoted CHR 0x22), lit '');'', Star (Cls is_space)])"

definition typography_problems :: "row \<Rightarrow> str list option" where
  "typography_problems r =
     (let note = (\<lambda>msg. (''[typography:'' @ (field r ''Font Pairing Name'') @ ''] '' @ msg));
          url_families = font_families (field r ''Google Fonts URL'');
          families = map font_name url_families;
          configured = configured_font_names (field r ''Tailwind Config'');
          named = {field r ''Heading Font'', field r ''Body Font''};
          mismatch = when_bad (\<not> named \<subseteq> set families \<or> \<not> named \<subseteq> set configured)
            (note ''named/imported/configured fonts differ'')
      in case rx_fullmatch CSS_IMPORT (field r ''CSS Import'') of
           None \<Rightarrow> Some (mismatch @ [note ''invalid CSS Import''])
         | Some m \<Rightarrow>
             map_option (\<lambda>imported.
               let declared = declared_weights (field r ''Notes'');
                   missing = sorted_set (filter (\<lambda>w. w \<notin> set imported) declared)
               in mismatch @
                  when_bad (sort url_families \<noteq> sort (font_families (get_or (m_groups m) 2 [])))
                    (note ''Google URL and CSS Import differ'') @
                  when_bad (missing \<noteq> [])
                    (note ((''recommended weights not imported: '' @ (join '', '' missing)))))
               (imported_weights url_families))"

definition check_typography_contract :: "table \<Rightarrow> str list option" where
  "check_typography_contract rows = map_option concat (those (map typography_problems rows))"

subsection \<open>Icons, guidelines and claims\<close>

definition ICON_IMPORT :: rx where
  "ICON_IMPORT =
     (let ws = Star (Cls is_space); quote = Cls (\<lambda>c. c = CHR 0x27 \<or> c = CHR 0x22);
          name = Seq (Cls is_upper) (Star (Cls is_alnum))
      in seqs [lit ''import'', ws, lit ''{'', ws, name, Star (seqs [ws, lit '','', ws, name]), ws, lit ''}'', ws,
           lit ''from'', ws, quote,
           Alt (words_rx [''@phosphor-icons/react'', ''phosphor-react-native''])
             (Seq (lit ''@heroicons/react/24/'') (words_rx [''outline'', ''solid''])), quote])"

definition ICON_USAGE_REQUIREMENTS :: "rx list" where
  "ICON_USAGE_REQUIREMENTS = map ci
     [lit ''aria-hidden'', lit ''text alternative'', lit ''accessible name'',
      Seq (lit ''aria-'') (words_rx [''pressed'', ''expanded''])]"

text \<open>The code points from U+3400 to U+9FFF, in three bytes from E3 90 80 to E9 BF BF.\<close>

fun holds_han :: "str \<Rightarrow> bool" where
  "holds_han (a # c # s) =
     (code a = 227 \<and> 144 \<le> code c \<or> 228 \<le> code a \<and> code a \<le> 233 \<or> holds_han (c # s))"
| "holds_han _ = False"

definition icon_problems :: "row \<Rightarrow> str list" where
  "icon_problems r =
     (let note = (\<lambda>msg. (''[icons:'' @ (field r ''Icon Name'') @ ''] '' @ msg));
          role = field r ''Semantic Role''; usage = field r ''Usage''; imports = field r ''Import Code''
      in when_bad (role \<notin> set [''decorative'', ''meaningful'', ''interactive'', ''guideline''])
           (note ((''invalid Semantic Role '' @ [CHR 0x27] @ role @ [CHR 0x27]))) @
         when_bad (set (split_trim (field r ''Allowed Contexts'') CHR ''|'') \<noteq>
             set [''decorative'', ''meaningful'', ''interactive''])
           (note ''incomplete contextual semantics'') @
         when_bad (holds_han usage) (note ''Usage must use canonical English'') @
         when_bad (contains ''IconName'' imports \<or> \<not> rx_found ICON_IMPORT imports)
           (note ''invalid or placeholder icon import'') @
         when_bad (\<exists>rx \<in> set ICON_USAGE_REQUIREMENTS. \<not> rx_found rx usage)
           (note ''incomplete contextual accessibility guidance''))"

definition check_icon_contract :: "table \<Rightarrow> str list" where
  "check_icon_contract rows = concat (map icon_problems rows)"

definition REQUIRED_UX_GUIDANCE :: "str dict" where
  "REQUIRED_UX_GUIDANCE =
     [(''Focus Not Obscured (Minimum)'', ''Web''), (''Focus Not Obscured (Enhanced)'', ''Web''),
      (''Focus Appearance'', ''Web''), (''Dragging Movements'', ''All''), (''Target Size (Minimum)'', ''Web''),
      (''Consistent Help'', ''All''), (''Redundant Entry'', ''All''), (''Accessible Authentication (Minimum)'', ''All''),
      (''Auto-Rotating Content Controls'', ''All'')]"

definition ux_by_issue :: "table \<Rightarrow> row dict" where
  "ux_by_issue rows = foldl (\<lambda>d r. put (field r ''Issue'') r d) [] rows"

definition check_ux_contract :: "table \<Rightarrow> str list" where
  "check_ux_contract rows =
     (let by_issue = ux_by_issue rows in
      map (\<lambda>issue. (''[ux] missing WCAG 2.2 guidance '' @ [CHR 0x27] @ issue @ [CHR 0x27]))
        (sorted_set (filter (\<lambda>issue. \<not> has_key by_issue issue) (keys REQUIRED_UX_GUIDANCE))) @
      concat (map (\<lambda>(issue, platform).
        let r = get_or by_issue issue [] in
        when_bad (r \<noteq> [] \<and> (get r ''Platform'' \<noteq> Some platform \<or>
            get r ''Severity'' \<notin> set (map Some [''Medium'', ''High'', ''Critical''])))
          ((''[ux:'' @ issue @ ''] shifted or invalid semantic fields''))) REQUIRED_UX_GUIDANCE))"

text \<open>How an f-string shows a missing value.\<close>

definition shown :: "str option \<Rightarrow> str" where
  "shown v = (case v of None \<Rightarrow> ''None'' | Some s \<Rightarrow> s)"

definition row_words :: "row \<Rightarrow> str" where
  "row_words r = join '' '' (map snd r)"

definition check_motion_contract :: "table \<Rightarrow> str list" where
  "check_motion_contract rows =
     concat (map (\<lambda>r. when_bad (\<not> contains ''reduced-motion'' (lower (row_words r)) \<and>
         \<not> contains ''user-controlled'' (lower (row_words r)))
       ((''[motion:'' @ (shown (get r ''No'')) @ ''] missing explicit motion opt-out''))) rows)"

definition row_for_issue :: "table \<Rightarrow> str \<Rightarrow> row" where
  "row_for_issue rows issue =
     (case find (\<lambda>r. get r ''Issue'' = Some issue) rows of None \<Rightarrow> [] | Some r \<Rightarrow> r)"

definition check_app_interface_contract :: "table \<Rightarrow> str list" where
  "check_app_interface_contract rows =
     (let text' = row_words (row_for_issue rows ''Touch Target Size'') in
      when_bad (\<not> (contains ''44pt'' text' \<and> contains ''48dp'' text'))
        ''[web:Touch Target Size] must distinguish iOS 44pt and Android 48dp'')"

definition check_react_contract :: "table \<Rightarrow> str list" where
  "check_react_contract rows =
     (let effect_text = lower (row_words (row_for_issue rows ''Effect Events'')) in
      when_bad (contains ''useLatest'' (join [newline] (map row_words rows)))
        ''[react] unqualified community useLatest guidance is not allowed'' @
      when_bad (\<not> (contains ''inside effects'' effect_text \<and> contains ''dependencies'' effect_text))
        ''[react:Effect Events] current scope/dependency guidance is required'')"

definition LANDING_QUANTIFIED_CLAIM :: rx where
  "LANDING_QUANTIFIED_CLAIM = ci (Alt
     (seqs [WordB, plus1 (Cls is_digit), opt (Seq (lit ''.'') (plus1 (Cls is_digit))), lit ''x'', WordB])
     (seqs [WordB, words_rx [''increases'', ''increase'', ''reduces'', ''reduce''], plus1 (Cls is_space),
       words_rx [''engagement'', ''conversion'', ''returns'', ''return''], WordB]))"

definition check_landing_claims :: "table \<Rightarrow> str list" where
  "check_landing_claims rows =
     concat (map (\<lambda>r.
       let optimization = field r ''Conversion Optimization'' in
       when_bad (CHR ''%'' \<in> set optimization \<or> rx_found LANDING_QUANTIFIED_CLAIM optimization \<or>
           contains ''best conversion'' (lower optimization))
         ((''[landing:'' @ (shown (get r ''Pattern Name'')) @ ''] unsupported quantitative claim''))) rows)"

definition check_core_data_contract :: "table dict \<Rightarrow> str list option" where
  "check_core_data_contract tables =
     (let rows = (\<lambda>domain. get_or tables domain []) in
      map_option (\<lambda>typography.
        check_color_contract (rows ''color'') @ check_chart_contract (rows ''chart'') @ typography @
        check_icon_contract (rows ''icons'') @ check_ux_contract (rows ''ux'') @
        check_motion_contract (rows ''gsap'') @ check_app_interface_contract (rows ''web'') @
        check_react_contract (rows ''react'') @ check_landing_claims (rows ''landing''))
        (check_typography_contract (rows ''typography'')))"

subsection \<open>Landing pages\<close>

definition pattern_identities :: "row \<Rightarrow> str list" where
  "pattern_identities r =
     [field r ''Pattern ID'', field r ''Pattern Name''] @ split_trim (field r ''Aliases'') CHR ''|''"

definition pattern_ids_problems :: "table \<Rightarrow> str list" where
  "pattern_ids_problems landing =
     (let ids = map (\<lambda>r. field r ''Pattern ID'') landing in
      when_bad (\<not> distinct ids \<or> [] \<in> set ids) ''[landing] Pattern ID values must be non-empty and unique'')"

text \<open>A name keeps its first owner; a name whose owner has no pattern id counts as free.\<close>

definition claim_pattern :: "row \<Rightarrow> str option dict \<times> str list \<Rightarrow> str \<Rightarrow> str option dict \<times> str list" where
  "claim_pattern r acc identity =
     (case acc of (owners, problems) \<Rightarrow>
        let folded = lower (strip identity);
            owner = (case get owners folded of Some (Some x) \<Rightarrow> if x \<noteq> [] then Some x else None | _ \<Rightarrow> None) in
        if folded = [] then (owners, problems @ [''[landing] Pattern Name values must be non-empty''])
        else if owner \<noteq> None \<and> owner \<noteq> get r ''Pattern ID''
        then (owners, problems @
          [(''[landing] ambiguous identity '' @ [CHR 0x27] @ identity @ [CHR 0x27] @ '' -> '' @ (shown owner) @ '', '' @ (shown (get r ''Pattern ID'')))])
        else (put folded (get r ''Pattern ID'') owners, problems))"

definition landing_identity_problems :: "table \<Rightarrow> str list" where
  "landing_identity_problems landing =
     snd (foldl (\<lambda>acc r. foldl (claim_pattern r) acc (pattern_identities r)) ([], []) landing)"

definition numbered_rx :: rx where
  "numbered_rx = seqs [plus1 (Cls is_digit), lit ''.'', Cls is_space]"

definition section_order_problems :: "table \<Rightarrow> str list" where
  "section_order_problems landing =
     concat (map (\<lambda>r.
       let sections = split_sep '' > '' [] (field r ''Section Order'') in
       when_bad (length sections < 2 \<or> (\<exists>part \<in> set sections. rx_match numbered_rx part \<noteq> None))
         ((''[landing:'' @ (shown (get r ''Pattern Name'')) @ ''] invalid Section Order delimiter''))) landing)"

subsection \<open>The command\<close>

text \<open>The exit code and the lines, from the number of domain and stack files and the problems found.\<close>

definition validate_report :: "nat \<Rightarrow> nat \<Rightarrow> str list \<Rightarrow> nat \<times> str list" where
  "validate_report domains stacks problems =
     (if problems \<noteq> []
      then (1, (''FAILED: '' @ (str_of_nat (length problems)) @ '' data integrity issue(s) found:'' @ [CHR 0x0A]) # map (\<lambda>p. (''  - '' @ p)) problems)
      else (0, [(''OK: validated '' @ (str_of_nat domains) @ '' domain files, '' @ (str_of_nat stacks) @ '' stack files, and ui-reasoning.csv'')]))"

subsection \<open>Colours without problems\<close>

text \<open>On six digits the generator reads the same luminance as the validator.\<close>

lemma opaque_luminance_agrees:
  assumes "opaque_luminance v = Inr l"
  shows "relative_luminance (Some v) = Some l"
proof -
  from assms obtain a a' c c' d d' x x' y y' z z' where v: "v = [CHR ''#'', a, a', c, c', d, d']"
    and x: "hex_digit a = Some x" "hex_digit a' = Some x'" "hex_digit c = Some y" "hex_digit c' = Some y'"
      "hex_digit d = Some z" "hex_digit d' = Some z'"
    and l: "l = luminance_of (16 * x + x') (16 * y + y') (16 * z + z')"
    by (auto simp: opaque_luminance_def split: list.splits option.splits if_splits)
  have plain: "\<not> is_space h \<and> h \<noteq> CHR ''#'' \<and> \<not> is_cont_byte h" if "hex_digit h = Some n" for h n
    using that by (auto simp: hex_digit_def is_space_def is_digit_def is_cont_byte_def code_def split: if_splits)
  have "strip v = v" using plain [OF x(6)] by (simp add: v strip_by_def is_space_def code_def)
  moreover have "py_len [a, a', c, c', d, d'] = 6"
    using x [THEN plain] by (simp add: py_len_def)
  moreover have "dropWhile (\<lambda>c. c = CHR ''#'') v = [a, a', c, c', d, d']"
    using plain [OF x(1)] by (simp add: v)
  ultimately show ?thesis using x by (simp add: relative_luminance_def v int16_def l)
qed

lemma opaque_contrast_agrees:
  assumes "opaque_contrast f g = Inr x"
  shows "contrast_ratio (Some f) (Some g) = Some x"
proof -
  from assms obtain l l' where "opaque_luminance f = Inr l" "opaque_luminance g = Inr l'"
    "x = (max l l' + 5 / 100) / (min l l' + 5 / 100)"
    by (auto simp: opaque_contrast_def map_sum_def split: sum.splits)
  then show ?thesis by (simp add: contrast_ratio_def opaque_luminance_agrees)
qed

lemma color_contract_pairs:
  assumes "check_color_contract rows = []" "r \<in> set rows" "(f, g, role, minimum) \<in> set COLOR_CONTRAST_PAIRS"
  shows "\<exists>x. contrast_ratio (Some (field r f)) (Some (field r g)) = Some x \<and> minimum \<le> x + tolerance"
proof -
  from assms have "pair_problems r (f, g, role, minimum) = []" by (auto simp: check_color_contract_def)
  then obtain x where "opaque_contrast (field r f) (field r g) = Inr x" "minimum \<le> x + tolerance"
    by (cases "opaque_contrast (field r f) (field r g)") (auto simp: pair_problems_def Let_def)
  with opaque_contrast_agrees show ?thesis by blast
qed

end
