(* ===== verification/FileContracts.thy ===== *)
theory FileContracts
  imports DataContracts Urls
begin

text \<open>
  \<open>validate_data.py\<close>, the checks of the files themselves and of the stacks: columns, numbers, dates
  and the official addresses of the stacks. A check gives its problems; \<open>None\<close> is an exception that
  ends the command.
\<close>

subsection \<open>Dates\<close>

text \<open>The number of a day, counted from the first day of the year 1.\<close>

definition is_leap :: "int \<Rightarrow> bool" where
  "is_leap y \<longleftrightarrow> y mod 4 = 0 \<and> (y mod 100 \<noteq> 0 \<or> y mod 400 = 0)"

definition month_lengths :: "int \<Rightarrow> int list" where
  "month_lengths y = [31, if is_leap y then 29 else 28, 31, 30, 31, 30, 31, 31, 30, 31, 30, 31]"

definition days_before_year :: "int \<Rightarrow> int" where
  "days_before_year y = (let p = y - 1 in p * 365 + p div 4 - p div 100 + p div 400)"

definition day_number :: "int \<Rightarrow> int \<Rightarrow> int \<Rightarrow> int" where
  "day_number y m d = days_before_year y + sum_list (take (nat (m - 1)) (month_lengths y)) + d"

definition max_day :: int where
  "max_day = day_number 9999 12 31"

definition month_date :: "int \<Rightarrow> int \<Rightarrow> int \<Rightarrow> int option" where
  "month_date y m d =
     (if 1 \<le> y \<and> 1 \<le> m \<and> m \<le> 12 \<and> 1 \<le> d \<and> d \<le> month_lengths y ! nat (m - 1) then Some (day_number y m d) else None)"

text \<open>The first Monday of the weeks of a year; the remainder counts days from Monday.\<close>

definition first_monday :: "int \<Rightarrow> int" where
  "first_monday y =
     (let first = day_number y 1 1; weekday = (first + 6) mod 7
      in if weekday > 3 then first - weekday + 7 else first - weekday)"

definition long_year :: "int \<Rightarrow> bool" where
  "long_year y \<longleftrightarrow> (let weekday = day_number y 1 1 mod 7 in weekday = 4 \<or> weekday = 3 \<and> is_leap y)"

definition week_date :: "int \<Rightarrow> int \<Rightarrow> int \<Rightarrow> int option" where
  "week_date y w d =
     (let n = first_monday y + (w - 1) * 7 + (d - 1) in
      if 1 \<le> y \<and> 1 \<le> w \<and> (w < 53 \<or> w = 53 \<and> long_year y) \<and> 1 \<le> d \<and> d \<le> 7 \<and> 1 \<le> n \<and> n \<le> max_day
      then Some n else None)"

definition digits_at :: "str \<Rightarrow> nat \<Rightarrow> nat \<Rightarrow> int option" where
  "digits_at s i n =
     (let t = take n (drop i s) in
      if length t = n \<and> list_all is_digit t then Some (foldl (\<lambda>v c. 10 * v + (int (code c) - 48)) 0 t) else None)"

definition date_parts :: "(int \<Rightarrow> int \<Rightarrow> int \<Rightarrow> int option) \<Rightarrow> int option \<Rightarrow> int option \<Rightarrow> int option \<Rightarrow> int option" where
  "date_parts f y m d = (case (y, m, d) of (Some y', Some m', Some d') \<Rightarrow> f y' m' d' | _ \<Rightarrow> None)"

text \<open>\<open>date.fromisoformat\<close> since Python 3.11, as the number of the day.\<close>

definition from_isoformat :: "str \<Rightarrow> int option" where
  "from_isoformat s =
     (let year = digits_at s 0 4 in
      if length s = 10 \<and> s ! 4 = CHR ''-'' then
        (if s ! 5 = CHR ''W''
         then if s ! 8 = CHR ''-'' then date_parts week_date year (digits_at s 6 2) (digits_at s 9 1) else None
         else if s ! 7 = CHR ''-'' then date_parts month_date year (digits_at s 5 2) (digits_at s 8 2) else None)
      else if length s = 8 \<and> s ! 4 = CHR ''-'' then
        (if s ! 5 = CHR ''W'' then date_parts week_date year (digits_at s 6 2) (Some 1) else None)
      else if length s = 8 then
        (if s ! 4 = CHR ''W'' then date_parts week_date year (digits_at s 5 2) (digits_at s 7 1)
         else date_parts month_date year (digits_at s 4 2) (digits_at s 6 2))
      else if length s = 7 \<and> s ! 4 = CHR ''W'' then date_parts week_date year (digits_at s 5 2) (Some 1)
      else None)"

definition valid_date :: "int \<Rightarrow> str \<Rightarrow> bool" where
  "valid_date today v = (case from_isoformat v of Some n \<Rightarrow> n \<le> today | None \<Rightarrow> False)"

lemma dates_read:
  "map from_isoformat [''2026-08-13'', ''2026-W33-4'', ''2026W334'', ''20260813'', ''2020-W53-5''] =
     map Some [739841, 739841, 739841, 739841, 737791]"
  "from_isoformat ''2021-W53-5'' = None" "from_isoformat ''2021-02-29'' = None"
  by code_simp+

text \<open>The numbers are in the order of the calendar.\<close>

lemma div_pred:
  assumes "0 < k"
  shows "y div k = (y - 1) div k + (if y mod k = 0 then 1 else (0 :: int))"
proof (cases "y mod k = 0")
  case True
  then have "y - 1 = k * (y div k - 1) + (k - 1)" by (metis add.right_neutral mult_div_mod_eq add_diff_eq diff_add_cancel
      right_diff_distrib mult.right_neutral)
  then have "(y - 1) div k = y div k - 1" by (rule int_div_pos_eq) (use assms in simp_all)
  with True show ?thesis by simp
next
  case False
  have "y - 1 = k * (y div k) + (y mod k - 1)" by (simp add: add_diff_eq)
  moreover have "0 \<le> y mod k - 1" "y mod k - 1 < k"
    using False assms pos_mod_bound [of k y] pos_mod_sign [of k y] by linarith+
  ultimately have "(y - 1) div k = y div k" by (rule int_div_pos_eq)
  with False show ?thesis by simp
qed

lemma year_step: "days_before_year (y + 1) = days_before_year y + 365 + (if is_leap y then 1 else 0)"
proof -
  have dvds: "y mod 400 = 0 \<longrightarrow> y mod 100 = 0" "y mod 100 = 0 \<longrightarrow> y mod 4 = 0"
    by (auto simp: mod_eq_0_iff_dvd elim!: dvd_trans [rotated])
  have next_year: "days_before_year (y + 1) = y * 365 + y div 4 - y div 100 + y div 400"
    by (simp add: days_before_year_def)
  have this_year: "days_before_year y = (y - 1) * 365 + (y - 1) div 4 - (y - 1) div 100 + (y - 1) div 400"
    by (simp add: days_before_year_def Let_def)
  have quotients: "y div 4 = (y - 1) div 4 + (if y mod 4 = 0 then 1 else 0)"
    "y div 100 = (y - 1) div 100 + (if y mod 100 = 0 then 1 else 0)"
    "y div 400 = (y - 1) div 400 + (if y mod 400 = 0 then 1 else 0)"
    by (rule div_pred, simp)+
  have sums: "y * 365 + (p + a) - (q + c) + (r + d) = (y - 1) * 365 + p - q + r + 365 + (a - c + d)" for p q r a c d :: int
    by simp
  have leap: "(if y mod 4 = 0 then 1 else 0) - (if y mod 100 = 0 then 1 else 0) + (if y mod 400 = 0 then 1 else 0 :: int) =
      (if is_leap y then 1 else 0)"
    using dvds unfolding is_leap_def
    by (cases "y mod 4 = 0"; cases "y mod 100 = 0"; cases "y mod 400 = 0")
      (simp_all only: simp_thms if_True if_False diff_0_right diff_self add_0_right add_0_left)
  show ?thesis
    unfolding next_year this_year quotients sums leap by (rule refl)
qed

lemma year_length: "sum_list (month_lengths y) = 365 + (if is_leap y then 1 else 0)"
  by (simp add: month_lengths_def)

lemma years_in_order: "y \<le> y' \<Longrightarrow> days_before_year y \<le> days_before_year y'"
  by (induction y' rule: int_ge_induct) (auto simp: year_step)

lemma month_lengths_positive: "list_all (\<lambda>n. 0 < n) (month_lengths y)"
  by (simp add: month_lengths_def)

lemma sum_take_step: "i < length xs \<Longrightarrow> sum_list (take (Suc i) xs) = sum_list (take i xs) + (xs ! i :: int)"
  by (simp add: take_Suc_conv_app_nth)

lemma sum_take_mono:
  assumes "list_all (\<lambda>n. 0 < n) xs" and "i \<le> j"
  shows "sum_list (take i xs) \<le> sum_list (take j (xs :: int list))"
proof -
  from assms(2) obtain k where j: "j = i + k" by (auto simp: le_iff_add)
  have "0 \<le> sum_list (take k (drop i xs))"
    using assms(1) by (intro sum_list_nonneg) (auto simp: list_all_iff dest!: in_set_takeD in_set_dropD)
  then show ?thesis by (simp add: j take_add)
qed

lemma date_within_year:
  assumes "month_date y m d = Some n"
  shows "days_before_year y < n \<and> n \<le> days_before_year (y + 1)"
proof -
  let ?ls = "month_lengths y" and ?i = "nat (m - 1)"
  from assms have n: "n = days_before_year y + sum_list (take ?i ?ls) + d" and d: "1 \<le> d" "d \<le> ?ls ! ?i"
    and i: "?i < length ?ls"
    by (auto simp: month_date_def day_number_def month_lengths_def split: if_splits)
  have "0 \<le> sum_list (take ?i ?ls)"
    using sum_take_mono [OF month_lengths_positive, of 0 ?i y] by simp
  moreover have "sum_list (take (Suc ?i) ?ls) \<le> sum_list ?ls"
    using sum_take_mono [OF month_lengths_positive, of "Suc ?i" "length ?ls" y] i by simp
  ultimately show ?thesis
    using n d sum_take_step [OF i] by (simp add: year_step year_length)
qed

lemma dates_in_order:
  assumes "month_date y m d = Some n" and "month_date y' m' d' = Some n'"
    and "y < y' \<or> y = y' \<and> (m < m' \<or> m = m' \<and> d < d')"
  shows "n < n'"
  using assms(3)
proof (elim disjE conjE)
  assume "y < y'"
  with years_in_order [of "y + 1" y'] date_within_year [OF assms(1)] date_within_year [OF assms(2)]
  show ?thesis by simp
next
  assume y: "y = y'" and m: "m < m'"
  let ?ls = "month_lengths y" and ?i = "nat (m - 1)" and ?j = "nat (m' - 1)"
  from assms y have n: "n = days_before_year y + sum_list (take ?i ?ls) + d" "n' = days_before_year y + sum_list (take ?j ?ls) + d'"
    and d: "d \<le> ?ls ! ?i" "1 \<le> d'" and i: "?i < length ?ls" and j: "Suc ?i \<le> ?j"
    using m by (auto simp: month_date_def day_number_def month_lengths_def split: if_splits)
  have "sum_list (take (Suc ?i) ?ls) \<le> sum_list (take ?j ?ls)" by (rule sum_take_mono [OF month_lengths_positive j])
  with n d sum_take_step [OF i] show ?thesis by simp
next
  assume "y = y'" "m = m'" "d < d'"
  with assms show ?thesis by (auto simp: month_date_def day_number_def split: if_splits)
qed

subsection \<open>Files\<close>

text \<open>
  The data directory, the CSV and JSON files in it (\<open>None\<close> where there is none), the day of the run, and
  the texts of exceptions and of values.
\<close>

record data_env =
  de_dir :: str
  de_csv :: "str \<Rightarrow> (load_error + str list \<times> table) option"
  de_text :: "str \<Rightarrow> str option"
  de_today :: int
  de_ipv6 :: "str \<Rightarrow> bool"
  de_csv_error :: "str \<Rightarrow> load_error \<Rightarrow> str"
  de_json_error :: "str \<Rightarrow> str"
  de_rule_error :: "str \<Rightarrow> rule_error \<Rightarrow> str"
  de_repr :: "json \<Rightarrow> str"

definition name_of :: "str \<Rightarrow> str" where
  "name_of file = last (split_on (\<lambda>c. c = CHR ''/'') file)"

text \<open>Numbers that an earlier row has, with the rows counted as in the file.\<close>

fun number_problems :: "str \<Rightarrow> str \<Rightarrow> nat \<Rightarrow> nat dict \<Rightarrow> table \<Rightarrow> str list" where
  "number_problems label file i seen [] = []"
| "number_problems label file i seen (r # rs) =
     (let key = field r ''No'' in
      case get seen key of
        Some j \<Rightarrow>
          (''['' @ label @ ''] '' @ (name_of file) @ '': duplicate '' @ [CHR 0x27] @ ''No'' @ [CHR 0x27] @ '' value '' @ [CHR 0x27] @ key @ [CHR 0x27] @ '' on rows '' @ (str_of_nat j) @ '' and '' @ (str_of_nat i)) #
          number_problems label file (Suc i) seen rs
      | None \<Rightarrow> number_problems label file (Suc i) (put key i seen) rs)"

text \<open>The order in which Python goes through a set of columns is not fixed; here it is that of the lists.\<close>

definition column_problems :: "str \<Rightarrow> str \<Rightarrow> str list \<Rightarrow> str list \<Rightarrow> str list" where
  "column_problems label file headers cols =
     map (\<lambda>col. (''['' @ label @ ''] '' @ (name_of file) @ '': expected column '' @ [CHR 0x27] @ col @ [CHR 0x27] @ '' not found in header''))
       (filter (\<lambda>col. col \<notin> set headers) (remdups cols))"

definition check_file ::
  "data_env \<Rightarrow> str \<Rightarrow> str \<Rightarrow> str list \<Rightarrow> str list \<Rightarrow> str list \<times> (str list \<times> table) option" where
  "check_file env label file scols ocols =
     (case de_csv env file of
        None \<Rightarrow> ([(''['' @ label @ ''] missing file: '' @ (de_dir env) @ ''/'' @ file)], None)
      | Some (Inl e) \<Rightarrow> ([(''['' @ label @ ''] failed to parse '' @ (name_of file) @ '': '' @ (de_csv_error env file e))], None)
      | Some (Inr (headers, rows)) \<Rightarrow>
          (column_problems label file headers (scols @ ocols) @
           (if ''No'' \<in> set headers then number_problems label file 2 [] rows
            else when_bad (starts_with ''stack:'' label)
              ((''['' @ label @ ''] '' @ (name_of file) @ '': missing '' @ [CHR 0x27] @ ''No'' @ [CHR 0x27] @ '' index column present in other stack files (schema drift -- harmless for search, but inconsistent with the rest of data/stacks/)''))),
           Some (headers, rows)))"

definition or_empty :: "(str list \<times> table) option \<Rightarrow> str list \<times> table" where
  "or_empty found = (case found of None \<Rightarrow> ([], []) | Some p \<Rightarrow> p)"

subsection \<open>Stacks\<close>

definition STACK_STATUSES :: "str list" where
  "STACK_STATUSES = STYLE_STATUSES @ [''unverified'']"

definition STACK_OFFICIAL_HOSTS :: "str list dict" where
  "STACK_OFFICIAL_HOSTS =
     [(''react'', [''react.dev'']), (''nextjs'', [''nextjs.org'']), (''vue'', [''vuejs.org'', ''pinia.vuejs.org'']),
      (''svelte'', [''svelte.dev'', ''kit.svelte.dev'']), (''astro'', [''docs.astro.build'']),
      (''angular'', [''angular.dev'']), (''html-tailwind'', [''tailwindcss.com'']),
      (''shadcn'', [''ui.shadcn.com'']), (''nuxtjs'', [''nuxt.com'']), (''nuxt-ui'', [''ui.nuxt.com'']),
      (''react-native'', [''reactnative.dev'', ''react.dev'']),
      (''flutter'', [''api.flutter.dev'', ''docs.flutter.dev'']), (''swiftui'', [''developer.apple.com'']),
      (''jetpack-compose'', [''developer.android.com'']), (''avalonia'', [''docs.avaloniaui.net'']),
      (''uwp'', [''learn.microsoft.com'']), (''winui'', [''learn.microsoft.com'']),
      (''wpf'', [''learn.microsoft.com'']), (''uno'', [''platform.uno'']),
      (''javafx'', [''openjfx.io'', ''mkpaz.github.io'', ''www.w3.org'']),
      (''threejs'', [''threejs.org'', ''github.com'', ''www.npmjs.com'', ''www.w3.org'']),
      (''laravel'', [''laravel.com''])]"

definition freshness_problems :: "str \<Rightarrow> row \<Rightarrow> str list" where
  "freshness_problems stack r =
     (let note = (\<lambda>msg. (''[stack:'' @ stack @ '':'' @ (get_or r ''No'' ''?'') @ ''] '' @ msg));
          status = field r ''Status'';
          applies_to = lower (strip (field r ''Applies To''));
          expected = field STACK_CURRENT_APPLICABILITY stack
      in (if applies_to = [] \<or> \<not> starts_with stack applies_to then [note ((''Applies To must start with '' @ [CHR 0x27] @ stack @ [CHR 0x27]))]
          else when_bad (status = ''active'' \<and> \<not> starts_with expected applies_to) (note ((''Applies To must target '' @ [CHR 0x27] @ expected @ [CHR 0x27])))) @
         (if status = ''active'' then when_bad (contains ''legacy'' applies_to) (note ''active row cannot target legacy versions'')
          else if status = ''deprecated'' \<and> \<not> contains ''legacy'' applies_to
          then [note ''deprecated row must be visibly legacy'']
          else when_bad (status = ''unverified'') (note ''curated stack row cannot remain unverified'')))"

definition severity_problems :: "data_env \<Rightarrow> str \<Rightarrow> row \<Rightarrow> str list option" where
  "severity_problems env stack r =
     (let note = (\<lambda>msg. (''[stack:'' @ stack @ '':'' @ (get_or r ''No'' ''?'') @ ''] '' @ msg)) in
      if field r ''Severity'' \<notin> {''Critical'', ''High''} then Some []
      else map_option (\<lambda>u.
        when_bad (su_scheme u \<noteq> ''https'' \<or> (case url_hostname u of None \<Rightarrow> True | Some h \<Rightarrow> h \<notin> set (get_or STACK_OFFICIAL_HOSTS stack [])))
          (note ''Critical/High row requires an official Docs URL'') @
        when_bad (\<not> valid_date (de_today env) (field r ''Verified At'')) (note ''Critical/High row requires ISO Verified At''))
        (url_split (de_ipv6 env) (field r ''Docs URL'')))"

definition check_stack_freshness_contract :: "data_env \<Rightarrow> str \<Rightarrow> table \<Rightarrow> str list option" where
  "check_stack_freshness_contract env stack rows =
     (if \<not> has_key STACK_OFFICIAL_HOSTS stack then Some []
      else map_option (\<lambda>problems.
        concat problems @
        when_bad (\<not> (\<exists>r \<in> set rows. field r ''Status'' = ''active'') \<and> stack \<noteq> ''uwp'')
          ((''[stack:'' @ stack @ ''] requires at least one active current row'')))
        (those (map (\<lambda>r. map_option (\<lambda>ps. freshness_problems stack r @ ps) (severity_problems env stack r)) rows)))"

definition CONTRACT_FIELDS :: "str list" where
  "CONTRACT_FIELDS = [''Applies To'', ''Status'', ''Verified At'']"

text \<open>The \<open>repr\<close> of a list of names.\<close>

definition name_list :: "str list \<Rightarrow> str" where
  "name_list names = ''['' @ join '', '' (map (\<lambda>n. [CHR 0x27] @ n @ [CHR 0x27]) names) @ '']''"

definition status_problems :: "data_env \<Rightarrow> str \<Rightarrow> row \<Rightarrow> str list" where
  "status_problems env stack r =
     (let status = field r ''Status'' in
      when_bad (status \<notin> set STACK_STATUSES) ((''[stack:'' @ stack @ ''] invalid Status '' @ [CHR 0x27] @ status @ [CHR 0x27])) @
      when_bad (status \<noteq> ''unverified'' \<and> \<not> valid_date (de_today env) (field r ''Verified At''))
        ((''[stack:'' @ stack @ ''] active rows require ISO Verified At'')))"

definition check_stack :: "data_env \<Rightarrow> str \<times> str \<Rightarrow> str list option" where
  "check_stack env entry =
     (case entry of (stack, file) \<Rightarrow>
        case check_file env ((''stack:'' @ stack)) file STACK_SEARCH_COLS STACK_OUTPUT_COLS of
          (problems, found) \<Rightarrow>
            let (headers, rows) = or_empty found;
                missing = filter (\<lambda>f. f \<notin> set headers) CONTRACT_FIELDS
            in map_option (\<lambda>freshness.
                 problems @
                 when_bad (headers \<noteq> [] \<and> missing \<noteq> []) ((''[stack:'' @ stack @ ''] missing contract fields '' @ (name_list missing))) @
                 concat (map (status_problems env stack) rows) @ freshness)
               (check_stack_freshness_contract env stack rows))"

definition check_stacks :: "data_env \<Rightarrow> str list option" where
  "check_stacks env = map_option concat (those (map (check_stack env) STACK_CONFIG))"

definition check_domain :: "data_env \<Rightarrow> str \<times> domain_config \<Rightarrow> str list \<times> table" where
  "check_domain env entry =
     (case entry of (domain, config) \<Rightarrow>
        apsnd (\<lambda>found. snd (or_empty found))
          (check_file env ((''domain:'' @ domain)) (cfg_file config) (search_cols config) (output_cols config)))"

definition check_domains :: "data_env \<Rightarrow> str list \<times> table dict" where
  "check_domains env =
     (concat (map (\<lambda>e. fst (check_domain env e)) CSV_CONFIG), map (\<lambda>e. (fst e, snd (check_domain env e))) CSV_CONFIG)"

definition REASONING_FILE :: str where
  "REASONING_FILE = ''ui-reasoning.csv''"

definition check_reasoning_file :: "data_env \<Rightarrow> str list \<times> table" where
  "check_reasoning_file env =
     (if de_csv env REASONING_FILE = None then ([(''[reasoning] missing file: '' @ (de_dir env) @ ''/'' @ REASONING_FILE)], [])
      else apsnd (\<lambda>found. snd (or_empty found))
        (check_file env ''reasoning'' REASONING_FILE [''UI_Category''] [''UI_Category'', ''Decision_Rules'', ''Reasoning'', ''Confidence'']))"

subsection \<open>Stacks without problems\<close>

lemma those_Some: "those xs = Some ys \<Longrightarrow> length ys = length xs \<and> (\<forall>i < length xs. xs ! i = Some (ys ! i))"
proof (induction xs arbitrary: ys)
  case (Cons x xs)
  then show ?case by (auto split: option.splits simp: nth_Cons split: nat.split)
qed simp

lemma those_concat_Nil:
  assumes "those (map f xs) = Some yss" and "concat yss = []" and "x \<in> set xs"
  shows "f x = Some []"
proof -
  from assms(3) obtain i where i: "i < length xs" "xs ! i = x" by (auto simp: in_set_conv_nth)
  with those_Some [OF assms(1)] have "f x = Some (yss ! i)" "i < length yss" by auto
  with assms(2) show ?thesis by simp
qed

lemma freshness_sound:
  assumes "check_stack_freshness_contract env stack rows = Some []" and "has_key STACK_OFFICIAL_HOSTS stack"
  shows "(stack \<noteq> ''uwp'' \<longrightarrow> (\<exists>r \<in> set rows. field r ''Status'' = ''active'')) \<and>
    (\<forall>r \<in> set rows. freshness_problems stack r = [] \<and> severity_problems env stack r = Some [])"
proof -
  from assms obtain yss where
    yss: "those (map (\<lambda>r. map_option (\<lambda>ps. freshness_problems stack r @ ps) (severity_problems env stack r)) rows) = Some yss"
      "concat yss = []" and "stack \<noteq> ''uwp'' \<longrightarrow> (\<exists>r \<in> set rows. field r ''Status'' = ''active'')"
    by (auto simp: check_stack_freshness_contract_def when_bad_def split: if_splits)
  with those_concat_Nil [OF yss] show ?thesis by fastforce
qed

lemma fresh_row:
  assumes "freshness_problems stack r = []"
  shows "starts_with stack (lower (strip (field r ''Applies To'')))"
    and "field r ''Status'' = ''active'' \<Longrightarrow>
      starts_with (field STACK_CURRENT_APPLICABILITY stack) (lower (strip (field r ''Applies To''))) \<and>
      \<not> contains ''legacy'' (lower (strip (field r ''Applies To'')))"
    and "field r ''Status'' = ''deprecated'' \<Longrightarrow> contains ''legacy'' (lower (strip (field r ''Applies To'')))"
  using assms by (simp_all add: freshness_problems_def Let_def when_bad_def split: if_splits)

lemma check_stack_sound:
  assumes "check_stack env (stack, file) = Some []" and "de_csv env file = Some (Inr (headers, rows))"
  shows "check_stack_freshness_contract env stack rows = Some []"
  using assms by (auto simp: check_stack_def check_file_def or_empty_def Let_def)
end
