(* ===== verification/Sha256.thy ===== *)
theory Sha256
  imports PyBase "HOL-Library.Word"
begin

text \<open>
  \<open>hashlib.sha256\<close>, which the snapshots of the catalogues are checked with: words of 32 bits, whose sums
  wrap around.
\<close>

unbundle bit_operations_syntax

type_synonym word32 = "32 word"

definition round_constants :: "word32 list" where
  "round_constants =
     [1116352408, 1899447441, 3049323471, 3921009573, 961987163, 1508970993, 2453635748, 2870763221, 3624381080,
      310598401, 607225278, 1426881987, 1925078388, 2162078206, 2614888103, 3248222580, 3835390401, 4022224774,
      264347078, 604807628, 770255983, 1249150122, 1555081692, 1996064986, 2554220882, 2821834349, 2952996808,
      3210313671, 3336571891, 3584528711, 113926993, 338241895, 666307205, 773529912, 1294757372, 1396182291,
      1695183700, 1986661051, 2177026350, 2456956037, 2730485921, 2820302411, 3259730800, 3345764771, 3516065817,
      3600352804, 4094571909, 275423344, 430227734, 506948616, 659060556, 883997877, 958139571, 1322822218,
      1537002063, 1747873779, 1955562222, 2024104815, 2227730452, 2361852424, 2428436474, 2756734187, 3204031479,
      3329325298]"

type_synonym state8 = "word32 \<times> word32 \<times> word32 \<times> word32 \<times> word32 \<times> word32 \<times> word32 \<times> word32"

definition initial_hash :: state8 where
  "initial_hash =
     (1779033703, 3144134277, 1013904242, 2773480762, 1359893119, 2600822924, 528734635, 1541459225)"

definition rotr :: "nat \<Rightarrow> word32 \<Rightarrow> word32" where
  "rotr n x = drop_bit n x OR push_bit (32 - n) x"

definition small_sigma0 :: "word32 \<Rightarrow> word32" where
  "small_sigma0 x = rotr 7 x XOR rotr 18 x XOR drop_bit 3 x"

definition small_sigma1 :: "word32 \<Rightarrow> word32" where
  "small_sigma1 x = rotr 17 x XOR rotr 19 x XOR drop_bit 10 x"

definition big_sigma0 :: "word32 \<Rightarrow> word32" where
  "big_sigma0 x = rotr 2 x XOR rotr 13 x XOR rotr 22 x"

definition big_sigma1 :: "word32 \<Rightarrow> word32" where
  "big_sigma1 x = rotr 6 x XOR rotr 11 x XOR rotr 25 x"

definition choose_bits :: "word32 \<Rightarrow> word32 \<Rightarrow> word32 \<Rightarrow> word32" where
  "choose_bits x y z = (x AND y) XOR (NOT x AND z)"

definition majority :: "word32 \<Rightarrow> word32 \<Rightarrow> word32 \<Rightarrow> word32" where
  "majority x y z = (x AND y) XOR (x AND z) XOR (y AND z)"

definition byte_word :: "char \<Rightarrow> char \<Rightarrow> char \<Rightarrow> char \<Rightarrow> word32" where
  "byte_word a b c d = push_bit 24 (of_char a) OR push_bit 16 (of_char b) OR push_bit 8 (of_char c) OR of_char d"

fun words_of :: "str \<Rightarrow> word32 list" where
  "words_of (a # b # c # d # s) = byte_word a b c d # words_of s"
| "words_of _ = []"

text \<open>A one, zeros, and the length in bits as the last eight bytes of a block of 64.\<close>

definition length_bytes :: "64 word \<Rightarrow> str" where
  "length_bytes n = map (\<lambda>i. char_of (unat (drop_bit i n AND 255))) [56, 48, 40, 32, 24, 16, 8, 0]"

definition padded :: "str \<Rightarrow> str" where
  "padded s =
     (let n = length s in s @ [CHR 0x80] @ replicate ((119 - n mod 64) mod 64) (char_of (0 :: nat)) @ length_bytes (of_nat (8 * n)))"

fun chunks :: "nat \<Rightarrow> 'a list \<Rightarrow> 'a list list" where
  "chunks n [] = []"
| "chunks n (x # xs) = (if n = 0 then [] else take n (x # xs) # chunks n (drop n (x # xs)))"

text \<open>The schedule in reverse order, the newest word first.\<close>

fun schedule :: "nat \<Rightarrow> word32 list \<Rightarrow> word32 list" where
  "schedule 0 ws = ws"
| "schedule (Suc n) ws = schedule n ((small_sigma1 (ws ! 1) + ws ! 6 + small_sigma0 (ws ! 14) + ws ! 15) # ws)"

definition sha_round :: "state8 \<Rightarrow> word32 \<times> word32 \<Rightarrow> state8" where
  "sha_round st kw =
     (case st of (a, b, c, d, e, f, g, h) \<Rightarrow>
        let t1 = h + big_sigma1 e + choose_bits e f g + fst kw + snd kw; t2 = big_sigma0 a + majority a b c
        in (t1 + t2, a, b, c, d + t1, e, f, g))"

definition digest_block :: "state8 \<Rightarrow> word32 list \<Rightarrow> state8" where
  "digest_block st ws =
     (case (st, foldl sha_round st (zip round_constants (rev (schedule 48 (rev ws))))) of
        ((a, b, c, d, e, f, g, h), (a', b', c', d', e', f', g', h')) \<Rightarrow>
          (a + a', b + b', c + c', d + d', e + e', f + f', g + g', h + h'))"

definition hex_word :: "word32 \<Rightarrow> str" where
  "hex_word w = map (\<lambda>i. ''0123456789abcdef'' ! unat (drop_bit i w AND 15)) [28, 24, 20, 16, 12, 8, 4, 0]"

definition sha256_hex :: "str \<Rightarrow> str" where
  "sha256_hex s =
     (case foldl digest_block initial_hash (chunks 16 (words_of (padded s))) of
        (a, b, c, d, e, f, g, h) \<Rightarrow> concat (map hex_word [a, b, c, d, e, f, g, h]))"

subsection \<open>Whole blocks\<close>

lemma length_padded: "length (padded s) mod 64 = 0"
proof -
  let ?n = "length s"
  have "(r + (1 + (119 - r) mod 64 + 8)) mod 64 = 0" if "r < 64" for r :: nat
  proof (cases "r \<le> 55")
    case True
    then have "119 - r = 55 - r + 64" by simp
    then have "(119 - r) mod 64 = (55 - r + 64) mod 64" by (rule arg_cong)
    also have "\<dots> = (55 - r) mod 64" by (rule mod_add_self2)
    also have "\<dots> = 55 - r" by (rule mod_less) linarith
    finally have "r + (1 + (119 - r) mod 64 + 8) = 64" using True by linarith
    then show ?thesis by (simp only: mod_self)
  next
    case False
    with that have "(119 - r) mod 64 = 119 - r" by (intro mod_less) linarith
    with that False have "r + (1 + (119 - r) mod 64 + 8) = 2 * 64" by linarith
    then show ?thesis by (simp only: mod_mult_self2_is_0)
  qed
  from this [of "?n mod 64"] have "(?n + (1 + (119 - ?n mod 64) mod 64 + 8)) mod 64 = 0"
    by (metis mod_add_left_eq mod_less_divisor zero_less_numeral)
  then show ?thesis by (simp add: padded_def length_bytes_def Let_def add.left_commute)
qed

lemma length_words_of: "length (words_of s) = length s div 4"
  by (induction s rule: words_of.induct) auto

lemma chunk_lengths: "0 < n \<Longrightarrow> length xs mod n = 0 \<Longrightarrow> list_all (\<lambda>c. length c = n) (chunks n xs)"
proof (induction n xs rule: chunks.induct)
  case (2 n x xs)
  from 2(3) obtain k where k: "length (x # xs) = n * k" by (auto simp: mod_eq_0_iff_dvd elim: dvdE)
  with 2(2) obtain j where "k = Suc j" by (cases k) auto
  with k have "length (x # xs) = n + n * j" by simp
  with 2 show ?case by simp
qed simp

lemma blocks_whole: "list_all (\<lambda>c. length c = 16) (chunks 16 (words_of (padded s)))"
proof (rule chunk_lengths)
  from length_padded [of s] obtain k where "length (padded s) = 64 * k" by (auto simp: mod_eq_0_iff_dvd elim: dvdE)
  then show "length (words_of (padded s)) mod 16 = 0" by (simp add: length_words_of)
qed simp

lemma sha256_hex_length: "length (sha256_hex s) = 64"
  by (simp add: sha256_hex_def hex_word_def split: prod.split)

end
