(* ===== verification/CatalogContracts.thy ===== *)
theory CatalogContracts
  imports FileContracts PyJson Sha256
begin

text \<open>
  \<open>validate_data.py\<close>, the checks of the catalogues that are JSON files: licences of fonts, the snapshot of
  icons and the summary of all data. The values are those of JSON, of any type; \<open>None\<close> is an exception
  that ends the command.
\<close>

subsection \<open>Values\<close>

definition num_of :: "json \<Rightarrow> real option" where
  "num_of j =
     (case j of JNumber s \<Rightarrow> float_of s | JBool t \<Rightarrow> Some (if t then 1 else 0) | _ \<Rightarrow> None)"

text \<open>\<open>==\<close> on values: numbers by their value, \<open>True\<close> as one, dicts whatever the order of their keys.\<close>

fun py_equal :: "json \<Rightarrow> json \<Rightarrow> bool"
  and py_equal_list :: "json list \<Rightarrow> json list \<Rightarrow> bool"
  and py_equal_entries :: "(str \<times> json) list \<Rightarrow> (str \<times> json) list \<Rightarrow> bool" where
  "py_equal (JString s) j = (j = JString s)"
| "py_equal JNull j = (j = JNull)"
| "py_equal (JArray xs) j = (case j of JArray ys \<Rightarrow> py_equal_list xs ys | _ \<Rightarrow> False)"
| "py_equal (JObject d) j = (case j of JObject e \<Rightarrow> length d = length e \<and> py_equal_entries d e | _ \<Rightarrow> False)"
| "py_equal (JBool t) j = (num_of j = Some (if t then 1 else 0))"
| "py_equal (JNumber s) j = (num_of j \<noteq> None \<and> num_of j = float_of s)"
| "py_equal_list [] ys = (ys = [])"
| "py_equal_list (x # xs) ys = (case ys of [] \<Rightarrow> False | y # ys' \<Rightarrow> py_equal x y \<and> py_equal_list xs ys')"
| "py_equal_entries [] e = True"
| "py_equal_entries ((k, v) # d) e = ((case get e k of None \<Rightarrow> False | Some w \<Rightarrow> py_equal v w) \<and> py_equal_entries d e)"

definition hashable :: "json \<Rightarrow> bool" where
  "hashable j = (case j of JArray _ \<Rightarrow> False | JObject _ \<Rightarrow> False | _ \<Rightarrow> True)"

definition among :: "json \<Rightarrow> json list \<Rightarrow> bool" where
  "among j js \<longleftrightarrow> (\<exists>x \<in> set js. py_equal j x)"

definition entry_of :: "json \<Rightarrow> str \<Rightarrow> json" where
  "entry_of j key = (case j of JObject d \<Rightarrow> py_get d key | _ \<Rightarrow> JNull)"

definition dict_or_empty :: "json \<Rightarrow> json dict" where
  "dict_or_empty j = (case j of JObject d \<Rightarrow> d | _ \<Rightarrow> [])"

definition say :: "data_env \<Rightarrow> json \<Rightarrow> str" where
  "say env j = str_of_json (de_repr env) j"

text \<open>A loop whose steps may raise.\<close>

fun fold_checks :: "('a \<Rightarrow> 'x \<Rightarrow> 'a option) \<Rightarrow> 'a \<Rightarrow> 'x list \<Rightarrow> 'a option" where
  "fold_checks f acc [] = Some acc"
| "fold_checks f acc (x # xs) = Option.bind (f acc x) (\<lambda>acc'. fold_checks f acc' xs)"

subsection \<open>Catalogue files\<close>

text \<open>The payload, empty where it is of no use.\<close>

definition load_catalog_json :: "data_env \<Rightarrow> str \<Rightarrow> str list \<times> json dict" where
  "load_catalog_json env name =
     (case Option.bind (de_text env name) (\<lambda>t. case json_loads () plain_object t of Inl _ \<Rightarrow> None | Inr j \<Rightarrow> Some j) of
        None \<Rightarrow> ([(''[catalog:'' @ name @ ''] invalid JSON: '' @ (de_json_error env name))], [])
      | Some j \<Rightarrow>
          (case j of
             JObject d \<Rightarrow>
               if equals_int (py_get d ''schemaVersion'') 1 then ([], d)
               else ([(''[catalog:'' @ name @ ''] schemaVersion 1 object is required'')], [])
           | _ \<Rightarrow> ([(''[catalog:'' @ name @ ''] schemaVersion 1 object is required'')], [])))"

definition catalog_date :: "data_env \<Rightarrow> json \<Rightarrow> bool" where
  "catalog_date env j =
     (case j of
        JString v \<Rightarrow> (case from_isoformat v of Some n \<Rightarrow> day_number 1970 12 31 < n \<and> n \<le> de_today env | None \<Rightarrow> False)
      | _ \<Rightarrow> False)"

definition valid_google_fonts_exclusion_source :: "data_env \<Rightarrow> json \<Rightarrow> bool" where
  "valid_google_fonts_exclusion_source env j =
     (case j of
        JString v \<Rightarrow>
          (case url_split (de_ipv6 env) v of
             None \<Rightarrow> False
           | Some u \<Rightarrow>
               (case url_port u of
                  None \<Rightarrow> False
                | Some port \<Rightarrow>
                    if su_scheme u \<noteq> ''https'' \<or> url_username u \<notin> {None, Some []} \<or> url_password u \<notin> {None, Some []} \<or>
                       port \<notin> {None, Some 0}
                    then False
                    else if url_hostname u = Some ''fonts.google.com'' then su_path u \<noteq> []
                    else url_hostname u = Some ''github.com'' \<and>
                      (su_path u = ''/google/fonts'' \<or> starts_with ''/google/fonts/'' (su_path u))))
      | _ \<Rightarrow> False)"

subsection \<open>Fonts\<close>

definition FONT_LICENSES :: "str list" where
  "FONT_LICENSES = [''OFL'', ''APACHE2'', ''UFL'']"

definition text_json :: "str option \<Rightarrow> json" where
  "text_json v = (case v of None \<Rightarrow> JNull | Some s \<Rightarrow> JString s)"

definition font_row_problems :: "data_env \<Rightarrow> row \<Rightarrow> str list" where
  "font_row_problems env r =
     (let family = field r ''Family''; note = (\<lambda>msg. (''[catalog:google-fonts:'' @ family @ ''] '' @ msg)) in
      when_bad (\<not> catalog_date env (text_json (get r ''Date Added'')) \<or> \<not> catalog_date env (text_json (get r ''Last Modified'')))
        (note ''invalid or suspicious date'') @
      when_bad (get r ''Google Fonts URL'' \<noteq> Some ((''https://fonts.google.com/specimen/'' @ (quote_plus family))))
        (note ''invalid specimen URL'') @
      when_bad (split_trim (field r ''Styles'') CHR ''|'' = []) (note ''Styles cannot be empty''))"

definition without_i :: "str \<Rightarrow> str" where
  "without_i s = (if s \<noteq> [] \<and> last s = CHR ''i'' then butlast s else s)"

definition available_styles :: "table \<Rightarrow> str list dict" where
  "available_styles rows =
     foldl (\<lambda>d r. put (field r ''Family'') (map without_i (split_trim (field r ''Styles'') CHR ''|'')) d) [] rows"

definition is_revision :: "str \<Rightarrow> bool" where
  "is_revision s \<longleftrightarrow> length s = 40 \<and> list_all (\<lambda>c. is_digit c \<or> c \<in> set ''abcdef'') s"

definition license_source_problems :: "json \<Rightarrow> str list option" where
  "license_source_problems source =
     (let bad = [''[catalog:google-font-licenses] invalid source revision''] in
      case source of
        JObject d \<Rightarrow>
          if py_get d ''repository'' \<noteq> JString ''https://github.com/google/fonts'' \<or> py_get d ''metadataFile'' \<noteq> JString ''METADATA.pb''
          then Some bad
          else (case get_or d ''revision'' (JString []) of
                  JString r \<Rightarrow> Some (if is_revision r then [] else bad)
                | _ \<Rightarrow> None)
      | _ \<Rightarrow> Some bad)"

text \<open>A name that is taken, and the check of one licence; a list or dict as name or licence raises.\<close>

definition license_step :: "data_env \<Rightarrow> json list \<times> str list \<Rightarrow> json \<Rightarrow> (json list \<times> str list) option" where
  "license_step env acc item =
     (case acc of (names, problems) \<Rightarrow>
        (case item of
           JObject d \<Rightarrow>
             let name = py_get d ''name'';
                 bad = [(''[catalog:google-font-licenses:'' @ (say env name) @ ''] invalid active family'')];
                 named = (case name of JString s \<Rightarrow> s \<noteq> [] \<and> \<not> among name names | _ \<Rightarrow> False)
             in if \<not> hashable name then None
                else if \<not> named then Some (names @ [name], problems @ bad)
                else if \<not> hashable (py_get d ''license'') then None
                else Some (names @ [name], problems @
                  (if py_get d ''license'' \<in> JString ` set FONT_LICENSES \<and> py_get d ''status'' = JString ''active'' \<and>
                      catalog_date env (py_get d ''date_added'') \<and> catalog_date env (py_get d ''verifiedAt'')
                   then [] else bad))
         | _ \<Rightarrow> Some (names, problems @ [''[catalog:google-font-licenses] family entry must be an object''])))"

definition some_text :: "json \<Rightarrow> bool" where
  "some_text j = (case j of JString s \<Rightarrow> s \<noteq> [] | _ \<Rightarrow> False)"

definition exclusion_step :: "data_env \<Rightarrow> str list \<Rightarrow> json list \<times> str list \<Rightarrow> json \<Rightarrow> (json list \<times> str list) option" where
  "exclusion_step env families acc item =
     (case acc of (names, problems) \<Rightarrow>
        let name = entry_of item ''name'';
            fine = (case name of
                      JString s \<Rightarrow> s \<noteq> [] \<and> \<not> among name names \<and> s \<notin> set families \<and>
                        entry_of item ''status'' = JString ''needs-review'' \<and>
                        some_text (entry_of item ''reason'') \<and>
                        valid_google_fonts_exclusion_source env (entry_of item ''source'') \<and>
                        catalog_date env (entry_of item ''verifiedAt'')
                    | _ \<Rightarrow> False)
        in if \<not> hashable name then None
           else Some (names @ [name], problems @
             (if fine then [] else [(''[catalog:google-font-licenses:'' @ (say env name) @ ''] invalid exclusion'')])))"

definition declaration_problems :: "str list dict \<Rightarrow> str \<Rightarrow> str \<Rightarrow> str list option" where
  "declaration_problems available pairing declaration =
     (case get available (font_name declaration) of
        None \<Rightarrow> Some [(''[typography:'' @ pairing @ ''] font absent from approved catalog: '' @ (font_name declaration))]
      | Some styles \<Rightarrow>
          map_option (\<lambda>imported.
            let weights = (if imported = [] then [''400''] else imported);
                missing = sorted_set (filter (\<lambda>w. w \<notin> set styles) weights)
            in when_bad (missing \<noteq> []) ((''[typography:'' @ pairing @ ''] catalog lacks '' @ (font_name declaration) @ '' weights: '' @ (join '', '' missing))))
            (imported_weights [declaration]))"

definition pairing_problems :: "str list dict \<Rightarrow> row \<Rightarrow> str list option" where
  "pairing_problems available r =
     map_option concat (those (map (declaration_problems available (field r ''Font Pairing Name''))
       (font_families (field r ''Google Fonts URL''))))"

definition check_font_catalog :: "data_env \<Rightarrow> table \<Rightarrow> json dict \<Rightarrow> table \<Rightarrow> str list option" where
  "check_font_catalog env rows licenses typography =
     (let families = map (\<lambda>r. field r ''Family'') rows;
          before_licenses =
            when_bad (families = [] \<or> \<not> distinct families \<or> [] \<in> set families)
              ''[catalog:google-fonts] Family values must be non-empty and unique'' @
            concat (map (font_row_problems env) rows)
      in Option.bind (license_source_problems (py_get licenses ''source'')) (\<lambda>source_problems.
           case (equals_int (py_get licenses ''familyCount'') (int (length rows)), py_get licenses ''families'',
                 py_get licenses ''excludedFamilies'') of
             (True, JArray entries, JArray excluded) \<Rightarrow>
               Option.bind (fold_checks (license_step env) ([], []) entries) (\<lambda>(licensed, license_problems).
               Option.bind (fold_checks (exclusion_step env families) ([], []) excluded) (\<lambda>(_, exclusion_problems).
               map_option (\<lambda>pairings.
                 before_licenses @ source_problems @ license_problems @
                 when_bad (set licensed \<noteq> JString ` set families)
                   ''[catalog:google-font-licenses] active families must match google-fonts.csv'' @
                 exclusion_problems @ concat pairings)
                 (those (map (pairing_problems (available_styles rows)) typography))))
           | _ \<Rightarrow> Some (before_licenses @ source_problems @ [''[catalog:google-font-licenses] invalid counts or arrays''])))"

subsection \<open>Icons\<close>

definition PHOSPHOR_WEIGHTS :: "str list" where
  "PHOSPHOR_WEIGHTS = [''thin'', ''light'', ''regular'', ''bold'', ''fill'', ''duotone'']"

text \<open>\<open>set(value)\<close>: the items of a list, the keys of a dict, the characters of a text.\<close>

definition set_of :: "json \<Rightarrow> json list option" where
  "set_of j =
     (case j of
        JArray js \<Rightarrow> if list_all hashable js then Some js else None
      | JObject d \<Rightarrow> Some (map (\<lambda>k. JString k) (keys d))
      | JString s \<Rightarrow> Some (map (\<lambda>c. JString [c]) s)
      | _ \<Rightarrow> None)"

definition react_imports :: "json" where
  "react_imports = JObject
     [(''clientModule'', JString ''@phosphor-icons/react''), (''ssrModule'', JString ''@phosphor-icons/react/ssr'')]"

text \<open>Whether the metadata are as they should be; the set of the weights is looked at if the status and the date are.\<close>

definition snapshot_fine :: "data_env \<Rightarrow> json dict \<Rightarrow> bool option" where
  "snapshot_fine env manifest =
     (if py_get manifest ''status'' \<noteq> JString ''active'' \<or> \<not> catalog_date env (py_get manifest ''verifiedAt'') then Some False
      else map_option (\<lambda>weights.
        set weights = JString ` set PHOSPHOR_WEIGHTS \<and>
        py_equal (JObject (dict_or_empty (py_get manifest ''reactImports''))) react_imports \<and>
        (case py_get manifest ''icons'' of
           JArray icons \<Rightarrow> equals_int (py_get manifest ''iconCount'') (int (length icons))
         | _ \<Rightarrow> False)) (set_of (get_or manifest ''weights'' (JArray []))))"

definition import_text :: "data_env \<Rightarrow> json \<Rightarrow> str \<Rightarrow> json" where
  "import_text env component origin = JString ((''import { '' @ (say env component) @ '' } from \"'' @ origin @ ''\"''))"

text \<open>The names with their components; a list or dict as a name or a component raises.\<close>

definition icon_step :: "data_env \<Rightarrow> (json \<times> json) list \<times> str list \<Rightarrow> json \<Rightarrow> ((json \<times> json) list \<times> str list) option" where
  "icon_step env acc item =
     (case acc of (icons, problems) \<Rightarrow>
        let name = entry_of item ''name''; component = entry_of item ''component'';
            fine = (truthy name \<and> \<not> among name (map fst icons) \<and> truthy component \<and> \<not> among component (map snd icons) \<and>
              py_equal (entry_of item ''clientImport'') (import_text env component ''@phosphor-icons/react'') \<and>
              py_equal (entry_of item ''ssrImport'') (import_text env component ''@phosphor-icons/react/ssr''))
        in if \<not> hashable name \<or> \<not> hashable component then None
           else Some ((name, component) # icons,
             problems @ (if fine then [] else [(''[catalog:phosphor:'' @ (say env name) @ ''] invalid identity or imports'')])))"

definition import_name :: rx where
  "import_name =
     (let ws = Star (Cls is_space) in
      seqs [lit ''import'', ws, lit ''{'', ws, Grp 1 (plus1 (Cls is_alnum))])"

definition icon_named :: "(json \<times> json) list \<Rightarrow> str \<Rightarrow> json" where
  "icon_named icons name = (case find (\<lambda>(n, c). n = JString name) icons of None \<Rightarrow> JNull | Some (n, c) \<Rightarrow> c)"

definition curated_icon_problems :: "(json \<times> json) list \<Rightarrow> row \<Rightarrow> str list" where
  "curated_icon_problems icons r =
     (let name = field r ''Icon Name'';
          component = (case rx_search import_name (field r ''Import Code'') of None \<Rightarrow> [] | Some m \<Rightarrow> get_or (m_groups m) 1 [])
      in when_bad (icon_named icons name \<noteq> JString component)
           ((''[catalog:phosphor:'' @ name @ ''] curated icon is absent or mismatched'')))"

definition package_problems :: "json dict \<Rightarrow> str list" where
  "package_problems manifest =
     (let source = dict_or_empty (py_get manifest ''source'') in
      when_bad (py_get source ''package'' \<noteq> JString ''@phosphor-icons/core'' \<or> py_get source ''version'' \<noteq> JString ''2.1.1'')
        ''[catalog:phosphor] unpinned core package'' @
      when_bad (py_get source ''reactPackage'' \<noteq> JString ''@phosphor-icons/react'' \<or>
          py_get source ''reactVersion'' \<noteq> JString ''2.1.10'')
        ''[catalog:phosphor] unpinned React package'')"

definition list_of :: "json \<Rightarrow> json list" where
  "list_of j = (case j of JArray js \<Rightarrow> js | _ \<Rightarrow> [])"

definition check_phosphor_catalog :: "data_env \<Rightarrow> table \<Rightarrow> json dict \<Rightarrow> str list option" where
  "check_phosphor_catalog env curated manifest =
     Option.bind (snapshot_fine env manifest) (\<lambda>fine.
       if \<not> fine then Some (package_problems manifest @ [''[catalog:phosphor] invalid snapshot metadata''])
       else map_option (\<lambda>(icons, icon_problems).
         let phosphor_rows = filter (\<lambda>r. get r ''Library'' = Some ''Phosphor'') curated in
         package_problems manifest @ icon_problems @
         when_bad (\<not> equals_int (py_get manifest ''curatedValidatedCount'') (int (length phosphor_rows)))
           ''[catalog:phosphor] curated validation count is stale'' @
         concat (map (curated_icon_problems icons) phosphor_rows))
         (fold_checks (icon_step env) ([], []) (list_of (py_get manifest ''icons''))))"

subsection \<open>The summary\<close>

definition csv_rows :: "data_env \<Rightarrow> str \<Rightarrow> table option" where
  "csv_rows env file = (case de_csv env file of Some (Inr (headers, rows)) \<Rightarrow> Some rows | _ \<Rightarrow> None)"

definition with_status :: "str \<Rightarrow> table \<Rightarrow> nat" where
  "with_status status rows = length (filter (\<lambda>r. get r ''Status'' = Some status) rows)"

definition style_counts :: "table \<Rightarrow> json" where
  "style_counts styles = JObject
     [(''total'', json_nat (length styles)), (''searchable'', json_nat (length styles - with_status ''deprecated'' styles)),
      (''active'', json_nat (with_status ''active'' styles)), (''supplemental'', json_nat (with_status ''supplemental'' styles)),
      (''deprecated'', json_nat (with_status ''deprecated'' styles))]"

definition counted_files :: "(str \<times> str) list" where
  "counted_files =
     [(''products'', ''products.csv''), (''palettes'', ''colors.csv''), (''reasoningProfiles'', REASONING_FILE),
      (''fontPairings'', ''typography.csv''), (''googleFonts'', ''google-fonts.csv''), (''curatedIcons'', ''icons.csv''),
      (''uxGuidelines'', ''ux-guidelines.csv''), (''motionPresets'', ''motion.csv''), (''chartTypes'', ''charts.csv'')]"

text \<open>The counts in the order in which they are compared.\<close>

definition expected_counts :: "data_env \<Rightarrow> json dict \<Rightarrow> json dict option" where
  "expected_counts env phosphor =
     Option.bind (csv_rows env ''styles.csv'') (\<lambda>styles.
     Option.bind (those (map (\<lambda>(key, file). map_option (\<lambda>rows. (key, json_nat (length rows))) (csv_rows env file)) counted_files)) (\<lambda>counts.
     map_option (\<lambda>stacks.
       [(''styles'', style_counts styles)] @ take 6 counts @ [(''upstreamPhosphorIcons'', py_get phosphor ''iconCount'')] @
       drop 6 counts @ [(''stacks'', json_nat (length STACK_CONFIG)), (''stackGuidelines'', json_nat (sum_list (map length stacks)))])
       (those (map (\<lambda>(stack, file). csv_rows env file) STACK_CONFIG))))"

fun unix_lines :: "str \<Rightarrow> str" where
  "unix_lines (c # d # s) =
     (if code c = 13 \<and> d = newline then newline # unix_lines s else c # unix_lines (d # s))"
| "unix_lines s = s"

definition snapshot_files :: "str list" where
  "snapshot_files = [''google-fonts.csv'', ''google-font-licenses.json'', ''icons.csv'', ''phosphor-icons-upstream.json'']"

definition snapshot_problems :: "data_env \<Rightarrow> json dict \<Rightarrow> str \<Rightarrow> str list option" where
  "snapshot_problems env snapshots name =
     map_option (\<lambda>bytes.
       when_bad (\<not> py_equal (py_get snapshots name) (JObject [(''sha256'', JString (sha256_hex (unix_lines bytes)))]))
         ((''[catalog:summary] stale snapshot for '' @ name))) (de_text env name)"

definition promotion_policy :: json where
  "promotion_policy = JObject
     [(''changedFamilySetRequiresExplicitApproval'', JBool True), (''relevanceGateRequired'', JBool True),
      (''unlicensedFamiliesExcluded'', JBool True)]"

text \<open>The dicts among the items of a value that is gone through.\<close>

definition dicts_in :: "json \<Rightarrow> json dict list option" where
  "dicts_in j =
     (case j of
        JArray js \<Rightarrow> Some (List.map_filter (\<lambda>x. case x of JObject d \<Rightarrow> Some d | _ \<Rightarrow> None) js)
      | JObject d \<Rightarrow> Some []
      | JString s \<Rightarrow> Some []
      | _ \<Rightarrow> None)"

definition candidate_of :: "json dict \<Rightarrow> json" where
  "candidate_of d = JObject [(''family'', py_get d ''name''), (''reason'', py_get d ''reason'')]"

definition family_key :: "json dict \<Rightarrow> str option" where
  "family_key d =
     (let family = py_get d ''name'' in
      if \<not> truthy family then Some [] else (case family of JString s \<Rightarrow> Some (lower s) | _ \<Rightarrow> None))"

definition pending_candidates :: "json dict \<Rightarrow> json option" where
  "pending_candidates licenses =
     Option.bind (dicts_in (get_or licenses ''excludedFamilies'' (JArray []))) (\<lambda>ds.
       map_option (\<lambda>names. JArray (map (\<lambda>(key, d). candidate_of d) (sort_key fst (zip names ds)))) (those (map family_key ds)))"

definition check_catalog_summary :: "data_env \<Rightarrow> json dict \<Rightarrow> json dict \<Rightarrow> json dict \<Rightarrow> str list option" where
  "check_catalog_summary env summary licenses phosphor =
     (let counts = dict_or_empty (py_get summary ''counts''); snapshots = dict_or_empty (py_get summary ''snapshots'') in
      Option.bind (expected_counts env phosphor) (\<lambda>expected.
      Option.bind (those (map (snapshot_problems env snapshots) snapshot_files)) (\<lambda>stale.
      map_option (\<lambda>pending.
        when_bad (\<not> catalog_date env (py_get summary ''verifiedAt'')) ''[catalog:summary] invalid verifiedAt'' @
        map (\<lambda>(key, v). (''[catalog:summary] stale count for '' @ key)) (filter (\<lambda>(key, v). \<not> py_equal (py_get counts key) v) expected) @
        concat stale @
        when_bad (\<not> py_equal (py_get summary ''promotionPolicy'') promotion_policy) ''[catalog:summary] invalid promotion policy'' @
        when_bad (\<not> py_equal (py_get summary ''pendingCandidates'') pending)
          ''[catalog:summary] pending candidates do not match exclusions'')
        (pending_candidates licenses))))"

definition refresh_marker :: str where
  "refresh_marker = ''.google-font-refresh.incomplete.json''"

definition check_catalog_contract :: "data_env \<Rightarrow> table dict \<Rightarrow> str list option" where
  "check_catalog_contract env tables =
     (let (p1, licenses) = load_catalog_json env ''google-font-licenses.json'';
          (p2, phosphor) = load_catalog_json env ''phosphor-icons-upstream.json'';
          (p3, summary) = load_catalog_json env ''catalog-summary.json'';
          rows = (\<lambda>domain. get_or tables domain []);
          when_there = (\<lambda>payload check. if payload = [] then Some [] else check)
      in Option.bind (when_there licenses (check_font_catalog env (rows ''google-fonts'') licenses (rows ''typography''))) (\<lambda>q1.
         Option.bind (when_there phosphor (check_phosphor_catalog env (rows ''icons'') phosphor)) (\<lambda>q2.
         map_option (\<lambda>q3.
           when_bad (de_text env refresh_marker \<noteq> None) ''[catalog:google-fonts] incomplete refresh marker requires review'' @
           p1 @ p2 @ p3 @ q1 @ q2 @ q3)
           (when_there summary (check_catalog_summary env summary licenses phosphor)))))"

subsection \<open>Licences without problems\<close>

definition licensed :: "json \<Rightarrow> str \<Rightarrow> bool" where
  "licensed item family \<longleftrightarrow>
     entry_of item ''name'' = JString family \<and> entry_of item ''status'' = JString ''active'' \<and>
     entry_of item ''license'' \<in> JString ` set FONT_LICENSES"

lemma license_step_sound:
  assumes "license_step env (names, problems) item = Some (names', problems')" and "problems' = []"
  shows "problems = [] \<and> (\<exists>name. names' = names @ [JString name] \<and> licensed item name)"
  using assms
  by (auto simp: license_step_def licensed_def entry_of_def Let_def split: json.splits if_splits)

lemma licenses_sound:
  assumes "fold_checks (license_step env) (names, problems) items = Some (names', [])"
  shows "problems = [] \<and> (\<forall>name. JString name \<in> set names' \<longrightarrow> JString name \<in> set names \<or> (\<exists>item \<in> set items. licensed item name))"
  using assms
proof (induction items arbitrary: names problems)
  case (Cons item items)
  from Cons.prems obtain ns ps where step: "license_step env (names, problems) item = Some (ns, ps)"
    and rest: "fold_checks (license_step env) (ns, ps) items = Some (names', [])"
    by (auto split: Option.bind_splits)
  from Cons.IH [OF rest] have "ps = []" and
    later: "JString name \<in> set names' \<Longrightarrow> JString name \<in> set ns \<or> (\<exists>item \<in> set items. licensed item name)" for name
    by auto
  with license_step_sound [OF step] obtain name where "problems = []" "ns = names @ [JString name]" "licensed item name" by auto
  with later show ?case by fastforce
qed simp

lemma exclusion_step_sound:
  assumes "exclusion_step env families (names, problems) item = Some (names', problems')" and "problems' = []"
  shows "problems = [] \<and> (\<forall>family \<in> set families. entry_of item ''name'' \<noteq> JString family)"
  using assms by (auto simp: exclusion_step_def Let_def split: json.splits if_splits)

lemma exclusions_sound:
  assumes "fold_checks (exclusion_step env families) (names, problems) items = Some (names', [])"
  shows "problems = [] \<and> (\<forall>item \<in> set items. \<forall>family \<in> set families. entry_of item ''name'' \<noteq> JString family)"
  using assms
proof (induction items arbitrary: names problems)
  case (Cons item items)
  from Cons.prems obtain ns ps where step: "exclusion_step env families (names, problems) item = Some (ns, ps)"
    and rest: "fold_checks (exclusion_step env families) (ns, ps) items = Some (names', [])"
    by (auto split: Option.bind_splits)
  from Cons.IH [OF rest] exclusion_step_sound [OF step] show ?case by auto
qed simp

text \<open>What a style sheet asks for is among the styles of the catalogue.\<close>

definition declaration_served :: "str list dict \<Rightarrow> str \<Rightarrow> bool" where
  "declaration_served available declaration \<longleftrightarrow>
     (\<exists>styles imported. get available (font_name declaration) = Some styles \<and> imported_weights [declaration] = Some imported \<and>
        set (if imported = [] then [''400''] else imported) \<subseteq> set styles)"

lemma sorted_set_Nil: "sorted_set xs = [] \<longleftrightarrow> xs = []"
  by (metis set_empty set_remdups set_sort)

lemma declaration_problems_sound: "declaration_problems available pairing d = Some [] \<Longrightarrow> declaration_served available d"
  by (auto simp: declaration_problems_def declaration_served_def Let_def sorted_set_Nil filter_empty_conv
      split: option.splits if_splits)

lemma pairing_problems_sound:
  assumes "pairing_problems available r = Some []" and "d \<in> set (font_families (field r ''Google Fonts URL''))"
  shows "declaration_served available d"
proof -
  let ?f = "declaration_problems available (field r ''Font Pairing Name'')"
  from assms(1) obtain yss where "those (map ?f (font_families (field r ''Google Fonts URL''))) = Some yss" "concat yss = []"
    by (auto simp: pairing_problems_def)
  from those_concat_Nil [OF this assms(2)] show ?thesis by (rule declaration_problems_sound)
qed

lemma available_families: "set (keys (available_styles rows)) = set (map (\<lambda>r. field r ''Family'') rows)"
proof -
  have "set (keys (foldl (\<lambda>d r. put (f r) (g r) d) d rows)) = set (keys d) \<union> f ` set rows"
    for d :: "str list dict" and f g and rows :: table
    by (induction rows arbitrary: d) (auto simp: keys_def)
  then show ?thesis by (simp add: available_styles_def keys_def)
qed

lemma font_catalog_sound:
  assumes "check_font_catalog env rows licenses typography = Some []"
  shows "distinct (map (\<lambda>r. field r ''Family'') rows)"
    and "r \<in> set rows \<Longrightarrow> \<exists>item \<in> set (list_of (py_get licenses ''families'')). licensed item (field r ''Family'')"
    and "r \<in> set rows \<Longrightarrow> item \<in> set (list_of (py_get licenses ''excludedFamilies'')) \<Longrightarrow>
      entry_of item ''name'' \<noteq> JString (field r ''Family'')"
    and "t \<in> set typography \<Longrightarrow> d \<in> set (font_families (field t ''Google Fonts URL'')) \<Longrightarrow>
      declaration_served (available_styles rows) d"
proof -
  let ?families = "map (\<lambda>r. field r ''Family'') rows"
  from assms obtain entries excluded names names' yss where
    entries: "py_get licenses ''families'' = JArray entries" "py_get licenses ''excludedFamilies'' = JArray excluded"
    and distinct: "distinct ?families"
    and folds: "fold_checks (license_step env) ([], []) entries = Some (names, [])"
      "fold_checks (exclusion_step env ?families) ([], []) excluded = Some (names', [])"
    and names: "set names = JString ` set ?families"
    and yss: "those (map (pairing_problems (available_styles rows)) typography) = Some yss" "concat yss = []"
    by (auto simp: check_font_catalog_def Let_def split: Option.bind_splits bool.splits json.splits)
  show "distinct ?families" by (rule distinct)
  show "\<exists>item \<in> set (list_of (py_get licenses ''families'')). licensed item (field r ''Family'')" if "r \<in> set rows"
    using licenses_sound [OF folds(1)] names that entries by (auto simp: list_of_def)
  show "entry_of item ''name'' \<noteq> JString (field r ''Family'')"
    if "r \<in> set rows" "item \<in> set (list_of (py_get licenses ''excludedFamilies''))"
    using exclusions_sound [OF folds(2)] that entries by (auto simp: list_of_def)
  show "declaration_served (available_styles rows) d"
    if "t \<in> set typography" "d \<in> set (font_families (field t ''Google Fonts URL''))"
    using those_concat_Nil [OF yss that(1)] that(2) by (rule pairing_problems_sound)
qed

end
