(* ===== verification/Provenance.thy ===== *)
theory Provenance
  imports CatalogContracts
begin

text \<open>
  \<open>validate_data.py\<close>, the provenance of the data and the whole validation: the records of
  \<open>data-provenance.json\<close>, what they have to bind, and the command.
\<close>

subsection \<open>Vocabulary\<close>

definition PROVENANCE_KINDS :: "str list" where
  "PROVENANCE_KINDS = [''reasoning'', ''style'', ''dataset-contract'', ''catalog-snapshot'']"

definition PROVENANCE_STATUSES :: "str list" where
  "PROVENANCE_STATUSES = [''active'', ''supplemental'', ''deprecated'']"

definition PROVENANCE_SLAS :: "str list" where
  "PROVENANCE_SLAS = [''manual-verified'', ''needs-review'']"

definition PROVENANCE_SOURCE_TYPES :: "str list" where
  "PROVENANCE_SOURCE_TYPES = [''official'', ''derived'']"

definition PROVENANCE_APPLIES_TO :: "str list" where
  "PROVENANCE_APPLIES_TO = [''search'', ''design-guidance'', ''design-system'', ''gallery'', ''style-search'']"

definition CORE_PROVENANCE_FILES :: "str list" where
  "CORE_PROVENANCE_FILES =
     [''colors.csv'', ''charts.csv'', ''ux-guidelines.csv'', ''landing.csv'', ''typography.csv'', ''icons.csv'',
      ''motion.csv'', ''app-interface.csv'', ''react-performance.csv'', ''stacks/html-tailwind.csv'']"

definition CATALOG_PROVENANCE_FILES :: "str list" where
  "CATALOG_PROVENANCE_FILES = [''google-fonts.csv'', ''phosphor-icons-upstream.json'']"

definition CATALOG_PROVENANCE_IDS :: "str list" where
  "CATALOG_PROVENANCE_IDS = [''google-fonts-catalog-2026-08-13'', ''phosphor-icons-catalog-2.1.1'']"

definition OFFICIAL_SOURCE_HOSTS :: "str list" where
  "OFFICIAL_SOURCE_HOSTS =
     [''carbondesignsystem.com'', ''developer.android.com'', ''developer.apple.com'', ''developers.google.com'',
      ''fluent2.microsoft.design'', ''github.com'', ''greensock.com'', ''gsap.com'', ''m3.material.io'',
      ''opensource.adobe.com'', ''react.dev'', ''s2.spectrum.adobe.com'', ''shopify.dev'',
      ''design-system.service.gov.uk'', ''tailwindcss.com'', ''www.w3.org'']"

subsection \<open>Sources\<close>

text \<open>The kind and the id of a record; the text shows the tuple of both.\<close>

definition identity_text :: "data_env \<Rightarrow> json \<times> json \<Rightarrow> str" where
  "identity_text env identity = (''('' @ (de_repr env (fst identity)) @ '', '' @ (de_repr env (snd identity)) @ '')'')"

definition valid_confidence :: "json \<Rightarrow> bool" where
  "valid_confidence j =
     (case j of
        JNull \<Rightarrow> True
      | JNumber s \<Rightarrow> (case float_of s of Some x \<Rightarrow> 0 \<le> x \<and> x \<le> 1 | None \<Rightarrow> False)
      | _ \<Rightarrow> False)"

definition one_of :: "json \<Rightarrow> str list \<Rightarrow> bool" where
  "one_of j names \<longleftrightarrow> j \<in> JString ` set names"

text \<open>The verdict with the problems; a list or dict as a type raises, as does an address in brackets that is no IPv6 address.\<close>

definition valid_provenance_source :: "data_env \<Rightarrow> str \<Rightarrow> nat \<Rightarrow> json \<Rightarrow> (bool \<times> str list) option" where
  "valid_provenance_source env identity i source =
     (case source of
        JObject d \<Rightarrow>
          (if \<not> hashable (py_get d ''type'') then None
           else case py_get d ''ref'' of
                  JString ref \<Rightarrow>
                    if \<not> one_of (py_get d ''type'') PROVENANCE_SOURCE_TYPES
                    then Some (False, [(''[provenance] invalid source for '' @ identity)])
                    else if py_get d ''type'' = JString ''official''
                    then map_option (\<lambda>u.
                      let fine = (su_scheme u = ''https'' \<and> (case url_hostname u of None \<Rightarrow> False | Some h \<Rightarrow> h \<in> set OFFICIAL_SOURCE_HOSTS))
                      in (fine, when_bad (\<not> fine) ((''[provenance] unapproved official source for '' @ identity))))
                      (url_split (de_ipv6 env) ref)
                    else (case (if ref = [] then Some False else map_option (\<lambda>u. su_scheme u = []) (url_split (de_ipv6 env) ref)) of
                            None \<Rightarrow> None
                          | Some fine \<Rightarrow> Some (fine, when_bad (\<not> fine)
                              ((''[provenance] derived source must use a local dataset reference for '' @ identity))))
                | _ \<Rightarrow> Some (False, [(''[provenance] invalid source for '' @ identity)]))
      | _ \<Rightarrow> Some (False, [(''[provenance] source '' @ (str_of_nat i) @ '' for '' @ identity @ '' must be an object'')]))"

subsection \<open>Keys of sources\<close>

definition number_range :: rx where
  "number_range =
     (let ws = Star (Cls is_space); digits = plus1 (Cls is_digit) in seqs [Grp 1 digits, ws, lit ''-'', ws, Grp 2 digits])"

definition referenced_rows :: "str \<Rightarrow> nat list" where
  "referenced_rows row_part =
     map nat_of_digits (rx_findall (seqs [WordB, plus1 (Cls is_digit), WordB]) row_part) @
     concat (map (\<lambda>m. [nat_of_digits (get_or (m_groups m) 1 []) ..< Suc (nat_of_digits (get_or (m_groups m) 2 []))])
       (rx_finditer number_range row_part))"

definition row_ids :: "table \<Rightarrow> nat list" where
  "row_ids rows =
     map nat_of_digits (filter (\<lambda>v. v \<noteq> [] \<and> list_all is_digit v) (map (\<lambda>r. field r ''No'') rows))"

definition names_header :: "str \<Rightarrow> str \<Rightarrow> bool" where
  "names_header scope header \<longleftrightarrow> rx_found (ci (seqs [WordB, lit header, WordB])) scope"

definition as_text :: "json \<Rightarrow> str option" where
  "as_text j = (case j of JString s \<Rightarrow> Some s | _ \<Rightarrow> None)"

text \<open>The file of a record is a text of the vocabulary here; a list or dict raises before.\<close>

definition valid_dataset_source_key :: "data_env \<Rightarrow> json \<Rightarrow> json dict \<Rightarrow> str \<Rightarrow> (bool \<times> str list) option" where
  "valid_dataset_source_key env source_file source_key identity =
     (let refuse = (\<lambda>msg. (False, [(''[provenance] '' @ msg @ '' for '' @ identity)])) in
      if \<not> hashable source_file then None
      else if \<not> one_of source_file CORE_PROVENANCE_FILES then Some (refuse ''unknown dataset-contract sourceFile'')
      else Some (case de_csv env (the (as_text source_file)) of
             Some (Inr (headers, rows)) \<Rightarrow>
               (case py_get source_key ''Scope'' of
                  JString scope \<Rightarrow>
                    if \<not> starts_with ''No '' scope then refuse ''dataset scope must bind rows''
                    else let referenced = referenced_rows (fst (split_once CHR '';'' scope)) in
                      if referenced = [] \<or> \<not> set referenced \<subseteq> set (row_ids rows)
                      then refuse ''dataset scope references unknown rows''
                      else if \<not> list_ex (names_header scope) (filter (\<lambda>h. h \<noteq> ''No'') headers)
                      then refuse ''dataset scope must bind source fields''
                      else (True, [])
                | _ \<Rightarrow> refuse ''dataset scope must bind rows'')
           | _ \<Rightarrow> refuse ''unreadable sourceFile''))"

definition positive_int :: "json \<Rightarrow> bool" where
  "positive_int j =
     (case j of JNumber s \<Rightarrow> (case int_text s of Some n \<Rightarrow> 0 < n | None \<Rightarrow> False) | _ \<Rightarrow> False)"

text \<open>The count that a catalogue file has; \<open>Inl\<close> is a file that cannot be read, \<open>None\<close> an attribute that is missing.\<close>

definition catalog_count :: "data_env \<Rightarrow> str \<Rightarrow> (unit + json) option" where
  "catalog_count env file =
     (if rev (take 4 (rev file)) = ''.csv''
      then Some (case csv_rows env file of Some rows \<Rightarrow> Inr (json_nat (length rows)) | None \<Rightarrow> Inl ())
      else case de_text env file of
             None \<Rightarrow> Some (Inl ())
           | Some t \<Rightarrow>
               (case json_loads () plain_object t of
                  Inl _ \<Rightarrow> Some (Inl ())
                | Inr (JObject d) \<Rightarrow> Some (Inr (py_get d ''iconCount''))
                | Inr _ \<Rightarrow> None))"

definition valid_catalog_source_key :: "data_env \<Rightarrow> json \<Rightarrow> json dict \<Rightarrow> str \<Rightarrow> (bool \<times> str list) option" where
  "valid_catalog_source_key env source_file source_key identity =
     (let refuse = (\<lambda>msg. (False, [(''[provenance] '' @ msg @ '' for '' @ identity)])); file = the (as_text source_file) in
      if \<not> hashable source_file then None
      else if \<not> one_of source_file CATALOG_PROVENANCE_FILES then Some (refuse ''unknown catalog sourceFile'')
      else if de_text env file = None then Some (refuse ''missing catalog sourceFile'')
      else if py_get source_key ''Snapshot'' \<noteq> JString ''catalog-summary.json'' \<or> \<not> positive_int (py_get source_key ''Count'')
      then Some (refuse ''catalog sourceKey must bind snapshot and count'')
      else map_option (\<lambda>expected.
        case expected of
          Inl _ \<Rightarrow> refuse ''unreadable catalog sourceFile''
        | Inr n \<Rightarrow> if py_equal (py_get source_key ''Count'') n then (True, []) else refuse ''catalog count is stale'')
        (catalog_count env file))"

subsection \<open>Records\<close>

text \<open>What the loop over the records has gathered; the records are the valid ones.\<close>

record provenance_state =
  pv_covered :: "json list"
  pv_styles :: "json list"
  pv_identities :: "(json \<times> json) list"
  pv_records :: "json dict list"
  pv_problems :: "str list"

definition provenance_start :: provenance_state where
  "provenance_start = \<lparr>pv_covered = [], pv_styles = [], pv_identities = [], pv_records = [], pv_problems = []\<rparr>"

text \<open>The places are those of the vocabulary; the first list or dict before an unknown place raises.\<close>

fun places_fine :: "json list \<Rightarrow> bool option" where
  "places_fine [] = Some True"
| "places_fine (j # js) =
     (if \<not> hashable j then None else if \<not> one_of j PROVENANCE_APPLIES_TO then Some False else places_fine js)"

definition applies_to_fine :: "json \<Rightarrow> bool option" where
  "applies_to_fine j = (case j of JArray (x # xs) \<Rightarrow> places_fine (x # xs) | _ \<Rightarrow> Some False)"

definition valid_date_json :: "data_env \<Rightarrow> json \<Rightarrow> bool" where
  "valid_date_json env j = (case j of JString v \<Rightarrow> valid_date (de_today env) v | _ \<Rightarrow> False)"

definition record_problems :: "data_env \<Rightarrow> json dict \<Rightarrow> str \<Rightarrow> bool \<Rightarrow> str list" where
  "record_problems env d identity places =
     (let note = (\<lambda>msg. (''[provenance] '' @ msg @ '' for '' @ identity)); source_key = py_get d ''sourceKey'' in
      when_bad (\<not> one_of (py_get d ''status'') PROVENANCE_STATUSES) (note ''invalid status'') @
      when_bad (\<not> one_of (py_get d ''sla'') PROVENANCE_SLAS) (note ''invalid sla'') @
      when_bad (\<not> valid_date_json env (py_get d ''verifiedAt'')) (note ''invalid verifiedAt'') @
      when_bad (\<not> some_text (py_get d ''sourceFile'')) (note ''sourceFile required'') @
      when_bad (dict_or_empty source_key = []) (note ''sourceKey object required'') @
      when_bad (\<not> places) (note ''invalid appliesTo'') @
      when_bad (\<not> valid_confidence (py_get d ''confidence'')) (note ''invalid confidence''))"

definition check_sources :: "data_env \<Rightarrow> str \<Rightarrow> json list \<Rightarrow> (json list \<times> str list) option" where
  "check_sources env identity entries =
     map_option (\<lambda>checked. (map fst (filter (\<lambda>(s, fine, ps). fine) checked), concat (map (\<lambda>(s, fine, ps). ps) checked)))
       (those (map (\<lambda>(i, s). map_option (\<lambda>(fine, ps). (s, fine, ps)) (valid_provenance_source env identity i s)) (enumerate 0 entries)))"

text \<open>A value that is added to a set if it is true; a list or dict raises.\<close>

definition add_value :: "bool \<Rightarrow> json \<Rightarrow> json list \<Rightarrow> json list option" where
  "add_value wanted j js =
     (if \<not> wanted \<or> \<not> truthy j then Some js else if hashable j then Some (j # js) else None)"

definition source_key_check :: "data_env \<Rightarrow> json dict \<Rightarrow> str \<Rightarrow> (bool \<times> str list) option" where
  "source_key_check env d identity =
     (let source_key = dict_or_empty (py_get d ''sourceKey''); kind = py_get d ''entityKind'' in
      if kind = JString ''dataset-contract'' then valid_dataset_source_key env (py_get d ''sourceFile'') source_key identity
      else if kind = JString ''catalog-snapshot'' then valid_catalog_source_key env (py_get d ''sourceFile'') source_key identity
      else Some (True, []))"

definition provenance_step :: "data_env \<Rightarrow> provenance_state \<Rightarrow> nat \<times> json \<Rightarrow> provenance_state option" where
  "provenance_step env s entry =
     (case entry of
        (i, JObject d) \<Rightarrow>
          let kind = py_get d ''entityKind''; eid = py_get d ''entityId'';
              identity = identity_text env (kind, eid); source_key = dict_or_empty (py_get d ''sourceKey'')
          in if \<not> hashable kind then None
             else if \<not> one_of kind PROVENANCE_KINDS \<or> \<not> some_text eid
             then Some (s\<lparr>pv_problems := pv_problems s @ [(''[provenance] invalid identity at record '' @ (str_of_nat i))]\<rparr>)
             else if \<not> hashable (py_get d ''status'') \<or> \<not> hashable (py_get d ''sla'') then None
             else
               Option.bind (applies_to_fine (py_get d ''appliesTo'')) (\<lambda>places.
               Option.bind (check_sources env identity (list_of (py_get d ''sources''))) (\<lambda>(valid_sources, source_problems).
               Option.bind (add_value (kind = JString ''reasoning'') (py_get source_key ''UI_Category'') (pv_covered s)) (\<lambda>covered.
               Option.bind (add_value (kind = JString ''style'') (py_get source_key ''Style ID'') (pv_styles s)) (\<lambda>styles.
               map_option (\<lambda>(key_fine, key_problems).
                 s\<lparr>pv_covered := covered, pv_styles := styles, pv_identities := (kind, eid) # pv_identities s,
                   pv_records := (if valid_sources \<noteq> [] \<and> key_fine then pv_records s @ [d] else pv_records s),
                   pv_problems := pv_problems s @
                     when_bad ((kind, eid) \<in> set (pv_identities s)) ((''[provenance] duplicate identity '' @ identity)) @
                     record_problems env d identity places @
                     when_bad (list_of (py_get d ''sources'') = []) ((''[provenance] sources required for '' @ identity)) @
                     source_problems @
                     when_bad (py_get d ''sla'' = JString ''manual-verified'' \<and>
                         \<not> list_ex (\<lambda>source. entry_of source ''type'' \<noteq> JString ''derived'') valid_sources)
                       ((''[provenance] '' @ identity @ '' cannot be manual-verified from derived sources only'')) @
                     key_problems\<rparr>)
                 (source_key_check env d identity)))))
      | (i, _) \<Rightarrow> Some (s\<lparr>pv_problems := pv_problems s @ [(''[provenance] record '' @ (str_of_nat i) @ '' must be an object'')]\<rparr>))"

text \<open>The rows with a number above a limit; a number that is none raises, as does a missing name.\<close>

definition numbered_rows :: "int \<Rightarrow> str \<Rightarrow> table \<Rightarrow> str list option" where
  "numbered_rows limit key rows =
     map_option concat (those (map (\<lambda>r.
       case int_text (get_or r ''No'' ''0'') of
         None \<Rightarrow> None
       | Some n \<Rightarrow> if n \<ge> limit then map_option (\<lambda>v. [v]) (get r key) else Some []) rows))"

definition officially_bound :: "str \<Rightarrow> str \<Rightarrow> json dict list \<Rightarrow> json list" where
  "officially_bound kind key records =
     map (\<lambda>d. py_get d key)
       (filter (\<lambda>d. py_get d ''entityKind'' = JString kind \<and>
          list_ex (\<lambda>source. entry_of source ''type'' = JString ''official'') (list_of (py_get d ''sources''))) records)"

definition uncovered :: "str list \<Rightarrow> json list \<Rightarrow> str list" where
  "uncovered names covered = sorted_set (filter (\<lambda>n. JString n \<notin> set covered) names)"

definition missing_problem :: "str \<Rightarrow> str list \<Rightarrow> str list" where
  "missing_problem what names = when_bad (names \<noteq> []) ((''[provenance] missing '' @ what @ '': '' @ (join '', '' names)))"

definition provenance_records :: "data_env \<Rightarrow> str list + json list" where
  "provenance_records env =
     (case Option.bind (de_text env ''data-provenance.json'')
             (\<lambda>t. case json_loads () plain_object t of Inl _ \<Rightarrow> None | Inr j \<Rightarrow> Some j) of
        None \<Rightarrow> Inl [(''[provenance] invalid data-provenance.json: '' @ (de_json_error env ''data-provenance.json''))]
      | Some j \<Rightarrow>
          if equals_int (entry_of j ''schemaVersion'') 1
          then (case entry_of j ''records'' of
                  JArray records \<Rightarrow> Inr records
                | _ \<Rightarrow> Inl [''[provenance] schemaVersion 1 and records array are required''])
          else Inl [''[provenance] schemaVersion 1 and records array are required''])"

definition check_provenance :: "data_env \<Rightarrow> table \<Rightarrow> table \<Rightarrow> str list option" where
  "check_provenance env reasoning styles =
     (case provenance_records env of
        Inl problems \<Rightarrow> Some problems
      | Inr records \<Rightarrow>
          Option.bind (fold_checks (provenance_step env) provenance_start (enumerate 0 records)) (\<lambda>s.
          Option.bind (numbered_rows 162 ''UI_Category'' reasoning) (\<lambda>new_rows.
          map_option (\<lambda>new_styles.
            pv_problems s @
            missing_problem ''new reasoning rows'' (uncovered new_rows (pv_covered s)) @
            missing_problem ''new style rows'' (uncovered new_styles (pv_styles s)) @
            missing_problem ''official core dataset records''
              (uncovered CORE_PROVENANCE_FILES (officially_bound ''dataset-contract'' ''sourceFile'' (pv_records s))) @
            missing_problem ''official catalog snapshots''
              (uncovered CATALOG_PROVENANCE_IDS (officially_bound ''catalog-snapshot'' ''entityId'' (pv_records s))))
            (numbered_rows 86 ''Style ID'' styles))))"

subsection \<open>The whole validation\<close>

definition landing_patterns :: "table \<Rightarrow> str list" where
  "landing_patterns landing =
     map (\<lambda>r. field r ''Pattern Name'') landing @ concat (map (\<lambda>r. split_trim (field r ''Aliases'') CHR ''|'') landing)"

definition validate :: "data_env \<Rightarrow> str list option" where
  "validate env =
     (let (domain_problems, tables) = check_domains env;
          (reasoning_problems, reasoning) = check_reasoning_file env;
          rows = (\<lambda>domain. get_or tables domain []);
          styles = rows ''style''; products = rows ''product''; colors = rows ''color''; landing = rows ''landing'';
          pattern_ids = map (\<lambda>r. field r ''Pattern ID'') landing;
          (style_ids, style_problems) =
            check_style_contract styles products reasoning [(''landing'', pattern_ids), (''style'', map sid styles)]
      in Option.bind (check_stacks env) (\<lambda>stack_problems.
         Option.bind (check_core_data_contract tables) (\<lambda>core_problems.
         Option.bind (check_catalog_contract env tables) (\<lambda>catalog_problems.
         map_option (\<lambda>provenance_problems.
           domain_problems @ stack_problems @ reasoning_problems @
           pattern_ids_problems landing @ landing_identity_problems landing @ style_problems @
           check_reasoning_contract (de_rule_error env) products colors reasoning style_ids (landing_patterns landing) @
           core_problems @ catalog_problems @ section_order_problems landing @ provenance_problems)
           (check_provenance env reasoning styles)))))"

definition validate_main :: "data_env \<Rightarrow> (nat \<times> str list) option" where
  "validate_main env =
     map_option (validate_report (length CSV_CONFIG) (length STACK_CONFIG)) (validate env)"

subsection \<open>Records without problems\<close>

text \<open>An official source: a public page of one of the approved hosts.\<close>

definition official_source :: "data_env \<Rightarrow> json \<Rightarrow> bool" where
  "official_source env source \<longleftrightarrow>
     entry_of source ''type'' = JString ''official'' \<and>
     (\<exists>ref u host. entry_of source ''ref'' = JString ref \<and> url_split (de_ipv6 env) ref = Some u \<and> su_scheme u = ''https'' \<and>
        url_hostname u = Some host \<and> host \<in> set OFFICIAL_SOURCE_HOSTS)"

text \<open>The scope of a key binds rows of the file by their numbers, and one of its columns.\<close>

definition binds_rows :: "data_env \<Rightarrow> str \<Rightarrow> json dict \<Rightarrow> bool" where
  "binds_rows env file source_key \<longleftrightarrow>
     (\<exists>headers rows scope. de_csv env file = Some (Inr (headers, rows)) \<and> py_get source_key ''Scope'' = JString scope \<and>
        referenced_rows (fst (split_once CHR '';'' scope)) \<noteq> [] \<and>
        set (referenced_rows (fst (split_once CHR '';'' scope))) \<subseteq> set (row_ids rows) \<and>
        (\<exists>header \<in> set headers. header \<noteq> ''No'' \<and> names_header scope header))"

lemma source_sound:
  assumes "valid_provenance_source env identity i source = Some (fine, [])"
  shows "fine" and "entry_of source ''type'' = JString ''official'' \<Longrightarrow> official_source env source"
  using assms
  by (auto simp: valid_provenance_source_def official_source_def entry_of_def one_of_def Let_def when_bad_def
      split: json.splits if_splits option.splits)

lemma dataset_key_sound:
  assumes "valid_dataset_source_key env source_file source_key identity = Some (fine, [])"
  shows "fine \<and> (\<exists>file \<in> set CORE_PROVENANCE_FILES. source_file = JString file \<and> binds_rows env file source_key)"
  using assms
  by (auto simp: valid_dataset_source_key_def binds_rows_def one_of_def as_text_def Let_def list_ex_iff
      split: json.splits if_splits option.splits sum.splits prod.splits)

lemma catalog_key_sound: "valid_catalog_source_key env source_file source_key identity = Some (fine, []) \<Longrightarrow> fine"
  by (cases "catalog_count env (the (as_text source_file))")
    (auto simp: valid_catalog_source_key_def Let_def split: if_splits sum.splits)

lemma source_key_sound:
  assumes "source_key_check env d identity = Some (fine, [])"
  shows "fine \<and> (py_get d ''entityKind'' = JString ''dataset-contract'' \<longrightarrow>
    (\<exists>file. py_get d ''sourceFile'' = JString file \<and> binds_rows env file (dict_or_empty (py_get d ''sourceKey''))))"
  using assms dataset_key_sound catalog_key_sound
  by (auto simp: source_key_check_def Let_def split: if_splits) blast+

text \<open>A record that is as it should be.\<close>

definition sourced :: "data_env \<Rightarrow> json dict \<Rightarrow> bool" where
  "sourced env d \<longleftrightarrow>
     (\<forall>source \<in> set (list_of (py_get d ''sources'')). entry_of source ''type'' = JString ''official'' \<longrightarrow> official_source env source) \<and>
     (py_get d ''entityKind'' = JString ''dataset-contract'' \<longrightarrow>
        (\<exists>file. py_get d ''sourceFile'' = JString file \<and> binds_rows env file (dict_or_empty (py_get d ''sourceKey''))))"

lemma check_sources_sound:
  assumes "check_sources env identity entries = Some (valid, [])" and "source \<in> set entries"
    and "entry_of source ''type'' = JString ''official''"
  shows "official_source env source"
proof -
  let ?f = "\<lambda>(i, s). map_option (\<lambda>(fine, ps). (s, fine, ps)) (valid_provenance_source env identity i s)"
  from assms(1) obtain checked where checked: "those (map ?f (enumerate 0 entries)) = Some checked"
    and none: "\<forall>x \<in> set checked. snd (snd x) = []"
    by (auto simp: check_sources_def case_prod_unfold)
  from assms(2) obtain i where i: "i < length entries" "entries ! i = source" by (auto simp: in_set_conv_nth)
  with those_Some [OF checked] have "?f (i, source) = Some (checked ! i)" "i < length checked"
    by (auto simp: nth_enumerate_eq)
  moreover from this none have "snd (snd (checked ! i)) = []" by simp
  ultimately have "\<exists>fine. valid_provenance_source env identity i source = Some (fine, [])"
    by auto (metis snd_conv)
  with source_sound(2) assms(3) show ?thesis by blast
qed

lemma provenance_step_sound:
  assumes "provenance_step env s (i, item) = Some s'" and "pv_problems s' = []"
  shows "pv_problems s = [] \<and> (\<exists>d. item = JObject d \<and> sourced env d \<and>
    (pv_records s' = pv_records s \<or> pv_records s' = pv_records s @ [d]) \<and>
    (py_get d ''entityKind'', py_get d ''entityId'') \<notin> set (pv_identities s) \<and>
    pv_identities s' = (py_get d ''entityKind'', py_get d ''entityId'') # pv_identities s)"
proof -
  from assms obtain d where d: "item = JObject d" by (cases item) (auto simp: provenance_step_def)
  let ?identity = "identity_text env (py_get d ''entityKind'', py_get d ''entityId'')"
  from assms obtain valid key_fine where
    s: "pv_problems s = []" "(py_get d ''entityKind'', py_get d ''entityId'') \<notin> set (pv_identities s)"
      "pv_records s' = pv_records s \<or> pv_records s' = pv_records s @ [d]"
      "pv_identities s' = (py_get d ''entityKind'', py_get d ''entityId'') # pv_identities s" and
    checks: "check_sources env ?identity (list_of (py_get d ''sources'')) = Some (valid, [])"
      "source_key_check env d ?identity = Some (key_fine, [])"
    by (auto simp: provenance_step_def d Let_def split: if_splits Option.bind_splits)
  have "sourced env d"
    unfolding sourced_def using check_sources_sound [OF checks(1)] source_key_sound [OF checks(2)] by blast
  with s d show ?thesis by blast
qed

text \<open>What the loop over the records keeps while there is no problem.\<close>

definition provenance_invariant :: "data_env \<Rightarrow> json list \<Rightarrow> provenance_state \<Rightarrow> bool" where
  "provenance_invariant env records s \<longleftrightarrow>
     distinct (pv_identities s) \<and>
     rev (pv_identities s) = map (\<lambda>j. (entry_of j ''entityKind'', entry_of j ''entityId'')) records \<and>
     (\<forall>d \<in> set (pv_records s). JObject d \<in> set records \<and> sourced env d)"

lemma provenance_loop:
  assumes "fold_checks (provenance_step env) s (enumerate n items) = Some s'" and "pv_problems s' = []"
    and "provenance_invariant env records s"
  shows "pv_problems s = [] \<and> provenance_invariant env (records @ items) s'"
  using assms
proof (induction items arbitrary: n s records)
  case (Cons item items)
  from Cons.prems(1) obtain s1 where step: "provenance_step env s (n, item) = Some s1"
    and rest: "fold_checks (provenance_step env) s1 (enumerate (Suc n) items) = Some s'"
    by (auto split: Option.bind_splits)
  have "pv_problems s1 = [] \<Longrightarrow> pv_problems s = [] \<and> provenance_invariant env (records @ [item]) s1"
    using provenance_step_sound [OF step] Cons.prems(3) by (auto simp: provenance_invariant_def entry_of_def)
  moreover have "pv_problems s1 = []"
    using rest Cons.prems(2)
  proof (induction items arbitrary: n s1)
    case (Cons item items)
    from Cons.prems(1) obtain s2 where step: "provenance_step env s1 (Suc n, item) = Some s2"
      and "fold_checks (provenance_step env) s2 (enumerate (Suc (Suc n)) items) = Some s'"
      by (auto split: Option.bind_splits)
    with Cons.IH Cons.prems(2) have "pv_problems s2 = []" by blast
    with provenance_step_sound [OF step] show ?case by blast
  qed simp
  ultimately show ?case using Cons.IH [OF rest Cons.prems(2)] by fastforce
qed simp

lemma records_sourced:
  assumes "fold_checks (provenance_step env) provenance_start (enumerate 0 records) = Some s" and "pv_problems s = []"
  shows "distinct (map (\<lambda>j. (entry_of j ''entityKind'', entry_of j ''entityId'')) records)"
    and "JString file \<in> set (officially_bound ''dataset-contract'' ''sourceFile'' (pv_records s)) \<Longrightarrow>
      \<exists>d source. JObject d \<in> set records \<and> py_get d ''sourceFile'' = JString file \<and>
        source \<in> set (list_of (py_get d ''sources'')) \<and> official_source env source \<and>
        binds_rows env file (dict_or_empty (py_get d ''sourceKey''))"
proof -
  have inv: "provenance_invariant env ([] @ records) s"
    using provenance_loop [OF assms] by (simp add: provenance_invariant_def provenance_start_def)
  then show "distinct (map (\<lambda>j. (entry_of j ''entityKind'', entry_of j ''entityId'')) records)"
    unfolding provenance_invariant_def append_Nil by (metis distinct_rev)
  show "\<exists>d source. JObject d \<in> set records \<and> py_get d ''sourceFile'' = JString file \<and>
      source \<in> set (list_of (py_get d ''sources'')) \<and> official_source env source \<and>
      binds_rows env file (dict_or_empty (py_get d ''sourceKey''))"
    if "JString file \<in> set (officially_bound ''dataset-contract'' ''sourceFile'' (pv_records s))"
    using that inv by (fastforce simp: officially_bound_def provenance_invariant_def sourced_def list_ex_iff)
qed

lemma check_provenance_sound:
  assumes "check_provenance env reasoning styles = Some []"
  obtains records s where "provenance_records env = Inr records"
    and "fold_checks (provenance_step env) provenance_start (enumerate 0 records) = Some s" and "pv_problems s = []"
    and "\<forall>file \<in> set CORE_PROVENANCE_FILES. JString file \<in> set (officially_bound ''dataset-contract'' ''sourceFile'' (pv_records s))"
proof -
  from assms obtain records s where "provenance_records env = Inr records"
    "fold_checks (provenance_step env) provenance_start (enumerate 0 records) = Some s" "pv_problems s = []"
    "uncovered CORE_PROVENANCE_FILES (officially_bound ''dataset-contract'' ''sourceFile'' (pv_records s)) = []"
    by (auto simp: check_provenance_def missing_problem_def provenance_records_def
        split: Option.bind_splits sum.splits option.splits json.splits if_splits)
  moreover from this(4) have "\<forall>file \<in> set CORE_PROVENANCE_FILES.
      JString file \<in> set (officially_bound ''dataset-contract'' ''sourceFile'' (pv_records s))"
    unfolding uncovered_def sorted_set_Nil filter_empty_conv by blast
  ultimately show thesis using that by blast
qed

lemma core_files_sourced:
  assumes "check_provenance env reasoning styles = Some []" and "file \<in> set CORE_PROVENANCE_FILES"
  shows "\<exists>records d source. provenance_records env = Inr records \<and> JObject d \<in> set records \<and>
    py_get d ''sourceFile'' = JString file \<and> source \<in> set (list_of (py_get d ''sources'')) \<and>
    official_source env source \<and> binds_rows env file (dict_or_empty (py_get d ''sourceKey''))"
  using check_provenance_sound [OF assms(1)] records_sourced(2) assms(2) by metis

text \<open>The validation without problems is that of each check.\<close>

lemma validate_sound:
  assumes "validate env = Some []"
  defines "rows \<equiv> \<lambda>domain. get_or (snd (check_domains env)) domain []"
  shows "check_stacks env = Some []" and "check_core_data_contract (snd (check_domains env)) = Some []"
    and "check_catalog_contract env (snd (check_domains env)) = Some []"
    and "check_provenance env (snd (check_reasoning_file env)) (rows ''style'') = Some []"
    and "snd (check_style_contract (rows ''style'') (rows ''product'') (snd (check_reasoning_file env))
      [(''landing'', map (\<lambda>r. field r ''Pattern ID'') (rows ''landing'')), (''style'', map sid (rows ''style''))]) = []"
  using assms(1) unfolding validate_def rows_def Let_def case_prod_unfold
  by (auto split: Option.bind_splits)

end
