(* ===== verification/Spec2Isabelle.thy ===== *)
theory Spec2Isabelle
  imports SearchCli TokenValidator Shadcn SlideDeck CipPage CipGen IconGen Backgrounds Provenance
begin

text \<open>
  The scripts of the design skills, under \<open>apps/web/.agents/skills\<close>: a search engine over CSV
  catalogues of design knowledge and a generator of design systems (\<open>ui-ux-pro-max\<close>), searches and
  checks for slide decks and a generator of them (\<open>design-system\<close>), a generator of Tailwind configurations
  and an installer of components (\<open>ui-styling\<close>), and searches for logos and identities, a generator of
  logos by remote services, generators of icons and of mockups by a model, and the presentation of an identity
  (\<open>design\<close>). The copies of the same scripts
  under \<open>.aider-desk\<close> are identical.

  \<^bold>\<open>The program and its parts.\<close> \<open>core.py\<close> routes a query to a domain, ranks the rows of the
  domain's CSV file with BM25 behind two caches keyed by the signature of the file, and answers or
  abstains by calibrated thresholds. \<open>design_system.py\<close> searches several domains, applies the
  decision rules of \<open>reasoning_contract.py\<close>, composes a recommendation, prints it as a terminal box
  or as markdown, and persists it with writes that several processes may run at once. \<open>search.py\<close>,
  \<open>search-slides.py\<close>, \<open>html-token-validator.py\<close>, \<open>generate-slide.py\<close>, \<open>tailwind_config_gen.py\<close>,
  \<open>logo/generate.py\<close>, \<open>icon/generate.py\<close>, \<open>cip/generate.py\<close> and \<open>cip/render-html.py\<close> are commands; their \<open>main\<close> is modelled after the parsing of the arguments, as a function to an exit code, the lines
  printed and the files left behind.

  \<^bold>\<open>Theories.\<close>
  \<^item> \<open>PyBase\<close>, \<open>Regex\<close>, \<open>Runs\<close>, \<open>Difflib\<close>: strings (UTF-8 bytes), dicts, sorting and the other
    built-ins; a backtracking matcher for the patterns of \<open>re\<close>, terms of a datatype \<open>rx\<close>; substitutions
    of runs of characters; the similarity ratio of \<open>difflib\<close>. \<open>PyNumbers\<close>, \<open>PyJson\<close>, \<open>Urls\<close>, \<open>Files\<close>:
    numbers read and printed, the truth and text of JSON values, \<open>urlsplit\<close>, paths and the files of a
    command. \<open>Html\<close>: templates as lists of parts, and a scanner of tags and quotes with which markup is
    compared; locale \<open>inert_values\<close> is what a template asks of the values it is filled with.
  \<^item> \<open>Config\<close>, \<open>Bm25\<close>, \<open>Store\<close>, \<open>Search\<close>, \<open>StackSearch\<close>: \<open>core.py\<close>. The module state is the record
    \<open>store\<close> (the caches and a clock), threaded by a state monad through every function that observes
    files; a \<open>world\<close> says what each observation at each moment yields. Locale \<open>ranker\<close> is what a
    ranking promises to a search, interpreted on the BM25 of \<open>core.py\<close> and on that of the slide
    scripts; locale \<open>versioned_files\<close> is the contract of file signatures the caches rely on,
    interpreted on a directory at rest. The abstract specifications \<open>search_spec\<close> and
    \<open>search_stack_spec\<close> have no caches, and the searches refine them (\<open>yields\<close> is the relation).
  \<^item> \<open>Json\<close>: \<open>json.loads\<close> and \<open>json.dumps\<close>, with and without \<open>ensure_ascii\<close>; locale \<open>object_hook\<close> is
    what a hook promises to the parser, and \<open>json_reader\<close> adds what the quoting of strings promises: what
    is written reads back. It is interpreted on the plain dict with both quotings and on the hook of the
    decision rules.
  \<^item> \<open>Reasoning\<close>: \<open>reasoning_contract.py\<close>, every \<open>raise\<close> a value.
  \<^item> \<open>Palette\<close>, \<open>Generator\<close>, \<open>AsciiBox\<close>, \<open>Markdown\<close>, \<open>Persist\<close>: \<open>design_system.py\<close> in the order of
    the file. \<open>Writers\<close> models \<open>_write_persisted_file\<close> again, one system call per step, for any
    number of writers that interleave, fail and die; one writer alone refines the function.
  \<^item> \<open>JsonOutput\<close>: the dictionaries of \<open>core.py\<close> and \<open>design_system.py\<close> as JSON values.
    \<open>SearchCli\<close>: \<open>search.py\<close>. \<open>SlideSearch\<close>, \<open>SlideContext\<close>: \<open>slide_search_core.py\<close> and
    \<open>search-slides.py\<close>. \<open>TokenValidator\<close>: \<open>html-token-validator.py\<close> and the wrapper
    \<open>slide-token-validator.py\<close>. \<open>Tailwind\<close>: \<open>tailwind_config_gen.py\<close>. \<open>Shadcn\<close>: \<open>shadcn_add.py\<close>.
    \<open>Catalogues\<close>: \<open>logo/core.py\<close>, \<open>logo/search.py\<close>, \<open>cip/core.py\<close> and \<open>cip/search.py\<close>.
  \<^item> \<open>SlideDeck\<close>: \<open>generate-slide.py\<close>. \<open>CipPage\<close>: \<open>cip/render-html.py\<close>.
  \<^item> \<open>Web\<close>, \<open>LogoGen\<close>: \<open>logo/generate.py\<close>. A server is a function of what it was sent, an activity a
    function of the session (requests, seconds slept, lines and files); locale \<open>confinement\<close> is a set of
    requests closed under the redirects that are followed, interpreted on what the generator may send.
  \<^item> \<open>IconGen\<close>: \<open>icon/generate.py\<close>; \<open>CipGen\<close>: \<open>cip/generate.py\<close>. Their activities are those of \<open>Web\<close>; what they
    write is followed with the rules \<open>writing\<close> and the relation \<open>written_at\<close>.
  \<^item> \<open>Backgrounds\<close>: \<open>fetch-background.py\<close>.
  \<^item> \<open>StyleContract\<close>, \<open>DataContracts\<close>, \<open>FileContracts\<close>, \<open>CatalogContracts\<close>, \<open>Provenance\<close>:
    \<open>validate_data.py\<close>, with \<open>date.fromisoformat\<close> in \<open>FileContracts\<close> and SHA-256 on machine words in
    \<open>Sha256\<close>. A check maps the rows to its problems, or to \<open>None\<close> where it raises; what a check without
    problems gives the other scripts is proved against \<open>Generator\<close>, \<open>Palette\<close> and \<open>StackSearch\<close>.

  \<^bold>\<open>What the lemmas show.\<close> C1 and C2: caches are invisible at rest, and snapshots are never torn
  while files change. C3 to C7 and C9: the ranking is a stable total order with positive scores exactly for
  shared words; searches return what they should, abstain when they should, and suggestions lead
  somewhere; C8: with \<open>--json\<close> every answer reads back. C10 and C11: decision rules. C13 to C16: palettes, the resolution of styles and
  the recommendation. C17 and C18: the documents. C19: the colours of a brand. C20, C30 and C38: what the
  generators of pictures write and send. C21 to C26: persistence, by one writer and by many. C28 and C39: the markup of presentations and decks does
  not depend on the texts in them. C31 to C34 and C36 and C37: the Tailwind generator, the token validator
  and the installer. C12, C27, C29, C35 and C40: what data that the validator accepts give
  the other scripts: licensed fonts, sources, legible palettes, current rows of stacks, and styles.

  \<^bold>\<open>Bounds and fuel.\<close> The star of the matcher recurs over the remaining text, since an iteration
  that consumes nothing is not repeated. The JSON parser takes fuel; \<open>json_loads\<close> gives it twice the
  length of the text and one, and C11 shows that more changes nothing. The parents of a style are
  followed with the set of visited names as measure. The attempts of a snapshot are the number the
  source passes. Runs of the writers are bounded (C25). Redirects are followed with what the handler's
  limits still allow as measure, at most 40 of them; polls count down from the source's 90.

  \<^bold>\<open>Not modelled.\<close> Floats are exact reals. Character classes, case mappings and \<open>casefold\<close> are those
  of ASCII. CSV text is parsed by the library: a file yields rows, each a dict of strings, or an
  error. Difflib's \<open>autojunk\<close> starts at 200 characters, beyond the words compared. Paths are lists of
  names without symbolic links. The sequential writes of \<open>Persist\<close> do not fail except where a path is
  taken by a file or a directory; failures of the operating system are steps in \<open>Writers\<close>. Argument
  parsing, the clock, the environment and the random names of
  temporary files are arguments or left out. The applications in TypeScript (\<open>apps/api\<close>, \<open>apps/web\<close>)
  are another language. The tests of the scripts are left out.
\<close>

text \<open>
  C1. In a data directory that does not change, the caches are invisible: whatever searches of
  domains and stacks ran before, in whatever order, each search of a sequence returns (without
  raising) what the search without caches returns for it alone.
\<close>

theorem searches_ignore_caches:
  "fst (run_state (perform_all (static_world db) requests) store_new) = map (\<lambda>r. Inr (answer_to db r)) requests"
  using perform_all_refines [of db requests] caches_ok_new [of db] by (auto simp: yields_def)

text \<open>
  C2. While files change at any moment, a snapshot that is returned is never torn: under the
  contract that equal signatures around a read name the version that was read, the rows are those
  of one version, that version was the file's at some moment of the call, and it is what is cached.
\<close>

theorem snapshot_not_torn:
  assumes "\<And>t1 t2 t3 p g. stat_at W t1 p = Some g \<Longrightarrow> t1 < t2 \<Longrightarrow> t2 < t3 \<Longrightarrow>
      stat_at W t3 p = Some g \<Longrightarrow> read_at W t2 p = ver p g"
    and "versioned_files.coherent ver variant kws s"
    and "run_state (load_csv_snapshot W p n) s = (Inr (rows, g), s')"
  shows "ver p g = Inr rows \<and> (\<exists>t. clock s \<le> t \<and> t < clock s' \<and> stat_at W t p = Some g) \<and>
    versioned_files.coherent ver variant kws s'"
proof -
  have v: "versioned_files W ver"
    using assms(1) by (simp add: versioned_files_def)
  show ?thesis
    using versioned_files.snapshot_sound [OF v assms(3,2)] by (simp add: versioned_files.snapshot_ok_def [OF v])
qed

definition moving_file :: world where
  "moving_file =
     \<lparr>stat_at = (\<lambda>t p. Some (if t < 2 then Signature 1 10 else Signature 2 20)),
      read_at = (\<lambda>t p. Inr (if t < 2 then [[(''A'', ''old'')]] else [[(''A'', ''new'')]]))\<rparr>"

definition moving_versions :: "str \<Rightarrow> signature \<Rightarrow> load_error + table" where
  "moving_versions p g = Inr (if g = Signature 1 10 then [[(''A'', ''old'')]] else [[(''A'', ''new'')]])"

theorem snapshot_not_torn_witness:
  "\<exists>s'. run_state (load_csv_snapshot moving_file ''f'' 3) store_new = (Inr ([[(''A'', ''new'')]], Signature 2 20), s')
    \<and> (\<exists>t < clock s'. stat_at moving_file t ''f'' = Some (Signature 2 20))"
proof -
  let ?c = "versioned_files.coherent moving_versions (\<lambda>v r. True) (\<lambda>k. True)"
  have stable: "read_at moving_file t2 p = moving_versions p g"
    if "stat_at moving_file t1 p = Some g" "t1 < t2" "t2 < t3" "stat_at moving_file t3 p = Some g" for t1 t2 t3 p g
    using that by (auto simp: moving_file_def moving_versions_def split: if_splits)
  then have v: "versioned_files moving_file moving_versions" by (simp add: versioned_files_def)
  have c: "?c store_new" by (rule versioned_files.coherent_new [OF v]) simp
  obtain s' where r: "run_state (load_csv_snapshot moving_file ''f'' 3) store_new =
      (Inr ([[(''A'', ''new'')]], Signature 2 20), s')"
    by (simp add: load_csv_snapshot_def file_signature_def moving_file_def store_new_def numeral_3_eq_3)
  have "moving_versions ''f'' (Signature 2 20) = Inr [[(''A'', ''new'')]] \<and>
      (\<exists>t. clock store_new \<le> t \<and> t < clock s' \<and> stat_at moving_file t ''f'' = Some (Signature 2 20)) \<and> ?c s'"
    by (rule snapshot_not_torn [OF _ c r]) (rule stable)
  with r show ?thesis by blast
qed

text \<open>
  C3. The BM25 ranking lists every document once, from the highest score to the lowest, documents
  of equal score in the order of the data, and a document's score is positive exactly when it
  shares a token with the query.
\<close>

theorem bm25_ranking:
  fixes docs query
  defines "ranked \<equiv> score (bm25_fit docs) query"
  shows "mset (map fst ranked) = mset [0..<length docs] \<and>
    sorted_wrt (\<lambda>x y. snd y < snd x \<or> snd y = snd x \<and> fst x < fst y) ranked \<and>
    (\<forall>(i, s) \<in> set ranked. i < length docs \<and> 0 \<le> s \<and> (0 < s \<longleftrightarrow> shares_token query (docs ! i)))"
proof -
  have "i < length docs \<and> 0 \<le> s \<and> (0 < s \<longleftrightarrow> shares_token query (docs ! i))" if "(i, s) \<in> set ranked" for i s
  proof -
    have "i \<in> fst ` set ranked" using that by force
    with core_rank.rank_indices [of docs query] core_rank.rank_hit [of i s docs query] that
    show ?thesis by (simp add: ranked_def)
  qed
  then show ?thesis using score_perm score_sorted unfolding ranked_def by blast
qed

theorem bm25_ranking_witness:
  "\<exists>s. (1, s) \<in> set (score (bm25_fit [''light theme'', ''dark mode'']) ''Dark!'') \<and> 0 < s \<and>
     (0, 0) \<in> set (score (bm25_fit [''light theme'', ''dark mode'']) ''Dark!'')"
proof -
  let ?r = "score (bm25_fit [''light theme'', ''dark mode'']) ''Dark!''"
  note c3 = bm25_ranking [of "[''light theme'', ''dark mode'']" "''Dark!''"]
  have "fst ` set ?r = {0, 1}"
    using arg_cong [OF conjunct1 [OF c3], of set_mset] by auto
  then have "1 \<in> fst ` set ?r" and "0 \<in> fst ` set ?r" by simp_all
  then obtain s t where st: "(1, s) \<in> set ?r" "(0, t) \<in> set ?r"
    using in_fst_image [of 1 "set ?r"] in_fst_image [of 0 "set ?r"] by blast
  have "tokenize ''Dark!'' = [''dark'']" by (subst tokenize_plain; code_simp)
  moreover have "tokenize ''dark mode'' = [''dark'', ''mode'']" by (subst tokenize_plain; code_simp)
  moreover have "tokenize ''light theme'' = [''light'', ''theme'']" by (subst tokenize_plain; code_simp)
  ultimately have "shares_token ''Dark!'' ''dark mode''" and "\<not> shares_token ''Dark!'' ''light theme''"
    by (simp_all add: shares_token_def)
  moreover have "(0 < s \<longleftrightarrow> shares_token ''Dark!'' ''dark mode'') \<and> 0 \<le> t \<and>
      (0 < t \<longleftrightarrow> shares_token ''Dark!'' ''light theme'')"
    using conjunct2 [OF conjunct2 [OF c3], THEN bspec, OF st(1)]
      conjunct2 [OF conjunct2 [OF c3], THEN bspec, OF st(2)] by simp
  ultimately have "0 < s" and "t = 0" by simp_all
  with st show ?thesis by blast
qed

text \<open>
  C4. A calibrated search of a readable file returns at most the number of rows asked for; it
  abstains exactly when the threshold is not passed, and then returns nothing; every row it
  returns is the projection of a kept row that shares a token with the query that was searched;
  and a list shorter than asked for, without abstaining, misses no such row.
\<close>

theorem calibrated_search:
  assumes "contents db path = Inr rows" and "kept_rows f rows \<noteq> []"
    and "csv_answer db path cols out query n (Some th) routing f = (found, index, diag)"
  shows "\<exists>sq. search_query diag = Some sq \<and> index = Some (bm25_fit (documents cols (kept_rows f rows))) \<and>
    abstained diag = Some (\<not> passes_threshold (the index) sq th) \<and>
    (\<not> passes_threshold (the index) sq th \<longrightarrow> found = []) \<and> length found \<le> n \<and>
    (\<forall>r \<in> set found. \<exists>row \<in> set (kept_rows f rows). r = project_row row out \<and> shares_token sq (row_text cols row)) \<and>
    (passes_threshold (the index) sq th \<and> length found < n \<longrightarrow>
      (\<forall>row \<in> set (kept_rows f rows). shares_token sq (row_text cols row) \<longrightarrow> project_row row out \<in> set found))"
proof -
  let ?data = "kept_rows f rows"
  let ?idx = "bm25_fit (documents cols ?data)"
  obtain sq rw where rw: "rewritten_in db query routing ?idx = (sq, rw)" by fastforce
  have "db path \<noteq> None" using assms(1) by (auto simp: contents_def split: option.splits)
  with assms rw have ans: "ranked_answer ?idx ?data out query (sq, rw) n th = (found, diag)" "index = Some ?idx"
    by (auto simp: csv_answer_def Let_def split: prod.splits)
  then have d: "search_query diag = Some sq" by (auto simp: ranked_answer_def Let_def)
  have found: "found = (if passes_threshold ?idx sq th
      then map (\<lambda>r. project_row r out) (pick n ?data (score ?idx sq)) else [])"
    using ans(1) ranked_answer_rows [of ?idx ?data out query sq rw n th] by simp
  show ?thesis
    using core_rank.pick_length [of n ?data "documents cols ?data" sq]
      core_rank.pick_hits [of _ n ?data "row_text cols" sq]
      core_rank.pick_complete [of n ?data "row_text cols" sq]
      ranked_answer_abstained [of ?idx ?data out query sq rw n th] ans d
    unfolding found documents_row_text by auto
qed

text \<open>
  C5. Every term suggested after an abstention is worth a retry: it occurs in the index, it is not
  a token of the failed query, and searched by itself it passes the threshold and finds rows.
\<close>

theorem suggestions_find_rows:
  assumes "term \<in> set (suggest_terms (Some (bm25_fit (documents cols data))) query limit (Some th))"
    and "0 \<le> min_score th" and "0 < n"
  shows "term \<notin> set (tokenize query) \<and> (\<exists>row \<in> set data. term \<in> set (tokenize (row_text cols row))) \<and>
    fst (ranked_answer (bm25_fit (documents cols data)) data out q (term, rewrites) n th) \<noteq> []"
proof -
  note s = suggest_terms_sound [OF assms(1)]
  then have "passes_threshold (bm25_fit (documents cols data)) term th" by simp
  from pick_nonempty [OF this assms(2,3)] this s show ?thesis
    by (auto simp: ranked_answer_rows in_vocabulary_iff documents_row_text)
qed

text \<open>
  C6. Routing: without any matching keyword the domain is \<open>style\<close>; otherwise it is the one domain
  whose total is positive, not exceeded by another domain's, and first in the tie-break order among
  the domains of that total. A runner-up is named exactly when another domain matched as well.
\<close>

theorem routing_picks_the_best:
  fixes labels query
  defines "scores \<equiv> domain_scores (domain_keyword_table labels) (normalize (lower query))"
  shows "case detect_with (domain_keyword_table labels) query of (d, runner) \<Rightarrow>
    (if \<forall>(d, t) \<in> set scores. t = 0 then d = ''style'' \<and> runner = None
     else \<exists>s. get scores d = Some s \<and> 0 < s \<and>
       (\<forall>(d', t) \<in> set scores. d' \<noteq> d \<longrightarrow> t < s \<or> t = s \<and> domain_rank d < domain_rank d') \<and>
       (runner = None \<longleftrightarrow> (\<forall>(d', t) \<in> set scores. d' \<noteq> d \<longrightarrow> t = 0)))"
  unfolding scores_def by (rule case_prodI2) (rule detect_with_best, simp)

lemma scores_of_pie:
  "domain_scores (domain_keyword_table []) ''pie'' =
    [(''color'', 0), (''chart'', 2), (''landing'', 0), (''product'', 0), (''style'', 0), (''ux'', 0),
     (''typography'', 0), (''google-fonts'', 0), (''icons'', 0), (''gsap'', 0), (''react'', 0), (''web'', 0)]"
proof -
  have "contains_phrase ''pie'' ''pie''"
    by (simp add: contains_phrase_def py_defs search_from.simps phrase_rx_def)
  moreover have "keyword_weight ''chart'' ''pie'' = 2"
    by (simp add: keyword_weight_def py_defs)
  moreover have "\<not> rx_found hex_color_rx ''pie''"
    by (simp add: hex_color_rx_def rx_found_def rx_search_def search_from.simps)
  ultimately show ?thesis
    unfolding domain_scores_def domain_keyword_table_def Let_def
    by (simp add: keyword_total_filter)
qed

theorem routing_picks_the_best_witness:
  "fst (detect_with (domain_keyword_table []) ''Pie'') = ''chart''"
proof -
  have q: "normalize (lower ''Pie'') = ''pie''"
    by (subst normalize_plain; code_simp)
  obtain d r where det: "detect_with (domain_keyword_table []) ''Pie'' = (d, r)" by fastforce
  let ?scores = "domain_scores (domain_keyword_table []) ''pie''"
  have chart: "(''chart'', 2) \<in> set ?scores" by (simp add: scores_of_pie)
  then have "\<not> (\<forall>(d, t) \<in> set ?scores. t = 0)" by fastforce
  with routing_picks_the_best [of "[]" "''Pie''"] obtain s where "get ?scores d = Some s" "0 < s"
      "\<forall>(d', t) \<in> set ?scores. d' \<noteq> d \<longrightarrow> t < s \<or> t = s \<and> domain_rank d < domain_rank d'"
    unfolding q det by (auto simp only: prod.case if_False)
  then have "d = ''chart''" unfolding scores_of_pie by (simp split: if_splits)
  with det show ?thesis by simp
qed

definition two_notes :: data_dir where
  "two_notes p = Some (Signature 1 1, Inr [[(''Notes'', ''calm blue'')], [(''Notes'', ''warm red'')]])"

theorem calibrated_search_witness:
  "\<exists>sq index diag found. csv_answer two_notes ''f'' [''Notes''] [''Notes''] ''blue'' 5 (Some NO_THRESHOLD) None None =
       (found, index, diag) \<and> search_query diag = Some sq \<and> length found \<le> 5"
proof -
  obtain found index diag where
    a: "csv_answer two_notes ''f'' [''Notes''] [''Notes''] ''blue'' 5 (Some NO_THRESHOLD) None None = (found, index, diag)"
    by (metis prod.exhaust)
  from calibrated_search [OF _ _ a, of "[[(''Notes'', ''calm blue'')], [(''Notes'', ''warm red'')]]"] a show ?thesis
    by (simp add: contents_def two_notes_def kept_rows_def) blast
qed

theorem suggestions_find_rows_witness:
  "suggest_terms (Some (bm25_fit (documents [''Notes''] [[(''Notes'', ''card'')]]))) ''cards'' 6 (Some NO_THRESHOLD) = [''card''] \<and>
   fst (ranked_answer (bm25_fit (documents [''Notes''] [[(''Notes'', ''card'')]])) [[(''Notes'', ''card'')]] [''Notes'']
     ''cards'' (''card'', []) 3 NO_THRESHOLD) \<noteq> []"
proof -
  let ?data = "[[(''Notes'', ''card'')]]"
  let ?idx = "bm25_fit (documents [''Notes''] ?data)"
  have docs: "documents [''Notes''] ?data = [''card'']" by (simp add: documents_def get_or_def)
  have tok: "tokenize ''card'' = [''card'']" "tokenize ''cards'' = [''cards'']"
    by (subst tokenize_plain; code_simp)+
  have voc: "vocabulary ?idx = [''card'']"
    by (simp add: docs tok vocabulary_def fit_def bm25_new_def Let_def term_freq_def bump_def keys_def get_or_def)
  have "passes_threshold ?idx ''card'' NO_THRESHOLD"
    by (simp add: passes_no_threshold docs shares_token_def tok)
  moreover have "matched ''cards'' ''card'' = 4" by code_simp
  ultimately have s: "suggest_terms (Some ?idx) ''cards'' 6 (Some NO_THRESHOLD) = [''card'']"
    by (simp add: suggest_terms_def Let_def tok voc max_of_def similar_enough_def ratio_def)
  with suggestions_find_rows [of "''card''" "[''Notes'']" ?data "''cards''" 6 NO_THRESHOLD 3] show ?thesis
    by (simp add: NO_THRESHOLD_def)
qed

text \<open>
  C7. A search that answers was asked for 1 to 20 rows (and not with a \<open>bool\<close>), returns at most that
  many, each the projection of a row of the file it names on the columns of its domain, and offers
  at most six suggestions exactly when it found nothing.
\<close>

theorem search_answers:
  assumes "search_spec db query domain m diags = Answer out"
  shows "1 \<le> int_of m \<and> int_of m \<le> 20 \<and> out_count out = length (results out) \<and> out_count out \<le> nat (int_of m) \<and>
    (\<forall>r \<in> set (results out). \<exists>row \<in> set (rows_or_empty db (data_path (out_file out))).
       r = project_row row (output_cols (domain_config_of (searched_domain (out_domain out))))) \<and>
    (suggestions out = None \<longleftrightarrow> results out \<noteq> []) \<and> (\<forall>l. suggestions out = Some l \<longrightarrow> length l \<le> 6)"
  using search_spec_ok [OF assms] unfolding answer_ok_def from_rows_def by blast

text \<open>
  C8. With \<open>--json\<close> the command \<open>search.py\<close> prints one document, and \<open>json.loads\<close> reads it as the answer
  that was found, refused or generated: whatever the tables hold and whatever was asked for, with
  quotation marks, backslashes, control characters and characters beyond ASCII, no member is lost.
\<close>

theorem json_answer_reads_back:
  assumes "a_json args" and "search_main db env colorterm args fs = (Inr lines, fs')"
  shows "\<exists>document j. lines = [document] \<and> json_loads () plain_object document = Inr j \<and>
    (if a_design args
     then \<exists>r. fst (generate_design_system db env colorterm (a_query args) (a_run args) fs) = Inr r \<and> j = run_json r
     else j = (case a_stack args of
         Some stack \<Rightarrow> stack_json (search_stack_spec db (a_query args) stack (PyInt (a_max args)) False)
       | None \<Rightarrow> search_json (search_spec db (a_query args) (a_domain args) (PyInt (a_max args)) False)))"
proof -
  obtain document j where "lines = [document]" "json_loads () plain_object document = Inr j"
    and j: "answer_json db env colorterm args fs = Inr j" using json_reads_back [OF assms] by blast
  moreover have "\<exists>r. fst (generate_design_system db env colorterm (a_query args) (a_run args) fs) = Inr r \<and> j = run_json r"
    if "a_design args"
    using j that
    by (cases "fst (generate_design_system db env colorterm (a_query args) (a_run args) fs)") (auto simp: answer_json_def)
  ultimately show ?thesis using j by (auto simp: answer_json_def)
qed


definition style_file :: data_dir where
  "style_file p = (if p = ''data/styles.csv''
     then Some (Signature 7 70,
       Inr [[(''Style ID'', ''flat''), (''Style Category'', ''Flat Design''), (''Aliases'', ''plain | two-tone'')],
            [(''Style ID'', ''glass''), (''Style Category'', ''Glassmorphism''), (''Aliases'', ''frosted'')]])
     else None)"

lemma style_path: "data_path (cfg_file (domain_config_of ''style'')) = ''data/styles.csv''"
  by (simp add: data_path_def DATA_DIR_def domain_config_of_def CSV_CONFIG_def)

theorem search_answers_witness:
  "\<exists>out. search_spec style_file ''frosted'' (Some ''style'') (PyInt 3) False = Answer out \<and> out_count out \<le> 3"
proof -
  obtain out where "search_spec style_file ''frosted'' (Some ''style'') (PyInt 3) False = Answer out"
    by (cases "resolved style_file ''style'' None None ''frosted''")
      (simp add: search_spec_def search_in_spec_def Let_def style_path style_file_def)
  with search_answers [OF this] show ?thesis by simp
qed





text \<open>
  C12. Where the check of the font catalogue finds no problem, every family in it has an active licence of the
  accepted kinds and is none of the excluded ones, and every style sheet of a font pairing asks only for
  families of the catalogue, in weights that the catalogue has for them.
\<close>

theorem validated_fonts_licensed:
  assumes "check_font_catalog env rows licenses typography = Some []"
  shows "(\<forall>r \<in> set rows. (\<exists>item \<in> set (list_of (py_get licenses ''families'')). licensed item (field r ''Family'')) \<and>
       (\<forall>item \<in> set (list_of (py_get licenses ''excludedFamilies'')). entry_of item ''name'' \<noteq> JString (field r ''Family''))) \<and>
    (\<forall>t \<in> set typography. \<forall>d \<in> set (font_families (field t ''Google Fonts URL'')).
       (\<exists>r \<in> set rows. field r ''Family'' = font_name d) \<and> declaration_served (available_styles rows) d)"
proof -
  note sound = font_catalog_sound [OF assms]
  have "\<exists>r \<in> set rows. field r ''Family'' = font_name d"
    if "t \<in> set typography" "d \<in> set (font_families (field t ''Google Fonts URL''))" for t d
  proof -
    from sound(4) [OF that] have "font_name d \<in> set (keys (available_styles rows))"
      by (auto simp: declaration_served_def in_keys_iff)
    then show ?thesis unfolding available_families by auto
  qed
  with sound(2-4) show ?thesis by blast
qed

definition inter_row :: row where
  "inter_row =
     [(''Family'', ''Inter''), (''Date Added'', ''2020-01-24''), (''Last Modified'', ''2025-09-04''),
      (''Google Fonts URL'', ''https://fonts.google.com/specimen/Inter''), (''Styles'', ''400|700i'')]"

definition inter_licenses :: "json dict" where
  "inter_licenses =
     [(''source'', JObject [(''repository'', JString ''https://github.com/google/fonts''), (''metadataFile'', JString ''METADATA.pb''),
         (''revision'', JString (replicate 40 CHR ''a''))]),
      (''familyCount'', JNumber ''1''), (''excludedFamilies'', JArray []),
      (''families'', JArray [JObject [(''name'', JString ''Inter''), (''license'', JString ''OFL''), (''status'', JString ''active''),
         (''date_added'', JString ''2020-01-24''), (''verifiedAt'', JString ''2026-08-13'')]])]"

definition inter_pairing :: row where
  "inter_pairing = [(''Font Pairing Name'', ''One''), (''Google Fonts URL'', ''https://fonts.googleapis.com/css2?family=Inter:wght@400;700'')]"

definition no_files :: data_env where
  "no_files =
     \<lparr>de_dir = ''data'', de_csv = (\<lambda>f. None), de_text = (\<lambda>f. None), de_today = 739900, de_ipv6 = (\<lambda>_. False),
      de_csv_error = (\<lambda>_ _. []), de_json_error = (\<lambda>_. []), de_rule_error = (\<lambda>_ _. []), de_repr = (\<lambda>_. [])\<rparr>"

theorem validated_fonts_licensed_witness:
  "declaration_served (available_styles [inter_row]) ''Inter:wght@400;700'' \<and>
   (\<exists>item \<in> set (list_of (py_get inter_licenses ''families'')). licensed item ''Inter'')"
proof -
  have "check_font_catalog no_files [inter_row] inter_licenses [inter_pairing] = Some []" by code_simp
  from validated_fonts_licensed [OF this] show ?thesis
  proof -
    have "''Inter:wght@400;700'' \<in> set (font_families (field inter_pairing ''Google Fonts URL''))"
      "field inter_row ''Family'' = ''Inter''" by code_simp+
    with validated_fonts_licensed [OF \<open>check_font_catalog no_files [inter_row] inter_licenses [inter_pairing] = Some []\<close>]
    show ?thesis by auto
  qed
qed

text \<open>
  C13. A palette derived for dark mode is legible whatever palette it comes from: body, card and
  muted text have a contrast of at least 4.5 with their surfaces, the focus ring at least 3 with the
  background, the background counts as dark, and the brand colours are those of the palette.
\<close>

theorem derived_palette_legible:
  "(\<forall>(fg, bg) \<in> {(''Foreground'', ''Background''), (''Card Foreground'', ''Card''), (''Muted Foreground'', ''Muted'')}.
      \<exists>r. contrast_ratio (get (derive_dark_palette p) fg) (get (derive_dark_palette p) bg) = Some r \<and> 45 / 10 \<le> r) \<and>
   (\<exists>r. contrast_ratio (get (derive_dark_palette p) ''Ring'') (get (derive_dark_palette p) ''Background'') = Some r \<and> 3 \<le> r) \<and>
   palette_is_dark (derive_dark_palette p) \<and>
   (\<forall>k \<in> {''Primary'', ''Secondary'', ''Accent'', ''On Primary'', ''On Secondary'', ''On Accent''}.
      get (derive_dark_palette p) k = get p k)"
proof -
  have "get (derive_dark_palette p) ''Ring'' = Some (derived_ring p)"
      "get (derive_dark_palette p) ''Background'' = Some dark_background"
    by (simp_all add: derive_dark_palette_def)
  with derived_ring_contrast [of p] have
    "\<exists>r. contrast_ratio (get (derive_dark_palette p) ''Ring'') (get (derive_dark_palette p) ''Background'') = Some r \<and> 3 \<le> r"
    by (auto simp: enough_contrast_def split: option.splits)
  then show ?thesis
    using palette_texts_legible [of p] derived_dark_background [of p] by (simp add: derive_keeps)
qed

theorem derived_palette_legible_witness:
  "\<exists>r. contrast_ratio (Some ''#F8FAFC'') (Some ''#0F172A'') = Some r \<and> 45 / 10 \<le> r"
proof -
  have "get (derive_dark_palette []) ''Foreground'' = Some ''#F8FAFC''"
      "get (derive_dark_palette []) ''Background'' = Some ''#0F172A''"
    by (simp_all add: derive_dark_palette_def dark_background_def)
  with derived_palette_legible [of "[]"] show ?thesis by simp
qed





text \<open>
  C17. Wrapping loses nothing: the words of the lines, after the prefix, are the words of the text
  in order, every line starts with the prefix, and it is within the width unless it holds one word
  that does not fit.
\<close>

theorem wrapping_keeps_words:
  "concat (map (\<lambda>line. split_ws (body lead line)) (wrap_text txt lead width)) = split_ws txt \<and>
   (\<forall>line \<in> set (wrap_text txt lead width). starts_with lead line \<and>
      (int (py_len line) \<le> int width - 2 \<or> (\<exists>w. line = lead @ w \<and> length (split_ws w) \<le> 1)))"
  by (rule wrap_text_spec)

text \<open>
  C18. The advice written into the master file in dark mode reads back as the clauses that were kept,
  each as its own bullet.
\<close>

theorem advice_reads_back:
  assumes "anti_patterns ds = filter_anti_patterns_for_mode raw ''dark''"
  shows "advice_bullets ds = kept_clauses raw \<and>
    (\<forall>advice \<in> set (kept_clauses raw). (''- '' @ u_cross @ '' '' @ advice) \<in> set (master_anti ds))"
  using advice_round_trip [OF assms] master_anti_bullets by metis




text \<open>
  C20. Pictures are reported exactly if their files were written. For a logo: either the result is \<open>None\<close> and no
  file changed, or it is the path of the logo and just this file was written. After a batch of logos, or a set
  of mockups, the files reported exist, and no other file has changed; a batch that raises has changed none,
  and a set that raises has removed none. The mockups are for some of the deliverables asked for, in their order.
\<close>

theorem pictures_reported_are_written:
  "(case generate_logo env sdk api_keys timestamp job s of (r, s') \<Rightarrow>
      r = Inr None \<and> se_files s' = se_files s \<or>
      r = Inr (Some (logo_path_for timestamp job)) \<and>
        (\<exists>bytes. write_text (path_of (logo_path_for timestamp job)) bytes (se_files s) = Some (se_files s'))) \<and>
   (case generate_logo_batch env sdk api_keys timestamp batch s of
      (Inl e, s') \<Rightarrow> se_files s' = se_files s
    | (Inr ps, s') \<Rightarrow> accounted ps (se_files s) (se_files s')) \<and>
   (case generate_cip_set cip mockups s of
      (Inl e, s') \<Rightarrow> \<exists>Q. written_at Q (se_files s) (se_files s')
    | (Inr rs, s') \<Rightarrow> written_at (set (map mr_path rs)) (se_files s) (se_files s') \<and>
        subseq (map mr_deliverable rs) (if mj_deliverables mockups = [] then core_deliverables else mj_deliverables mockups))"
proof (intro conjI)
  show "case generate_logo env sdk api_keys timestamp job s of (r, s') \<Rightarrow>
      r = Inr None \<and> se_files s' = se_files s \<or>
      r = Inr (Some (logo_path_for timestamp job)) \<and>
        (\<exists>bytes. write_text (path_of (logo_path_for timestamp job)) bytes (se_files s) = Some (se_files s'))"
    using generate_logo_saves by (auto split: prod.split)
qed (rule batch_accounted cip_set_result [unfolded set_result_def])+

text \<open>
  C21. No name leads outside its directory: whatever the project and the page are called, the master
  file is \<open>design-system/<slug>/MASTER.md\<close> and the page file \<open>design-system/<slug>/pages/<slug>.md\<close>
  under the base, and a slug is a non-empty run of lower-case letters, digits, underscores and
  inner dashes. Making a slug of a slug changes nothing.
\<close>

theorem persisted_paths_stay_inside:
  "\<exists>project file. slug_ok project \<and> slug_ok file \<and>
     master_path base ds = sub_path base [''design-system'', project, ''MASTER.md''] \<and>
     page_path base ds page = sub_path base [''design-system'', project, ''pages'', file @ ''.md''] \<and>
     safe_slug project ''default'' = project \<and> safe_slug file ''page'' = file"
proof (intro exI conjI)
  let ?project = "safe_slug (if project_name ds \<noteq> [] then project_name ds else ''default'') ''default''"
  let ?file = "safe_slug page ''page''"
  show p: "slug_ok ?project" and f: "slug_ok ?file" by (simp_all add: safe_slug_ok default_slugs)
  show "safe_slug ?project ''default'' = ?project" and "safe_slug ?file ''page'' = ?file"
    by (rule safe_slug_id [OF p], rule safe_slug_id [OF f])
qed (simp_all add: master_path_def page_path_def project_dir_def sub_path_def)

text \<open>
  C22. Persisting changes exactly the files it reports: the master file and the page file, each with
  its full text. It reports success exactly when it wrote something, and without \<open>force\<close> it only
  writes files that were absent.
\<close>

theorem persist_writes_what_it_reports:
  assumes "persist_design_system db env ds page output_dir q force fs = (Some r, fs')"
    and "base = base_dir (cwd env) output_dir"
    and "fs_files fs (temp_name (master_path base ds) (master_rnd env)) = None"
    and "fs_files fs (temp_name (page_path base ds page) (page_rnd env)) = None"
  shows "\<exists>written. distinct (map fst written) \<and>
    set written \<subseteq> {(master_path base ds, format_master_md (master_time env) ds),
                   (page_path base ds page, format_page_override_md db (page_time env) ds page q)} \<and>
    fs_files fs' = fs_files fs ++ map_of written \<and> created_files r = map path_str (map fst written) \<and>
    (status r = ''success'' \<longleftrightarrow> written \<noteq> []) \<and> (force \<or> (\<forall>(p, c) \<in> set written. fs_files fs p = None))"
  using persist_effect [OF assms] unfolding wrote_exactly_def by blast

text \<open>
  C23. Writers that run at the same time never leave half a file: whatever the interleaving, the
  failures of the system and the deaths of writers, every file that is not temporary is as it was
  before or holds the whole text of one of the writers to it.
\<close>

theorem published_files_whole:
  assumes "reaches jobs (F0, all_idle) d" and "targets_ok jobs" and "\<not> is_temp p"
  shows "fst d p = F0 p \<or> (\<exists>j \<in> set jobs. job_target j = p \<and> fst d p = Some (job_text j))"
  using reaches_ok [OF assms(1,2)] assms(3) unfolding files_ok_def by blast

text \<open>
  C24. Without \<open>force\<close> nobody's work is lost: a file that was there keeps its text, and among writers
  to an absent file at most one wins, and its text is what the file holds.
\<close>

theorem unforced_writers_keep_files:
  assumes "reaches jobs (F0, all_idle) d" and "targets_ok jobs" and "\<not> is_temp p" and "unforced jobs p"
  shows "(F0 p \<noteq> None \<longrightarrow> fst d p = F0 p) \<and>
    (\<forall>i < length jobs. won (snd d i) \<and> job_target (jobs ! i) = p \<longrightarrow>
       fst d p = Some (job_text (jobs ! i)) \<and> F0 p = None \<and>
       (\<forall>j < length jobs. won (snd d j) \<and> job_target (jobs ! j) = p \<longrightarrow> j = i))"
proof (intro conjI allI impI)
  note ok = conjunct2 [OF reaches_ok [OF assms(1,2)], unfolded files_ok_def]
  note first = ok [THEN conjunct2, THEN conjunct1, rule_format, of p]
    and winner = ok [THEN conjunct2, THEN conjunct2, rule_format, of _ p]
  show "fst d p = F0 p" if "F0 p \<noteq> None" using first that assms(3,4) by simp
  fix i assume i: "i < length jobs" "won (snd d i) \<and> job_target (jobs ! i) = p"
  then have w: "fst d p = Some (job_text (jobs ! i)) \<and> F0 p = None \<and>
      (\<forall>j < length jobs. won (snd d j) \<and> job_target (jobs ! j) = p \<longrightarrow> j = i)"
    using winner [of i] assms(4) by metis
  then show "fst d p = Some (job_text (jobs ! i))" and "F0 p = None" by blast+
  fix j assume "j < length jobs" "won (snd d j) \<and> job_target (jobs ! j) = p"
  with w show "j = i" by blast
qed


text \<open>
  C26. For one writer, the steps implement the function: some run of it finishes without an error of
  the system, and every such run has the outcome and the files of \<open>write_persisted_file\<close>.
\<close>

theorem single_writer_refines:
  assumes "\<not> is_temp (job_target j)" and "F0 (temp_name (job_target j) rnd) = None"
  shows "(\<exists>r F ph. reaches [j] (F0, all_idle) (F, ph) \<and> ph 0 = Finished r \<and> r \<noteq> OsError) \<and>
    (\<forall>F ph r. reaches [j] (F0, all_idle) (F, ph) \<and> ph 0 = Finished r \<and> r \<noteq> OsError \<longrightarrow>
       write_persisted_file rnd (job_target j) (job_text j) (job_force j) (no_dirs F0) = (r, no_dirs F))"
proof (intro conjI allI impI)
  show "\<exists>r F ph. reaches [j] (F0, all_idle) (F, ph) \<and> ph 0 = Finished r \<and> r \<noteq> OsError"
    by (rule solo_exists [of j F0 rnd]) (use assms in auto)
  fix F ph r assume "reaches [j] (F0, all_idle) (F, ph) \<and> ph 0 = Finished r \<and> r \<noteq> OsError"
  then show "write_persisted_file rnd (job_target j) (job_text j) (job_force j) (no_dirs F0) = (r, no_dirs F)"
    by (intro solo_refines [of j F0 F ph]) (use assms in auto)
qed

definition two_jobs :: "job list" where
  "two_jobs = [\<lparr>job_target = (True, [''MASTER.md'']), job_text = ''blue'', job_force = False\<rparr>,
               \<lparr>job_target = (True, [''MASTER.md'']), job_text = ''red'', job_force = False\<rparr>]"

lemma two_jobs_ok: "targets_ok two_jobs" "unforced two_jobs (True, [''MASTER.md''])" "\<not> is_temp (True, [''MASTER.md''])"
  by (simp_all add: targets_ok_def unforced_def two_jobs_def is_temp_def)

abbreviation the_master :: path where
  "the_master \<equiv> (True, [''MASTER.md''])"

lemma blue_wins:
  "\<exists>F t. reaches two_jobs (\<lambda>_. None, all_idle) (F, all_idle(0 := Cleaning t Wrote)) \<and> F the_master = Some ''blue''"
proof -
  let ?t = "temp_name the_master ''x''" and ?F = "\<lambda>_::path. None :: str option"
  have t: "?t \<noteq> the_master" by (simp add: temp_name_def)
  have j: "0 < length two_jobs" "job_target (two_jobs ! 0) = the_master" "job_text (two_jobs ! 0) = ''blue''"
      "\<not> job_force (two_jobs ! 0)" by (simp_all add: two_jobs_def)
  have s1: "writer_step two_jobs (?F, all_idle) (?F(?t \<mapsto> []), all_idle(0 := Opened ?t))"
    using j by (intro writer_step.create [of 0 _ _ _ "''x''"]) (auto simp: all_idle_def)
  have s2: "writer_step two_jobs (?F(?t \<mapsto> []), all_idle(0 := Opened ?t)) (?F(?t \<mapsto> ''blue''), all_idle(0 := Opened ?t))"
    using writer_step.extend [of 0 two_jobs "all_idle(0 := Opened ?t)" ?t "?F(?t \<mapsto> [])" "[]" 4] j by simp
  have s3: "writer_step two_jobs (?F(?t \<mapsto> ''blue''), all_idle(0 := Opened ?t)) (?F(?t \<mapsto> ''blue''), all_idle(0 := Written ?t))"
    using writer_step.synced [of 0 two_jobs "all_idle(0 := Opened ?t)" ?t "?F(?t \<mapsto> ''blue'')" "''blue''"] j by simp
  have s4: "writer_step two_jobs (?F(?t \<mapsto> ''blue''), all_idle(0 := Written ?t))
      (?F(?t \<mapsto> ''blue'', the_master \<mapsto> ''blue''), all_idle(0 := Cleaning ?t Wrote))"
    using writer_step.link [of 0 two_jobs "all_idle(0 := Written ?t)" ?t "?F(?t \<mapsto> ''blue'')" "''blue''"] j t by simp
  from reaches.more [OF reaches.more [OF reaches.more [OF reaches.more [OF reaches.start s1] s2] s3] s4]
  show ?thesis by (intro exI [of _ "?F(?t \<mapsto> ''blue'', the_master \<mapsto> ''blue'')"] exI [of _ ?t]) simp
qed

theorem published_files_whole_witness:
  "\<exists>d. reaches two_jobs (\<lambda>_. None, all_idle) d \<and> fst d the_master \<noteq> None \<and>
     (\<exists>j \<in> set two_jobs. job_target j = the_master \<and> fst d the_master = Some (job_text j))"
proof -
  obtain F t where r: "reaches two_jobs (\<lambda>_. None, all_idle) (F, all_idle(0 := Cleaning t Wrote))"
    and F: "F the_master = Some ''blue''" using blue_wins by blast
  from published_files_whole [OF r two_jobs_ok(1,3)] F
  have "\<exists>j \<in> set two_jobs. job_target j = the_master \<and> F the_master = Some (job_text j)" by simp
  with r F show ?thesis by (intro exI [of _ "(F, all_idle(0 := Cleaning t Wrote))"]) simp
qed

theorem unforced_writers_keep_files_witness:
  "\<exists>F ph. reaches two_jobs (\<lambda>_. None, all_idle) (F, ph) \<and> won (ph 0) \<and> F the_master = Some ''blue'' \<and> \<not> won (ph 1)"
proof -
  obtain F t where r: "reaches two_jobs (\<lambda>_. None, all_idle) (F, all_idle(0 := Cleaning t Wrote))" (is "reaches _ _ (_, ?ph)")
    using blue_wins by blast
  note keep = unforced_writers_keep_files [OF r two_jobs_ok(1,3,2), THEN conjunct2, rule_format, of 0, unfolded snd_conv fst_conv]
  have w: "won (?ph 0)" by simp
  have "F the_master = Some ''blue''" and "\<not> won (?ph 1)"
    using keep w by (auto simp: two_jobs_def)
  with r w show ?thesis by blast
qed


theorem single_writer_refines_witness:
  "\<exists>r F ph. reaches [two_jobs ! 0] (\<lambda>_. None, all_idle) (F, ph) \<and> ph 0 = Finished r \<and> r \<noteq> OsError"
  using single_writer_refines [of "two_jobs ! 0" "\<lambda>_. None" "''x''"] two_jobs_ok(3) by (simp add: two_jobs_def)

definition at_home :: surroundings where
  "at_home = \<lparr>cwd = (True, [''home'']), master_time = ''noon'', page_time = ''noon'', master_rnd = ''a'', page_rnd = ''b''\<rparr>"

theorem persist_writes_what_it_reports_witness:
  "\<exists>ds r fs'. persist_design_system (\<lambda>_. None) at_home ds [] None None False (no_dirs (\<lambda>_. None)) = (Some r, fs') \<and>
     (status r = ''success'' \<longleftrightarrow> created_files r \<noteq> [])"
proof -
  fix ds
  obtain r fs' where p: "persist_design_system (\<lambda>_. None) at_home ds [] None None False (no_dirs (\<lambda>_. None)) = (Some r, fs')"
  proof -
    let ?base = "base_dir (cwd at_home) None"
    obtain fs1 where 1: "make_dirs (project_dir ?base ds) (no_dirs (\<lambda>_. None)) = Some fs1" and "fs_files fs1 = (\<lambda>_. None)"
      by (simp add: make_dirs_def no_dirs_def)
    then obtain fs2 where 2: "make_dirs (sub_path (project_dir ?base ds) [''pages'']) fs1 = Some fs2"
      by (simp add: make_dirs_def)
    obtain res fs3 where w: "write_persisted_file (master_rnd at_home) (master_path ?base ds)
        (format_master_md (master_time at_home) ds) False fs2 = (res, fs3)" by fastforce
    then have "res \<noteq> OsError" by (auto simp: write_persisted_file_def Let_def split: if_splits)
    with 1 2 w that show thesis by (cases res) (auto simp: persist_design_system_def Let_def)
  qed
  from persist_writes_what_it_reports [OF p refl] show ?thesis
    using p by (fastforce simp: no_dirs_def)
qed

text \<open>
  C27. Where the loop over the records of the provenance has found no problem, no two records have the same
  identity, and each file that the records bind officially (all core files have to be) is that of a record
  with a public \<open>https\<close> page of an approved host as a source, and with a scope that names rows and a column
  of the file as it is.
\<close>

theorem bound_files_have_official_sources:
  assumes "fold_checks (provenance_step env) provenance_start (enumerate 0 records) = Some s" and "pv_problems s = []"
  shows "distinct (map (\<lambda>j. (entry_of j ''entityKind'', entry_of j ''entityId'')) records) \<and>
    (\<forall>file. JString file \<in> set (officially_bound ''dataset-contract'' ''sourceFile'' (pv_records s)) \<longrightarrow>
      (\<exists>d source. JObject d \<in> set records \<and> py_get d ''sourceFile'' = JString file \<and>
         source \<in> set (list_of (py_get d ''sources'')) \<and> official_source env source \<and>
         binds_rows env file (dict_or_empty (py_get d ''sourceKey''))))"
  using records_sourced [OF assms] by blast

definition small_record :: "json dict" where
  "small_record =
     [(''entityKind'', JString ''dataset-contract''), (''entityId'', JString ''colors''), (''status'', JString ''active''),
      (''sla'', JString ''manual-verified''), (''verifiedAt'', JString ''2026-08-13''), (''sourceFile'', JString ''colors.csv''),
      (''sourceKey'', JObject [(''Scope'', JString ''No 1-2; Ring'')]), (''appliesTo'', JArray [JString ''search'']),
      (''sources'', JArray [JObject [(''type'', JString ''official''), (''ref'', JString ''https://www.w3.org/TR/WCAG22/'')]])]"

definition small_data :: data_env where
  "small_data =
     \<lparr>de_dir = ''data'', de_csv = (\<lambda>f. Some (Inr ([''No'', ''Ring''], [[(''No'', ''1'')], [(''No'', ''2'')]]))),
      de_text = (\<lambda>f. None), de_today = 739900, de_ipv6 = (\<lambda>_. False), de_csv_error = (\<lambda>_ _. []),
      de_json_error = (\<lambda>_. []), de_rule_error = (\<lambda>_ _. []), de_repr = (\<lambda>_. [])\<rparr>"

theorem bound_files_have_official_sources_witness:
  "\<exists>source \<in> set (list_of (py_get small_record ''sources'')). official_source small_data source \<and>
     binds_rows small_data ''colors.csv'' [(''Scope'', JString ''No 1-2; Ring'')]"
proof -
  let ?identity = "identity_text small_data (JString ''dataset-contract'', JString ''colors'')"
  let ?source = "JObject [(''type'', JString ''official''), (''ref'', JString ''https://www.w3.org/TR/WCAG22/'')]"
  have gets: "py_get small_record ''entityKind'' = JString ''dataset-contract''" "py_get small_record ''entityId'' = JString ''colors''"
    "py_get small_record ''status'' = JString ''active''" "py_get small_record ''sla'' = JString ''manual-verified''"
    "py_get small_record ''sourceFile'' = JString ''colors.csv''"
    "py_get small_record ''sourceKey'' = JObject [(''Scope'', JString ''No 1-2; Ring'')]"
    "list_of (py_get small_record ''sources'') = [?source]" by code_simp+
  have places: "applies_to_fine (py_get small_record ''appliesTo'') = Some True" by code_simp
  have items: "record_problems small_data small_record ?identity True = []" by code_simp
  have sources: "check_sources small_data ?identity [?source] = Some ([?source], [])" by code_simp
  have key: "source_key_check small_data small_record ?identity = Some (True, [])" by code_simp
  have kinds: "one_of (JString ''dataset-contract'') PROVENANCE_KINDS" "some_text (JString ''colors'')" by code_simp+
  have step: "fold_checks (provenance_step small_data) provenance_start (enumerate 0 [JObject small_record]) =
      Some (provenance_start\<lparr>pv_identities := [(JString ''dataset-contract'', JString ''colors'')], pv_records := [small_record]\<rparr>)"
  proof -
    have "list_ex (\<lambda>source. entry_of source ''type'' \<noteq> JString ''derived'') [?source]" by code_simp
    with gets places items sources key kinds show ?thesis
      by (simp add: provenance_step_def provenance_start_def Let_def when_bad_def add_value_def dict_or_empty_def hashable_def)
  qed
  have bound: "JString ''colors.csv'' \<in> set (officially_bound ''dataset-contract'' ''sourceFile'' [small_record])"
    by code_simp
  let ?final = "provenance_start\<lparr>pv_identities := [(JString ''dataset-contract'', JString ''colors'')], pv_records := [small_record]\<rparr>"
  have "pv_problems ?final = []" "pv_records ?final = [small_record]" by (simp_all add: provenance_start_def)
  note sourced = spec [OF conjunct2 [OF bound_files_have_official_sources [OF step this(1)]], of "''colors.csv''", unfolded this(2)]
  from mp [OF sourced bound] obtain d source where
    d: "JObject d \<in> set [JObject small_record]" and source: "source \<in> set (list_of (py_get d ''sources''))" and
    official: "official_source small_data source" and
    rows: "binds_rows small_data ''colors.csv'' (dict_or_empty (py_get d ''sourceKey''))"
    by blast
  from d have d': "d = small_record" by simp
  have "dict_or_empty (py_get small_record ''sourceKey'') = [(''Scope'', JString ''No 1-2; Ring'')]" by code_simp
  from rows [unfolded d' this] official source [unfolded d'] show ?thesis by blast
qed

text \<open>
  C28. The presentation of a corporate identity has exactly one block for each PNG image, in the fixed
  markup of the page, provided that the texts it is made of hold no \<open><\<close> and no quotation mark. (Nothing
  is escaped; \<open>brand_adds_markup\<close> shows that the brand name has to be such a text.)
\<close>

theorem presentation_markup_fixed:
  assumes "generate_html error_text today names db arg fs = ((lines, Inr (Some p)), fs')"
    and "inert today" and "inert (ra_brand arg)" and "inert (ra_industry arg)" and "inert (ra_images arg)"
    and "\<forall>name \<in> set (names (path_of (ra_images arg))). inert name"
    and "\<forall>brief. get_cip_brief db (ra_brand arg) (ra_industry arg) (ra_style arg) = Inr brief \<longrightarrow>
      inert (field (cb_industry brief) ''Industry'') \<and> inert (field (cb_style brief) ''Style Name'') \<and>
      inert (field (cb_style brief) ''Mood'')"
  shows "\<exists>html. fs' = fs\<lparr>fs_files := (fs_files fs)(p \<mapsto> html)\<rparr> \<and>
    scan InText html = (InText, page_markup (length (png_images (names (path_of (ra_images arg))))))"
proof -
  let ?dir = "path_of (ra_images arg)" and ?images = "png_images (names (path_of (ra_images arg)))"
  from written_page [OF assms(1)] obtain brief html where
    brief: "get_cip_brief db (ra_brand arg) (ra_industry arg) (ra_style arg) = Inr brief" and
    html: "html = snd (rendered error_text today brief fs arg ?images)" and
    fs': "fs' = fs\<lparr>fs_files := (fs_files fs)(p \<mapsto> html)\<rparr>"
    by blast
  let ?val = "page_value (ra_brand arg) (ra_industry arg) today brief (length ?images)"
  let ?sections = "map snd (map (image_block error_text fs ?dir) ?images)"
  have "inert name" if "name \<in> set ?images" for name
    using assms(6) that by (auto simp: png_images_def)
  then have "list_all (\<lambda>s. scan InText s = (InText, markup_of deliverable_block)) ?sections"
    using block_markup [OF assms(5)] by (auto simp: list_all_iff)
  moreover have "inert_values ?val"
    using assms(2-4,7) brief by (intro page_value_inert) auto
  ultimately have "scan InText (page_html ?val ?sections) = (InText, page_markup (length ?sections))"
    by (rule page_html_markup [rotated])
  with fs' html show ?thesis by (intro exI [of _ html] conjI) (simp_all add: rendered_def Let_def)
qed

definition image_dir :: filesystem where
  "image_dir = \<lparr>fs_files = (\<lambda>p. if p = (False, [''cip'', ''card.png'']) then Some ''png'' else None),
     fs_dirs = (\<lambda>p. p = (False, [''cip''])) \<rparr>"

theorem presentation_markup_fixed_witness:
  "\<exists>lines p fs' html. generate_html (\<lambda>_. []) ''Today'' (\<lambda>_. [''card.png'']) (\<lambda>_. None)
      \<lparr>ra_brand = ''Acme'', ra_industry = ''tech'', ra_style = None, ra_images = ''cip'', ra_output = Some ''cip/page.html''\<rparr>
      image_dir = ((lines, Inr (Some p)), fs') \<and>
    fs_files fs' p = Some html \<and> scan InText html = (InText, page_markup 1)"
proof -
  let ?arg = "\<lparr>ra_brand = ''Acme'', ra_industry = ''tech'', ra_style = None, ra_images = ''cip'',
    ra_output = Some ''cip/page.html''\<rparr>"
  have paths: "path_of ''cip'' = (False, [''cip''])" "path_of ''cip/page.html'' = (False, [''cip'', ''page.html''])"
    "png_images [''card.png''] = [''card.png'']" by code_simp+
  have brief: "get_cip_brief (\<lambda>_. None) ''Acme'' ''tech'' None = Inr (brief_of ''Acme'' [] [] [])"
    by (simp add: get_cip_brief_def cip_search_def table_search_def first_hit_def row_or_empty_def key_deliverables_def
        get_or_def split_ws_def runs_def)
  have inert: "inert ''Today''" "inert ''Acme''" "inert ''tech''" "inert ''cip''" "inert ''card.png''" "inert []" by code_simp+
  have "write_text (page_target ?arg) html image_dir \<noteq> None" for html
    by (simp add: write_text_def page_target_def paths parent_path_def image_dir_def)
  with page_is_written [of image_dir ?arg "\<lambda>_. [''card.png'']" "\<lambda>_. None" _ "\<lambda>_. []" "''Today''"] obtain lines p fs' where
    page: "generate_html (\<lambda>_. []) ''Today'' (\<lambda>_. [''card.png'']) (\<lambda>_. None) ?arg image_dir = ((lines, Inr (Some p)), fs')"
    by (force simp: paths brief image_dir_def)
  from presentation_markup_fixed [OF page] obtain html where
    "fs' = image_dir\<lparr>fs_files := (fs_files image_dir)(p \<mapsto> html)\<rparr>" "scan InText html = (InText, page_markup 1)"
    using inert by (auto simp: brief paths brief_of_def get_or_def)
  with page show ?thesis by (intro exI [of _ lines] exI [of _ p] exI [of _ fs'] exI [of _ html]) simp
qed

text \<open>
  C29. A colour table without reported problems is legible: for every palette and every pair of tokens
  that the contract names, the contrast that the generator computes is at least the required one, up to
  the tolerance of the check.
\<close>

theorem validated_palettes_legible:
  assumes "check_color_contract rows = []" and "r \<in> set rows"
  shows "list_all (\<lambda>(foreground, background, role, minimum).
      \<exists>x. contrast_ratio (Some (field r foreground)) (Some (field r background)) = Some x \<and> minimum \<le> x + tolerance)
    COLOR_CONTRAST_PAIRS"
  using color_contract_pairs [OF assms] by (auto simp: list_all_iff)

definition ink_on_paper :: row where
  "ink_on_paper =
     map (\<lambda>token. (token, ''#000000''))
       [''On Primary'', ''On Secondary'', ''On Accent'', ''Foreground'', ''Card Foreground'', ''Muted Foreground'',
        ''On Destructive'', ''Ring''] @
     map (\<lambda>token. (token, ''#FFFFFF'')) [''Primary'', ''Secondary'', ''Accent'', ''Background'', ''Card'', ''Muted'', ''Destructive'']"

lemma ink_on_paper_ok: "check_color_contract [ink_on_paper] = []"
proof -
  have "opaque_luminance ''#000000'' = Inr 0" "opaque_luminance ''#FFFFFF'' = Inr 1"
    by (simp_all add: opaque_luminance_def hex_digit_def is_digit_def code_def luminance_of_def linear_channel_def)
  then show ?thesis
    by (simp add: check_color_contract_def COLOR_CONTRAST_PAIRS_def pair_problems_def muted_problems_def
        pair_ratio_def destructive_problems_def opaque_contrast_def ink_on_paper_def get_or_def tolerance_def
        when_bad_def int_slice_def int16_def hex_digit_def is_digit_def code_def)
qed

theorem validated_palettes_legible_witness:
  "\<exists>x. contrast_ratio (Some (field ink_on_paper ''Foreground'')) (Some (field ink_on_paper ''Background'')) = Some x \<and>
     45 / 10 \<le> x + tolerance"
  using validated_palettes_legible [OF ink_on_paper_ok, of ink_on_paper]
  by (simp add: COLOR_CONTRAST_PAIRS_def)


text \<open>
  C31. The plugins of a configuration are written as quoted calls of \<open>require\<close>, and only after each
  name was checked: a name consists of letters, digits and \<open>_-@/.\<close>, so it cannot leave its quotes,
  except that one final line break is accepted, because \<open>$\<close> matches before it.
\<close>

theorem plugins_stay_quoted:
  assumes "format_plugins g = Inr calls"
  shows "calls = join '', '' (map (\<lambda>p. ''require('' @ [CHR 0x27] @ p @ [CHR 0x27] @ '')'') (tw_plugins g)) \<and>
    (\<forall>p \<in> set (tw_plugins g). \<exists>name rest. p = name @ rest \<and> (rest = [] \<or> rest = [newline]) \<and>
       (\<forall>c \<in> set name. plugin_char c \<and> c \<noteq> CHR 0x27 \<and> c \<noteq> CHR 0x5C \<and> c \<noteq> CHR '')'' \<and> c \<noteq> newline))"
proof -
  from assms obtain rs where rs: "require_all (tw_plugins g) = Inr rs" and calls: "calls = join '', '' rs"
    by (cases "require_all (tw_plugins g)") (auto simp: format_plugins_def)
  note ok = require_all_ok [OF rs]
  have "\<exists>name rest. p = name @ rest \<and> (rest = [] \<or> rest = [newline]) \<and>
       (\<forall>c \<in> set name. plugin_char c \<and> c \<noteq> CHR 0x27 \<and> c \<noteq> CHR 0x5C \<and> c \<noteq> CHR '')'' \<and> c \<noteq> newline)"
    if "p \<in> set (tw_plugins g)" for p
  proof -
    from ok that obtain m where "rx_match VALID_PLUGIN_NAME p = Some m" by auto
    from valid_plugin_name [OF this] plugin_chars_safe show ?thesis by blast
  qed
  with ok calls show ?thesis by blast
qed

definition broken_name :: tailwind where
  "broken_name = (tailwind_new (True, []) True ''react'' None False)\<lparr>tw_plugins := [''forms'' @ [newline]]\<rparr>"

theorem plugins_stay_quoted_witness:
  "\<exists>calls. format_plugins broken_name = Inr calls \<and>
     calls = join '', '' [''require('' @ [CHR 0x27] @ ''forms'' @ [newline] @ [CHR 0x27] @ '')'']"
proof -
  have "rx_match VALID_PLUGIN_NAME (''forms'' @ [newline]) \<noteq> None" by code_simp
  then obtain calls where c: "format_plugins broken_name = Inr calls"
    by (auto simp: format_plugins_def broken_name_def)
  from plugins_stay_quoted [OF this] c show ?thesis by (simp add: broken_name_def)
qed

text \<open>
  C32. Writing a configuration changes the file it reports or nothing. Unless forced, a file is
  written only where nothing was, and a Tailwind configuration only into a directory without any of
  the four names such a file can have.
\<close>

theorem config_never_clobbered:
  assumes "write_config os_error g fs = (r, fs')"
  shows "(fs' = fs \<and> (\<forall>m. r \<noteq> Inr (True, m))) \<or>
    (\<exists>content m. r = Inr (True, m) \<and> generate_config_string g = Inr content \<and>
      fs' = fs\<lparr>fs_files := (fs_files fs)(tw_output g \<mapsto> content)\<rparr> \<and>
      (tw_force g \<or> \<not> fs_exists fs (tw_output g) \<and>
        (final_name (tw_output g) \<notin> set TAILWIND_CONFIG_NAMES \<or>
          (\<forall>name \<in> set TAILWIND_CONFIG_NAMES. \<not> fs_exists fs (sub_path (path_parent (tw_output g)) [name])))))"
  using write_config_effect [OF assms] no_existing_config [of "tw_output g" fs] by blast

definition with_js_config :: filesystem where
  "with_js_config =
     \<lparr>fs_files = \<lambda>p. if p = (True, [''web'', ''tailwind.config.js'']) then Some ''old'' else None,
      fs_dirs = \<lambda>p. p = (True, [''web''])\<rparr>"

theorem config_never_clobbered_witness:
  "\<exists>r fs'. write_config ''io'' (tailwind_new (True, [''web'']) True ''react'' None False) with_js_config = (r, fs') \<and>
     fs' = with_js_config"
proof -
  let ?g = "tailwind_new (True, [''web'']) True ''react'' None False"
  obtain r fs' where w: "write_config ''io'' ?g with_js_config = (r, fs')" by (cases "write_config ''io'' ?g with_js_config")
  have out: "tw_output ?g = (True, [''web'', ''tailwind.config.ts''])" "\<not> tw_force ?g"
    by (simp_all add: tailwind_new_def default_output_path_def sub_path_def)
  have "''tailwind.config.js'' \<in> set TAILWIND_CONFIG_NAMES" "''tailwind.config.ts'' \<in> set TAILWIND_CONFIG_NAMES"
    by (simp_all add: TAILWIND_CONFIG_NAMES_def)
  moreover have "fs_exists with_js_config (sub_path (path_parent (tw_output ?g)) [''tailwind.config.js''])"
    by (simp add: fs_exists_def with_js_config_def out path_parent_def sub_path_def)
  ultimately have "fs' = with_js_config"
    using config_never_clobbered [OF w] by (auto simp: out final_name_def)
  with w show ?thesis by blast
qed

text \<open>
  C33. The command of the generator always ends with an exit code: the \<open>ValueError\<close> for plugin names
  is never raised, since the command only adds plugins that it recommends. With code 1, or with
  \<open>--validate-only\<close>, no file is changed.
\<close>

theorem tailwind_command_exits:
  "\<exists>code lines fs'. tailwind_main here os_error args fs = (Inr (code, lines), fs') \<and>
     (code = 0 \<and> \<not> ta_validate_only args \<or> fs' = fs)"
proof -
  from tailwind_main_returns obtain code lines fs' where m: "tailwind_main here os_error args fs = (Inr (code, lines), fs')"
    by blast
  moreover have "code = 0 \<and> \<not> ta_validate_only args \<or> fs' = fs"
    using m write_config_effect [of os_error]
    by (fastforce simp: tailwind_main_def Let_def split: sum.splits prod.splits if_splits)
  ultimately show ?thesis by blast
qed






text \<open>
  C36. The object in a generated Tailwind configuration reads back: the lines that the generator puts
  between the braces, indented once more than \<open>json.dumps\<close> wrote them, are the JSON text of the
  configuration, whatever characters the names and values of the theme hold.
\<close>

theorem config_reads_back:
  assumes "textual (config_object g)" and "generate_config_string g = Inr s"
  shows "\<exists>before after. s = before @ ''{'' @ newline # indent_json (json_dump 0 (config_object g)) 1 @ after \<and>
    json_loads () plain_object (''{'' @ newline # indent_json (json_dump 0 (config_object g)) 1 @ newline # ''}'') =
      Inr (config_object g)"
proof -
  obtain ms where ms: "config_object g = JObject ms" "ms \<noteq> []" by (simp add: config_object_def)
  let ?body = "indent_json (json_dump 0 (config_object g)) 1"
  have "\<exists>before after. s = before @ ''{'' @ newline # ?body @ after"
  proof (cases "tw_typescript g")
    case True
    with assms(2) obtain plugins where "s = (''import type { Config } from '' @ [CHR 0x27] @ ''tailwindcss'' @ [CHR 0x27] @ [CHR 0x0A] @ [CHR 0x0A] @ ''const config: Config = '') @
        ''{'' @ newline # ?body @ ('','' @ [CHR 0x0A] @ ''  plugins: ['') @ plugins @ (''],'' @ [CHR 0x0A] @ ''}'' @ [CHR 0x0A] @ [CHR 0x0A] @ ''export default config'' @ [CHR 0x0A])"
      by (auto simp: generate_config_string_def generate_typescript_def map_sum_def split: sum.splits)
    then show ?thesis by blast
  next
    case False
    with assms(2) obtain plugins where "s = (''/** @type {import('' @ [CHR 0x27] @ ''tailwindcss'' @ [CHR 0x27] @ '').Config} */'' @ [CHR 0x0A] @ ''module.exports = '') @
        ''{'' @ newline # ?body @ ('','' @ [CHR 0x0A] @ ''  plugins: ['') @ plugins @ (''],'' @ [CHR 0x0A] @ ''}'' @ [CHR 0x0A])"
      by (auto simp: generate_config_string_def generate_javascript_def map_sum_def split: sum.splits)
    then show ?thesis by blast
  qed
  moreover have "json_loads () plain_object (''{'' @ newline # indent_json (json_dump 0 (config_object g)) 1 @ newline # ''}'') =
      Inr (config_object g)"
    using indented_reads [OF assms(1) [unfolded ms(1)] ms(2)] unfolding ms(1) .
  ultimately show ?thesis by blast
qed

definition accented :: tailwind where
  "accented = add_colors [([CHR 0xC3, CHR 0xA9], ''#fff'' @ [newline])] (tailwind_new (True, []) True ''react'' None False)"

lemma ascii_text: "list_all (\<lambda>c. code c < 128) s \<Longrightarrow> utf8_text s"
proof -
  assume "list_all (\<lambda>c. code c < 128) s"
  then have "code_points s = map code s \<and> list_all scalar (map code s) \<and> concat (map utf8 (map code s)) = s"
    by (induction s) (auto simp: scalar_def utf8_def code_def)
  then show ?thesis by (simp add: utf8_text_def)
qed

lemma accented_textual: "textual (config_object accented)"
proof -
  have "utf8_text [CHR 0xC3, CHR 0xA9]" by (simp add: utf8_text_def code_def utf8_def scalar_def) code_simp
  then show ?thesis
    by (simp add: config_object_def accented_def add_colors_def extend_section_def strings_def tailwind_new_def
        default_content_paths_def content_paths_def get_or_def ascii_text code_def keys_def)
qed

theorem config_reads_back_witness:
  "\<exists>s. generate_config_string accented = Inr s \<and>
     json_loads () plain_object (''{'' @ newline # indent_json (json_dump 0 (config_object accented)) 1 @ newline # ''}'') =
       Inr (config_object accented)"
proof -
  obtain s where s: "generate_config_string accented = Inr s"
    using generates [of accented] by (auto simp: accented_def add_colors_def tailwind_new_def)
  from config_reads_back [OF accented_textual this] s show ?thesis by blast
qed

text \<open>
  C37. The installer runs \<open>npx\<close> only in an initialized project and never in a dry run; components are
  named on the command line exactly as given, and unless it may overwrite, none of them is installed
  already. The version it pins is a single word.
\<close>

theorem npx_runs_only_when_allowed:
  assumes "shadcn_main npx help_text names fs here args = (r, Some cmd)"
  shows "\<not> sh_list args \<and> \<not> sh_dry args \<and>
    check_shadcn_config fs (installer_new here (sh_root args) (sh_dry args)) \<and>
    (\<exists>version. get_shadcn_version fs (installer_new here (sh_root args) (sh_dry args)) = Inr version \<and>
       version \<noteq> [] \<and> filter is_space version = [] \<and>
       cmd = npx_command version (if sh_all args then [''--all''] else sh_components args) (sh_overwrite args)) \<and>
    (sh_all args \<or> sh_overwrite args \<or>
      (\<exists>installed. get_installed_components names fs (installer_new here (sh_root args) (sh_dry args)) = Inr installed \<and>
         set (sh_components args) \<inter> set installed = {}))"
proof -
  let ?i = "installer_new here (sh_root args) (sh_dry args)"
  have dry: "in_dry ?i = sh_dry args" by (simp add: installer_new_def)
  have word: "get_shadcn_version fs ?i = Inr version \<Longrightarrow> version \<noteq> [] \<and> filter is_space version = []" for version
    using shadcn_version_word [of fs ?i version] by (simp add: filter_empty_conv)
  show ?thesis
  proof (cases "sh_all args")
    case True
    with assms obtain r' where "add_all_components npx fs ?i (sh_overwrite args) = (r', Some cmd)" and "\<not> sh_list args"
      by (auto simp: shadcn_main_def Let_def map_prod_def split: if_splits prod.splits)
    with add_all_ran [OF this(1)] word dry True show ?thesis by auto
  next
    case False
    with assms obtain r' where "add_components npx names fs ?i (sh_components args) (sh_overwrite args) = (r', Some cmd)"
      and "\<not> sh_list args"
      by (auto simp: shadcn_main_def Let_def map_prod_def split: if_splits prod.splits)
    with add_components_ran [OF this(1)] word dry False show ?thesis by auto
  qed
qed

definition fresh_project :: filesystem where
  "fresh_project =
     \<lparr>fs_files = \<lambda>p. if p = (True, [''web'', ''components.json'']) then Some ''{}'' else None,
      fs_dirs = \<lambda>p. p = (True, [''web''])\<rparr>"

definition add_button :: shadcn_args where
  "add_button = \<lparr>sh_components = [''button''], sh_all = False, sh_overwrite = False, sh_dry = False, sh_list = False,
     sh_root = Some (True, [''web''])\<rparr>"

lemma button_runs:
  "shadcn_main (\<lambda>_. NotFound) [] (\<lambda>_. []) fresh_project (True, []) add_button =
    (Inr (1, ''npx not found. Ensure Node.js is installed''), Some [''npx'', ''shadcn@2.3.0'', ''add'', ''button''])"
  by code_simp

theorem npx_runs_only_when_allowed_witness:
  "check_shadcn_config fresh_project (installer_new (True, []) (sh_root add_button) (sh_dry add_button))"
  using npx_runs_only_when_allowed [OF button_runs] by blast


text \<open>
  C39. Data cannot inject markup into a deck: two decks whose slides have the same types and the same
  numbers of cards and bars have the same tags, up to the contents of quoted attribute values,
  whatever their texts, titles and links are; and the document ends outside every tag.
\<close>

theorem deck_markup_fixed:
  assumes "generate_deck month py_str (JArray slides) title = (lines, Inr html)"
    and "generate_deck month' py_str' (JArray slides') title' = (lines', Inr html')"
    and "map slide_shape slides = map slide_shape slides'"
  shows "scan InText html = scan InText html' \<and> fst (scan InText html) = InText"
proof -
  from assms(3) have "map (\<lambda>s. shape_markup (slide_shape s)) slides = map (\<lambda>s. shape_markup (slide_shape s)) slides'"
    using map_map [of shape_markup slide_shape] by (metis (no_types, lifting) comp_apply map_eq_conv)
  with deck_markup assms(1,2) show ?thesis by (metis fst_conv)
qed

definition hostile_slide :: json where
  "hostile_slide = JObject [(''type'', JString ''cta''), (''cta'', JString ''<script>''), (''cta_url'', JString ''\" onclick=x'')]"

definition calm_slide :: json where
  "calm_slide = JObject [(''type'', JString ''cta'')]"

theorem deck_markup_fixed_witness:
  "\<exists>html html'. generate_deck [] (\<lambda>_. []) (JArray [hostile_slide]) ''</title>'' = ([], Inr html) \<and>
     generate_deck [] (\<lambda>_. []) (JArray [calm_slide]) ''Deck'' = ([], Inr html') \<and> scan InText html = scan InText html'"
proof -
  have cta: "get (SLIDE_GENERATORS [] py_str) ''cta'' = Some (\<lambda>d. Inr (fill (value_text py_str d) cta_parts))" for py_str
    by (simp add: SLIDE_GENERATORS_def)
  have key: "has_key (SLIDE_GENERATORS [] (\<lambda>_. [])) ''cta''" by (simp add: cta has_key_def)
  obtain html html' where decks:
      "generate_deck [] (\<lambda>_. []) (JArray [hostile_slide]) ''</title>'' = ([], Inr html)"
      "generate_deck [] (\<lambda>_. []) (JArray [calm_slide]) ''Deck'' = ([], Inr html')"
    by (simp add: generate_deck_def elements_of_def generate_slide_def hostile_slide_def calm_slide_def get_or_def cta)
  moreover have "map slide_shape [hostile_slide] = map slide_shape [calm_slide]"
    by (simp add: slide_shape_def hostile_slide_def calm_slide_def get_or_def key blocks_def split: sum.splits)
  ultimately show ?thesis using deck_markup_fixed [OF decks] by blast
qed






subsection \<open>Further facts\<close>

text \<open>
  Full-bleed slides next to each other: for an emotional beat they occur exactly in decks of 3 to
  8 slides, although the rules in the docstring say never.
\<close>

theorem full_bleed_neighbours:
  assumes "emotion \<in> {''hope'', ''urgency'', ''fear'', ''curiosity''}"
  shows "(\<exists>i. should_use_full_bleed i n emotion \<and> should_use_full_bleed (i + 1) n emotion) \<longleftrightarrow> 3 \<le> n \<and> n \<le> 8"
  using full_bleed_consecutive [of emotion n] assms by (simp add: high_emotion_beats_def)

theorem full_bleed_neighbours_witness:
  "(\<exists>i. should_use_full_bleed i 5 ''hope'' \<and> should_use_full_bleed (i + 1) 5 ''hope'') \<and>
   \<not> (\<exists>i. should_use_full_bleed i 9 ''hope'' \<and> should_use_full_bleed (i + 1) 9 ''hope'')"
  using full_bleed_neighbours [of "''hope''" 5] full_bleed_neighbours [of "''hope''" 9] by simp

text \<open>
  The search command writes nothing unless it was asked to: without \<open>--design-system\<close> and
  \<open>--persist\<close> the files are as they were, whatever is searched for and however it fails.
\<close>

theorem search_command_writes_only_on_request:
  assumes "\<not> (a_design args \<and> o_persist (a_run args))"
  shows "snd (search_main db env colorterm args fs) = fs"
  using assms
  by (auto simp: search_main_def generate_design_system_def formatted_def Let_def split: sum.splits option.splits prod.splits)

theorem search_command_writes_only_on_request_witness:
  "snd (search_main two_notes at_home [] \<lparr>a_query = ''blue'', a_domain = None, a_stack = Some ''react'', a_max = 3,
     a_json = False, a_full = False, a_design = False, a_run = undefined\<rparr> (no_dirs (\<lambda>_. None))) = no_dirs (\<lambda>_. None)"
  by (rule search_command_writes_only_on_request) simp

definition one_chart :: data_dir where
  "one_chart p = Some (Signature 1 1, Inr [[(''chart_type'', ''funnel chart'')], [(''chart_type'', ''bar chart'')]])"

text \<open>
  The section rules of the terminal box are one column wider than its other lines: 92 columns
  against 91.
\<close>

theorem section_rules_stick_out:
  assumes "py_len name \<le> 80" and "py_len content \<le> 90"
  shows "py_len (box_section name) = 92 \<and> py_len (box_line content) = 91"
  using box_section_width [OF assms(1)] box_line_width [of content] assms(2) by (simp add: BOX_WIDTH_def)

theorem section_rules_stick_out_witness:
  "py_len (box_section ''STYLE'') = 92 \<and> py_len (box_line ''Name'') = 91"
  by (rule section_rules_stick_out) (simp_all add: py_len_def is_cont_byte_def code_def)


theorem advice_reads_back_witness:
  "\<exists>ds. advice_bullets (ds\<lparr>anti_patterns := filter_anti_patterns_for_mode ''Dark mode + Slow load'' ''dark''\<rparr>) = [''Slow load'']"
proof -
  let ?raw = "''Dark mode + Slow load''"
  let ?ds = "(undefined :: design_system)\<lparr>anti_patterns := filter_anti_patterns_for_mode ?raw ''dark''\<rparr>"
  have k: "kept_clauses ?raw = [''Slow load'']" by code_simp
  have u: "anti_patterns (x\<lparr>anti_patterns := y\<rparr>) = y" for x :: design_system and y by (cases x) simp
  have "anti_patterns ?ds = filter_anti_patterns_for_mode ?raw ''dark''" by (rule u)
  from advice_reads_back [OF this] have "advice_bullets ?ds = [''Slow load'']" unfolding k by blast
  then show ?thesis by blast
qed



theorem wrapping_keeps_words_witness:
  "split_ws ''calm blue'' = concat (map (\<lambda>line. split_ws (body ''| '' line)) (wrap_text ''calm blue'' ''| '' 10))"
  using wrapping_keeps_words [of "''| ''" "''calm blue''" 10] by simp



text \<open>
  The overrides of a page always say something: whatever the searches find, there is a layout
  with distinct keys, a recommendation, and a page type of the table.
\<close>

theorem page_overrides_say_something:
  "ov_layout (generate_intelligent_overrides db page query) \<noteq> [] \<and>
   recommendations (generate_intelligent_overrides db page query) \<noteq> [] \<and>
   distinct (keys (ov_layout (generate_intelligent_overrides db page query))) \<and>
   page_type (generate_intelligent_overrides db page query) \<in> insert ''General'' (snd ` set page_patterns)"
  unfolding generate_intelligent_overrides_def Let_def
  using overrides_nonempty detect_page_type_known by (simp add: overrides_from_def Let_def split: prod.splits list.splits)

text \<open>
  A search of a slide table that can be read returns at most as many rows as asked, each a row
  of the table that shares a word of more than two characters with the query, projected on the
  output columns; when it returns fewer, it has missed none.
\<close>

theorem slide_search_sound_and_complete:
  assumes "has_key SLIDE_CSV_CONFIG domain" and "config = the (get SLIDE_CSV_CONFIG domain)"
    and "db (slide_path (tb_file config)) \<noteq> None" and "contents db (slide_path (tb_file config)) = Inr data" and "0 \<le> n"
  shows "\<exists>hits. slide_search db query (Some domain) n =
      Inr (Found \<lparr>sa_domain = domain, sa_query = query, sa_file = tb_file config, sa_count = length hits,
                  sa_results = map (\<lambda>r. project_row r (tb_output config)) hits\<rparr>) \<and>
    length hits \<le> nat n \<and>
    (\<forall>r \<in> set hits. r \<in> set data \<and> simple_hits query (row_text (tb_search config) r)) \<and>
    (length hits < nat n \<longrightarrow> (\<forall>r \<in> set data. simple_hits query (row_text (tb_search config) r) \<longrightarrow> r \<in> set hits))"
proof -
  obtain hits where hits: "search_csv_rows db (slide_path (tb_file config)) (tb_search config) (tb_output config) query n =
      Inr (map (\<lambda>r. project_row r (tb_output config)) hits)"
    and rest: "length hits \<le> nat n" "\<forall>r \<in> set hits. r \<in> set data \<and> simple_hits query (row_text (tb_search config) r)"
      "length hits < nat n \<longrightarrow> (\<forall>r \<in> set data. simple_hits query (row_text (tb_search config) r) \<longrightarrow> r \<in> set hits)"
    using search_csv_rows_hits [OF assms(4,3,5), of "tb_search config" "tb_output config" query] by blast
  have "slide_search db query (Some domain) n =
      Inr (Found \<lparr>sa_domain = domain, sa_query = query, sa_file = tb_file config, sa_count = length hits,
                  sa_results = map (\<lambda>r. project_row r (tb_output config)) hits\<rparr>)"
    using assms(1-3) hits by (simp add: slide_search_def table_search_def Let_def)
  with rest show ?thesis by blast
qed

theorem slide_search_sound_and_complete_witness:
  "\<exists>a. slide_search one_chart ''funnel'' (Some ''chart'') 3 = Inr (Found a) \<and> sa_count a \<le> 3"
proof -
  have c: "contents one_chart p = Inr [[(''chart_type'', ''funnel chart'')], [(''chart_type'', ''bar chart'')]]" for p
    by (simp add: contents_def one_chart_def)
  show ?thesis
    using slide_search_sound_and_complete [of "''chart''" _ one_chart _ 3 "''funnel''", OF _ refl _ c]
    by (fastforce simp: has_key_def SLIDE_CSV_CONFIG_def one_chart_def)
qed

text \<open>
  The validator exits with code 0 exactly if every file it checked passed, provided no path that
  it reads is a directory.
\<close>

theorem validator_exit_code:
  assumes "\<not> va_colors args" and "validator_results names fs project args = Some all_results"
  shows "\<exists>lines. validator_main names fs project args =
      Some (if filter (\<lambda>r. \<not> v_passed r) (concat (map snd all_results)) = [] then 0 else 1, lines)"
  using exit_code_zero [OF assms(2,1)] by (simp add: filter_empty_conv)

definition no_args :: validator_args where
  "no_args = \<lparr>va_files = [(False, [''a.html''])], va_type = ''all'', va_verbose = False, va_colors = False\<rparr>"

theorem validator_exit_code_witness:
  "\<exists>lines. validator_main (\<lambda>_. []) (no_dirs (\<lambda>_. None)) (True, []) no_args = Some (1, lines)"
proof -
  have "validator_results (\<lambda>_. []) (no_dirs (\<lambda>_. None)) (True, []) no_args =
      Some [(''specified'', [add_error ''File not found'' (validation_new (False, [''a.html'']))])]"
    by (simp add: validator_results_def validator_checks_def no_args_def validate_file_def fs_exists_def no_dirs_def)
  from validator_exit_code [OF _ this] show ?thesis by (simp add: no_args_def add_error_def)
qed

text \<open>
  A dial that is set resolves, for every integer: the value is clamped to 1 to 10 and the tier
  is the one whose bounds hold it.
\<close>

theorem dials_in_range:
  assumes "dial_name \<in> set (keys DIAL_TIERS)"
  shows "\<exists>info v. resolve_dial dial_name (Some i) = Some (info, v) \<and> 1 \<le> v \<and> v \<le> 10 \<and>
    (1 \<le> i \<and> i \<le> 10 \<longrightarrow> v = i) \<and>
    (\<exists>lo hi. (lo, hi, info) \<in> set (get_or DIAL_TIERS dial_name []) \<and> lo \<le> v \<and> v \<le> hi)"
proof -
  obtain info where r: "resolve_dial dial_name (Some i) = Some (info, max 1 (min 10 i))"
    using resolve_dial_total [OF assms] by blast
  then obtain lo hi where "(lo, hi, info) \<in> set (get_or DIAL_TIERS dial_name [])"
      "lo \<le> max 1 (min 10 i)" "max 1 (min 10 i) \<le> hi"
    by (auto simp: resolve_dial_def Let_def dest!: find_SomeD)
  moreover have "1 \<le> max 1 (min 10 i)" "max 1 (min 10 i) \<le> 10" "1 \<le> i \<and> i \<le> 10 \<longrightarrow> max 1 (min 10 i) = i" by auto
  ultimately show ?thesis using r by blast
qed

theorem dials_in_range_witness:
  "\<exists>info v. resolve_dial ''density'' (Some 42) = Some (info, v) \<and> v \<le> 10"
  using dials_in_range [of "''density''" 42] by (auto simp: keys_def DIAL_TIERS_def)

text \<open>
  The brief of a corporate identity recommends at most five deliverables, each a row of the table
  of deliverables that shares a word with a key deliverable of the industry found.
\<close>

theorem brief_recommends_deliverables:
  assumes "get_cip_brief db brand_name industry_query style_query = Inr brief"
    and "get CIP_CSV_CONFIG ''deliverable'' = Some config" and "contents db (cip_path (tb_file config)) = Inr data"
  shows "length (cb_deliverables brief) \<le> 5 \<and>
    (\<forall>r \<in> set (cb_deliverables brief). \<exists>d \<in> set (key_deliverables (cb_industry brief)). \<exists>row \<in> set data.
       r = project_row row (tb_output config) \<and> simple_hits d (row_text (tb_search config) row))"
  by (rule brief_deliverables [OF assms])

definition one_shop :: data_dir where
  "one_shop p = Some (Signature 1 1,
     Inr [[(''Industry'', ''shop''), (''Keywords'', ''shop''), (''Key Deliverables'', ''cards''), (''Deliverable'', ''cards'')]])"

theorem brief_recommends_deliverables_witness:
  "\<exists>brief. get_cip_brief one_shop ''Acme'' ''shop'' None = Inr brief \<and> length (cb_deliverables brief) \<le> 5"
proof -
  have c: "contents one_shop p = Inr [[(''Industry'', ''shop''), (''Keywords'', ''shop''), (''Key Deliverables'', ''cards''),
      (''Deliverable'', ''cards'')]]" for p
    by (simp add: contents_def one_shop_def)
  have reply: "\<exists>reply. cip_search one_shop q d n = Inr reply" for q d n
    by (cases "cip_search one_shop q d n")
      (auto simp: cip_search_def table_search_def search_csv_rows_def Let_def c one_shop_def map_sum_def split: option.splits)
  have hits: "\<exists>rs. first_hits (\<lambda>d. cip_search one_shop d (Some ''deliverable'') 1) ds = Inr rs" for ds
  proof (induction ds)
    case (Cons d ds)
    then show ?case using reply [of d "Some ''deliverable''" 1] by (auto simp: map_sum_def)
  qed simp
  obtain industries where i: "cip_search one_shop ''shop'' (Some ''industry'') 1 = Inr industries" using reply by blast
  let ?industry = "row_or_empty (first_hit industries)"
  obtain styles where s: "cip_search one_shop (wanted_style None ?industry) (Some ''style'') 1 = Inr styles"
    using reply by blast
  obtain rs where "first_hits (\<lambda>d. cip_search one_shop d (Some ''deliverable'') 1) (take 5 (key_deliverables ?industry)) = Inr rs"
    using hits by blast
  with i s obtain brief where b: "get_cip_brief one_shop ''Acme'' ''shop'' None = Inr brief"
    by (simp add: get_cip_brief_def Let_def)
  obtain config where "get CIP_CSV_CONFIG ''deliverable'' = Some config" by (simp add: CIP_CSV_CONFIG_def)
  from brief_recommends_deliverables [OF b this c] b show ?thesis by blast
qed

text \<open>
  A query that names a style by its id, category or an alias, whatever its case and surrounding
  blanks, is answered with that row alone, found without ranking; the domain need not be given.
\<close>

theorem style_named_exactly:
  assumes "contents db (data_path (cfg_file (domain_config_of ''style''))) = Inr rows"
    and "find (has_identity STYLE_IDENTITY_FIELDS (lower (strip query))) rows = Some r"
    and "get_or r ''Status'' ''active'' \<noteq> ''deprecated''" and "valid_max_results m"
    and "domain = None \<or> domain = Some ''style''"
  shows "\<exists>out. search_spec db query domain m diags = Answer out \<and> out_domain out = ''style'' \<and>
    results out = [project_row r (output_cols (domain_config_of ''style''))] \<and> suggestions out = None"
  by (rule search_exact_style [OF assms])

theorem style_named_exactly_witness:
  "\<exists>out. search_spec style_file '' Two-Tone '' None (PyInt 3) False = Answer out \<and>
     results out = [[(''Style ID'', ''flat''), (''Style Category'', ''Flat Design''), (''Aliases'', ''plain | two-tone'')]]"
proof -
  let ?flat = "[(''Style ID'', ''flat''), (''Style Category'', ''Flat Design''), (''Aliases'', ''plain | two-tone'')]"
  let ?glass = "[(''Style ID'', ''glass''), (''Style Category'', ''Glassmorphism''), (''Aliases'', ''frosted'')]"
  have c: "contents style_file (data_path (cfg_file (domain_config_of ''style''))) = Inr [?flat, ?glass]"
    by (simp only: style_path) (simp add: contents_def style_file_def)
  have f: "find (has_identity STYLE_IDENTITY_FIELDS (lower (strip '' Two-Tone ''))) [?flat, ?glass] = Some ?flat"
    by code_simp
  have p: "project_row ?flat (output_cols (domain_config_of ''style'')) = ?flat"
    by (simp add: project_row_def domain_config_of_def CSV_CONFIG_def py_defs)
  show ?thesis
    using style_named_exactly [OF c f, of "PyInt 3" None False] p by (auto simp: get_or_def)
qed

definition quoting_args :: cli_args where
  "quoting_args = \<lparr>a_query = ''blue'', a_domain = Some ''a\"b'', a_stack = None, a_max = 3, a_json = True, a_full = False,
     a_design = False, a_run = undefined\<rparr>"

theorem json_answer_reads_back_witness:
  "\<exists>document. search_main (\<lambda>_. None) at_home [] quoting_args (no_dirs (\<lambda>_. None)) = (Inr [document], no_dirs (\<lambda>_. None)) \<and>
     json_loads () plain_object document =
       Inr (JObject [(''error'', JString (''File not found: '' @ data_path (cfg_file (domain_config_of ''style'')))),
                     (''domain'', JString ''a\"b'')])"
proof -
  have answer: "search_spec (\<lambda>_. None) ''blue'' (Some ''a\"b'') (PyInt 3) False =
      Refused (''File not found: '' @ data_path (cfg_file (domain_config_of ''style''))) (Some ''a\"b'')"
    by (simp add: search_spec_def search_in_spec_def Let_def searched_domain_def has_key_def CSV_CONFIG_def)
  obtain document where run: "search_main (\<lambda>_. None) at_home [] quoting_args (no_dirs (\<lambda>_. None)) =
      (Inr [document], no_dirs (\<lambda>_. None))"
    by (simp add: search_main_def quoting_args_def document_or_text_def Let_def)
  have "a_json quoting_args" by (simp add: quoting_args_def)
  from json_answer_reads_back [OF this run] answer run show ?thesis
    by (auto simp: quoting_args_def search_json_def json_or_null_def)
qed

end
